(* ===== verification/Dhcp_Prelude.thy ===== *)
theory Dhcp_Prelude
  imports Main "HOL-Library.Word"
begin

text \<open>
  What the components share: the widths of the C integers, C strings and the
  few functions of the C library the sources call on them (truncating copies,
  \<open>strtok\<close>, decimal printing and \<open>atoi\<close>), the collections of simplification
  rules, and the list lemmas of the ring buffer and of the message queues.

  A C string is the HOL \<open>string\<close> of the characters before its terminating
  NUL. A function that the C code lets run into undefined behaviour (a read or
  a write outside an array, a NULL dereference) returns \<open>None\<close> in the model,
  and every return code of the source is a value under \<open>Some\<close>.
\<close>

named_theorems ring_simps \<open>equations of the ring buffer and of its abstraction\<close>
named_theorems cstr_simps \<open>equations of the C string functions\<close>
named_theorems lease_simps \<open>equations of the lease handlers\<close>
named_theorems ctrl_simps \<open>equations of the per-interface controller\<close>

type_synonym u8 = "8 word"
type_synonym u16 = "16 word"
type_synonym u32 = "32 word"

section \<open>C strings\<close>

text \<open>
  The content of \<open>char buf[n]\<close> after \<open>snprintf(buf, n, "%s", s)\<close>, or after
  \<open>strncpy(buf, s, n - 1)\<close> into a zeroed buffer: at most \<open>n - 1\<close> characters.
\<close>

definition c_trunc :: "nat \<Rightarrow> string \<Rightarrow> string" where
  "c_trunc n s = take (n - 1) s"

lemma c_trunc_id [cstr_simps]: "length s < n \<Longrightarrow> c_trunc n s = s"
  by (simp add: c_trunc_def)

lemma length_c_trunc: "0 < n \<Longrightarrow> length (c_trunc n s) < n"
  by (auto simp: c_trunc_def)

lemma c_trunc_Nil [simp]: "c_trunc n [] = []"
  by (simp add: c_trunc_def)

lemma c_trunc_idem [simp]: "c_trunc n (c_trunc n s) = c_trunc n s"
  by (simp add: c_trunc_def)

text \<open>
  \<open>strncmp(a, b, n) == 0\<close>: the strings agree on their first \<open>n\<close> characters,
  where the comparison stops at a common NUL.
\<close>

definition strncmp_eq :: "nat \<Rightarrow> string \<Rightarrow> string \<Rightarrow> bool" where
  "strncmp_eq n a b \<longleftrightarrow> take n a = take n b"

lemma strncmp_eq_refl [simp]: "strncmp_eq n a a"
  by (simp add: strncmp_eq_def)

lemma strncmp_eq_sym: "strncmp_eq n a b = strncmp_eq n b a"
  by (auto simp: strncmp_eq_def)

lemma strncmp_eq_short [cstr_simps]:
  "length a \<le> n \<Longrightarrow> length b \<le> n \<Longrightarrow> strncmp_eq n a b \<longleftrightarrow> a = b"
  by (simp add: strncmp_eq_def)

text \<open>
  The tokens that repeated calls of \<open>strtok(s, delims)\<close> return: the maximal
  runs of characters that are not delimiters.
\<close>

fun strtok_from :: "char list \<Rightarrow> string \<Rightarrow> string \<Rightarrow> string list" where
  "strtok_from d acc [] = (if acc = [] then [] else [rev acc])"
| "strtok_from d acc (c # cs) =
     (if c \<in> set d then (if acc = [] then strtok_from d [] cs else rev acc # strtok_from d [] cs)
      else strtok_from d (c # acc) cs)"

definition strtok :: "char list \<Rightarrow> string \<Rightarrow> string list" where
  "strtok d s = strtok_from d [] s"

lemma strtok_from_nonempty: "[] \<notin> set (strtok_from d acc s)"
  by (induction d acc s rule: strtok_from.induct) auto

lemma strtok_nonempty: "[] \<notin> set (strtok d s)"
  by (simp add: strtok_def strtok_from_nonempty)

lemma strtok_from_no_delim:
  "set acc \<inter> set d = {} \<Longrightarrow> t \<in> set (strtok_from d acc s) \<Longrightarrow> set t \<inter> set d = {}"
  by (induction d acc s rule: strtok_from.induct) (auto split: if_splits)

lemma strtok_no_delim: "t \<in> set (strtok d s) \<Longrightarrow> set t \<inter> set d = {}"
  unfolding strtok_def by (rule strtok_from_no_delim) simp_all

lemma strtok_from_word:
  "set t \<inter> set d = {} \<Longrightarrow> strtok_from d acc (t @ s) = strtok_from d (rev t @ acc) s"
  by (induction t arbitrary: acc) auto

lemma strtok_word_delim:
  assumes "t \<noteq> []" and "set t \<inter> set d = {}" and "c \<in> set d"
  shows "strtok d (t @ c # s) = t # strtok d s"
  using assms by (simp add: strtok_def strtok_from_word)

lemma strtok_word: "t \<noteq> [] \<Longrightarrow> set t \<inter> set d = {} \<Longrightarrow> strtok d t = [t]"
  using strtok_from_word [of t d "[]" "[]"] by (simp add: strtok_def)

lemma strtok_delim: "c \<in> set d \<Longrightarrow> strtok d (c # s) = strtok d s"
  by (simp add: strtok_def)

lemma strtok_Nil [simp]: "strtok d [] = []"
  by (simp add: strtok_def)

lemma strtok_word_rest:
  assumes "t \<noteq> []" and "set t \<inter> set d = {}" and "r = [] \<or> hd r \<in> set d"
  shows "strtok d (t @ r) = t # strtok d r"
proof (cases r)
  case Nil
  with strtok_word [OF assms(1,2)] show ?thesis by simp
next
  case (Cons c cs)
  with strtok_word_delim [OF assms(1,2), of c cs] assms(3) show ?thesis by (simp add: strtok_delim)
qed

lemma strtok_append_word:
  "t \<noteq> [] \<Longrightarrow> set t \<inter> set d = {} \<Longrightarrow> c \<in> set d \<Longrightarrow> strtok_from d acc (f @ c # t) = strtok_from d acc f @ [t]"
  using strtok_word [of t d] by (induction d acc f rule: strtok_from.induct) (simp_all add: strtok_def)

lemma strtok_from_count:
  "2 * length (strtok_from d acc s) \<le> length s + (if acc = [] then 1 else 2)"
  by (induction d acc s rule: strtok_from.induct) auto

text \<open>A string of \<open>n\<close> characters has at most \<open>(n + 1) div 2\<close> tokens.\<close>

lemma strtok_count: "length (strtok d s) \<le> (length s + 1) div 2"
  using strtok_from_count [of d "[]" s] by (simp add: strtok_def)

text \<open>Tokens of at least \<open>k\<close> characters: each takes \<open>k + 1\<close> characters of the string.\<close>

lemma strtok_from_sum: "sum_list (map (\<lambda>t. Suc (length t)) (strtok_from d acc s)) \<le> length s + length acc + 1"
  by (induction d acc s rule: strtok_from.induct) auto

lemma strtok_long_tokens:
  assumes "\<forall>t \<in> set (strtok d s). k \<le> length t"
  shows "Suc k * length (strtok d s) \<le> length s + 1"
proof -
  have "Suc k * length ts \<le> sum_list (map (\<lambda>t. Suc (length t)) ts)" if "\<forall>t \<in> set ts. k \<le> length t" for ts :: "string list"
    using that by (induction ts) auto
  from this [OF assms] strtok_from_sum [of d "[]" s] show ?thesis by (simp add: strtok_def)
qed

section \<open>Decimal numbers\<close>

text \<open>\<open>%u\<close>, \<open>%lu\<close> and \<open>%d\<close> of a non-negative value.\<close>

fun show_nat :: "nat \<Rightarrow> string" where
  "show_nat n = (if n < 10 then [char_of (48 + n)]
                 else show_nat (n div 10) @ [char_of (48 + n mod 10)])"

declare show_nat.simps [simp del]

definition show_int :: "int \<Rightarrow> string" where
  "show_int i = (if i < 0 then CHR ''-'' # show_nat (nat (- i)) else show_nat (nat i))"

definition is_digit :: "char \<Rightarrow> bool" where
  "is_digit c \<longleftrightarrow> 48 \<le> (of_char c :: nat) \<and> (of_char c :: nat) \<le> 57"

definition digit_val :: "char \<Rightarrow> nat" where
  "digit_val c = of_char c - 48"

definition is_space :: "char \<Rightarrow> bool" where
  "is_space c \<longleftrightarrow> of_char c \<in> {32::nat, 9, 10, 11, 12, 13}"

text \<open>The digits at the front of a string, read as a decimal number.\<close>

fun read_digits :: "nat \<Rightarrow> string \<Rightarrow> nat" where
  "read_digits n [] = n"
| "read_digits n (c # cs) =
     (if is_digit c then read_digits (10 * n + digit_val c) cs else n)"

text \<open>
  \<open>atoi\<close> and \<open>strtol(s, NULL, 10)\<close> where the value fits: white space, an
  optional sign, digits; 0 where there is no digit.
\<close>

definition c_atoi :: "string \<Rightarrow> int" where
  "c_atoi s = (case dropWhile is_space s of
       [] \<Rightarrow> 0
     | c # cs \<Rightarrow> (if c = CHR ''-'' then - int (read_digits 0 cs)
                 else if c = CHR ''+'' then int (read_digits 0 cs)
                 else int (read_digits 0 (c # cs))))"

lemma of_char_digit: "m < 10 \<Longrightarrow> of_char (char_of (48 + m) :: char) = (48 + m :: nat)"
  by (simp add: of_char_of)

lemma digit_char [simp]: "m < 10 \<Longrightarrow> is_digit (char_of (48 + m :: nat))"
  by (simp add: is_digit_def of_char_digit)

lemma digit_val_char [simp]: "m < 10 \<Longrightarrow> digit_val (char_of (48 + m :: nat)) = m"
  by (simp add: digit_val_def of_char_digit)

lemma show_nat_digits: "\<forall>c \<in> set (show_nat n). is_digit c"
proof (induction n rule: show_nat.induct)
  case (1 n)
  then show ?case by (subst show_nat.simps) auto
qed

lemma show_nat_not_Nil [simp]: "show_nat n \<noteq> []"
  by (subst show_nat.simps) simp

lemma read_digits_append:
  "\<forall>c \<in> set xs. is_digit c \<Longrightarrow> read_digits n (xs @ ys) = read_digits (read_digits n xs) ys"
  by (induction xs arbitrary: n) auto

lemma read_digits_show_nat: "read_digits 0 (show_nat n) = n"
proof (induction n rule: show_nat.induct)
  case (1 n)
  show ?case
  proof (cases "n < 10")
    case True
    then show ?thesis by (subst show_nat.simps) simp
  next
    case False
    with "1.IH" have "read_digits 0 (show_nat (n div 10)) = n div 10" by simp
    with False show ?thesis
      by (subst show_nat.simps) (simp add: read_digits_append show_nat_digits)
  qed
qed

lemma show_nat_inject [simp]: "show_nat m = show_nat n \<longleftrightarrow> m = n"
  by (metis read_digits_show_nat)

lemma digit_not_space: "is_digit c \<Longrightarrow> \<not> is_space c"
  by (auto simp: is_digit_def is_space_def)

lemma digit_not_sign: "is_digit c \<Longrightarrow> c \<noteq> CHR ''-'' \<and> c \<noteq> CHR ''+''"
  by (auto simp: is_digit_def)

lemma c_atoi_show_nat: "c_atoi (show_nat n) = int n"
proof -
  obtain c cs where c: "show_nat n = c # cs"
    by (cases "show_nat n") auto
  then have "is_digit c"
    using show_nat_digits [of n] by simp
  then show ?thesis
    using c read_digits_show_nat [of n]
    by (simp add: c_atoi_def digit_not_space digit_not_sign)
qed

section \<open>Lists\<close>

lemma map_upt_Suc_shift: "map f [0..<Suc n] = f 0 # map (\<lambda>i. f (Suc i)) [0..<n]"
  by (simp add: upt_conv_Cons map_Suc_upt [symmetric] del: upt_Suc)

lemma mod_below_twice: "(a::nat) < 2 * n \<Longrightarrow> a mod n = (if a < n then a else a - n)"
  by (simp add: le_mod_geq)

text \<open>The loops that look an interface up by its name stop at the first entry that matches.\<close>

fun update_first :: "('a \<Rightarrow> bool) \<Rightarrow> ('a \<Rightarrow> 'a) \<Rightarrow> 'a list \<Rightarrow> 'a list" where
  "update_first P f [] = []"
| "update_first P f (x # xs) = (if P x then f x # xs else x # update_first P f xs)"

text \<open>
  Two tables that differ at most in the first entry that matches, where the new
  entry is related to the old one; \<open>Z\<close> holds where no entry matches.
\<close>

inductive at_first :: "('a \<Rightarrow> bool) \<Rightarrow> ('a \<Rightarrow> 'a \<Rightarrow> bool) \<Rightarrow> bool \<Rightarrow> 'a list \<Rightarrow> 'a list \<Rightarrow> bool"
  for P R Z where
  at_here: "P x \<Longrightarrow> R x y \<Longrightarrow> at_first P R Z (x # xs) (y # xs)"
| at_later: "\<not> P x \<Longrightarrow> at_first P R Z xs ys \<Longrightarrow> at_first P R Z (x # xs) (x # ys)"
| at_none: "Z \<Longrightarrow> at_first P R Z [] []"

inductive_simps at_first_Nil [simp]: "at_first P R Z [] ys"
inductive_simps at_first_Cons: "at_first P R Z (x # xs) ys"

lemma at_first_mono:
  "at_first P R Z xs ys \<Longrightarrow> (\<And>x y. x \<in> set xs \<Longrightarrow> R x y \<Longrightarrow> R' x y) \<Longrightarrow> at_first P R' Z xs ys"
  by (induction rule: at_first.induct) (auto intro: at_first.intros)

lemma at_first_all:
  "at_first P R Z xs ys \<Longrightarrow> (\<And>x y. x \<in> set xs \<Longrightarrow> R x y \<Longrightarrow> Q y) \<Longrightarrow> \<forall>x \<in> set xs. Q x \<Longrightarrow> \<forall>y \<in> set ys. Q y"
  by (induction rule: at_first.induct) auto

lemma at_first_no_match: "at_first P R Z xs ys \<Longrightarrow> \<forall>x \<in> set xs. \<not> P x \<Longrightarrow> ys = xs \<and> Z"
  by (induction rule: at_first.induct) auto

text \<open>The position of the first element with a property.\<close>

fun first_idx :: "('a \<Rightarrow> bool) \<Rightarrow> 'a list \<Rightarrow> nat option" where
  "first_idx P [] = None"
| "first_idx P (x # xs) = (if P x then Some 0 else map_option Suc (first_idx P xs))"

lemma first_idx_cong: "list_all2 (\<lambda>x y. P x = P y) xs ys \<Longrightarrow> first_idx P xs = first_idx P ys"
  by (induction rule: list_all2_induct) auto

lemma first_idx_SomeD: "first_idx P xs = Some k \<Longrightarrow> k < length xs \<and> P (xs ! k)"
  by (induction xs arbitrary: k) (auto split: if_splits)

lemma update_first_idx:
  "update_first P f xs = (case first_idx P xs of None \<Rightarrow> xs | Some k \<Rightarrow> xs[k := f (xs ! k)])"
  by (induction xs) (auto split: option.splits)

lemma length_update_first [simp]: "length (update_first P f xs) = length xs"
  by (induction xs) auto

lemma update_first_none: "\<forall>x \<in> set xs. \<not> P x \<Longrightarrow> update_first P f xs = xs"
  by (induction xs) auto

lemma map_update_first_same: "(\<And>x. g (f x) = g x) \<Longrightarrow> map g (update_first P f xs) = map g xs"
  by (induction xs) auto

lemma find_update_first:
  "(\<And>x. P x \<Longrightarrow> P (f x)) \<Longrightarrow> find P (update_first P f xs) = map_option f (find P xs)"
  by (induction xs) auto

lemma set_update_first: "x \<in> set (update_first P f xs) \<Longrightarrow> x \<in> set xs \<or> (\<exists>y \<in> set xs. P y \<and> x = f y)"
  by (induction xs) (auto split: if_splits)

section \<open>Hexadecimal numbers\<close>

definition is_hex :: "char \<Rightarrow> bool" where
  "is_hex c \<longleftrightarrow> is_digit c \<or> (of_char c :: nat) \<in> {65..70} \<or> (of_char c :: nat) \<in> {97..102}"

definition hex_val :: "char \<Rightarrow> nat" where
  "hex_val c = (if is_digit c then of_char c - 48 else if of_char c \<le> (70::nat) then of_char c - 55 else of_char c - 87)"

fun read_hex :: "nat \<Rightarrow> string \<Rightarrow> nat" where
  "read_hex n [] = n"
| "read_hex n (c # cs) = (if is_hex c then read_hex (16 * n + hex_val c) cs else n)"

definition is_x :: "char \<Rightarrow> bool" where
  "is_x c \<longleftrightarrow> c = CHR ''x'' \<or> c = CHR ''X''"

text \<open>\<open>strtol(s, NULL, 16)\<close> where the value fits.\<close>

definition c_strtol16 :: "string \<Rightarrow> int" where
  "c_strtol16 s =
     (let t = dropWhile is_space s;
          neg = (t \<noteq> [] \<and> hd t = CHR ''-'');
          u = (if t \<noteq> [] \<and> (hd t = CHR ''-'' \<or> hd t = CHR ''+'') then tl t else t);
          v = (case u of z # x # h # _ \<Rightarrow> if z = CHR ''0'' \<and> is_x x \<and> is_hex h then drop 2 u else u | _ \<Rightarrow> u)
      in (if neg then - int (read_hex 0 v) else int (read_hex 0 v)))"

text \<open>\<open>strcat\<close> to an array of \<open>n\<close> bytes; writing past the array is undefined.\<close>

definition strcat :: "nat \<Rightarrow> string \<Rightarrow> string \<Rightarrow> string option" where
  "strcat n buf s = (if length buf + length s < n then Some (buf @ s) else None)"

end
