(* ===== verification/Map_Option.thy ===== *)
theory Map_Option
  imports Dhcp_Prelude
begin

text \<open>
  The MAP-T / MAP-E option parser, \<open>source/DHCPMgrUtils/dhcpmgr_map_apis.c\<close>.
  The option arrives as a string of hexadecimal digits in a buffer of
  \<open>BUFLEN_256\<close> bytes, is converted in place to bytes, and the bytes are parsed
  as a sequence of S46 options (type, length, payload; RFC 7598).

  The buffer is a list of bytes and a pointer into it an index. A read outside
  the buffer and a \<open>memcpy\<close> larger than its destination make the result
  \<open>None\<close>. The global \<open>g_stMapData\<close> is passed and returned; of its fields only
  those that the parser writes are kept (\<open>IPv4AddrString\<close>, \<open>IPv6AddrString\<close>,
  \<open>IPv4Suffix\<close>, \<open>IPv4Psid\<close> and \<open>IPv4PsidLen\<close> are never written).
  The parameter \<open>ntop\<close> is \<open>inet_ntop(AF_INET6, ...)\<close>.
\<close>

unbundle bit_operations_syntax

section \<open>Data\<close>

datatype RETURN_STATUS = STATUS_SUCCESS | STATUS_FAILURE

record COSA_DML_MAP_DATA =
  RuleIPv4Prefix :: string
  RuleIPv6Prefix :: string
  PdIPv6Prefix :: string
  BrIPv6Prefix :: string
  RuleIPv6PrefixH :: "u8 list"
  RuleIPv4PrefixLen :: u16
  RuleIPv6PrefixLen :: u16
  BrIPv6PrefixLen :: u16
  PdIPv6PrefixLen :: u16
  EaLen :: u16
  Psid :: u16
  PsidLen :: u16
  PsidOffset :: u32
  bFMR :: bool

text \<open>\<open>memset (&g_stMapData, 0, sizeof(g_stMapData))\<close>\<close>

definition map_data_zero :: COSA_DML_MAP_DATA where
  "map_data_zero = \<lparr>RuleIPv4Prefix = [], RuleIPv6Prefix = [], PdIPv6Prefix = [], BrIPv6Prefix = [],
     RuleIPv6PrefixH = replicate 24 0, RuleIPv4PrefixLen = 0, RuleIPv6PrefixLen = 0,
     BrIPv6PrefixLen = 0, PdIPv6PrefixLen = 0, EaLen = 0, Psid = 0, PsidLen = 0, PsidOffset = 0,
     bFMR = False\<rparr>"

text \<open>The part of \<open>ipc_map_data_t\<close> that the parser fills.\<close>

record ipc_map_data =
  map_v6Len :: u16
  map_isFMR :: bool
  map_eaLen :: u16
  map_v4Len :: u16
  map_psidOffset :: u32
  map_psidLen :: u16
  map_psid :: u16
  map_iapdPrefixLen :: u16
  map_pdIPv6Prefix :: string
  map_ruleIPv4Prefix :: string
  map_ruleIPv6Prefix :: string
  map_brIPv6Prefix :: string

definition MAP_OPTION_S46_RULE :: u16 where "MAP_OPTION_S46_RULE = 89"
definition MAP_OPTION_S46_BR :: u16 where "MAP_OPTION_S46_BR = 90"
definition MAP_OPTION_S46_DMR :: u16 where "MAP_OPTION_S46_DMR = 91"
definition MAP_OPTION_S46_PORT_PARAMS :: u16 where "MAP_OPTION_S46_PORT_PARAMS = 93"

lemmas map_option_codes =
  MAP_OPTION_S46_RULE_def MAP_OPTION_S46_BR_def MAP_OPTION_S46_DMR_def MAP_OPTION_S46_PORT_PARAMS_def

section \<open>Bytes\<close>

definition rd :: "u8 list \<Rightarrow> nat \<Rightarrow> u8 option" where
  "rd b i = (if i < length b then Some (b ! i) else None)"

definition wr :: "u8 list \<Rightarrow> nat \<Rightarrow> u8 \<Rightarrow> u8 list option" where
  "wr b i v = (if i < length b then Some (b[i := v]) else None)"

text \<open>\<open>ntohs\<close> of the two bytes at an index.\<close>

definition rd16 :: "u8 list \<Rightarrow> nat \<Rightarrow> u16 option" where
  "rd16 b i = (case rd b i of None \<Rightarrow> None | Some h \<Rightarrow>
     (case rd b (Suc i) of None \<Rightarrow> None | Some l \<Rightarrow> Some (push_bit 8 (ucast h) OR ucast l)))"

text \<open>
  \<open>memcpy(dst, src + i, n)\<close> into an array of \<open>cap\<close> bytes: the bytes copied,
  undefined when they do not fit or are not there.
\<close>

definition rd_bytes :: "u8 list \<Rightarrow> nat \<Rightarrow> nat \<Rightarrow> nat \<Rightarrow> u8 list option" where
  "rd_bytes b i n cap = (if n \<le> cap \<and> i + n \<le> length b then Some (take n (drop i b)) else None)"

definition zero_fill :: "nat \<Rightarrow> u8 list \<Rightarrow> u8 list" where
  "zero_fill n xs = xs @ replicate (n - length xs) 0"

lemma rd_Some [simp]: "rd b i = Some v \<longleftrightarrow> i < length b \<and> b ! i = v"
  by (auto simp: rd_def)

lemma rd16_SomeI: "Suc i < length b \<Longrightarrow> rd16 b i = Some (push_bit 8 (ucast (b ! i)) OR ucast (b ! Suc i))"
  by (simp add: rd16_def rd_def)

lemma rd16_None: "rd16 b i = None \<longleftrightarrow> length b \<le> Suc i"
  by (auto simp: rd16_def rd_def split: option.splits)

section \<open>Hex string to bytes\<close>

text \<open>\<open>STRING_TO_HEX\<close>, on the byte promoted to \<open>int\<close>.\<close>

definition STRING_TO_HEX :: "u8 \<Rightarrow> int" where
  "STRING_TO_HEX c = (if uint c - 97 < 0 then (if uint c - 65 < 0 then uint c - 48 else uint c - 65 + 10)
                      else uint c - 97 + 10)"

definition hex_pair :: "u8 \<Rightarrow> u8 \<Rightarrow> u8" where
  "hex_pair a b = push_bit 4 (word_of_int (STRING_TO_HEX a)) OR word_of_int (STRING_TO_HEX b)"

text \<open>\<open>strlen\<close> from an index: undefined without a NUL in the buffer.\<close>

definition c_strlen :: "u8 list \<Rightarrow> nat \<Rightarrow> nat option" where
  "c_strlen b i = (let n = length (takeWhile (\<lambda>c. c \<noteq> 0) (drop i b))
                   in if i + n < length b then Some n else None)"

text \<open>
  The conversion loop, with the read index \<open>r\<close>, the write index \<open>w\<close> and the
  16-bit count of bytes \<open>*uiOptionBufLen\<close>, which wraps around. The test reads two bytes, the second only when the first is
  not NUL; a colon is then skipped without looking again for the NUL.
\<close>

function (sequential) hex_loop :: "u8 list \<Rightarrow> nat \<Rightarrow> nat \<Rightarrow> u16 \<Rightarrow> (u8 list \<times> u16) option" where
  "hex_loop b r w n =
     (case rd b r of
        None \<Rightarrow> None
      | Some c0 \<Rightarrow>
          if c0 = 0 then map_option (\<lambda>b'. (b', n)) (wr b w 0)
          else
            (case rd b (Suc r) of
               None \<Rightarrow> None
             | Some c1 \<Rightarrow>
                 if c1 = 0 then map_option (\<lambda>b'. (b', n)) (wr b w 0)
                 else
                   (let r1 = (if c0 = 58 then Suc r else r)
                    in (case rd b r1 of None \<Rightarrow> None | Some x \<Rightarrow>
                         (case rd b (Suc r1) of None \<Rightarrow> None | Some y \<Rightarrow>
                           (case wr b w (hex_pair x y) of None \<Rightarrow> None | Some b' \<Rightarrow>
                              hex_loop b' (r1 + 2) (Suc w) (n + 1)))))))"
  by pat_completeness auto
termination
  by (relation "measure (\<lambda>(b, r, w, n). length b - r)") (auto simp: wr_def rd_def split: if_splits)

declare hex_loop.simps [simp del]

definition CosaDmlMapConvertStringToHexStream :: "u8 list \<Rightarrow> (RETURN_STATUS \<times> u8 list \<times> u16) option" where
  "CosaDmlMapConvertStringToHexStream b =
     (case rd b 0 of None \<Rightarrow> None | Some c \<Rightarrow>
        (let r = (if c = 39 then 1 else 0)
         in (case c_strlen b r of None \<Rightarrow> None | Some l \<Rightarrow>
              if r + l = 0 then None
              else (case rd b (r + l - 1) of None \<Rightarrow> None | Some e \<Rightarrow>
                     (let b1 = (if e = 39 then b[r + l - 1 := 0] else b)
                      in (case hex_loop b1 r 0 0 of None \<Rightarrow> None
                          | Some (b2, n) \<Rightarrow> Some (STATUS_SUCCESS, b2, n)))))))"

section \<open>S46 options\<close>

text \<open>\<open>CosaDmlMapGetIPv6StringFromHex\<close>: the text of 16 bytes, in a buffer of \<open>BUFLEN_40\<close>.\<close>

definition CosaDmlMapGetIPv6StringFromHex :: "(u8 list \<Rightarrow> string) \<Rightarrow> u8 list \<Rightarrow> string" where
  "CosaDmlMapGetIPv6StringFromHex ntop h = (let s = ntop (take 16 h) in if length s < 40 then s else [])"

definition show_ipv4 :: "u8 \<Rightarrow> u8 \<Rightarrow> u8 \<Rightarrow> u8 \<Rightarrow> string" where
  "show_ipv4 a b c d = show_nat (unat a) @ ''.'' @ show_nat (unat b) @ ''.'' @ show_nat (unat c) @ ''.'' @ show_nat (unat d)"

text \<open>
  The outcome of one option: the loop goes on with the new data, or the parser
  returns a failure at once with the data written so far.
\<close>

datatype opt_result = Go COSA_DML_MAP_DATA | Fail COSA_DML_MAP_DATA

text \<open>
  The S46 port parameters inside a rule, at index \<open>cur\<close>: a type that is not
  \<open>MAP_OPTION_S46_PORT_PARAMS\<close> or a length other than 4 only logs a warning.
  The check for reserved ports that follows in the source only logs too.
\<close>

definition parse_port_params :: "u8 list \<Rightarrow> nat \<Rightarrow> COSA_DML_MAP_DATA \<Rightarrow> opt_result option" where
  "parse_port_params b cur g =
     (case rd16 b (cur + 2) of None \<Rightarrow> None | Some subLen \<Rightarrow>
       (case rd16 b cur of None \<Rightarrow> None | Some sub \<Rightarrow>
          if sub = MAP_OPTION_S46_PORT_PARAMS \<and> subLen = 4
          then (case rd b (cur + 4) of None \<Rightarrow> None | Some off \<Rightarrow>
                 (case rd b (cur + 5) of None \<Rightarrow> None | Some pl \<Rightarrow>
                    (let g1 = g\<lparr>PsidOffset := ucast off, PsidLen := ucast pl\<rparr>
                     in if PsidOffset g1 > 15 then Some (Fail g1)
                        else if PsidLen g1 > 16 then Some (Fail g1)
                        else if PsidOffset g1 + ucast (PsidLen g1) > 16 then Some (Fail g1)
                        else (case rd16 b (cur + 6) of None \<Rightarrow> None | Some p \<Rightarrow>
                               Some (Go (g1\<lparr>Psid := drop_bit (16 - unat (PsidLen g1)) p\<rparr>))))))
          else Some (Go g)))"

text \<open>
  \<open>MAP_OPTION_S46_RULE\<close> with payload at \<open>cur\<close>. \<open>v6Addr\<close> and \<open>RuleIPv6PrefixH\<close>
  are arrays of \<open>BUFLEN_24\<close> bytes; \<open>bytesLeftOut\<close> is a \<open>UINT8\<close>.
\<close>

definition mask_last :: "nat \<Rightarrow> nat \<Rightarrow> u8 list \<Rightarrow> u8 list" where
  "mask_last v6ByteLen v6BitLen a =
     (if v6BitLen \<noteq> 0 then a[v6ByteLen := a ! v6ByteLen AND push_bit (8 - v6BitLen) 255] else a)"

definition parse_rule ::
  "(u8 list \<Rightarrow> string) \<Rightarrow> u8 list \<Rightarrow> nat \<Rightarrow> u16 \<Rightarrow> COSA_DML_MAP_DATA \<Rightarrow> opt_result option" where
  "parse_rule ntop b cur optLen g =
     (case rd b cur of None \<Rightarrow> None | Some fl \<Rightarrow>
     (case rd b (cur + 1) of None \<Rightarrow> None | Some ea \<Rightarrow>
     (case rd b (cur + 2) of None \<Rightarrow> None | Some v4l \<Rightarrow>
     (case rd_bytes b (cur + 3) 4 4 of None \<Rightarrow> None | Some v4 \<Rightarrow>
     (case rd b (cur + 7) of None \<Rightarrow> None | Some v6l \<Rightarrow>
       (let v6ByteLen = unat v6l div 8;
            v6BitLen = unat v6l mod 8;
            n = v6ByteLen + (if v6BitLen \<noteq> 0 then 1 else 0)
        in (case rd_bytes b (cur + 8) n 24 of None \<Rightarrow> None | Some bs \<Rightarrow>
             (let v6Addr = mask_last v6ByteLen v6BitLen (zero_fill 24 bs);
                  h = take n v6Addr @ drop n (RuleIPv6PrefixH g);
                  bytesLeftOut = (ucast optLen - 8 - of_nat v6ByteLen - (if v6BitLen \<noteq> 0 then 1 else 0) :: u8);
                  g1 = g\<lparr>bFMR := (fl AND 1 \<noteq> 0), EaLen := ucast ea, RuleIPv4PrefixLen := ucast v4l,
                         RuleIPv4Prefix := show_ipv4 (v4 ! 0) (v4 ! 1) (v4 ! 2) (v4 ! 3),
                         RuleIPv6PrefixLen := ucast v6l, RuleIPv6PrefixH := h,
                         RuleIPv6Prefix := CosaDmlMapGetIPv6StringFromHex ntop h,
                         PsidOffset := 6\<rparr>
              in if bytesLeftOut > 0 \<and> bytesLeftOut = 8 then parse_port_params b (cur + 8 + n) g1
                 else Some (Go g1)))))))))"

text \<open>\<open>MAP_OPTION_S46_BR\<close>: 16 bytes, whatever the length of the option.\<close>

definition parse_br ::
  "(u8 list \<Rightarrow> string) \<Rightarrow> u8 list \<Rightarrow> nat \<Rightarrow> COSA_DML_MAP_DATA \<Rightarrow> opt_result option" where
  "parse_br ntop b cur g =
     (case rd_bytes b cur 16 24 of None \<Rightarrow> None | Some bs \<Rightarrow>
        Some (Go (g\<lparr>BrIPv6Prefix := CosaDmlMapGetIPv6StringFromHex ntop (zero_fill 24 bs)\<rparr>)))"

definition parse_dmr ::
  "(u8 list \<Rightarrow> string) \<Rightarrow> u8 list \<Rightarrow> nat \<Rightarrow> COSA_DML_MAP_DATA \<Rightarrow> opt_result option" where
  "parse_dmr ntop b cur g =
     (case rd b cur of None \<Rightarrow> None | Some l \<Rightarrow>
       (case rd_bytes b (Suc cur) (unat l div 8) 24 of None \<Rightarrow> None | Some bs \<Rightarrow>
          Some (Go (g\<lparr>BrIPv6PrefixLen := ucast l,
                      BrIPv6Prefix := CosaDmlMapGetIPv6StringFromHex ntop (zero_fill 24 bs)\<rparr>))))"

definition parse_option ::
  "(u8 list \<Rightarrow> string) \<Rightarrow> u8 list \<Rightarrow> u16 \<Rightarrow> nat \<Rightarrow> u16 \<Rightarrow> COSA_DML_MAP_DATA \<Rightarrow> opt_result option" where
  "parse_option ntop b opt cur optLen g =
     (if opt = MAP_OPTION_S46_RULE then parse_rule ntop b cur optLen g
      else if opt = MAP_OPTION_S46_BR then parse_br ntop b cur g
      else if opt = MAP_OPTION_S46_DMR then parse_dmr ntop b cur g
      else Some (Go g))"

text \<open>
  The loop over the options from \<open>s\<close> to \<open>e\<close>. A payload that runs past the end
  breaks out of the loop with a failure status, and an error inside a rule
  returns from the parser; both keep the data written so far.
\<close>

datatype loop_exit = Done RETURN_STATUS COSA_DML_MAP_DATA | Return_fail COSA_DML_MAP_DATA

function (sequential) parse_loop ::
  "(u8 list \<Rightarrow> string) \<Rightarrow> u8 list \<Rightarrow> nat \<Rightarrow> nat \<Rightarrow> COSA_DML_MAP_DATA \<Rightarrow> loop_exit option" where
  "parse_loop ntop b s e g =
     (if \<not> s + 4 \<le> e then Some (Done STATUS_SUCCESS g)
      else (case rd16 b (s + 2) of None \<Rightarrow> None | Some optLen \<Rightarrow>
            (case rd16 b s of None \<Rightarrow> None | Some opt \<Rightarrow>
              (let nxt = s + 4 + unat optLen
               in if nxt > e then Some (Done STATUS_FAILURE g)
                  else (case parse_option ntop b opt (s + 4) optLen g of
                          None \<Rightarrow> None
                        | Some (Fail g') \<Rightarrow> Some (Return_fail g')
                        | Some (Go g') \<Rightarrow> parse_loop ntop b nxt e g')))))"
  by pat_completeness auto
termination
  by (relation "measure (\<lambda>(ntop, b, s, e, g). e - s)") auto

declare parse_loop.simps [simp del]

text \<open>
  The check for the mandatory options is compiled in with \<open>FEATURE_MAPT\<close> or
  \<open>FEATURE_SUPPORT_MAPT_NAT46\<close>; the flag \<open>mapt\<close> says whether it is.
\<close>

definition CosaDmlMapParseResponse ::
  "bool \<Rightarrow> (u8 list \<Rightarrow> string) \<Rightarrow> u8 list \<Rightarrow> nat \<Rightarrow> COSA_DML_MAP_DATA \<Rightarrow> (RETURN_STATUS \<times> COSA_DML_MAP_DATA) option" where
  "CosaDmlMapParseResponse mapt ntop b len g =
     (case rd b 1 of None \<Rightarrow> None | Some c \<Rightarrow>
        if c = 0 then Some (STATUS_FAILURE, g)
        else (case parse_loop ntop b 0 len g of
                None \<Rightarrow> None
              | Some (Return_fail g') \<Rightarrow> Some (STATUS_FAILURE, g')
              | Some (Done st g') \<Rightarrow>
                  Some (if mapt \<and> (RuleIPv6PrefixLen g' = 0 \<or> BrIPv6PrefixLen g' = 0) then STATUS_FAILURE else st, g')))"

section \<open>The response\<close>

text \<open>
  \<open>DhcpMgr_MapParseOptResponse\<close>. Without a \<open>/\<close> in the prefix \<open>strchr\<close>
  returns NULL; the prefix is copied to an array of \<open>BUFLEN_40\<close> bytes that the
  code then prints as a string. The result is the status, the data and, on
  success, the filled structure.
\<close>

definition map_fill :: "COSA_DML_MAP_DATA \<Rightarrow> ipc_map_data" where
  "map_fill g = \<lparr>map_v6Len = RuleIPv6PrefixLen g, map_isFMR = bFMR g, map_eaLen = EaLen g,
     map_v4Len = RuleIPv4PrefixLen g, map_psidOffset = PsidOffset g, map_psidLen = PsidLen g,
     map_psid = Psid g, map_iapdPrefixLen = PdIPv6PrefixLen g,
     map_pdIPv6Prefix = c_trunc 40 (PdIPv6Prefix g),
     map_ruleIPv4Prefix = c_trunc 40 (RuleIPv4Prefix g),
     map_ruleIPv6Prefix = c_trunc 40 (RuleIPv6Prefix g @ ''/'' @ show_nat (unat (RuleIPv6PrefixLen g))),
     map_brIPv6Prefix = c_trunc 40 (BrIPv6Prefix g @ ''/'' @ show_nat (unat (BrIPv6PrefixLen g)))\<rparr>"

definition DhcpMgr_MapParseOptResponse ::
  "bool \<Rightarrow> (u8 list \<Rightarrow> string) \<Rightarrow> string \<Rightarrow> u8 list \<Rightarrow> (COSA_DML_MAP_DATA \<times> ipc_map_data option) option" where
  "DhcpMgr_MapParseOptResponse mapt ntop pPdIPv6Prefix b =
     (case CosaDmlMapConvertStringToHexStream b of None \<Rightarrow> None | Some (st, b', len) \<Rightarrow>
       (let pre = takeWhile (\<lambda>c. c \<noteq> CHR ''/'') pPdIPv6Prefix;
            rest = dropWhile (\<lambda>c. c \<noteq> CHR ''/'') pPdIPv6Prefix
        in if rest = [] \<or> length pre \<ge> 40 then None
           else
             (let g = map_data_zero\<lparr>PdIPv6Prefix := pre, PdIPv6PrefixLen := word_of_int (c_atoi (tl rest))\<rparr>
              in if pre = [] then Some (g, None)
                 else (case CosaDmlMapParseResponse mapt ntop b' (unat len) g of
                         None \<Rightarrow> None
                       | Some (STATUS_FAILURE, g') \<Rightarrow> Some (g', None)
                       | Some (STATUS_SUCCESS, g') \<Rightarrow> Some (g', Some (map_fill g'))))))"

end
