(* ===== verification/Map_Codec.thy ===== *)
theory Map_Codec
  imports Map_Option
begin

text \<open>
  What the MAP parser (\<open>Map_Option\<close>) computes on well-formed input. The S46
  options of RFC 7598 are a datatype with an encoder to bytes, hexadecimal
  digits are an encoder of the bytes, and \<open>s46_apply\<close> says what one option
  means for the MAP data: which fields it sets, with the rule prefix cut to its
  length bit by bit. The parser refines this meaning: on the hex digits of
  encoded options it returns the fold of \<open>s46_apply\<close>.
\<close>

unbundle bit_operations_syntax

section \<open>Encoders and the meaning of an option\<close>

definition hex_digit :: "u8 \<Rightarrow> u8" where
  "hex_digit d = (if d < 10 then 48 + d else 87 + d)"

definition hex_byte :: "u8 \<Rightarrow> u8 list" where
  "hex_byte x = [hex_digit (drop_bit 4 x), hex_digit (x AND 15)]"

definition hex_enc :: "u8 list \<Rightarrow> u8 list" where
  "hex_enc bs = concat (map hex_byte bs)"

datatype s46_option =
    S46_Rule u8 u8 u8 "u8 list" u8 "u8 list" "(u8 \<times> u8 \<times> u16) option"
  | S46_Br "u8 list"
  | S46_Dmr u8 "u8 list"
  | S46_Other u16 "u8 list"

definition enc16 :: "u16 \<Rightarrow> u8 list" where
  "enc16 w = [ucast (drop_bit 8 w), ucast w]"

definition enc_tlv :: "u16 \<Rightarrow> u8 list \<Rightarrow> u8 list" where
  "enc_tlv opt p = enc16 opt @ enc16 (of_nat (length p)) @ p"

fun enc_ports :: "(u8 \<times> u8 \<times> u16) option \<Rightarrow> u8 list" where
  "enc_ports None = []"
| "enc_ports (Some (off, k, psid)) = enc_tlv MAP_OPTION_S46_PORT_PARAMS ([off, k] @ enc16 (push_bit (16 - unat k) psid))"

fun s46_code :: "s46_option \<Rightarrow> u16" where
  "s46_code (S46_Rule _ _ _ _ _ _ _) = MAP_OPTION_S46_RULE"
| "s46_code (S46_Br _) = MAP_OPTION_S46_BR"
| "s46_code (S46_Dmr _ _) = MAP_OPTION_S46_DMR"
| "s46_code (S46_Other c _) = c"

fun s46_payload :: "s46_option \<Rightarrow> u8 list" where
  "s46_payload (S46_Rule fl ea l4 a4 l6 p6 pp) = [fl, ea, l4] @ a4 @ [l6] @ p6 @ enc_ports pp"
| "s46_payload (S46_Br a) = a"
| "s46_payload (S46_Dmr l p) = l # p"
| "s46_payload (S46_Other _ p) = p"

fun ports_wf :: "(u8 \<times> u8 \<times> u16) option \<Rightarrow> bool" where
  "ports_wf None = True"
| "ports_wf (Some (off, k, psid)) \<longleftrightarrow> unat off \<le> 15 \<and> unat off + unat k \<le> 16 \<and> unat psid < 2 ^ unat k"

fun s46_wf :: "s46_option \<Rightarrow> bool" where
  "s46_wf (S46_Rule fl ea l4 a4 l6 p6 pp) \<longleftrightarrow>
     length a4 = 4 \<and> l6 \<le> 128 \<and> length p6 = (unat l6 + 7) div 8 \<and> ports_wf pp"
| "s46_wf (S46_Br a) \<longleftrightarrow> length a = 16"
| "s46_wf (S46_Dmr l p) \<longleftrightarrow> l \<le> 128 \<and> length p = unat l div 8"
| "s46_wf (S46_Other c p) \<longleftrightarrow>
     c \<noteq> MAP_OPTION_S46_RULE \<and> c \<noteq> MAP_OPTION_S46_BR \<and> c \<noteq> MAP_OPTION_S46_DMR \<and> length p < 2 ^ 16"

fun prefix_mask :: "nat \<Rightarrow> u8 list \<Rightarrow> u8 list" where
  "prefix_mask l [] = []"
| "prefix_mask l (x # xs) =
     (if 8 \<le> l then x # prefix_mask (l - 8) xs else (x AND push_bit (8 - l) 255) # prefix_mask 0 xs)"

fun ports_apply :: "(u8 \<times> u8 \<times> u16) option \<Rightarrow> COSA_DML_MAP_DATA \<Rightarrow> COSA_DML_MAP_DATA" where
  "ports_apply None g = g\<lparr>PsidOffset := 6\<rparr>"
| "ports_apply (Some (off, k, psid)) g = g\<lparr>PsidOffset := ucast off, PsidLen := ucast k, Psid := psid\<rparr>"

fun s46_apply :: "(u8 list \<Rightarrow> string) \<Rightarrow> s46_option \<Rightarrow> COSA_DML_MAP_DATA \<Rightarrow> COSA_DML_MAP_DATA" where
  "s46_apply ntop (S46_Rule fl ea l4 a4 l6 p6 pp) g =
     (let h = prefix_mask (unat l6) p6 @ drop (length p6) (RuleIPv6PrefixH g)
      in ports_apply pp (g\<lparr>bFMR := bit fl 0, EaLen := ucast ea, RuleIPv4PrefixLen := ucast l4,
           RuleIPv4Prefix := show_ipv4 (a4 ! 0) (a4 ! 1) (a4 ! 2) (a4 ! 3),
           RuleIPv6PrefixLen := ucast l6, RuleIPv6PrefixH := h,
           RuleIPv6Prefix := CosaDmlMapGetIPv6StringFromHex ntop h\<rparr>))"
| "s46_apply ntop (S46_Br a) g = g\<lparr>BrIPv6Prefix := CosaDmlMapGetIPv6StringFromHex ntop a\<rparr>"
| "s46_apply ntop (S46_Dmr l p) g =
     g\<lparr>BrIPv6PrefixLen := ucast l, BrIPv6Prefix := CosaDmlMapGetIPv6StringFromHex ntop (zero_fill 16 p)\<rparr>"
| "s46_apply ntop (S46_Other _ _) g = g"

definition enc_s46 :: "s46_option \<Rightarrow> u8 list" where
  "enc_s46 opt = enc_tlv (s46_code opt) (s46_payload opt)"

section \<open>Hexadecimal digits\<close>

lemma u8_exhaust: "(\<forall>n \<in> set [0..<256]. P (of_nat n :: u8)) \<Longrightarrow> P x"
proof -
  assume a: "\<forall>n \<in> set [0..<256]. P (of_nat n :: u8)"
  have "unat x < 256" using unsigned_less [of x] by simp
  then have "P (of_nat (unat x))" using a by (metis atLeastLessThan_iff set_upt le0)
  then show ?thesis by simp
qed

lemma hex_pair_byte: "hex_pair (hex_digit (drop_bit 4 x)) (hex_digit (x AND 15)) = x"
  by (rule u8_exhaust [of "\<lambda>x. hex_pair (hex_digit (drop_bit 4 x)) (hex_digit (x AND 15)) = x"]) code_simp

lemma hex_digit_plain: "hex_digit (drop_bit 4 x) \<noteq> 0 \<and> hex_digit (drop_bit 4 x) \<noteq> 58 \<and> hex_digit (drop_bit 4 x) \<noteq> 39 \<and>
  hex_digit (x AND 15) \<noteq> 0 \<and> hex_digit (x AND 15) \<noteq> 58 \<and> hex_digit (x AND 15) \<noteq> 39"
  by (rule u8_exhaust [of "\<lambda>x. hex_digit (drop_bit 4 x) \<noteq> 0 \<and> hex_digit (drop_bit 4 x) \<noteq> 58 \<and> hex_digit (drop_bit 4 x) \<noteq> 39 \<and>
  hex_digit (x AND 15) \<noteq> 0 \<and> hex_digit (x AND 15) \<noteq> 58 \<and> hex_digit (x AND 15) \<noteq> 39"]) code_simp

lemma hex_loop_step:
  assumes "rd b r = Some c0" "c0 \<noteq> 0" "c0 \<noteq> 58" "rd b (Suc r) = Some c1" "c1 \<noteq> 0" "w < length b"
  shows "hex_loop b r w n = hex_loop (b[w := hex_pair c0 c1]) (r + 2) (Suc w) (n + 1)"
  by (subst hex_loop.simps) (use assms in \<open>simp add: wr_def del: rd_Some\<close>)

lemma hex_loop_enc:
  "\<exists>z'. hex_loop (ds @ junk @ hex_enc bs @ 0 # z) (length ds + length junk) (length ds) n
        = Some (ds @ bs @ 0 # z', n + of_nat (length bs)) \<and> length bs + length z' = length junk + length (hex_enc bs) + length z"
proof (induction bs arbitrary: ds junk n)
  case Nil
  show ?case
  proof (cases junk)
    case Nil
    then show ?thesis by (subst hex_loop.simps) (simp add: rd_def wr_def hex_enc_def)
  next
    case (Cons j js)
    then show ?thesis by (subst hex_loop.simps) (simp add: rd_def wr_def hex_enc_def nth_append)
  qed
next
  case (Cons x bs)
  let ?h = "hex_digit (drop_bit 4 x)" and ?l = "hex_digit (x AND 15)"
  let ?b = "ds @ junk @ hex_enc (x # bs) @ 0 # z"
  obtain junk' where j: "length junk' = Suc (length junk)"
    and upd: "?b[length ds := x] = (ds @ [x]) @ junk' @ hex_enc bs @ 0 # z"
  proof (cases junk)
    case Nil
    then show ?thesis by (intro that [of "[?l]"]) (auto simp: hex_enc_def hex_byte_def)
  next
    case (Cons j js)
    then show ?thesis by (intro that [of "js @ [?h, ?l]"]) (auto simp: hex_enc_def hex_byte_def)
  qed
  have rd0: "rd ?b (length ds + length junk) = Some ?h" "rd ?b (Suc (length ds + length junk)) = Some ?l"
    by (auto simp: rd_def hex_enc_def hex_byte_def nth_append)
  have "hex_loop ?b (length ds + length junk) (length ds) n
      = hex_loop ((ds @ [x]) @ junk' @ hex_enc bs @ 0 # z) (length (ds @ [x]) + length junk') (length (ds @ [x])) (n + 1)"
    using hex_loop_step [OF rd0(1) _ _ rd0(2), of "length ds" n]
    by (simp add: hex_digit_plain hex_pair_byte upd j)
  with Cons.IH [of "ds @ [x]" junk' "n + 1"] show ?case
    by (auto simp: j hex_enc_def hex_byte_def add.assoc)
qed

lemma hex_enc_plain: "c \<in> set (hex_enc bs) \<Longrightarrow> c \<noteq> 0 \<and> c \<noteq> 39"
  using hex_digit_plain by (auto simp: hex_enc_def hex_byte_def)

lemma length_hex_enc [simp]: "length (hex_enc bs) = 2 * length bs"
  by (induction bs) (auto simp: hex_enc_def hex_byte_def)

lemma convert_hex_enc:
  assumes "bs \<noteq> []"
  shows "\<exists>z'. CosaDmlMapConvertStringToHexStream (hex_enc bs @ 0 # z) = Some (STATUS_SUCCESS, bs @ 0 # z', of_nat (length bs))
     \<and> length z' = length bs + length z"
proof -
  let ?b = "hex_enc bs @ 0 # z"
  have ne: "hex_enc bs \<noteq> []" using assms by (metis length_0_conv length_hex_enc mult_eq_0_iff zero_neq_numeral)
  have c0: "?b ! 0 \<noteq> 39" using ne hex_enc_plain [of "hd (hex_enc bs)" bs] by (simp add: hd_conv_nth nth_append)
  have l: "takeWhile (\<lambda>c. c \<noteq> 0) ?b = hex_enc bs"
    using hex_enc_plain by (subst takeWhile_append2) auto
  have cl: "?b ! (length (hex_enc bs) - 1) \<noteq> 39"
    using ne hex_enc_plain [of "last (hex_enc bs)" bs] by (simp add: last_conv_nth nth_append)
  obtain z' where "hex_loop ?b 0 0 0 = Some (bs @ 0 # z', of_nat (length bs))" "length z' = length bs + length z"
    using hex_loop_enc [of "[]" "[]" bs z 0] by auto
  with c0 cl l ne assms show ?thesis
    by (auto simp: CosaDmlMapConvertStringToHexStream_def c_strlen_def rd_def Let_def nth_append split: if_splits)
qed

section \<open>Reading what was encoded\<close>

lemma length_enc16 [simp]: "length (enc16 w) = 2"
  by (simp add: enc16_def)

lemma u16_halves: "push_bit 8 (ucast (ucast (drop_bit 8 w) :: u8)) OR ucast (ucast w :: u8) = (w :: u16)"
  by (rule bit_word_eqI) (auto simp: bit_simps)

lemma rd16_enc [simp]: "rd16 (xs @ enc16 w @ ys) (length xs) = Some w"
  using u16_halves [of w] by (simp add: rd16_def rd_def enc16_def nth_append)

lemma rd16_enc_gen: "i = length xs \<Longrightarrow> b = xs @ enc16 w @ ys \<Longrightarrow> rd16 b i = Some w"
  by simp

lemma rd_at: "i = length xs \<Longrightarrow> b = xs @ v # ys \<Longrightarrow> rd b i = Some v"
  by simp

lemma rd_bytes_at: "i = length xs \<Longrightarrow> b = xs @ vs @ ys \<Longrightarrow> n = length vs \<Longrightarrow> n \<le> cap \<Longrightarrow> rd_bytes b i n cap = Some vs"
  by (simp add: rd_bytes_def)

lemma length_prefix_mask [simp]: "length (prefix_mask l xs) = length xs"
  by (induction l xs rule: prefix_mask.induct) auto

lemma prefix_mask_full: "8 * length xs \<le> l \<Longrightarrow> prefix_mask l xs = xs"
  by (induction l xs rule: prefix_mask.induct) auto

lemma prefix_mask_last:
  "length xs = l div 8 + 1 \<Longrightarrow> l mod 8 \<noteq> 0 \<Longrightarrow>
   prefix_mask l xs = xs[l div 8 := xs ! (l div 8) AND push_bit (8 - l mod 8) 255]"
proof (induction l xs rule: prefix_mask.induct)
  case (2 l x xs)
  show ?case
  proof (cases "8 \<le> l")
    case True
    then have "l div 8 = Suc ((l - 8) div 8)" "(l - 8) mod 8 = l mod 8"
      by (simp_all add: le_div_geq le_mod_geq)
    with 2 True show ?thesis by simp
  next
    case False
    with 2 show ?thesis by simp
  qed
qed simp

lemma ceil8: "(l + 7) div 8 = l div 8 + (if l mod 8 \<noteq> 0 then 1 else (0::nat))"
  by presburger

lemma take_mask_last:
  assumes "length bs = (l + 7) div 8" and "length bs \<le> 24"
  shows "take (length bs) (mask_last (l div 8) (l mod 8) (zero_fill 24 bs)) = prefix_mask l bs"
proof (cases "l mod 8 = 0")
  case True
  with assms(1) have "8 * length bs \<le> l" by (simp add: ceil8)
  with True show ?thesis by (simp add: mask_last_def zero_fill_def prefix_mask_full)
next
  case False
  with assms(1) have "length bs = l div 8 + 1" by (simp add: ceil8)
  with False show ?thesis
    by (simp add: mask_last_def zero_fill_def prefix_mask_last nth_append list_update_append take_update_swap)
qed

text \<open>
  A bit of a masked prefix is the bit of the address where it is inside the prefix, and 0 after it.
\<close>

lemma prefix_mask_bit:
  "j < length xs \<Longrightarrow> k < 8 \<Longrightarrow> bit (prefix_mask l xs ! j) k \<longleftrightarrow> bit (xs ! j) k \<and> 8 * j + (7 - k) < l"
proof (induction l xs arbitrary: j rule: prefix_mask.induct)
  case (2 l x xs)
  have m: "bit (push_bit (8 - l) (255 :: u8)) k \<longleftrightarrow> 8 - l \<le> k"
  proof -
    have "push_bit (8 - l) (255 :: u8) = push_bit (8 - l) (mask 8)" by (simp add: mask_eq_exp_minus_1)
    also have "bit \<dots> k \<longleftrightarrow> 8 - l \<le> k" unfolding bit_push_bit_iff bit_mask_iff using 2(4) by auto
    finally show ?thesis .
  qed
  show ?case
  proof (cases j)
    case 0
    with 2 m show ?thesis by (auto simp: bit_simps)
  next
    case (Suc i)
    with 2 show ?thesis by (auto simp: bit_simps)
  qed
qed simp

lemma psid_shift_back:
  assumes "unat k \<le> 16" and "unat (psid :: u16) < 2 ^ unat (k :: u8)"
  shows "drop_bit (16 - unat k) (push_bit (16 - unat k) psid) = psid"
proof (rule bit_word_eqI)
  fix n assume n: "n < LENGTH(16)"
  have hi: "\<not> bit psid m" if "unat k \<le> m" for m
  proof -
    have "psid = take_bit (unat k) psid"
      using assms(2) by (metis take_bit_nat_eq_self unsigned_take_bit_eq word_unat_eq_iff)
    then show ?thesis using that by (metis bit_take_bit_iff not_less)
  qed
  show "bit (drop_bit (16 - unat k) (push_bit (16 - unat k) psid)) n = bit psid n"
    using n hi [of n] assms(1) by (cases "unat k \<le> n") (auto simp: bit_simps)
qed

lemma u8_ucast_unat: "unat (ucast (x :: u8) :: u16) = unat x" "unat (ucast (x :: u8) :: u32) = unat x"
  by (simp_all add: unsigned_ucast_eq take_bit_nat_eq_self unsigned_less [THEN order_less_trans])

lemma u8_via_u16: "(ucast (ucast (x :: u8) :: u16) :: u32) = ucast x"
  by (rule bit_word_eqI) (auto simp: bit_simps dest: bit_imp_le_length)

lemma parse_port_params_enc:
  assumes "b = xs @ enc_ports (Some (off, k, psid)) @ ys" and "cur = length xs" and "ports_wf (Some (off, k, psid))"
  shows "parse_port_params b cur g = Some (Go (g\<lparr>PsidOffset := ucast off, PsidLen := ucast k, Psid := psid\<rparr>))"
proof -
  let ?w = "push_bit (16 - unat k) psid"
  have b: "b = xs @ enc16 MAP_OPTION_S46_PORT_PARAMS @ enc16 4 @ off # k # enc16 ?w @ ys"
    using assms(1) by (simp add: enc_tlv_def)
  have r: "rd16 b (cur + 2) = Some 4" "rd16 b cur = Some MAP_OPTION_S46_PORT_PARAMS"
    "rd b (cur + 4) = Some off" "rd b (cur + 5) = Some k" "rd16 b (cur + 6) = Some ?w"
    by (rule rd16_enc_gen [of _ "xs @ enc16 MAP_OPTION_S46_PORT_PARAMS"] rd16_enc_gen [of _ xs]
        rd_at [of _ "xs @ enc16 MAP_OPTION_S46_PORT_PARAMS @ enc16 4"]
        rd_at [of _ "xs @ enc16 MAP_OPTION_S46_PORT_PARAMS @ enc16 4 @ [off]"]
        rd16_enc_gen [of _ "xs @ enc16 MAP_OPTION_S46_PORT_PARAMS @ enc16 4 @ [off, k]"];
        simp add: b assms(2))+
  have "unat (ucast off + ucast (ucast k :: u16) :: u32) = unat off + unat k" 
    using assms(3) by (simp add: unat_word_ariths u8_ucast_unat u8_via_u16)
  then show ?thesis
    using assms(3) by (simp add: parse_port_params_def r del: rd_Some add_2_eq_Suc' add: Let_def word_less_nat_alt u8_ucast_unat psid_shift_back)
qed

lemma length_enc_ports: "length (enc_ports pp) = (if pp = None then 0 else 8)"
  by (cases pp) (auto simp: enc_tlv_def)

lemma bytes_left_out:
  "(ucast (of_nat (8 + (n + m) + p) :: u16) - 8 - of_nat n - of_nat m :: u8) = of_nat p"
proof -
  have "(ucast (of_nat k :: u16) :: u8) = of_nat k" for k
    by (rule bit_word_eqI) (simp add: bit_simps)
  note this [of "8 + (n + m) + p"]
  then show ?thesis by (simp only: of_nat_add) simp
qed

lemma parse_rule_enc:
  assumes b: "b = xs @ s46_payload (S46_Rule fl ea l4 a4 l6 p6 pp) @ ys" and cur: "cur = length xs"
    and wf: "s46_wf (S46_Rule fl ea l4 a4 l6 p6 pp)"
    and l: "l = of_nat (length (s46_payload (S46_Rule fl ea l4 a4 l6 p6 pp)))"
  shows "parse_rule ntop b cur l g = Some (Go (s46_apply ntop (S46_Rule fl ea l4 a4 l6 p6 pp) g))"
proof -
  let ?n = "unat l6 div 8 + (if unat l6 mod 8 \<noteq> 0 then 1 else 0)"
  from wf have n: "?n = length p6" and a4: "length a4 = 4" and l6: "unat l6 \<le> 128"
    by (simp_all add: ceil8 word_le_nat_alt)
  then have n24: "length p6 \<le> 24" using wf by simp
  have r1: "rd b cur = Some fl" by (rule rd_at [of _ xs]) (simp_all add: b cur)
  have r2: "rd b (cur + 1) = Some ea" by (rule rd_at [of _ "xs @ [fl]"]) (simp_all add: b cur)
  have r3: "rd b (cur + 2) = Some l4" by (rule rd_at [of _ "xs @ [fl, ea]"]) (simp_all add: b cur)
  have r4: "rd_bytes b (cur + 3) 4 4 = Some a4"
    by (rule rd_bytes_at [of _ "xs @ [fl, ea, l4]"]) (simp_all add: b cur a4)
  have r5: "rd b (cur + 7) = Some l6"
    by (rule rd_at [of _ "xs @ [fl, ea, l4] @ a4"]) (simp_all add: b cur a4)
  have r6: "rd_bytes b (cur + 8) (length p6) 24 = Some p6"
    by (rule rd_bytes_at [of _ "xs @ [fl, ea, l4] @ a4 @ [l6]"]) (simp_all add: b cur a4 n24)
  note r = r1 r2 r3 r4 r5 r6
  have mask: "take (length p6) (mask_last (unat l6 div 8) (unat l6 mod 8) (zero_fill 24 p6)) = prefix_mask (unat l6) p6"
    using wf n24 by (intro take_mask_last) auto
  have left: "(ucast l - 8 - of_nat (unat l6 div 8) - (if unat l6 mod 8 \<noteq> 0 then 1 else 0) :: u8)
      = (if pp = None then 0 else 8)"
    using bytes_left_out [of "unat l6 div 8" "if unat l6 mod 8 \<noteq> 0 then 1 else 0" "length (enc_ports pp)"]
    by (simp add: l a4 n [symmetric] length_enc_ports split: if_splits)
  have flag: "(fl AND 1 \<noteq> 0) = bit fl 0"
    by (simp add: and_one_eq bit_0 mod2_eq_if)
  show ?thesis
  proof (cases pp)
    case None
    then show ?thesis
      by (simp only: parse_rule_def r option.case Let_def n mask left flag s46_apply.simps ports_apply.simps) simp
  next
    case (Some q)
    obtain off k psid where q: "pp = Some (off, k, psid)" using Some by (cases q) auto
    have pb: "b = (xs @ [fl, ea, l4] @ a4 @ [l6] @ p6) @ enc_ports (Some (off, k, psid)) @ ys"
      using b q by simp
    have pc: "cur + 8 + length p6 = length (xs @ [fl, ea, l4] @ a4 @ [l6] @ p6)"
      using cur a4 by simp
    have pw: "ports_wf (Some (off, k, psid))" using wf q by simp
    show ?thesis
      by (simp only: parse_rule_def r option.case Let_def n mask left flag s46_apply.simps q ports_apply.simps)
         (simp add: parse_port_params_enc [OF pb pc pw])
  qed
qed

lemma zero_fill_take16: "length p \<le> 16 \<Longrightarrow> take 16 (zero_fill 24 p) = zero_fill 16 p"
  by (simp add: zero_fill_def take_append)

lemma ip6_string_take: "CosaDmlMapGetIPv6StringFromHex ntop h = CosaDmlMapGetIPv6StringFromHex ntop (take 16 h)"
  by (simp add: CosaDmlMapGetIPv6StringFromHex_def)

lemma parse_br_enc:
  assumes "b = xs @ a @ ys" and "cur = length xs" and "length a = 16"
  shows "parse_br ntop b cur g = Some (Go (s46_apply ntop (S46_Br a) g))"
proof -
  have "rd_bytes b cur 16 24 = Some a" by (rule rd_bytes_at [of _ xs]) (simp_all add: assms)
  then show ?thesis
    using assms(3) ip6_string_take [of ntop "zero_fill 24 a"]
    by (simp add: parse_br_def zero_fill_take16) (simp add: zero_fill_def)
qed

lemma parse_dmr_enc:
  assumes "b = xs @ (l # p) @ ys" and "cur = length xs" and "s46_wf (S46_Dmr l p)"
  shows "parse_dmr ntop b cur g = Some (Go (s46_apply ntop (S46_Dmr l p) g))"
proof -
  from assms(3) have p: "length p = unat l div 8" "length p \<le> 16"
    by (auto simp: word_le_nat_alt)
  have "rd b cur = Some l" by (rule rd_at [of _ xs]) (simp_all add: assms)
  moreover have "rd_bytes b (Suc cur) (unat l div 8) 24 = Some p"
    by (rule rd_bytes_at [of _ "xs @ [l]"]) (use p in \<open>simp_all add: assms(1,2)\<close>)
  ultimately show ?thesis
    using p ip6_string_take [of ntop "zero_fill 24 p"] ip6_string_take [of ntop "zero_fill 16 p"]
    by (simp add: parse_dmr_def zero_fill_take16 del: rd_Some) 
qed

lemma parse_option_enc:
  assumes "b = xs @ s46_payload opt @ ys" and "cur = length xs" and "s46_wf opt"
    and "l = of_nat (length (s46_payload opt))"
  shows "parse_option ntop b (s46_code opt) cur l g = Some (Go (s46_apply ntop opt g))"
proof (cases opt)
  case (S46_Rule fl ea l4 a4 l6 p6 pp)
  from parse_rule_enc [OF assms(1) [unfolded this] assms(2) assms(3) [unfolded this] assms(4) [unfolded this]] S46_Rule
  show ?thesis by (simp add: parse_option_def)
next
  case (S46_Br a)
  with assms parse_br_enc [of b xs a ys cur ntop g] show ?thesis
    by (simp add: parse_option_def map_option_codes)
next
  case (S46_Dmr d p)
  with assms parse_dmr_enc [of b xs d p ys cur ntop g] show ?thesis
    by (simp add: parse_option_def map_option_codes)
next
  case (S46_Other c p)
  with assms show ?thesis by (simp add: parse_option_def)
qed

lemma payload_fits: "s46_wf opt \<Longrightarrow> length (s46_payload opt) < 2 ^ 16"
  by (cases opt) (auto simp: length_enc_ports word_le_nat_alt)

lemma parse_loop_enc_then:
  assumes "\<forall>opt \<in> set opts. s46_wf opt"
  shows "b = xs @ concat (map enc_s46 opts) @ ys \<Longrightarrow> s = length xs \<Longrightarrow>
    length xs + length (concat (map enc_s46 opts)) \<le> e \<Longrightarrow>
    parse_loop ntop b s e g =
      parse_loop ntop b (length xs + length (concat (map enc_s46 opts))) e (fold (s46_apply ntop) opts g)"
  using assms
proof (induction opts arbitrary: xs s g)
  case Nil
  then show ?case by simp
next
  case (Cons opt opts)
  let ?c = "s46_code opt" and ?p = "s46_payload opt"
  let ?l = "of_nat (length ?p) :: u16"
  let ?r = "concat (map enc_s46 opts)"
  have b: "b = xs @ enc16 ?c @ enc16 ?l @ ?p @ ?r @ ys"
    using Cons.prems by (simp add: enc_s46_def [of opt] enc_tlv_def)
  have wf: "s46_wf opt" using Cons.prems by simp
  have l: "unat ?l = length ?p"
    using payload_fits [OF wf] by (simp add: unat_of_nat)
  have r1: "rd16 b (s + 2) = Some ?l"
    by (rule rd16_enc_gen [of _ "xs @ enc16 ?c"]) (simp_all add: b Cons.prems)
  have r2: "rd16 b s = Some ?c"
    by (rule rd16_enc_gen [of _ xs]) (simp_all add: b Cons.prems)
  have po: "parse_option ntop b ?c (s + 4) ?l g = Some (Go (s46_apply ntop opt g))"
    by (rule parse_option_enc [of b "xs @ enc16 ?c @ enc16 ?l" opt "?r @ ys"])
       (use wf in \<open>simp_all add: b Cons.prems\<close>)
  have e: "s + 4 + length ?p + length ?r \<le> e"
    using Cons.prems by (simp add: enc_s46_def [of opt] enc_tlv_def)
  have "parse_loop ntop b s e g = parse_loop ntop b (s + 4 + length ?p) e (s46_apply ntop opt g)"
    by (subst parse_loop.simps) (use e in \<open>simp add: r1 r2 po l Let_def del: add_2_eq_Suc'\<close>)
  also have "\<dots> = parse_loop ntop b (length (xs @ enc16 ?c @ enc16 ?l @ ?p) + length ?r) e
      (fold (s46_apply ntop) opts (s46_apply ntop opt g))"
    by (rule Cons.IH) (use Cons.prems(2,4) e in \<open>simp_all add: b\<close>)
  finally show ?case by (simp add: enc_s46_def [of opt] enc_tlv_def add.assoc)
qed

lemma parse_loop_enc:
  assumes "\<forall>opt \<in> set opts. s46_wf opt" and "b = concat (map enc_s46 opts) @ ys"
  shows "parse_loop ntop b 0 (length (concat (map enc_s46 opts))) g
    = Some (Done STATUS_SUCCESS (fold (s46_apply ntop) opts g))"
proof -
  let ?e = "length (concat (map enc_s46 opts))"
  have "parse_loop ntop b 0 ?e g = parse_loop ntop b ?e ?e (fold (s46_apply ntop) opts g)"
    using parse_loop_enc_then [OF assms(1), of b "[]" ys 0 ?e ntop g] assms(2) by simp
  also have "\<dots> = Some (Done STATUS_SUCCESS (fold (s46_apply ntop) opts g))"
    by (subst parse_loop.simps) simp
  finally show ?thesis .
qed

section \<open>The parser on encoded options\<close>

text \<open>
  Claim C13. The response parser inverts the encoder on the responses that its build
  accepts. The input is the hex digits of a non-empty sequence of well-formed S46
  options, followed by a NUL and anything, with a delegated prefix \<open>pre/n\<close>. The
  sequence has fewer than 65536 bytes, so that the 16-bit count does not wrap around,
  and the low byte of its first option code is not zero. In a build with MAP-T the
  options contain a rule and a DMR with non-zero prefix lengths; a MAP-E response,
  which has a BR and no DMR, is refused there. Then the parser returns the MAP data that the
  options mean (each rule, BR and DMR applied in order, unknown options
  skipped) and fills the message structure from it.
\<close>

theorem map_response_roundtrip:
  assumes "\<forall>opt \<in> set opts. s46_wf opt" and "opts \<noteq> []"
    and "pre \<noteq> []" and "CHR ''/'' \<notin> set pre" and "length pre < 40"
    and "g = fold (s46_apply ntop) opts (map_data_zero\<lparr>PdIPv6Prefix := pre, PdIPv6PrefixLen := of_nat n\<rparr>)"
    and "(ucast (s46_code (hd opts)) :: u8) \<noteq> 0"
    and "mapt \<Longrightarrow> RuleIPv6PrefixLen g \<noteq> 0 \<and> BrIPv6PrefixLen g \<noteq> 0"
    and "length (concat (map enc_s46 opts)) < 65536"
  shows "DhcpMgr_MapParseOptResponse mapt ntop (pre @ ''/'' @ show_nat n)
           (hex_enc (concat (map enc_s46 opts)) @ 0 # z) = Some (g, Some (map_fill g))"
proof -
  let ?bs = "concat (map enc_s46 opts)"
  let ?g = "map_data_zero\<lparr>PdIPv6Prefix := pre, PdIPv6PrefixLen := of_nat n\<rparr>"
  obtain opt rest where o: "opts = opt # rest" using assms(2) by (cases opts) auto
  then have bs: "?bs = enc16 (s46_code opt) @ (enc16 (of_nat (length (s46_payload opt))) @ s46_payload opt) @ concat (map enc_s46 rest)"
    by (simp add: enc_s46_def [of opt] enc_tlv_def)
  then have "?bs \<noteq> []" by (simp add: enc16_def)
  from convert_hex_enc [OF this, of z] obtain z' where
    conv: "CosaDmlMapConvertStringToHexStream (hex_enc ?bs @ 0 # z) = Some (STATUS_SUCCESS, ?bs @ 0 # z', of_nat (length ?bs))"
    by auto
  have "ucast (s46_code opt) \<noteq> (0 :: u8)"
    using assms(7) o by simp
  then have "rd (?bs @ 0 # z') 1 = Some (ucast (s46_code opt))"
    by (simp add: bs enc16_def rd_def)
  moreover have "parse_loop ntop (?bs @ 0 # z') 0 (length ?bs) ?g = Some (Done STATUS_SUCCESS g)"
    using parse_loop_enc [OF assms(1) refl] assms(6) by simp
  ultimately have "CosaDmlMapParseResponse mapt ntop (?bs @ 0 # z') (length ?bs) ?g = Some (STATUS_SUCCESS, g)"
    using assms(8) \<open>ucast (s46_code opt) \<noteq> (0 :: u8)\<close>
    by (auto simp: CosaDmlMapParseResponse_def simp del: rd_Some)
  moreover have "takeWhile (\<lambda>c. c \<noteq> CHR ''/'') (pre @ ''/'' @ show_nat n) = pre"
    "dropWhile (\<lambda>c. c \<noteq> CHR ''/'') (pre @ ''/'' @ show_nat n) = ''/'' @ show_nat n"
    using assms(4) by (auto simp: takeWhile_tail) (subst dropWhile_append2, auto)
  ultimately show ?thesis
    using conv assms(3,5,9) by (simp add: DhcpMgr_MapParseOptResponse_def c_atoi_show_nat unat_of_nat del: length_concat)
qed

theorem map_response_roundtrip_witness:
  "\<exists>g. DhcpMgr_MapParseOptResponse True (\<lambda>bs. concat (map (\<lambda>x. show_nat (unat x) @ '':'') (take 4 bs))) (''2001:db8::'' @ ''/'' @ show_nat 56)
     (hex_enc (concat (map enc_s46 [S46_Rule 1 16 24 [192, 0, 2, 0] 36 [32, 1, 13, 184, 255] (Some (4, 8, 52)),
        S46_Dmr 64 [0, 100, 255, 155, 0, 0, 0, 0]])) @ 0 # []) = Some (g, Some (map_fill g)) \<and>
     Psid g = 52 \<and> PsidLen g = 8 \<and> take 5 (RuleIPv6PrefixH g) = [32, 1, 13, 184, 240]"
proof -
  define ntop where "ntop = (\<lambda>bs :: u8 list. concat (map (\<lambda>x. show_nat (unat x) @ '':'') (take 4 bs)))"
  let ?o = "[S46_Rule 1 16 24 [192, 0, 2, 0] 36 [32, 1, 13, 184, 255] (Some (4, 8, 52)),
        S46_Dmr 64 [0, 100, 255, 155, 0, 0, 0, 0]]"
  define g where "g = fold (s46_apply ntop) ?o
    (map_data_zero\<lparr>PdIPv6Prefix := ''2001:db8::'', PdIPv6PrefixLen := of_nat 56\<rparr>)"
  have "Psid g = 52" "PsidLen g = 8" "take 5 (RuleIPv6PrefixH g) = [32, 1, 13, 184, 240]"
     "RuleIPv6PrefixLen g = 36" "BrIPv6PrefixLen g = 64"
    by (simp_all add: g_def Let_def map_data_zero_def)
  moreover have "DhcpMgr_MapParseOptResponse True ntop (''2001:db8::'' @ ''/'' @ show_nat 56)
      (hex_enc (concat (map enc_s46 ?o)) @ 0 # []) = Some (g, Some (map_fill g))"
    by (rule map_response_roundtrip [OF _ _ _ _ _ g_def])
       (simp_all add: calculation map_option_codes enc_s46_def enc_tlv_def)
  ultimately show ?thesis unfolding ntop_def by blast
qed

text \<open>
  A truncated option fails the parse: when well-formed options are
  followed by an option header whose length runs past the received bytes, the
  parser returns a failure, with exactly the complete options applied.
\<close>

lemma map_truncated:
  assumes "\<forall>opt \<in> set opts. s46_wf opt" and "length part < unat l" and "ucast c \<noteq> (0 :: u8)"
    and "opts \<noteq> [] \<Longrightarrow> (ucast (s46_code (hd opts)) :: u8) \<noteq> 0"
    and "b = concat (map enc_s46 opts) @ enc16 c @ enc16 l @ part"
  shows "CosaDmlMapParseResponse mapt ntop (b @ z) (length b) g =
           Some (STATUS_FAILURE, fold (s46_apply ntop) opts g)"
proof -
  let ?bs = "concat (map enc_s46 opts)" and ?g = "fold (s46_apply ntop) opts g"
  have b: "b @ z = ?bs @ enc16 c @ enc16 l @ part @ z" using assms(5) by simp
  have "rd16 (b @ z) (length ?bs + 2) = Some l"
    by (rule rd16_enc_gen [of _ "?bs @ enc16 c"]) (simp_all add: b)
  moreover have "rd16 (b @ z) (length ?bs) = Some c"
    by (rule rd16_enc_gen [of _ ?bs]) (simp_all add: b)
  ultimately have "parse_loop ntop (b @ z) (length ?bs) (length b) ?g = Some (Done STATUS_FAILURE ?g)"
    using assms(2,5) by (subst parse_loop.simps) (simp add: Let_def del: add_2_eq_Suc')
  moreover have "parse_loop ntop (b @ z) 0 (length b) g = parse_loop ntop (b @ z) (length ?bs) (length b) ?g"
    using parse_loop_enc_then [OF assms(1), of "b @ z" "[]" "enc16 c @ enc16 l @ part @ z" 0 "length b"] assms(5)
    by simp
  moreover have "\<exists>v. rd (b @ z) 1 = Some v \<and> v \<noteq> 0"
    using assms(3,4) b by (cases opts) (auto simp: enc16_def enc_s46_def enc_tlv_def nth_append)
  ultimately show ?thesis
    by (auto simp: CosaDmlMapParseResponse_def simp del: rd_Some)
qed

lemma map_truncated_witness:
  "CosaDmlMapParseResponse False (\<lambda>_. ''x'') (([] @ enc16 89 @ enc16 12 @ [1, 16, 24]) @ [7, 7])
     (length ([] @ enc16 89 @ enc16 12 @ [1, 16, 24])) map_data_zero
   = Some (STATUS_FAILURE, fold (s46_apply (\<lambda>_. ''x'')) [] map_data_zero)"
  by (rule map_truncated [of "[]" "[1, 16, 24]" 12 89]) simp_all

lemma no_dmr_len: "\<forall>opt \<in> set opts. \<not> (\<exists>l p. opt = S46_Dmr l p) \<Longrightarrow>
   BrIPv6PrefixLen (fold (s46_apply ntop) opts g) = BrIPv6PrefixLen g"
proof (induction opts arbitrary: g)
  case (Cons opt opts)
  have "BrIPv6PrefixLen (s46_apply ntop opt g) = BrIPv6PrefixLen g"
  proof (cases opt)
    case (S46_Rule fl ea l4 a4 l6 p6 pp)
    then show ?thesis by (cases pp) (auto simp: Let_def)
  qed (use Cons.prems in auto)
  with Cons show ?case by simp
qed simp

text \<open>
  In a build with MAP-T, options without a DMR are refused whatever
  they hold: a border relay (S46_BR), which is what a MAP-E container carries,
  never sets \<open>BrIPv6PrefixLen\<close>, so a complete MAP-E response fails the check
  for the mandatory options.
\<close>

lemma map_e_refused:
  assumes "\<forall>opt \<in> set opts. s46_wf opt \<and> \<not> (\<exists>l p. opt = S46_Dmr l p)" and "BrIPv6PrefixLen g = 0"
    and "length (concat (map enc_s46 opts)) > 1"
  shows "\<exists>g'. CosaDmlMapParseResponse True ntop (concat (map enc_s46 opts) @ z) (length (concat (map enc_s46 opts))) g
     = Some (STATUS_FAILURE, g')"
proof -
  let ?bs = "concat (map enc_s46 opts)"
  have pl: "parse_loop ntop (?bs @ z) 0 (length ?bs) g = Some (Done STATUS_SUCCESS (fold (s46_apply ntop) opts g))"
    using assms(1) by (intro parse_loop_enc [OF _ refl]) auto
  have "BrIPv6PrefixLen (fold (s46_apply ntop) opts g) = 0"
    using no_dmr_len [of opts ntop g] assms(1,2) by simp
  with pl assms(3) show ?thesis
    by (auto simp: CosaDmlMapParseResponse_def rd_def)
qed

theorem map_e_refused_witness:
  "\<exists>g'. CosaDmlMapParseResponse True (\<lambda>_. ''x'')
     (concat (map enc_s46 [S46_Rule 1 16 24 [192, 0, 2, 0] 32 [32, 1, 13, 184] None,
        S46_Br (replicate 16 1)]) @ [0])
     (length (concat (map enc_s46 [S46_Rule 1 16 24 [192, 0, 2, 0] 32 [32, 1, 13, 184] None,
        S46_Br (replicate 16 1)]))) map_data_zero = Some (STATUS_FAILURE, g')"
  by (rule map_e_refused) (auto simp: map_data_zero_def enc_s46_def enc_tlv_def)

end
