(* ===== verification/Map_Safety.thy ===== *)
theory Map_Safety
  imports Map_Codec
begin

text \<open>
  What the MAP parser (\<open>Map_Option\<close>) does on arbitrary bytes from the network:
  where it stays inside its buffers, the ranges of the port parameters it lets
  through, and the inputs on which it does neither.
\<close>

unbundle bit_operations_syntax

section \<open>The options a parse visits\<close>

text \<open>
  The type and the payload index of every complete option from \<open>s\<close> to \<open>e\<close>; an
  option fits when the prefix that the parser copies fits into \<open>BUFLEN_24\<close>.
\<close>

function (sequential) option_heads :: "u8 list \<Rightarrow> nat \<Rightarrow> nat \<Rightarrow> (u16 \<times> nat) list" where
  "option_heads b s e =
     (if \<not> s + 4 \<le> e then []
      else (case (rd16 b s, rd16 b (s + 2)) of
              (Some opt, Some l) \<Rightarrow> if s + 4 + unat l > e then [] else (opt, s + 4) # option_heads b (s + 4 + unat l) e
            | _ \<Rightarrow> []))"
  by pat_completeness auto
termination
  by (relation "measure (\<lambda>(b, s, e). e - s)") auto

declare option_heads.simps [simp del]

fun head_fits :: "u8 list \<Rightarrow> u16 \<times> nat \<Rightarrow> bool" where
  "head_fits b (opt, cur) \<longleftrightarrow> (opt = MAP_OPTION_S46_RULE \<longrightarrow> unat (b ! (cur + 7)) \<le> 192) \<and>
     (opt = MAP_OPTION_S46_DMR \<longrightarrow> unat (b ! cur) < 200)"

definition psid_ok :: "COSA_DML_MAP_DATA \<Rightarrow> bool" where
  "psid_ok g \<longleftrightarrow> PsidOffset g \<le> 15 \<and> PsidLen g \<le> 16 \<and> unat (Psid g) < 2 ^ unat (PsidLen g)"

definition sample_bytes :: "u8 list" where
  "sample_bytes = [0,89, 0,20, 1,16,24,192,0,2,0,32,32,1,13,184, 0,93, 0,4, 4,8,52,0,
     0,91, 0,9, 64,0,100,255,155,0,0,0,0]"

section \<open>Ranges\<close>

lemma drop_bit_word_less: "k \<le> 16 \<Longrightarrow> unat (drop_bit (16 - k) (p :: u16)) < 2 ^ k"
proof -
  assume k: "k \<le> 16"
  have "unat p < 2 ^ 16" using unsigned_less [of p] by simp
  also have "(2 ^ 16 :: nat) = 2 ^ (16 - k) * 2 ^ k"
    using k by (simp add: power_add [symmetric])
  finally have "unat p div 2 ^ (16 - k) < 2 ^ k"
    by (simp add: less_mult_imp_div_less mult.commute)
  then show ?thesis unfolding unat_drop_bit_eq by (simp add: drop_bit_eq_div)
qed

lemma psid_ok_zero: "psid_ok map_data_zero"
  by (simp add: psid_ok_def map_data_zero_def)

lemma parse_port_params_psid:
  "parse_port_params b cur g = Some (Go g') \<Longrightarrow> psid_ok g \<Longrightarrow> psid_ok g'"
  by (auto simp: parse_port_params_def psid_ok_def Let_def drop_bit_word_less word_le_nat_alt linorder_not_less split: option.splits if_splits)

lemma parse_rule_psid:
  assumes "parse_rule ntop b cur l g = Some (Go g')" and "psid_ok g"
  shows "psid_ok g'"
proof -
  have base: "psid_ok (g\<lparr>bFMR := f, EaLen := e, RuleIPv4PrefixLen := l4, RuleIPv4Prefix := p4,
      RuleIPv6PrefixLen := l6, RuleIPv6PrefixH := h, RuleIPv6Prefix := p6, PsidOffset := 6\<rparr>)"
    for f e l4 p4 l6 h p6
    using assms(2) by (simp add: psid_ok_def)
  from assms(1) show ?thesis
    by (auto simp: parse_rule_def Let_def base split: option.splits if_splits
        elim!: parse_port_params_psid [OF _ base])
qed

lemma parse_option_psid:
  "parse_option ntop b opt cur l g = Some (Go g') \<Longrightarrow> psid_ok g \<Longrightarrow> psid_ok g'"
  by (auto simp: parse_option_def parse_br_def parse_dmr_def psid_ok_def[of g'] psid_ok_def[of g] split: option.splits if_splits dest: parse_rule_psid)

lemma parse_loop_invariant:
  assumes step: "\<And>opt cur l g g'. P g \<Longrightarrow> parse_option ntop b opt cur l g = Some (Go g') \<Longrightarrow> P g'"
    and "P g" and "parse_loop ntop b s e g = Some (Done st g')"
  shows "P g'"
  using assms(2,3)
proof (induction "e - s" arbitrary: s g rule: less_induct)
  case less
  show ?case
  proof (cases "s + 4 \<le> e")
    case False
    with less.prems show ?thesis by (simp add: parse_loop.simps [of _ _ s])
  next
    case True
    consider "g' = g" | l opt g1 where "\<not> e < s + 4 + unat l"
        "parse_option ntop b opt (s + 4) l g = Some (Go g1)"
        "parse_loop ntop b (s + 4 + unat l) e g1 = Some (Done st g')"
      using less.prems(2) True
      by (auto simp: parse_loop.simps [of _ _ s] Let_def split: if_splits option.splits opt_result.splits)
    then show ?thesis
    proof cases
      case 1
      with less.prems(1) show ?thesis by simp
    next
      case (2 l opt g1)
      from 2(1) have "e - (s + 4 + unat l) < e - s" using True by simp
      from less.hyps [OF this step [OF less.prems(1) 2(2)] 2(3)] show ?thesis .
    qed
  qed
qed

text \<open>
  Claim C34. Whatever the bytes of the option, a response that the parser accepts
  has a PSID offset of at most 15, a PSID length of at most 16 and a PSID that
  fits its length; in a build with MAP-T the rule and the DMR prefix lengths are
  not zero.
\<close>

theorem map_parse_psid_range:
  assumes "DhcpMgr_MapParseOptResponse mapt ntop p b = Some (g, Some m)"
  shows "unat (map_psidOffset m) \<le> 15 \<and> unat (map_psidLen m) \<le> 16 \<and> unat (map_psid m) < 2 ^ unat (map_psidLen m) \<and>
     (mapt \<longrightarrow> map_v6Len m \<noteq> 0 \<and> BrIPv6PrefixLen g \<noteq> 0)"
proof -
  from assms obtain b' len g0 where
    pr: "CosaDmlMapParseResponse mapt ntop b' len g0 = Some (STATUS_SUCCESS, g)" and m: "m = map_fill g"
    and g0: "psid_ok g0"
    by (auto simp: DhcpMgr_MapParseOptResponse_def Let_def psid_ok_def map_data_zero_def
        split: option.splits prod.splits RETURN_STATUS.splits if_splits)
  from pr obtain st where pl: "parse_loop ntop b' 0 len g0 = Some (Done st g)"
    and mand: "mapt \<longrightarrow> RuleIPv6PrefixLen g \<noteq> 0 \<and> BrIPv6PrefixLen g \<noteq> 0"
    by (auto simp: CosaDmlMapParseResponse_def split: option.splits loop_exit.splits if_splits)
  have "psid_ok g"
    by (rule parse_loop_invariant [where P = psid_ok, OF _ g0 pl]) (rule parse_option_psid)
  with mand m show ?thesis
    by (simp add: psid_ok_def map_fill_def word_le_nat_alt)
qed


lemma sample_parse: "case DhcpMgr_MapParseOptResponse True (\<lambda>_. ''x'') ''2001:db8::/56'' (hex_enc sample_bytes @ replicate 10 0) of
   Some (g, Some m) \<Rightarrow> map_psid m = 52 \<and> map_psidLen m = 8 | _ \<Rightarrow> False"
  by code_simp

theorem map_parse_psid_range_witness:
  "case DhcpMgr_MapParseOptResponse True (\<lambda>_. ''x'') ''2001:db8::/56'' (hex_enc sample_bytes @ replicate 10 0) of
     Some (g, Some m) \<Rightarrow> unat (map_psid m) < 2 ^ unat (map_psidLen m) \<and> map_psid m = 52
   | _ \<Rightarrow> False"
  using sample_parse map_parse_psid_range [of True "\<lambda>_. ''x''" "''2001:db8::/56''" "hex_enc sample_bytes @ replicate 10 0"]
  by (auto split: option.splits)

section \<open>Memory safety\<close>

lemma hex_loop_Some_cases:
  assumes "hex_loop b r w n = Some res"
  obtains "res = (b[w := 0], n)"
  | r' v where "hex_loop (b[w := v]) r' (Suc w) (n + 1) = Some res" and "r + 2 \<le> r'" and "r' \<le> length b"
  using assms
  by (auto simp: hex_loop.simps [of b r w n] Let_def wr_def rd_def split: if_splits)

lemma unat_inc_le: "unat (n + 1) \<le> unat (n :: u16) + 1"
  by (simp add: unat_word_ariths)

lemma hex_loop_length:
  "hex_loop b r w n = Some (b', m) \<Longrightarrow> r \<le> length b \<Longrightarrow> length b' = length b \<and> 2 * unat m + r \<le> length b + 2 * unat n"
proof (induction "length b - r" arbitrary: b r w n rule: less_induct)
  case less
  from less.prems(1) show ?case
  proof (cases rule: hex_loop_Some_cases)
    case 1
    with less.prems show ?thesis by simp
  next
    case (2 r' v)
    then have "length (b[w := v]) - r' < length b - r" by simp
    from less.hyps [OF this 2(1)] 2(2,3) have "length b' = length b" "2 * unat m + r' \<le> length b + 2 * unat (n + 1)" by simp_all
    with 2(2) unat_inc_le [of n] show ?thesis by linarith
  qed
qed

lemma hex_loop_safe:
  "r \<le> k \<Longrightarrow> k < length b \<Longrightarrow> b ! k = 0 \<Longrightarrow> (\<forall>i. r \<le> i \<and> i < k \<longrightarrow> b ! i \<noteq> 58) \<Longrightarrow> w \<le> r \<Longrightarrow>
   hex_loop b r w n \<noteq> None"
proof (induction "k - r" arbitrary: b r w n rule: less_induct)
  case less
  show ?case
  proof (cases "b ! r = 0 \<or> b ! Suc r = 0")
    case True
    have "Suc r < length b" if "b ! r \<noteq> 0" using that less.prems by (cases "r = k") auto
    with True less.prems show ?thesis by (subst hex_loop.simps) (auto simp: rd_def wr_def)
  next
    case False
    with less.prems have k: "r + 2 \<le> k" by (cases "r = k"; cases "Suc r = k") auto
    let ?b = "b[w := hex_pair (b ! r) (b ! Suc r)]"
    have "hex_loop b r w n = hex_loop ?b (r + 2) (Suc w) (n + 1)"
      using False less.prems k by (intro hex_loop_step) auto
    moreover have "hex_loop ?b (r + 2) (Suc w) (n + 1) \<noteq> None"
      using less.prems k by (intro less.hyps) auto
    ultimately show ?thesis by simp
  qed
qed

text \<open>
  The conversion of the hex digits stays inside its buffer for every
  string without a colon: it returns, keeps the length of the buffer, and
  reports at most half as many bytes as the buffer has.
\<close>

lemma map_convert_safe:
  assumes "k < length b" and "b ! k = 0" and "\<forall>i < k. b ! i \<noteq> 58" and "b ! 0 \<noteq> 0"
  shows "\<exists>b' n. CosaDmlMapConvertStringToHexStream b = Some (STATUS_SUCCESS, b', n) \<and> length b' = length b \<and> 2 * unat n \<le> length b"
proof -
  let ?r = "if b ! 0 = 39 then 1 else 0 :: nat"
  have k0: "0 < k" using assms by (cases k) auto
  then have rk: "?r \<le> k" by simp
  let ?l = "length (takeWhile (\<lambda>c. c \<noteq> 0) (drop ?r b))"
  have nz: "(drop ?r b) ! (k - ?r) = 0" using assms rk by simp
  have lk: "?r + ?l \<le> k"
  proof (rule ccontr)
    assume "\<not> ?thesis"
    with rk have "k - ?r < ?l" by (simp split: if_splits)
    then have "drop ?r b ! (k - ?r) \<noteq> 0" by (metis (mono_tags, lifting) nth_mem set_takeWhileD takeWhile_nth)
    with nz show False by simp
  qed
  have pos: "0 < ?r + ?l"
    using assms(1,4) by (cases b) auto
  let ?b1 = "if b ! (?r + ?l - 1) = 39 then b[?r + ?l - 1 := 0] else b"
  have len: "length ?b1 = length b" by simp
  have "?b1 ! k = 0" using assms(1,2) lk pos by (cases "?r + ?l - 1 = k") auto
  moreover have "\<forall>i. ?r \<le> i \<and> i < k \<longrightarrow> ?b1 ! i \<noteq> 58"
    using assms(1,3) lk by (auto simp: nth_list_update split: if_splits)
  ultimately have "hex_loop ?b1 ?r 0 0 \<noteq> None"
    using rk assms(1) by (intro hex_loop_safe [of _ k]) auto
  then obtain b' n where h: "hex_loop ?b1 ?r 0 0 = Some (b', n)" by auto
  with hex_loop_length [OF h] len rk assms(1) have "length b' = length b" "2 * unat n \<le> length b" by auto
  moreover have "CosaDmlMapConvertStringToHexStream b = Some (STATUS_SUCCESS, b', n)"
    using h pos lk assms(1)
    by (auto simp: CosaDmlMapConvertStringToHexStream_def rd_def c_strlen_def Let_def split: if_splits)
  ultimately show ?thesis by blast
qed


theorem map_convert_safe_witness:
  "\<exists>b' n. CosaDmlMapConvertStringToHexStream [39, 48, 48, 53, 57, 39, 0, 58] = Some (STATUS_SUCCESS, b', n)
     \<and> length b' = length [39, 48, 48, 53, 57, 39, 0, 58 :: u8] \<and> 2 * unat n \<le> length [39, 48, 48, 53, 57, 39, 0, 58 :: u8]"
  by (rule map_convert_safe [of 6]) code_simp+

lemma parse_port_params_safe: "cur + 8 \<le> length b \<Longrightarrow> parse_port_params b cur g \<noteq> None"
  by (auto simp: parse_port_params_def rd16_def rd_def Let_def)

lemma parse_rule_safe:
  assumes "cur + 40 \<le> length b" and "unat (b ! (cur + 7)) \<le> 192"
  shows "parse_rule ntop b cur l g \<noteq> None"
proof -
  let ?n = "unat (b ! (cur + 7)) div 8 + (if unat (b ! (cur + 7)) mod 8 \<noteq> 0 then 1 else 0)"
  have "?n = (unat (b ! (cur + 7)) + 7) div 8" by (simp add: ceil8)
  also have "\<dots> \<le> 24" using assms(2) by linarith
  finally have n: "?n \<le> 24" .
  have "rd_bytes b (cur + 3) 4 4 \<noteq> None" "rd_bytes b (cur + 8) ?n 24 \<noteq> None"
    using assms(1) n by (auto simp: rd_bytes_def)
  moreover have "parse_port_params b (cur + 8 + ?n) g' \<noteq> None" for g'
    using assms(1) n by (intro parse_port_params_safe) linarith
  ultimately show ?thesis
    using assms(1) by (auto simp: parse_rule_def rd_def Let_def)
qed

lemma parse_option_safe:
  assumes "cur + 40 \<le> length b" and "head_fits b (opt, cur)"
  shows "parse_option ntop b opt cur l g \<noteq> None"
proof -
  have "parse_br ntop b cur g \<noteq> None"
    using assms(1) by (simp add: parse_br_def rd_bytes_def)
  moreover have "parse_dmr ntop b cur g \<noteq> None" if "unat (b ! cur) < 200"
  proof -
    from that have "unat (b ! cur) div 8 \<le> 24" by linarith
    with assms(1) show ?thesis by (auto simp: parse_dmr_def rd_def rd_bytes_def)
  qed
  ultimately show ?thesis
    using assms parse_rule_safe [OF assms(1)] by (auto simp: parse_option_def)
qed

lemma parse_loop_safe:
  "e + 40 \<le> length b \<Longrightarrow> \<forall>h \<in> set (option_heads b s e). head_fits b h \<Longrightarrow> parse_loop ntop b s e g \<noteq> None"
proof (induction "e - s" arbitrary: s g rule: less_induct)
  case less
  show ?case
  proof (cases "s + 4 \<le> e")
    case False
    then show ?thesis by (subst parse_loop.simps) simp
  next
    case True
    with less.prems(1) obtain l opt where l: "rd16 b (s + 2) = Some l" "rd16 b s = Some opt"
      by (auto simp: rd16_SomeI)
    show ?thesis
    proof (cases "e < s + 4 + unat l")
      case True
      with l show ?thesis by (subst parse_loop.simps) (simp add: Let_def del: add_2_eq_Suc')
    next
      case False
      have h: "option_heads b s e = (opt, s + 4) # option_heads b (s + 4 + unat l) e"
        using \<open>s + 4 \<le> e\<close> False l by (subst option_heads.simps) (simp del: add_2_eq_Suc')
      have po: "parse_option ntop b opt (s + 4) l g \<noteq> None"
        using less.prems h \<open>s + 4 \<le> e\<close> by (intro parse_option_safe) auto
      have rec: "parse_loop ntop b (s + 4 + unat l) e g' \<noteq> None" for g'
        using less.prems h \<open>s + 4 \<le> e\<close> False by (intro less.hyps) auto
      show ?thesis
        using l False \<open>s + 4 \<le> e\<close> po rec
        by (subst parse_loop.simps) (auto simp: Let_def simp del: add_2_eq_Suc' split: opt_result.splits)
    qed
  qed
qed
text \<open>
  Claim C33. The parser stays inside its buffers when the buffer has 40 bytes
  after the option (the caller's buffer of 256 bytes holds at most 128 bytes of
  option) and every complete rule has a prefix length of at most 192 and every
  DMR one below 200: it always returns a status.
\<close>

theorem map_parse_safe:
  assumes "len + 40 \<le> length b" and "\<forall>h \<in> set (option_heads b 0 len). head_fits b h"
  shows "\<exists>st g'. CosaDmlMapParseResponse mapt ntop b len g = Some (st, g')"
  using parse_loop_safe [OF assms, of ntop g] assms(1)
  by (auto simp: CosaDmlMapParseResponse_def rd_def split: loop_exit.splits)


theorem map_parse_safe_witness:
  "\<exists>st g'. CosaDmlMapParseResponse True (\<lambda>_. ''x'') (sample_bytes @ replicate 40 0) 37 map_data_zero = Some (st, g')"
proof (rule map_parse_safe)
  show "37 + 40 \<le> length (sample_bytes @ replicate 40 0)" by code_simp
  show "\<forall>h \<in> set (option_heads (sample_bytes @ replicate 40 0) 0 37). head_fits (sample_bytes @ replicate 40 0) h"
    by code_simp
qed

text \<open>
  The bound on the rule prefix is necessary: a rule whose prefix length
  byte exceeds 192 makes the parser copy more than the 24 bytes of \<open>v6Addr\<close>,
  whatever else the option holds. The length comes from the network and the
  source does not check it.
\<close>

lemma map_rule_overflow:
  assumes "192 < unat (b ! (cur + 7))"
  shows "parse_rule ntop b cur l g = None"
proof -
  let ?n = "unat (b ! (cur + 7)) div 8 + (if unat (b ! (cur + 7)) mod 8 \<noteq> 0 then 1 else 0)"
  have "?n = (unat (b ! (cur + 7)) + 7) div 8" by (simp add: ceil8)
  also have "\<dots> > 24" using assms by linarith
  finally have "rd_bytes b i ?n 24 = None" for i by (simp add: rd_bytes_def)
  then show ?thesis
    by (auto simp: parse_rule_def rd_def Let_def split: option.splits)
qed


theorem map_rule_overflow_witness:
  "192 < unat ([1, 16, 24, 192, 0, 2, 0, 255 :: u8] ! (0 + 7)) \<and>
   parse_rule (\<lambda>_. ''x'') [1, 16, 24, 192, 0, 2, 0, 255] 0 40 map_data_zero = None"
  using map_rule_overflow [of "[1, 16, 24, 192, 0, 2, 0, 255]" 0] by simp

section \<open>Two rules in one response\<close>

text \<open>
  The data are not reset between rules. A second rule without port parameters
  sets the default offset 6 and keeps the PSID and the PSID length of the first:
  the two then describe 22 bits of a 16 bit port. A second rule with a shorter
  prefix keeps the tail of the first one's prefix bytes.
\<close>

lemma map_stale_psid:
  "case CosaDmlMapParseResponse False (\<lambda>_. ''x'') 
     ([0,89, 0,20, 1,16,24,192,0,2,0,32,32,1,13,184, 0,93, 0,4, 0,16,171,205] @
      [0,89, 0,12, 1,16,24,192,0,3,0,32,32,1,13,185]) 40 map_data_zero of
     Some (st, g) \<Rightarrow> st = STATUS_SUCCESS \<and> unat (PsidOffset g) + unat (PsidLen g) = 22 \<and> Psid g = 43981 | None \<Rightarrow> False"
  by code_simp

lemma map_stale_prefix:
  "case CosaDmlMapParseResponse False (\<lambda>_. ''x'') 
     ([0,89, 0,14, 1,16,24,192,0,2,0,48,32,1,13,184,18,52] @
      [0,89, 0,12, 1,16,24,192,0,3,0,32,32,1,13,185]) 34 map_data_zero of
     Some (st, g) \<Rightarrow> st = STATUS_SUCCESS \<and> RuleIPv6PrefixLen g = 32 \<and>
        take 6 (RuleIPv6PrefixH g) = [32,1,13,185,18,52] | None \<Rightarrow> False"
  by code_simp

text \<open>
  A colon before the last digit makes the conversion step over the terminating
  NUL and convert what follows it.
\<close>

lemma map_colon_overrun:
  "map_option (\<lambda>(st, b, n). (n, b ! 2)) (CosaDmlMapConvertStringToHexStream [49,50, 58,97, 0, 51,52, 0, 0]) = Some (3, 52)"
  by code_simp

end
