(* ===== verification/Fifo_Spec.thy ===== *)
theory Fifo_Spec
  imports Dhcp_Prelude
begin

text \<open>
  The interface of the queues of the program: the ring of the event layer
  (\<open>ifl_queue_impl.c\<close>) and the POSIX message queue between the data model and
  the per-interface controller. A queue promises that an accepted element is
  appended to its contents and that \<open>deq\<close> removes from the front; the client
  lemmas (elements come out in the order in which they went in, none is lost)
  are proved here once and reach the components through interpretations.
\<close>

locale fifo =
  fixes enq :: "'a \<Rightarrow> 'q \<Rightarrow> 'q option"
    and deq :: "'q \<Rightarrow> ('a \<times> 'q) option"
    and contents :: "'q \<Rightarrow> 'a list"
    and invar :: "'q \<Rightarrow> bool"
  assumes enq_contents: "invar s \<Longrightarrow> enq x s = Some t \<Longrightarrow> contents t = contents s @ [x]"
    and enq_invar: "invar s \<Longrightarrow> enq x s = Some t \<Longrightarrow> invar t"
    and deq_empty: "invar s \<Longrightarrow> deq s = None \<longleftrightarrow> contents s = []"
    and deq_contents: "invar s \<Longrightarrow> deq s = Some (x, t) \<Longrightarrow> contents s = x # contents t"
    and deq_invar: "invar s \<Longrightarrow> deq s = Some (x, t) \<Longrightarrow> invar t"
begin

fun enq_all :: "'a list \<Rightarrow> 'q \<Rightarrow> 'q option" where
  "enq_all [] s = Some s"
| "enq_all (x # xs) s = (case enq x s of None \<Rightarrow> None | Some t \<Rightarrow> enq_all xs t)"

fun deq_many :: "nat \<Rightarrow> 'q \<Rightarrow> ('a list \<times> 'q) option" where
  "deq_many 0 s = Some ([], s)"
| "deq_many (Suc n) s =
     (case deq s of None \<Rightarrow> None
      | Some (x, t) \<Rightarrow> (case deq_many n t of None \<Rightarrow> None | Some (xs, u) \<Rightarrow> Some (x # xs, u)))"

lemma enq_all_contents:
  "invar s \<Longrightarrow> enq_all xs s = Some t \<Longrightarrow> contents t = contents s @ xs \<and> invar t"
proof (induction xs arbitrary: s)
  case Nil
  then show ?case by simp
next
  case (Cons x xs)
  then obtain u where "enq x s = Some u" and "enq_all xs u = Some t"
    by (auto split: option.splits)
  with Cons.prems(1) have "contents u = contents s @ [x]" and "invar u"
    by (auto intro: enq_contents enq_invar)
  with Cons.IH [of u] \<open>enq_all xs u = Some t\<close> show ?case
    by simp
qed

lemma deq_many_prefix:
  "invar s \<Longrightarrow> n \<le> length (contents s) \<Longrightarrow>
   \<exists>t. deq_many n s = Some (take n (contents s), t) \<and> contents t = drop n (contents s) \<and> invar t"
proof (induction n arbitrary: s)
  case 0
  then show ?case by simp
next
  case (Suc n)
  then obtain x u where u: "deq s = Some (x, u)"
    using deq_empty [of s] by (cases "deq s") auto
  with Suc.prems have "contents s = x # contents u" and "invar u"
    by (auto dest: deq_contents deq_invar)
  with Suc.IH [of u] Suc.prems(2) u show ?case
    by auto
qed

text \<open>First in, first out: draining a queue that accepted \<open>xs\<close> returns the old contents, then \<open>xs\<close>.\<close>

lemma fifo_order:
  assumes "invar s" and "enq_all xs s = Some t"
  shows "\<exists>u. deq_many (length (contents s) + length xs) t = Some (contents s @ xs, u) \<and> contents u = []"
proof -
  from enq_all_contents [OF assms] have c: "contents t = contents s @ xs" and i: "invar t"
    by auto
  from deq_many_prefix [OF i, of "length (contents s) + length xs"] c show ?thesis
    by auto
qed

end

text \<open>A queue with a capacity refuses an element exactly when it is full, and never holds more.\<close>

locale bounded_fifo = fifo +
  fixes capacity :: nat
  assumes enq_full: "invar s \<Longrightarrow> enq x s = None \<longleftrightarrow> length (contents s) = capacity"
    and within_capacity: "invar s \<Longrightarrow> length (contents s) \<le> capacity"
begin

lemma enq_all_fits:
  "invar s \<Longrightarrow> length (contents s) + length xs \<le> capacity \<Longrightarrow> \<exists>t. enq_all xs s = Some t"
proof (induction xs arbitrary: s)
  case Nil
  then show ?case by simp
next
  case (Cons x xs)
  then have "enq x s \<noteq> None"
    using enq_full [of s x] by auto
  then obtain u where u: "enq x s = Some u"
    by auto
  with Cons.prems(1) have "contents u = contents s @ [x]" and "invar u"
    by (auto dest: enq_contents enq_invar)
  with Cons.IH [of u] Cons.prems(2) u show ?case
    by simp
qed

end

end
