(* ===== verification/Ring_Queue.thy ===== *)
theory Ring_Queue
  imports Fifo_Spec
begin

text \<open>
  The queue of the event layer, \<open>source/DHCPMgrInterface/ifl_queue_impl.c\<close>: a
  ring of \<open>IFL_MAX_QLEN\<close> slots with \<open>head\<close>, \<open>tail\<close> and a \<open>full\<close> flag, and a
  global count of the queues created. The last free slot is filled without
  moving \<open>tail\<close>; \<open>full\<close> records that, and the next pop moves \<open>tail\<close> too. The
  theory shows that the ring is a bounded FIFO queue of exactly
  \<open>IFL_MAX_QLEN\<close> elements.
\<close>

section \<open>Data\<close>

definition IFL_MAX_QLEN :: nat where
  "IFL_MAX_QLEN = 12"

definition IFL_MAX_QUEUE :: nat where
  "IFL_MAX_QUEUE = 4"

datatype ifl_ret =
    IFL_SUCCESS | IFL_ARG_INVALID | IFL_MEMORY_ERROR | IFL_Q_CREATE_ERROR | IFL_Q_PUSH_ERROR
  | IFL_Q_POP_ERROR | IFL_THRD_CREATE_ERROR | IFL_THRD_PROP_ERROR | IFL_LOCK_INIT_ERROR
  | IFL_LOCK_ERROR | IFL_LOCK_BUSY | IFL_UNLOCK_ERROR | IFL_DEADLOCK | IFL_SYSEVENT_ERROR
  | IFL_ERROR

record 'a ifl_qInstance =
  q_data :: "'a list"
  q_head :: nat
  q_tail :: nat
  q_full :: bool

section \<open>Operations\<close>

text \<open>
  \<open>createQ\<close>: the slots of a fresh queue hold whatever \<open>malloc\<close> returned; the
  argument \<open>mem\<close> is that memory, \<open>None\<close> where \<open>malloc\<close> returned NULL (the
  code then writes through it: the result is \<open>None\<close>). The count \<open>qInstIdx\<close>
  and the handle are returned with the status.
\<close>

definition createQ ::
  "'a list option \<Rightarrow> 'a ifl_qInstance option \<Rightarrow> nat \<Rightarrow> (ifl_ret \<times> 'a ifl_qInstance option \<times> nat) option" where
  "createQ mem qHdl qInstIdx =
     (if qInstIdx < IFL_MAX_QUEUE
      then (case mem of
              None \<Rightarrow> None
            | Some m \<Rightarrow> Some (IFL_SUCCESS, Some \<lparr>q_data = m, q_head = 0, q_tail = 0, q_full = False\<rparr>, Suc qInstIdx))
      else Some (IFL_ERROR, qHdl, qInstIdx))"

definition pushToQ :: "'a ifl_qInstance option \<Rightarrow> 'a \<Rightarrow> ifl_ret \<times> 'a ifl_qInstance option" where
  "pushToQ qHdl qdata =
     (case qHdl of
        None \<Rightarrow> (IFL_ERROR, None)
      | Some s \<Rightarrow>
          (if \<not> q_full s
           then let s1 = s\<lparr>q_data := (q_data s)[q_tail s := qdata]\<rparr>
                in (IFL_SUCCESS,
                    Some (if (q_tail s1 + 1) mod IFL_MAX_QLEN \<noteq> q_head s1
                          then s1\<lparr>q_tail := (q_tail s1 + 1) mod IFL_MAX_QLEN\<rparr>
                          else s1\<lparr>q_full := \<not> q_full s1\<rparr>))
           else (IFL_ERROR, Some s)))"

definition popFromQ ::
  "'a ifl_qInstance option \<Rightarrow> ifl_ret \<times> 'a option \<times> 'a ifl_qInstance option" where
  "popFromQ qHdl =
     (case qHdl of
        None \<Rightarrow> (IFL_ERROR, None, None)
      | Some s \<Rightarrow>
          (if q_head s \<noteq> q_tail s
           then let v = q_data s ! q_head s;
                    s1 = s\<lparr>q_head := (q_head s + 1) mod IFL_MAX_QLEN\<rparr>
                in (IFL_SUCCESS, Some v,
                    Some (if q_full s1
                          then s1\<lparr>q_tail := (q_tail s1 + 1) mod IFL_MAX_QLEN, q_full := \<not> q_full s1\<rparr>
                          else s1))
           else (IFL_ERROR, None, Some s)))"

text \<open>
  \<open>destroyQ\<close> takes the address of the handle; \<open>None\<close> is a NULL address. With
  no queue left the code prints \<open>*qHdl\<close>, which a NULL address makes undefined.
\<close>

definition destroyQ ::
  "'a ifl_qInstance option option \<Rightarrow> nat \<Rightarrow> (ifl_ret \<times> 'a ifl_qInstance option option \<times> nat) option" where
  "destroyQ qHdl qInstIdx =
     (if qInstIdx \<noteq> 0
      then (case qHdl of
              Some (Some _) \<Rightarrow> Some (IFL_SUCCESS, Some None, qInstIdx - 1)
            | _ \<Rightarrow> Some (IFL_ERROR, qHdl, qInstIdx))
      else (case qHdl of None \<Rightarrow> None | Some _ \<Rightarrow> Some (IFL_ERROR, qHdl, qInstIdx)))"

section \<open>Invariant and abstraction\<close>

definition ring_ok :: "'a ifl_qInstance \<Rightarrow> bool" where
  "ring_ok s \<longleftrightarrow> length (q_data s) = IFL_MAX_QLEN \<and> q_head s < IFL_MAX_QLEN \<and> q_tail s < IFL_MAX_QLEN \<and>
     (q_full s \<longrightarrow> (q_tail s + 1) mod IFL_MAX_QLEN = q_head s)"

definition ring_count :: "'a ifl_qInstance \<Rightarrow> nat" where
  "ring_count s = (q_tail s + IFL_MAX_QLEN - q_head s) mod IFL_MAX_QLEN + (if q_full s then 1 else 0)"

definition ring_list :: "'a ifl_qInstance \<Rightarrow> 'a list" where
  "ring_list s = map (\<lambda>i. q_data s ! ((q_head s + i) mod IFL_MAX_QLEN)) [0..<ring_count s]"

lemmas ring_defs = ring_ok_def ring_count_def ring_list_def IFL_MAX_QLEN_def

lemma length_ring_list [simp]: "length (ring_list s) = ring_count s"
  by (simp add: ring_list_def)

text \<open>
  The index arithmetic without \<open>mod\<close>: every sum of two indices is below twice
  the length of the ring.
\<close>

lemma ring_succ: "i < IFL_MAX_QLEN \<Longrightarrow> (i + 1) mod IFL_MAX_QLEN = (if i = 11 then 0 else i + 1)"
  by (simp add: IFL_MAX_QLEN_def mod_below_twice)

lemma ring_dist:
  "h < IFL_MAX_QLEN \<Longrightarrow> t < IFL_MAX_QLEN \<Longrightarrow>
   (t + IFL_MAX_QLEN - h) mod IFL_MAX_QLEN = (if h \<le> t then t - h else t + IFL_MAX_QLEN - h)"
  by (simp add: mod_below_twice)

lemma ring_shift:
  "h < IFL_MAX_QLEN \<Longrightarrow> i \<le> IFL_MAX_QLEN \<Longrightarrow>
   (h + i) mod IFL_MAX_QLEN = (if h + i < IFL_MAX_QLEN then h + i else h + i - IFL_MAX_QLEN)"
  by (simp add: mod_below_twice)

lemma ring_okD:
  assumes "ring_ok s"
  shows "length (q_data s) = 12" and "q_head s < 12" and "q_tail s < 12"
    and "q_full s \<Longrightarrow> (if q_tail s = 11 then 0 else q_tail s + 1) = q_head s"
    and "ring_count s = (if q_head s \<le> q_tail s then q_tail s - q_head s else q_tail s + 12 - q_head s)
           + (if q_full s then 1 else 0)"
proof -
  from assms show "length (q_data s) = 12" and "q_head s < 12" and "q_tail s < 12"
    by (auto simp: ring_defs)
  from assms show "q_full s \<Longrightarrow> (if q_tail s = 11 then 0 else q_tail s + 1) = q_head s"
    using ring_succ [of "q_tail s"] by (simp add: ring_ok_def)
  from assms show "ring_count s = (if q_head s \<le> q_tail s then q_tail s - q_head s else q_tail s + 12 - q_head s)
           + (if q_full s then 1 else 0)"
    using ring_dist [of "q_head s" "q_tail s"] by (simp add: ring_ok_def ring_count_def) (simp add: IFL_MAX_QLEN_def)
qed

lemma ring_count_le: "ring_ok s \<Longrightarrow> ring_count s \<le> IFL_MAX_QLEN"
  using ring_okD [of s] by (auto simp: IFL_MAX_QLEN_def split: if_splits)

lemma ring_full_count: "ring_ok s \<Longrightarrow> q_full s \<longleftrightarrow> ring_count s = IFL_MAX_QLEN"
  using ring_okD [of s] by (auto simp: IFL_MAX_QLEN_def split: if_splits)

lemma ring_empty_count: "ring_ok s \<Longrightarrow> q_head s = q_tail s \<longleftrightarrow> ring_count s = 0"
  using ring_okD [of s] by (auto split: if_splits)

text \<open>The slot that a push writes is the one after the last element of the queue.\<close>

lemma ring_tail_slot:
  "ring_ok s \<Longrightarrow> \<not> q_full s \<Longrightarrow> (q_head s + ring_count s) mod IFL_MAX_QLEN = q_tail s"
  using ring_okD [of s] ring_shift [of "q_head s" "ring_count s"] ring_count_le [of s]
  by (auto simp: IFL_MAX_QLEN_def split: if_splits)

lemma ring_slots_distinct:
  assumes "ring_ok s" and "i < ring_count s" and "\<not> q_full s"
  shows "(q_head s + i) mod IFL_MAX_QLEN \<noteq> q_tail s"
  using assms ring_okD [OF assms(1)] ring_shift [of "q_head s" i] ring_count_le [OF assms(1)]
  by (auto simp: IFL_MAX_QLEN_def split: if_splits)

lemma ring_map_upd:
  assumes "ring_ok s" and "\<not> q_full s"
  shows "map (\<lambda>i. (q_data s)[q_tail s := x] ! ((q_head s + i) mod IFL_MAX_QLEN)) [0..<Suc (ring_count s)]
         = ring_list s @ [x]"
proof -
  have "map (\<lambda>i. (q_data s)[q_tail s := x] ! ((q_head s + i) mod IFL_MAX_QLEN)) [0..<ring_count s] = ring_list s"
    using ring_slots_distinct [OF assms(1) _ assms(2), THEN not_sym]
    by (auto simp: ring_list_def nth_list_update_neq)
  moreover have "(q_data s)[q_tail s := x] ! ((q_head s + ring_count s) mod IFL_MAX_QLEN) = x"
    using assms by (simp add: ring_tail_slot) (simp add: ring_ok_def)
  ultimately show ?thesis by simp
qed

section \<open>Push and pop on the invariant\<close>

lemma pushToQ_step:
  assumes "ring_ok s" and "\<not> q_full s"
  shows "\<exists>t. pushToQ (Some s) x = (IFL_SUCCESS, Some t) \<and> ring_ok t \<and> ring_list t = ring_list s @ [x]"
proof -
  obtain t where t: "pushToQ (Some s) x = (IFL_SUCCESS, Some t)"
    using assms(2) by (auto simp: pushToQ_def Let_def)
  have d: "q_data t = (q_data s)[q_tail s := x]" and h: "q_head t = q_head s"
    using t assms(2) by (auto simp: pushToQ_def Let_def split: if_splits)
  have ok: "ring_ok t"
    using t assms by (auto simp: pushToQ_def Let_def ring_ok_def split: if_splits)
  have c: "ring_count t = Suc (ring_count s)"
    using t assms(2) ring_okD [OF assms(1)] ring_okD [OF ok] ring_succ [of "q_tail s"]
    by (auto simp: pushToQ_def Let_def IFL_MAX_QLEN_def split: if_splits)
  have "ring_list t = ring_list s @ [x]"
    unfolding ring_list_def [of t] c d h by (rule ring_map_upd [OF assms])
  with t ok show ?thesis by blast
qed

lemma popFromQ_step:
  assumes "ring_ok s" and "ring_count s \<noteq> 0"
  shows "\<exists>x t. popFromQ (Some s) = (IFL_SUCCESS, Some x, Some t) \<and> ring_ok t \<and> ring_list s = x # ring_list t"
proof -
  from assms have ne: "q_head s \<noteq> q_tail s" by (simp add: ring_empty_count)
  then obtain t where t: "popFromQ (Some s) = (IFL_SUCCESS, Some (q_data s ! q_head s), Some t)"
    by (auto simp: popFromQ_def Let_def)
  have d: "q_data t = q_data s" and h: "q_head t = (q_head s + 1) mod IFL_MAX_QLEN"
    using t ne by (auto simp: popFromQ_def Let_def split: if_splits)
  have ok: "ring_ok t"
    using t ne assms(1) by (auto simp: popFromQ_def Let_def ring_ok_def split: if_splits)
  have c: "ring_count s = Suc (ring_count t)"
    using t ne ring_okD [OF assms(1)] ring_okD [OF ok] ring_succ [of "q_tail s"] ring_succ [of "q_head s"]
    by (auto simp: popFromQ_def Let_def IFL_MAX_QLEN_def split: if_splits)
  have "ring_list s = q_data s ! q_head s # ring_list t"
    using assms(1)
    by (simp add: ring_list_def [of s] c map_upt_Suc_shift d h ring_list_def [of t] ring_ok_def
        mod_add_left_eq del: upt_Suc)
  with t ok show ?thesis by blast
qed

section \<open>The ring as a bounded FIFO queue\<close>

definition ring_enq :: "'a \<Rightarrow> 'a ifl_qInstance \<Rightarrow> 'a ifl_qInstance option" where
  "ring_enq x s = (case pushToQ (Some s) x of (IFL_SUCCESS, t) \<Rightarrow> t | _ \<Rightarrow> None)"

definition ring_deq :: "'a ifl_qInstance \<Rightarrow> ('a \<times> 'a ifl_qInstance) option" where
  "ring_deq s = (case popFromQ (Some s) of (IFL_SUCCESS, Some x, Some t) \<Rightarrow> Some (x, t) | _ \<Rightarrow> None)"

text \<open>A client that pushes a list of messages and then pops some.\<close>

fun push_all :: "'a list \<Rightarrow> 'a ifl_qInstance \<Rightarrow> 'a ifl_qInstance option" where
  "push_all [] s = Some s"
| "push_all (x # xs) s = (case pushToQ (Some s) x of (IFL_SUCCESS, Some t) \<Rightarrow> push_all xs t | _ \<Rightarrow> None)"

fun pop_many :: "nat \<Rightarrow> 'a ifl_qInstance \<Rightarrow> ('a list \<times> 'a ifl_qInstance) option" where
  "pop_many 0 s = Some ([], s)"
| "pop_many (Suc n) s =
     (case popFromQ (Some s) of
        (IFL_SUCCESS, Some x, Some t) \<Rightarrow> map_option (\<lambda>(xs, u). (x # xs, u)) (pop_many n t)
      | _ \<Rightarrow> None)"

lemma ring_enq_full: "q_full s \<Longrightarrow> ring_enq x s = None"
  by (simp add: ring_enq_def pushToQ_def)

lemma ring_enq_ok:
  "ring_ok s \<Longrightarrow> \<not> q_full s \<Longrightarrow> \<exists>t. ring_enq x s = Some t \<and> ring_ok t \<and> ring_list t = ring_list s @ [x]"
  using pushToQ_step [of s x] by (auto simp: ring_enq_def)

lemma ring_deq_none: "ring_ok s \<Longrightarrow> ring_count s = 0 \<Longrightarrow> ring_deq s = None"
  using ring_empty_count [of s] by (simp add: ring_deq_def popFromQ_def)

lemma ring_deq_ok:
  "ring_ok s \<Longrightarrow> ring_count s \<noteq> 0 \<Longrightarrow>
   \<exists>x t. ring_deq s = Some (x, t) \<and> ring_ok t \<and> ring_list s = x # ring_list t"
  using popFromQ_step [of s] by (auto simp: ring_deq_def)

interpretation ring: bounded_fifo ring_enq ring_deq ring_list ring_ok IFL_MAX_QLEN
proof (unfold_locales, goal_cases)
  case (1 s x t)
  then show ?case by (cases "q_full s") (auto simp: ring_enq_full dest: ring_enq_ok [of s x])
next
  case (2 s x t)
  then show ?case by (cases "q_full s") (auto simp: ring_enq_full dest: ring_enq_ok [of s x])
next
  case (3 s)
  then show ?case
    using ring_deq_none [of s] ring_deq_ok [of s] length_ring_list [of s]
    by (cases "ring_count s = 0") (auto simp del: length_ring_list)
next
  case (4 s x t)
  then show ?case by (cases "ring_count s = 0") (auto dest: ring_deq_none ring_deq_ok)
next
  case (5 s x t)
  then show ?case by (cases "ring_count s = 0") (auto dest: ring_deq_none ring_deq_ok)
next
  case (6 s x)
  then show ?case using ring_full_count [of s] ring_enq_ok [of s x] ring_enq_full [of s x] by auto
next
  case (7 s)
  then show ?case by (simp add: ring_count_le)
qed

lemma push_all_enq_all: "push_all xs s = ring.enq_all xs s"
  by (induction xs arbitrary: s)
     (auto simp: ring_enq_def split: ifl_ret.splits option.splits prod.splits)

lemma pop_many_deq_many: "pop_many n s = ring.deq_many n s"
  by (induction n arbitrary: s)
     (auto simp: ring_deq_def split: ifl_ret.splits option.splits prod.splits)

section \<open>Properties\<close>

text \<open>
  A push on a well-formed ring is the append of a bounded list: with
  fewer than \<open>IFL_MAX_QLEN\<close> messages it succeeds and the queue holds the old
  messages followed by the new one; with exactly \<open>IFL_MAX_QLEN\<close> it returns an
  error and changes nothing. The ring stays well formed.
\<close>

lemma pushToQ_refines:
  assumes "ring_ok s"
  shows "if length (ring_list s) < IFL_MAX_QLEN
         then \<exists>t. pushToQ (Some s) x = (IFL_SUCCESS, Some t) \<and> ring_ok t \<and> ring_list t = ring_list s @ [x]
         else length (ring_list s) = IFL_MAX_QLEN \<and> pushToQ (Some s) x = (IFL_ERROR, Some s)"
  using pushToQ_step [OF assms] ring_full_count [OF assms] ring_count_le [OF assms]
  by (cases "q_full s") (auto simp: pushToQ_def [of "Some s"])

theorem pushToQ_refines_witness:
  "\<exists>t. pushToQ (Some \<lparr>q_data = replicate 12 (0::nat), q_head = 3, q_tail = 11, q_full = False\<rparr>) 7
       = (IFL_SUCCESS, Some t) \<and> ring_ok t \<and> ring_list t = replicate 8 0 @ [7]"
proof -
  let ?s = "\<lparr>q_data = replicate 12 (0::nat), q_head = 3, q_tail = 11, q_full = False\<rparr>"
  have "ring_ok ?s" and l: "ring_list ?s = replicate 8 0" by code_simp+
  from pushToQ_refines [OF this(1), of 7] show ?thesis
    unfolding l by (simp add: IFL_MAX_QLEN_def)
qed

text \<open>
  A pop on a well-formed ring takes the oldest message: it fails, and
  changes nothing, exactly when the queue is empty, and otherwise returns the
  head of the list and leaves its tail; a full ring also moves \<open>tail\<close> and clears
  \<open>full\<close>.
\<close>

lemma popFromQ_refines:
  assumes "ring_ok s"
  shows "case ring_list s of
           [] \<Rightarrow> popFromQ (Some s) = (IFL_ERROR, None, Some s)
         | x # xs \<Rightarrow> \<exists>t. popFromQ (Some s) = (IFL_SUCCESS, Some x, Some t) \<and> ring_ok t \<and> \<not> q_full t \<and> ring_list t = xs"
proof (cases "ring_count s = 0")
  case True
  then have "ring_list s = []" by (simp add: ring_list_def)
  with True ring_empty_count [OF assms] show ?thesis by (simp add: popFromQ_def)
next
  case False
  from popFromQ_step [OF assms this] obtain x t where
    p: "popFromQ (Some s) = (IFL_SUCCESS, Some x, Some t)" "ring_ok t" "ring_list s = x # ring_list t"
    by blast
  moreover from p(1) have "\<not> q_full t"
    by (auto simp: popFromQ_def Let_def split: if_splits)
  ultimately show ?thesis by simp
qed

theorem popFromQ_refines_witness:
  "\<exists>t. popFromQ (Some \<lparr>q_data = [0..<12], q_head = 5, q_tail = 4, q_full = True\<rparr>)
       = (IFL_SUCCESS, Some 5, Some t) \<and> ring_ok t \<and> \<not> q_full t \<and> ring_list t = [6, 7, 8, 9, 10, 11, 0, 1, 2, 3, 4]"
proof -
  let ?s = "\<lparr>q_data = [0..<12], q_head = 5, q_tail = 4, q_full = True\<rparr>"
  have "ring_ok ?s" and l: "ring_list ?s = [5, 6, 7, 8, 9, 10, 11, 0, 1, 2, 3, 4]" by code_simp+
  from popFromQ_refines [OF this(1)] show ?thesis
    unfolding l by simp
qed

text \<open>
  Claim C15. First in, first out, with no loss: a fresh queue accepts any list of
  at most \<open>IFL_MAX_QLEN\<close> messages, and popping as often returns exactly that
  list and leaves the queue empty, so the next pop fails.
\<close>

theorem ring_fifo:
  assumes "length mem = IFL_MAX_QLEN" and "idx < IFL_MAX_QUEUE" and "length xs \<le> IFL_MAX_QLEN"
  shows "\<exists>s t u. createQ (Some mem) h idx = Some (IFL_SUCCESS, Some s, Suc idx) \<and> push_all xs s = Some t \<and>
           pop_many (length xs) t = Some (xs, u) \<and> popFromQ (Some u) = (IFL_ERROR, None, Some u)"
proof -
  let ?s = "\<lparr>q_data = mem, q_head = 0, q_tail = 0, q_full = False\<rparr>"
  have ok: "ring_ok ?s" and e: "ring_list ?s = []"
    using assms(1) by (simp_all add: ring_defs)
  obtain t where t: "ring.enq_all xs ?s = Some t"
    using ring.enq_all_fits [OF ok, of xs] e assms(3) by auto
  from ring.enq_all_contents [OF ok t] have "ring_ok t" by simp
  with ring.deq_many_prefix [of t "length xs"] ring.enq_all_contents [OF ok t] e obtain u where
    u: "ring.deq_many (length xs) t = Some (xs, u)" "ring_list u = []" "ring_ok u"
    by auto
  then have "ring_count u = 0" by (metis length_ring_list list.size(3))
  with u(3) have "popFromQ (Some u) = (IFL_ERROR, None, Some u)"
    by (simp add: popFromQ_def ring_empty_count)
  with t u(1) assms(2) show ?thesis
    by (auto simp: createQ_def push_all_enq_all pop_many_deq_many)
qed

theorem ring_fifo_witness:
  "\<exists>s t u. createQ (Some (replicate 12 0)) None 0 = Some (IFL_SUCCESS, Some s, Suc 0) \<and>
     push_all [1, 2, 3::nat] s = Some t \<and> pop_many (length [1, 2, 3::nat]) t = Some ([1, 2, 3], u) \<and>
     popFromQ (Some u) = (IFL_ERROR, None, Some u)"
  by (rule ring_fifo) (simp_all add: IFL_MAX_QLEN_def IFL_MAX_QUEUE_def)

end
