(* ===== verification/Dhcp_Types.thy ===== *)
theory Dhcp_Types
  imports Map_Option
begin

text \<open>
  The data that the components share: the lease messages of the client plugins
  (\<open>dhcpv4_interface.h\<close>, \<open>dhcpv6_interface.h\<close>), the TR-181 client entries
  (\<open>cosa_dhcpv4_apis.h\<close>, \<open>cosa_dhcpv6_apis.h\<close>), the control messages and the
  registry of the per-interface controllers (\<open>cosa_apis_util.h\<close>), and the lease
  messages that go out on the bus.

  A character array is the string it holds, a linked list of leases is a list,
  \<open>BOOL\<close> and \<open>BOOLEAN\<close> are \<open>bool\<close>. The plugins and the message buffers zero the
  structures before they fill them, so that \<open>memcmp\<close> on an array of characters
  is the comparison of the strings. The raw MAP containers are lists of bytes.
  The mutex of an entry is not a field: each operation of the model runs under
  it, as in the source. The locks of the queues are in \<open>Controller_Race\<close>.
\<close>

section \<open>Constants\<close>

definition COSA_DML_DHCP_MAX_ENTRIES :: nat where
  "COSA_DML_DHCP_MAX_ENTRIES = 4"

definition COSA_DML_ALIAS_NAME_LENGTH :: nat where
  "COSA_DML_ALIAS_NAME_LENGTH = 64"

definition MAX_STR_LEN :: nat where "MAX_STR_LEN = 64"
definition MQ_NAME_LEN :: nat where "MQ_NAME_LEN = 64"
definition MAX_INTERFACES :: nat where "MAX_INTERFACES = 10"
definition MQ_MAX_MESSAGES :: nat where "MQ_MAX_MESSAGES = 20"

section \<open>Leases\<close>

record mta_Option =
  Assigned122 :: bool
  Assigned125 :: bool
  option_122 :: string
  option_125 :: string
  cOption67 :: string

record DHCPv4_PLUGIN_MSG =
  v4_addressAssigned :: bool
  v4_isExpired :: bool
  v4_address :: string
  v4_netmask :: string
  v4_gateway :: string
  v4_dnsServer :: string
  v4_dnsServer1 :: string
  v4_ifname :: string
  v4_leaseTime :: u32
  v4_rebindingTime :: u32
  v4_renewalTime :: u32
  v4_timeOffset :: int
  v4_isTimeOffsetAssigned :: bool
  v4_timeZone :: string
  v4_upstreamCurrRate :: u32
  v4_downstreamCurrRate :: u32
  v4_dhcpServerId :: string
  v4_dhcpState :: string
  v4_mtuAssigned :: bool
  v4_mtuSize :: u32
  v4_sipSrv :: string
  v4_staticRoutes :: string
  v4_mtaOption :: mta_Option
  v4_cTftpServer :: string
  v4_cHostName :: string
  v4_cDomainName :: string

record v6_ia_na =
  na_assigned :: bool
  na_address :: string
  na_IA_ID :: u32
  na_PreferedLifeTime :: u32
  na_ValidLifeTime :: u32
  na_T1 :: u32
  na_T2 :: u32

record v6_ia_pd =
  pd_assigned :: bool
  pd_Prefix :: string
  pd_PrefixLength :: u32
  pd_IA_ID :: u32
  pd_PreferedLifeTime :: u32
  pd_ValidLifeTime :: u32
  pd_T1 :: u32
  pd_T2 :: u32

record v6_dns =
  dns_assigned :: bool
  dns_nameserver :: string
  dns_nameserver1 :: string

record v6_container =
  ct_Assigned :: bool
  ct_Container :: "u8 list"

record v6_vendor =
  vd_Assigned :: bool
  vd_Data :: string
  vd_Length :: u32

record DHCPv6_PLUGIN_MSG =
  v6_isExpired :: bool
  v6_ifname :: string
  v6_ia_na :: v6_ia_na
  v6_ia_pd :: v6_ia_pd
  v6_dns :: v6_dns
  v6_mapt :: v6_container
  v6_mape :: v6_container
  v6_vendor :: v6_vendor
  v6_domainName :: string
  v6_ntpserver :: string
  v6_aftr :: string
  v6_TimeOffset :: u32

text \<open>What a plugin sends: the version selects the member of the union.\<close>

datatype plugin_data = Plugin_v4 DHCPv4_PLUGIN_MSG | Plugin_v6 DHCPv6_PLUGIN_MSG | Plugin_other

section \<open>Client entries\<close>

datatype COSA_DML_DHCP_STATUS =
    COSA_DML_DHCP_STATUS_Disabled | COSA_DML_DHCP_STATUS_Enabled
  | COSA_DML_DHCP_STATUS_Error_Misconfigured | COSA_DML_DHCP_STATUS_Error

datatype COSA_DML_DHCPC_STATUS =
    COSA_DML_DHCPC_STATUS_Init | COSA_DML_DHCPC_STATUS_Selecting | COSA_DML_DHCPC_STATUS_Requesting
  | COSA_DML_DHCPC_STATUS_Rebinding | COSA_DML_DHCPC_STATUS_Bound | COSA_DML_DHCPC_STATUS_Renewing

record COSA_DML_DHCPC_CFG =
  c4_InstanceNumber :: nat
  c4_Alias :: string
  c4_bEnabled :: bool
  c4_Renew :: bool
  c4_Restart :: bool
  c4_Interface :: string
  c4_PassthroughEnable :: bool
  c4_PassthroughDHCPPool :: string
  c4_BootFileName :: string

record COSA_DML_DHCPC_INFO =
  i4_Status :: COSA_DML_DHCP_STATUS
  i4_DHCPStatus :: COSA_DML_DHCPC_STATUS
  i4_ClientProcessId :: int
  i4_IPAddress :: u32
  i4_SubnetMask :: u32
  i4_NumIPRouters :: nat
  i4_IPRouters :: "u32 list"
  i4_NumDnsServers :: nat
  i4_DNSServers :: "u32 list"
  i4_LeaseTimeRemaining :: int
  i4_DHCPServer :: u32

record COSA_DML_DHCPC_FULL =
  f4_Cfg :: COSA_DML_DHCPC_CFG
  f4_Info :: COSA_DML_DHCPC_INFO
  f4_currentLease :: "DHCPv4_PLUGIN_MSG option"
  f4_NewLeases :: "DHCPv4_PLUGIN_MSG list"

record COSA_DML_DHCPCV6_CFG =
  c6_InstanceNumber :: nat
  c6_Alias :: string
  c6_SuggestedT1 :: int
  c6_SuggestedT2 :: int
  c6_Interface :: string
  c6_RequestedOptions :: string
  c6_bEnabled :: bool
  c6_RequestAddresses :: bool
  c6_RequestPrefixes :: bool
  c6_RapidCommit :: bool
  c6_Renew :: bool
  c6_Restart :: bool

record DML_DHCPCV6_MAP_INFO =
  mi_MaptAssigned :: bool
  mi_MapeAssigned :: bool
  mi_IsFMR :: bool
  mi_MapEALen :: nat
  mi_MapPSIDOffset :: nat
  mi_MapPSIDLen :: nat
  mi_MapPSIDValue :: nat
  mi_MapRatio :: nat
  mi_MapBRPrefix :: string
  mi_MapRuleIPv4Prefix :: string
  mi_MapRuleIPv6Prefix :: string
  mi_MapIpv4Address :: string

definition map_info_zero :: DML_DHCPCV6_MAP_INFO where
  "map_info_zero = \<lparr>mi_MaptAssigned = False, mi_MapeAssigned = False, mi_IsFMR = False, mi_MapEALen = 0,
     mi_MapPSIDOffset = 0, mi_MapPSIDLen = 0, mi_MapPSIDValue = 0, mi_MapRatio = 0, mi_MapBRPrefix = [],
     mi_MapRuleIPv4Prefix = [], mi_MapRuleIPv6Prefix = [], mi_MapIpv4Address = []\<rparr>"

record COSA_DML_DHCPCV6_INFO =
  i6_Status :: COSA_DML_DHCP_STATUS
  i6_SupportedOptions :: string
  i6_DUID :: string
  i6_ClientProcessId :: int
  i6_MapInfo :: DML_DHCPCV6_MAP_INFO

record COSA_DML_DHCPCV6_FULL =
  f6_Cfg :: COSA_DML_DHCPCV6_CFG
  f6_Info :: COSA_DML_DHCPCV6_INFO
  f6_currentLease :: "DHCPv6_PLUGIN_MSG option"
  f6_NewLeases :: "DHCPv6_PLUGIN_MSG list"

text \<open>
  A DHCP option of the option lists (\<open>dhcp_opt_list\<close>), and the option entries of
  the data model: requested options of a DHCPv4 client, sent options of either. An
  option entry has the flag \<open>bNew\<close> of the link object that holds it.
\<close>

record dhcp_opt =
  dhcp_opt_num :: int
  dhcp_opt_val :: "string option"

record COSA_DML_DHCPC_REQ_OPT =
  ro_bNew :: bool
  ro_InstanceNumber :: nat
  ro_Alias :: string
  ro_bEnabled :: bool
  ro_Order :: nat
  ro_Tag :: nat
  ro_Value :: string

record COSA_DML_DHCP_OPT =
  so_bNew :: bool
  so_InstanceNumber :: nat
  so_Alias :: string
  so_bEnabled :: bool
  so_Tag :: nat
  so_Value :: string

text \<open>
  The entries of the client tables: the client with its option tables, the instance
  numbers given out last in them, and the alias that an option had before it was set.
\<close>

record DHCPC_LINK_OBJECT =
  l4_client :: COSA_DML_DHCPC_FULL
  l4_req_opts :: "COSA_DML_DHCPC_REQ_OPT list"
  l4_sent_opts :: "COSA_DML_DHCP_OPT list"
  l4_bNew :: bool
  l4_InstanceNumber :: nat
  l4_maxInstanceOfSend :: nat
  l4_maxInstanceOfReq :: nat
  l4_AliasOfReq :: string
  l4_AliasOfSend :: string

record DHCPCV6_LINK_OBJECT =
  l6_client :: COSA_DML_DHCPCV6_FULL
  l6_sent_opts :: "COSA_DML_DHCP_OPT list"
  l6_bNew :: bool
  l6_InstanceNumber :: nat
  l6_maxInstanceOfSent :: nat
  l6_AliasOfSent :: string

section \<open>Control messages and the registry of controllers\<close>

datatype dhcp_type = DML_DHCPV4 | DML_DHCPV6

record dhcp_info =
  di_if_name :: string
  di_ParamName :: string
  di_bValue :: bool
  di_dhcpType :: dhcp_type

record interface_info =
  ii_if_name :: string
  ii_mq_name :: string
  ii_thread_running :: bool

section \<open>Bus messages\<close>

text \<open>
  The message types and the lease messages are declared in \<open>ipc_msg.h\<close> of another
  repository; the model has the fields that the source fills, and takes the
  sizes of their character arrays from the environment (\<open>Dhcp_World\<close>).
\<close>

datatype DHCP_MESSAGE_TYPE =
    DHCP_CLIENT_STARTED | DHCP_CLIENT_STOPPED | DHCP_CLIENT_FAILED
  | DHCP_LEASE_UPDATE | DHCP_LEASE_DEL | DHCP_LEASE_RENEW

record DHCP_MGR_IPV4_MSG =
  m4_ifname :: string
  m4_address :: string
  m4_netmask :: string
  m4_gateway :: string
  m4_dnsServer :: string
  m4_dnsServer1 :: string
  m4_timeZone :: string
  m4_cOption122 :: string
  m4_cOption67 :: string
  m4_cTftpServer :: string
  m4_cHostName :: string
  m4_cDomainName :: string
  m4_mtuSize :: u32
  m4_timeOffset :: int
  m4_isTimeOffsetAssigned :: bool
  m4_upstreamCurrRate :: u32
  m4_downstreamCurrRate :: u32

datatype map_type = MAP_TYPE_UNKNOWN | MAP_TYPE_MAPT | MAP_TYPE_MAPE

record DHCP_MGR_IPV6_MSG =
  m6_ifname :: string
  m6_address :: string
  m6_nameserver :: string
  m6_nameserver1 :: string
  m6_domainName :: string
  m6_sitePrefix :: string
  m6_aftr :: string
  m6_prefixPltime :: u32
  m6_prefixVltime :: u32
  m6_addrAssigned :: bool
  m6_prefixAssigned :: bool
  m6_domainNameAssigned :: bool
  m6_mapType :: map_type
  m6_maptAssigned :: bool
  m6_mapeAssigned :: bool
  m6_TimeOffset :: u32
  m6_map :: "ipc_map_data option"

end
