(* ===== verification/Dhcp_World.thy ===== *)
theory Dhcp_World
  imports Dhcp_Types
begin

text \<open>
  What the program does to the system it runs on. Each call that leaves the
  program (a signal, an ioctl, a bus event, a system event, a file, a message
  queue, a new process or thread) is an \<open>action\<close>; the world keeps the actions in
  the order in which they were made, the lease files, the message queues, and
  the registry of the controllers. What the system answers to a call is a
  function of the whole history up to and including that call, so that nothing
  is assumed of it. Logging, telemetry and sleeping are left out.
\<close>

section \<open>Actions\<close>

datatype action =
    A_kill int int
  | A_waitpid int
  | A_proc_lookup string string
  | A_proc_comm int
  | A_fork string "string list"
  | A_publish4 nat string DHCP_MESSAGE_TYPE "DHCP_MGR_IPV4_MSG option"
  | A_publish6 nat string DHCP_MESSAGE_TYPE "DHCP_MGR_IPV6_MSG option"
  | A_set_event string string
  | A_get_event string
  | A_sysevent_set string string
  | A_sysevent_get string
  | A_syscfg_get string
  | A_uptime
  | A_socket
  | A_ioctl string string string
  | A_system string
  | A_access string
  | A_mkdir string
  | A_fopen string string
  | A_fwrite string
  | A_fread string
  | A_fputs string string
  | A_link string string
  | A_creat string
  | A_remove string
  | A_sysctl string string
  | A_inet6_scan string
  | A_mq_open string
  | A_mq_create string
  | A_mq_send string dhcp_info
  | A_mq_receive string
  | A_mq_close string
  | A_mq_unlink string
  | A_thread string
  | A_ptrace int
  | A_nn_socket
  | A_nn_bind string
  | A_nn_close
  | A_nn_connect string
  | A_nn_send string plugin_data
  | A_psm_get string
  | A_reg_set string
  | A_custom string string

text \<open>
  The environment: the answers of the system as functions of the history (a
  return value, a string), the conversions of the C
  library that the source uses as they are, the sizes of the arrays of
  \<open>ipc_msg.h\<close> by field name, the directory \<open>/proc\<close> (of each entry its name, whether
  it is a directory, and what its files \<open>stat\<close>, \<open>cmdline\<close> and \<open>comm\<close> hold, \<open>None\<close> where
  they cannot be opened), the number of bits of the type \<open>long\<close>, and the compile-time options.
\<close>

datatype udhcpc_mode = RUN_IN_FOREGROUND | RUN_IN_BACKGROUND | EXIT_AFTER_LEAVE_FAILURE | MODE_UNSET

record proc_entry =
  pe_name :: string
  pe_isdir :: bool
  pe_stat :: "string option"
  pe_cmdline :: "string option"
  pe_comm :: "string option"

record env =
  e_ret :: "action list \<Rightarrow> int"
  e_str :: "action list \<Rightarrow> string"
  e_inet_addr :: "string \<Rightarrow> u32"
  e_inet_ntoa :: "u32 \<Rightarrow> string"
  e_ntop :: "u8 list \<Rightarrow> string"
  e_sz :: "string \<Rightarrow> nat"
  e_proc :: "action list \<Rightarrow> proc_entry list"
  e_LONG_BIT :: nat
  e_udhcpc_mode :: udhcpc_mode
  e_FEATURE_MAPT :: bool
  e_FEATURE_MAPE :: bool
  e_EROUTER_DHCP_OPTION_MTA :: bool
  e_INTEL_PUMA7 :: bool
  e_DHCPV6C_COMS :: bool

text \<open>
  A lease file has the client entry and, where there was one, the lease as a
  second segment; a file that was opened for writing and not written is empty.
\<close>

datatype lease_file =
    File_empty
  | File4 COSA_DML_DHCPC_FULL "DHCPv4_PLUGIN_MSG option"
  | File6 COSA_DML_DHCPCV6_FULL "DHCPv6_PLUGIN_MSG option"

record world =
  w_trace :: "action list"
  w_files :: "string \<Rightarrow> lease_file option"
  w_mqs :: "string \<Rightarrow> dhcp_info list option"
  w_ifaces :: "interface_info list"

definition world_init :: world where
  "world_init = \<lparr>w_trace = [], w_files = Map.empty, w_mqs = Map.empty, w_ifaces = []\<rparr>"

section \<open>Calls\<close>

definition act :: "action \<Rightarrow> world \<Rightarrow> world" where
  "act a w = w\<lparr>w_trace := w_trace w @ [a]\<rparr>"

definition call :: "env \<Rightarrow> action \<Rightarrow> world \<Rightarrow> int \<times> world" where
  "call e a w = (let w' = act a w in (e_ret e (w_trace w'), w'))"

definition ask :: "env \<Rightarrow> action \<Rightarrow> world \<Rightarrow> string \<times> world" where
  "ask e a w = (let w' = act a w in (e_str e (w_trace w'), w'))"

lemma w_trace_act [simp]: "w_trace (act a w) = w_trace w @ [a]"
  by (simp add: act_def)

lemma act_frame [simp]:
  "w_files (act a w) = w_files w" "w_mqs (act a w) = w_mqs w" "w_ifaces (act a w) = w_ifaces w"
  by (simp_all add: act_def)

lemma snd_call [simp]: "snd (call e a w) = act a w"
  by (simp add: call_def Let_def)

lemma snd_ask [simp]: "snd (ask e a w) = act a w"
  by (simp add: ask_def Let_def)

lemma fst_call: "fst (call e a w) = e_ret e (w_trace w @ [a])"
  by (simp add: call_def Let_def)

lemma fst_ask: "fst (ask e a w) = e_str e (w_trace w @ [a])"
  by (simp add: ask_def Let_def)

text \<open>
  A later world extends an earlier one: actions are only appended. The events
  that a computation publishes are then the ones in the part it appended.
\<close>

definition extends :: "world \<Rightarrow> world \<Rightarrow> bool" where
  "extends w w' \<longleftrightarrow> take (length (w_trace w)) (w_trace w') = w_trace w"

definition new_actions :: "world \<Rightarrow> world \<Rightarrow> action list" where
  "new_actions w w' = drop (length (w_trace w)) (w_trace w')"

lemma extendsI: "w_trace w' = w_trace w @ xs \<Longrightarrow> extends w w'"
  by (simp add: extends_def)

lemma extends_trace: "extends w w' \<Longrightarrow> w_trace w' = w_trace w @ new_actions w w'"
  by (metis append_take_drop_id extends_def new_actions_def)

lemma new_actionsI: "w_trace w' = w_trace w @ xs \<Longrightarrow> new_actions w w' = xs"
  by (simp add: new_actions_def)

lemma extends_refl [simp]: "extends w w"
  by (simp add: extends_def)

lemma extends_trans: "extends u v \<Longrightarrow> extends v w \<Longrightarrow> extends u w"
  by (metis append.assoc extendsI extends_trace)

lemma extends_act [simp]: "extends w (act a w)"
  by (simp add: extends_def)

lemma new_actions_act [simp]: "new_actions w (act a w) = [a]"
  by (simp add: new_actions_def)

lemma new_actions_self [simp]: "new_actions w w = []"
  by (simp add: new_actions_def)

lemma new_actions_trans:
  "extends u v \<Longrightarrow> extends v w \<Longrightarrow> new_actions u w = new_actions u v @ new_actions v w"
  by (metis append.assoc append_same_eq extends_trace extends_trans same_append_eq)

text \<open>The bus events among the actions of a computation: message type and lease information.\<close>

fun event4 :: "action \<Rightarrow> (DHCP_MESSAGE_TYPE \<times> DHCP_MGR_IPV4_MSG option) list" where
  "event4 (A_publish4 i n t l) = [(t, l)]"
| "event4 _ = []"

fun event6 :: "action \<Rightarrow> (DHCP_MESSAGE_TYPE \<times> DHCP_MGR_IPV6_MSG option) list" where
  "event6 (A_publish6 i n t l) = [(t, l)]"
| "event6 _ = []"

definition events4 :: "action list \<Rightarrow> (DHCP_MESSAGE_TYPE \<times> DHCP_MGR_IPV4_MSG option) list" where
  "events4 as = concat (map event4 as)"

definition events6 :: "action list \<Rightarrow> (DHCP_MESSAGE_TYPE \<times> DHCP_MGR_IPV6_MSG option) list" where
  "events6 as = concat (map event6 as)"

lemma events_simps [simp]:
  "events4 [] = []" "events6 [] = []"
  "events4 (a # as) = event4 a @ events4 as" "events6 (a # as) = event6 a @ events6 as"
  "events4 (as @ bs) = events4 as @ events4 bs" "events6 (as @ bs) = events6 as @ events6 bs"
  by (simp_all add: events4_def events6_def)

text \<open>
  Most calls append actions, publish nothing and leave the queues and the
  registry alone: the world after them is quiet.
\<close>

definition quiet :: "world \<Rightarrow> world \<Rightarrow> bool" where
  "quiet w w' \<longleftrightarrow> extends w w' \<and> events4 (new_actions w w') = [] \<and> events6 (new_actions w w') = [] \<and>
     w_mqs w' = w_mqs w \<and> w_ifaces w' = w_ifaces w"

lemma quiet_refl [simp]: "quiet w w"
  by (simp add: quiet_def)

lemma quiet_trans: "quiet u v \<Longrightarrow> quiet v w \<Longrightarrow> quiet u w"
  using new_actions_trans [of u v w] extends_trans [of u v w] by (simp add: quiet_def)

lemma quiet_extends: "quiet w w' \<Longrightarrow> extends w w'"
  by (simp add: quiet_def)

lemma quiet_act: "event4 a = [] \<Longrightarrow> event6 a = [] \<Longrightarrow> quiet w (act a w)"
  by (simp add: quiet_def)

lemma quiet_step: "quiet u w \<Longrightarrow> event4 a = [] \<Longrightarrow> event6 a = [] \<Longrightarrow> quiet u (act a w)"
  by (rule quiet_trans [OF _ quiet_act])

lemma quiet_files: "quiet u w \<Longrightarrow> quiet u (w\<lparr>w_files := f\<rparr>)"
  by (simp add: quiet_def extends_def new_actions_def)

lemma call_split [split]: "P (case call e a w of (r, w') \<Rightarrow> f r w') = P (f (e_ret e (w_trace w @ [a])) (act a w))"
  by (simp add: call_def Let_def)

lemma ask_split [split]: "P (case ask e a w of (r, w') \<Rightarrow> f r w') = P (f (e_str e (w_trace w @ [a])) (act a w))"
  by (simp add: ask_def Let_def)

lemmas quiet_intros = quiet_step quiet_files quiet_refl

end
