(* ===== verification/Dhcp_Samples.thy ===== *)
theory Dhcp_Samples
  imports Dhcp_World
begin

text \<open>
  Concrete values on which the witnesses evaluate the model: an environment
  whose every call succeeds, a lease and a client of each kind.
\<close>

definition env0 :: env where
  "env0 = \<lparr>e_ret = (\<lambda>_. 0), e_str = (\<lambda>_. []), e_inet_addr = (\<lambda>s. of_nat (length s)), e_inet_ntoa = (\<lambda>_. ''0.0.0.0''),
     e_ntop = (\<lambda>_. ''::''), e_sz = (\<lambda>_. 64), e_proc = (\<lambda>_. []), e_LONG_BIT = 64, e_udhcpc_mode = RUN_IN_FOREGROUND, e_FEATURE_MAPT = True, e_FEATURE_MAPE = False,
     e_EROUTER_DHCP_OPTION_MTA = False, e_INTEL_PUMA7 = False, e_DHCPV6C_COMS = False\<rparr>"

definition mta0 :: mta_Option where
  "mta0 = \<lparr>Assigned122 = False, Assigned125 = False, option_122 = [], option_125 = [], cOption67 = []\<rparr>"

definition lease4 :: DHCPv4_PLUGIN_MSG where
  "lease4 = \<lparr>v4_addressAssigned = True, v4_isExpired = False, v4_address = ''192.0.2.10'', v4_netmask = ''255.255.255.0'',
     v4_gateway = ''192.0.2.1'', v4_dnsServer = ''192.0.2.53'', v4_dnsServer1 = [], v4_ifname = ''erouter0'',
     v4_leaseTime = 3600, v4_rebindingTime = 3000, v4_renewalTime = 1800, v4_timeOffset = 0,
     v4_isTimeOffsetAssigned = False, v4_timeZone = [], v4_upstreamCurrRate = 0, v4_downstreamCurrRate = 0,
     v4_dhcpServerId = ''192.0.2.1'', v4_dhcpState = ''bound'', v4_mtuAssigned = False, v4_mtuSize = 0, v4_sipSrv = [],
     v4_staticRoutes = [], v4_mtaOption = mta0, v4_cTftpServer = [], v4_cHostName = [], v4_cDomainName = []\<rparr>"

definition cfg4 :: COSA_DML_DHCPC_CFG where
  "cfg4 = \<lparr>c4_InstanceNumber = 1, c4_Alias = [], c4_bEnabled = True, c4_Renew = False, c4_Restart = False,
     c4_Interface = ''erouter0'', c4_PassthroughEnable = False, c4_PassthroughDHCPPool = [], c4_BootFileName = []\<rparr>"

definition info4 :: COSA_DML_DHCPC_INFO where
  "info4 = \<lparr>i4_Status = COSA_DML_DHCP_STATUS_Enabled, i4_DHCPStatus = COSA_DML_DHCPC_STATUS_Init, i4_ClientProcessId = 4711,
     i4_IPAddress = 0, i4_SubnetMask = 0, i4_NumIPRouters = 0, i4_IPRouters = replicate 4 0, i4_NumDnsServers = 0,
     i4_DNSServers = replicate 4 0, i4_LeaseTimeRemaining = 0, i4_DHCPServer = 0\<rparr>"

definition client4 :: COSA_DML_DHCPC_FULL where
  "client4 = \<lparr>f4_Cfg = cfg4, f4_Info = info4, f4_currentLease = None, f4_NewLeases = []\<rparr>"

definition na0 :: v6_ia_na where
  "na0 = \<lparr>na_assigned = False, na_address = [], na_IA_ID = 0, na_PreferedLifeTime = 0, na_ValidLifeTime = 0, na_T1 = 0, na_T2 = 0\<rparr>"

definition pd0 :: v6_ia_pd where
  "pd0 = \<lparr>pd_assigned = False, pd_Prefix = [], pd_PrefixLength = 0, pd_IA_ID = 0, pd_PreferedLifeTime = 0,
     pd_ValidLifeTime = 0, pd_T1 = 0, pd_T2 = 0\<rparr>"

definition na1 :: v6_ia_na where
  "na1 = na0\<lparr>na_assigned := True, na_address := ''2001:db8::10'', na_IA_ID := 1, na_PreferedLifeTime := 3600, na_ValidLifeTime := 7200\<rparr>"

definition pd1 :: v6_ia_pd where
  "pd1 = pd0\<lparr>pd_assigned := True, pd_Prefix := ''2001:db8:1::'', pd_PrefixLength := 56, pd_IA_ID := 1\<rparr>"

definition lease6 :: DHCPv6_PLUGIN_MSG where
  "lease6 = \<lparr>v6_isExpired = False, v6_ifname = ''erouter0'', v6_ia_na = na1, v6_ia_pd = pd1,
     v6_dns = \<lparr>dns_assigned = False, dns_nameserver = [], dns_nameserver1 = []\<rparr>,
     v6_mapt = \<lparr>ct_Assigned = False, ct_Container = []\<rparr>, v6_mape = \<lparr>ct_Assigned = False, ct_Container = []\<rparr>,
     v6_vendor = \<lparr>vd_Assigned = False, vd_Data = [], vd_Length = 0\<rparr>, v6_domainName = [], v6_ntpserver = [],
     v6_aftr = [], v6_TimeOffset = 0\<rparr>"

definition cfg6 :: COSA_DML_DHCPCV6_CFG where
  "cfg6 = \<lparr>c6_InstanceNumber = 1, c6_Alias = [], c6_SuggestedT1 = -1, c6_SuggestedT2 = -1, c6_Interface = ''erouter0'',
     c6_RequestedOptions = ''23,24'', c6_bEnabled = True, c6_RequestAddresses = True, c6_RequestPrefixes = True,
     c6_RapidCommit = False, c6_Renew = False, c6_Restart = False\<rparr>"

definition info6 :: COSA_DML_DHCPCV6_INFO where
  "info6 = \<lparr>i6_Status = COSA_DML_DHCP_STATUS_Enabled, i6_SupportedOptions = [], i6_DUID = [], i6_ClientProcessId = 4712,
     i6_MapInfo = map_info_zero\<rparr>"

definition client6 :: COSA_DML_DHCPCV6_FULL where
  "client6 = \<lparr>f6_Cfg = cfg6, f6_Info = info6, f6_currentLease = None, f6_NewLeases = []\<rparr>"

lemmas sample_defs = env0_def mta0_def lease4_def cfg4_def info4_def client4_def na0_def pd0_def na1_def pd1_def
  lease6_def cfg6_def info6_def client6_def world_init_def

end
