(* ===== verification/Rbus_Events.thy ===== *)
theory Rbus_Events
  imports Dhcp_Samples
begin

text \<open>
  The events of the bus, \<open>source/TR-181/middle_layer_src/dhcpmgr_rbus_apis.c\<close>:
  how a lease becomes the message that goes out, which event carries it, what
  publishing does to the MAP values of a DHCPv6 client, and the handler that
  answers a read of the event property. Publishing or reading the lease of a
  client without one dereferences NULL: the result is \<open>None\<close>.
\<close>

section \<open>Messages\<close>

text \<open>\<open>strncpy(dest->f, s, sizeof(dest->f) - 1)\<close> into a zeroed structure.\<close>

abbreviation fld :: "env \<Rightarrow> string \<Rightarrow> string \<Rightarrow> string" where
  "fld e f s \<equiv> c_trunc (e_sz e f) s"

definition DhcpMgr_createLeaseInfoMsg :: "env \<Rightarrow> DHCPv4_PLUGIN_MSG \<Rightarrow> DHCP_MGR_IPV4_MSG" where
  "DhcpMgr_createLeaseInfoMsg e src =
     \<lparr>m4_ifname = fld e ''v4.ifname'' (v4_ifname src),
      m4_address = fld e ''v4.address'' (v4_address src),
      m4_netmask = fld e ''v4.netmask'' (v4_netmask src),
      m4_gateway = fld e ''v4.gateway'' (v4_gateway src),
      m4_dnsServer = fld e ''v4.dnsServer'' (v4_dnsServer src),
      m4_dnsServer1 = fld e ''v4.dnsServer1'' (v4_dnsServer1 src),
      m4_timeZone = fld e ''v4.timeZone'' (v4_timeZone src),
      m4_cOption122 = fld e ''v4.cOption122'' (option_122 (v4_mtaOption src)),
      m4_cOption67 = fld e ''v4.cOption67'' (cOption67 (v4_mtaOption src)),
      m4_cTftpServer = fld e ''v4.cTftpServer'' (v4_cTftpServer src),
      m4_cHostName = fld e ''v4.cHostName'' (v4_cHostName src),
      m4_cDomainName = fld e ''v4.cDomainName'' (v4_cDomainName src),
      m4_mtuSize = v4_mtuSize src,
      m4_timeOffset = v4_timeOffset src,
      m4_isTimeOffsetAssigned = v4_isTimeOffsetAssigned src,
      m4_upstreamCurrRate = v4_upstreamCurrRate src,
      m4_downstreamCurrRate = v4_downstreamCurrRate src\<rparr>"

text \<open>\<open>DhcpMgr_UpdateDhcpv6MapInfo\<close>; \<open>ratio\<close> is never filled, so it is 0.\<close>

definition DhcpMgr_UpdateDhcpv6MapInfo ::
  "DML_DHCPCV6_MAP_INFO \<Rightarrow> DHCP_MGR_IPV6_MSG \<Rightarrow> ipc_map_data \<Rightarrow> DML_DHCPCV6_MAP_INFO" where
  "DhcpMgr_UpdateDhcpv6MapInfo mi src m =
     mi\<lparr>mi_MaptAssigned := m6_maptAssigned src, mi_IsFMR := map_isFMR m, mi_MapEALen := unat (map_eaLen m),
        mi_MapPSIDOffset := unat (map_psidOffset m), mi_MapPSIDLen := unat (map_psidLen m),
        mi_MapPSIDValue := unat (map_psid m), mi_MapRatio := 0,
        mi_MapBRPrefix := c_trunc 40 (map_brIPv6Prefix m),
        mi_MapRuleIPv4Prefix := c_trunc 40 (map_ruleIPv4Prefix m @ ''/'' @ show_nat (unat (map_v4Len m))),
        mi_MapRuleIPv6Prefix := c_trunc 40 (map_ruleIPv6Prefix m)\<rparr>"

text \<open>The part of the message that does not depend on a MAP container.\<close>

definition v6_base_msg :: "env \<Rightarrow> DHCPv6_PLUGIN_MSG \<Rightarrow> DHCP_MGR_IPV6_MSG" where
  "v6_base_msg e src =
     \<lparr>m6_ifname = fld e ''v6.ifname'' (v6_ifname src),
      m6_address = fld e ''v6.address'' (na_address (v6_ia_na src)),
      m6_nameserver = fld e ''v6.nameserver'' (dns_nameserver (v6_dns src)),
      m6_nameserver1 = fld e ''v6.nameserver1'' (dns_nameserver1 (v6_dns src)),
      m6_domainName = fld e ''v6.domainName'' (v6_domainName src),
      m6_sitePrefix = fld e ''v6.sitePrefix''
         (pd_Prefix (v6_ia_pd src) @ ''/'' @ show_int (sint (pd_PrefixLength (v6_ia_pd src)))),
      m6_aftr = fld e ''v6.aftr'' (v6_aftr src),
      m6_prefixPltime = pd_PreferedLifeTime (v6_ia_pd src),
      m6_prefixVltime = pd_ValidLifeTime (v6_ia_pd src),
      m6_addrAssigned = na_assigned (v6_ia_na src),
      m6_prefixAssigned = pd_assigned (v6_ia_pd src),
      m6_domainNameAssigned = (v6_domainName src \<noteq> []),
      m6_mapType = MAP_TYPE_UNKNOWN, m6_maptAssigned = False, m6_mapeAssigned = False,
      m6_TimeOffset = v6_TimeOffset src, m6_map = None\<rparr>"

text \<open>A MAP-T container hides a MAP-E one, also where it does not parse.\<close>

definition DhcpMgr_createDhcpv6LeaseInfoMsg :: "env \<Rightarrow> DHCPv6_PLUGIN_MSG \<Rightarrow> DHCP_MGR_IPV6_MSG option" where
  "DhcpMgr_createDhcpv6LeaseInfoMsg e src =
     (let dest = v6_base_msg e src
      in if ct_Assigned (v6_mapt src)
         then if e_FEATURE_MAPT e
              then (case DhcpMgr_MapParseOptResponse (e_FEATURE_MAPT e) (e_ntop e) (m6_sitePrefix dest)
                           (ct_Container (v6_mapt src)) of
                      None \<Rightarrow> None
                    | Some (g, None) \<Rightarrow> Some dest
                    | Some (g, Some m) \<Rightarrow>
                        Some (dest\<lparr>m6_map := Some m, m6_maptAssigned := True, m6_mapType := MAP_TYPE_MAPT\<rparr>))
              else Some dest
         else if ct_Assigned (v6_mape src) \<and> e_FEATURE_MAPE e
         then (case DhcpMgr_MapParseOptResponse (e_FEATURE_MAPT e) (e_ntop e) (m6_sitePrefix dest)
                      (ct_Container (v6_mape src)) of
                 None \<Rightarrow> None
               | Some (g, None) \<Rightarrow> Some dest
               | Some (g, Some m) \<Rightarrow>
                   Some (dest\<lparr>m6_map := Some m, m6_mapeAssigned := True, m6_mapType := MAP_TYPE_MAPE\<rparr>))
         else Some dest)"

section \<open>Publishing\<close>

definition has_lease_info :: "DHCP_MESSAGE_TYPE \<Rightarrow> bool" where
  "has_lease_info t \<longleftrightarrow> t = DHCP_LEASE_UPDATE \<or> t = DHCP_LEASE_RENEW"

text \<open>
  \<open>rbusEvent_Publish\<close> answers 0 (\<open>RBUS_ERROR_SUCCESS\<close>) or the code for no
  subscribers when the event went out; the callers do not look at the result,
  so the model records the event and drops it.
\<close>

definition DhcpMgr_PublishDhcpV4Event ::
  "env \<Rightarrow> COSA_DML_DHCPC_FULL \<Rightarrow> DHCP_MESSAGE_TYPE \<Rightarrow> world \<Rightarrow> world option" where
  "DhcpMgr_PublishDhcpV4Event e c t w =
     (if has_lease_info t
      then (case f4_currentLease c of
              None \<Rightarrow> None
            | Some l \<Rightarrow> Some (act (A_publish4 (c4_InstanceNumber (f4_Cfg c)) (c4_Interface (f4_Cfg c)) t
                                    (Some (DhcpMgr_createLeaseInfoMsg e l))) w))
      else Some (act (A_publish4 (c4_InstanceNumber (f4_Cfg c)) (c4_Interface (f4_Cfg c)) t None) w))"

definition map_info_after :: "env \<Rightarrow> DHCP_MGR_IPV6_MSG \<Rightarrow> DML_DHCPCV6_MAP_INFO \<Rightarrow> DML_DHCPCV6_MAP_INFO" where
  "map_info_after e m mi =
     (if \<not> e_FEATURE_MAPT e then mi
      else if m6_maptAssigned m
      then (case m6_map m of None \<Rightarrow> mi | Some d \<Rightarrow> DhcpMgr_UpdateDhcpv6MapInfo mi m d)
      else if mi_MaptAssigned mi then map_info_zero else mi)"

definition DhcpMgr_PublishDhcpV6Event ::
  "env \<Rightarrow> COSA_DML_DHCPCV6_FULL \<Rightarrow> DHCP_MESSAGE_TYPE \<Rightarrow> world \<Rightarrow> (COSA_DML_DHCPCV6_FULL \<times> world) option" where
  "DhcpMgr_PublishDhcpV6Event e c t w =
     (if has_lease_info t
      then (case f6_currentLease c of
              None \<Rightarrow> None
            | Some l \<Rightarrow>
                (case DhcpMgr_createDhcpv6LeaseInfoMsg e l of
                   None \<Rightarrow> None
                 | Some m \<Rightarrow>
                     Some (c\<lparr>f6_Info := (f6_Info c)\<lparr>i6_MapInfo := map_info_after e m (i6_MapInfo (f6_Info c))\<rparr>\<rparr>,
                           act (A_publish6 (c6_InstanceNumber (f6_Cfg c)) (c6_Interface (f6_Cfg c)) t (Some m)) w)))
      else Some (c, act (A_publish6 (c6_InstanceNumber (f6_Cfg c)) (c6_Interface (f6_Cfg c)) t None) w))"

section \<open>Reading the event property\<close>

text \<open>
  \<open>%d\<close> of \<open>sscanf\<close>: white space, an optional sign, at least one digit.
\<close>

definition scan_int :: "string \<Rightarrow> int option" where
  "scan_int s = (let t = dropWhile is_space s;
                     neg = (t \<noteq> [] \<and> hd t = CHR ''-'');
                     u = (if t \<noteq> [] \<and> (hd t = CHR ''-'' \<or> hd t = CHR ''+'') then tl t else t)
                 in if u \<noteq> [] \<and> is_digit (hd u)
                    then Some (if neg then - int (read_digits 0 u) else int (read_digits 0 u))
                    else None)"

definition event_index :: "string \<Rightarrow> string \<Rightarrow> int option" where
  "event_index table name =
     (let p = table @ ''.''
      in if take (length p) name = p then scan_int (drop (length p) name) else None)"

definition DHCP_MGR_DHCPv4_TABLE :: string where "DHCP_MGR_DHCPv4_TABLE = ''Device.DHCPv4.Client''"
definition DHCP_MGR_DHCPv6_TABLE :: string where "DHCP_MGR_DHCPv6_TABLE = ''Device.DHCPv6.Client''"

text \<open>
  The object that \<open>DhcpMgr_SetLeaseDataOnProperty\<close> puts on the property: the
  interface name, the message type, the lease; \<open>No_object\<close> where nothing is set.
\<close>

datatype prop_object =
    No_object
  | Object4 string DHCP_MESSAGE_TYPE "DHCP_MGR_IPV4_MSG option"
  | Object6 string DHCP_MESSAGE_TYPE "DHCP_MGR_IPV6_MSG option"

definition get4 :: "env \<Rightarrow> COSA_DML_DHCPC_FULL list \<Rightarrow> string \<Rightarrow> prop_object" where
  "get4 e cs name =
     (case event_index DHCP_MGR_DHCPv4_TABLE name of
        None \<Rightarrow> No_object
      | Some i \<Rightarrow>
          if i < 1 \<or> length cs < nat i then No_object
          else (let c = cs ! (nat i - 1)
                in case f4_currentLease c of
                     None \<Rightarrow> No_object
                   | Some l \<Rightarrow>
                       if v4_isExpired l then Object4 (c4_Interface (f4_Cfg c)) DHCP_LEASE_DEL None
                       else Object4 (c4_Interface (f4_Cfg c)) DHCP_LEASE_UPDATE (Some (DhcpMgr_createLeaseInfoMsg e l))))"

definition get6 :: "env \<Rightarrow> COSA_DML_DHCPCV6_FULL list \<Rightarrow> string \<Rightarrow> prop_object option" where
  "get6 e cs name =
     (case event_index DHCP_MGR_DHCPv6_TABLE name of
        None \<Rightarrow> Some No_object
      | Some i \<Rightarrow>
          if i < 1 \<or> length cs < nat i then Some No_object
          else (let c = cs ! (nat i - 1)
                in case f6_currentLease c of
                     None \<Rightarrow> Some No_object
                   | Some l \<Rightarrow>
                       if v6_isExpired l then Some (Object6 (c6_Interface (f6_Cfg c)) DHCP_LEASE_DEL None)
                       else map_option (\<lambda>m. Object6 (c6_Interface (f6_Cfg c)) DHCP_LEASE_UPDATE (Some m))
                              (DhcpMgr_createDhcpv6LeaseInfoMsg e l)))"

definition getDataHandler ::
  "env \<Rightarrow> COSA_DML_DHCPC_FULL list \<Rightarrow> COSA_DML_DHCPCV6_FULL list \<Rightarrow> string \<Rightarrow> prop_object option" where
  "getDataHandler e c4s c6s name =
     (if take (length DHCP_MGR_DHCPv4_TABLE) name = DHCP_MGR_DHCPv4_TABLE then Some (get4 e c4s name)
      else if take (length DHCP_MGR_DHCPv6_TABLE) name = DHCP_MGR_DHCPv6_TABLE then get6 e c6s name
      else Some No_object)"

section \<open>Lemmas\<close>

lemma publish4_plain [simp]:
  "\<not> has_lease_info t \<Longrightarrow> DhcpMgr_PublishDhcpV4Event e c t w =
     Some (act (A_publish4 (c4_InstanceNumber (f4_Cfg c)) (c4_Interface (f4_Cfg c)) t None) w)"
  by (simp add: DhcpMgr_PublishDhcpV4Event_def)

lemma publish4_lease:
  "has_lease_info t \<Longrightarrow> f4_currentLease c = Some l \<Longrightarrow> DhcpMgr_PublishDhcpV4Event e c t w =
     Some (act (A_publish4 (c4_InstanceNumber (f4_Cfg c)) (c4_Interface (f4_Cfg c)) t
            (Some (DhcpMgr_createLeaseInfoMsg e l))) w)"
  by (simp add: DhcpMgr_PublishDhcpV4Event_def)

lemma publish6_plain [simp]:
  "\<not> has_lease_info t \<Longrightarrow> DhcpMgr_PublishDhcpV6Event e c t w =
     Some (c, act (A_publish6 (c6_InstanceNumber (f6_Cfg c)) (c6_Interface (f6_Cfg c)) t None) w)"
  by (simp add: DhcpMgr_PublishDhcpV6Event_def)

lemma has_lease_info_simps [simp]:
  "has_lease_info DHCP_LEASE_UPDATE" "has_lease_info DHCP_LEASE_RENEW" "\<not> has_lease_info DHCP_LEASE_DEL"
  "\<not> has_lease_info DHCP_CLIENT_STARTED" "\<not> has_lease_info DHCP_CLIENT_STOPPED"
  "\<not> has_lease_info DHCP_CLIENT_FAILED"
  by (simp_all add: has_lease_info_def)

lemma scan_int_show_nat: "r = [] \<or> \<not> is_digit (hd r) \<Longrightarrow> scan_int (show_nat n @ r) = Some (int n)"
proof -
  assume r: "r = [] \<or> \<not> is_digit (hd r)"
  obtain c cs where c: "show_nat n = c # cs" by (cases "show_nat n") auto
  then have d: "is_digit c" using show_nat_digits [of n] by simp
  have "read_digits 0 (show_nat n @ r) = read_digits n r"
    by (simp add: read_digits_append show_nat_digits read_digits_show_nat)
  moreover have "read_digits n r = n" using r by (cases r) auto
  ultimately show ?thesis
    using c d by (simp add: scan_int_def digit_not_space digit_not_sign Let_def)
qed

lemma event_index_event: "event_index table (table @ ''.'' @ show_nat n @ ''.Events'') = Some (int n)"
  using scan_int_show_nat [of "''.Events''" n] by (simp add: event_index_def Let_def is_digit_def)

text \<open>
  The name under which the events of an instance go out (\<open>DHCPv4_EVENT_FORMAT\<close>), and
  what is read under it: the client at the position of that number, whatever its instance number is.
\<close>

definition event_name4 :: "nat \<Rightarrow> string" where
  "event_name4 n = DHCP_MGR_DHCPv4_TABLE @ ''.'' @ show_nat n @ ''.Events''"

lemma getDataHandler_position:
  "getDataHandler e c4s c6s (event_name4 n) =
     Some (if n < 1 \<or> length c4s < n then No_object
           else (case f4_currentLease (c4s ! (n - 1)) of
                   None \<Rightarrow> No_object
                 | Some l \<Rightarrow>
                     if v4_isExpired l then Object4 (c4_Interface (f4_Cfg (c4s ! (n - 1)))) DHCP_LEASE_DEL None
                     else Object4 (c4_Interface (f4_Cfg (c4s ! (n - 1)))) DHCP_LEASE_UPDATE (Some (DhcpMgr_createLeaseInfoMsg e l))))"
  using event_index_event [of DHCP_MGR_DHCPv4_TABLE n]
  by (simp add: getDataHandler_def get4_def event_name4_def Let_def split: option.split)

text \<open>
  Events go out under the instance number, reads go by position: a client whose
  instance number is above the length of the table, because another one was deleted,
  publishes under a name that reads as nothing.
\<close>

lemma published_name_unreadable:
  assumes "i < length cs" "f4_currentLease (cs ! i) = Some l" "c4_InstanceNumber (f4_Cfg (cs ! i)) = n" "length cs < n"
  shows "DhcpMgr_PublishDhcpV4Event e (cs ! i) DHCP_LEASE_UPDATE w =
      Some (act (A_publish4 n (c4_Interface (f4_Cfg (cs ! i))) DHCP_LEASE_UPDATE (Some (DhcpMgr_createLeaseInfoMsg e l))) w) \<and>
    getDataHandler e cs c6s (event_name4 n) = Some No_object"
  using assms by (simp add: publish4_lease getDataHandler_position)

end
