(* ===== verification/Lease_Store.thy ===== *)
theory Lease_Store
  imports Rbus_Events
begin

text \<open>
  The lease files under \<open>/tmp/Dhcp_manager\<close> that let a restarted manager find
  its clients again (\<open>source/DHCPMgrUtils/dhcpmgr_recovery_handler.c\<close>): storing
  and removing them. Opening a file for writing empties it.
\<close>

definition EXIT_FAIL :: int where "EXIT_FAIL = -1"
definition EXIT_SUCCESS :: int where "EXIT_SUCCESS = 0"

definition TMP_DIR_PATH :: string where "TMP_DIR_PATH = ''/tmp/Dhcp_manager''"

definition lease_path4 :: "nat \<Rightarrow> string" where
  "lease_path4 n = ''/tmp/Dhcp_manager/dhcpLease_'' @ show_nat n @ ''_v4''"

definition lease_path6 :: "nat \<Rightarrow> string" where
  "lease_path6 n = ''/tmp/Dhcp_manager/dhcpLease_'' @ show_nat n @ ''_v6''"

definition Create_Dir_ifnEx :: "env \<Rightarrow> string \<Rightarrow> world \<Rightarrow> int \<times> world" where
  "Create_Dir_ifnEx e path w =
     (let (r, w1) = call e (A_access path) w
      in if r = -1
         then (let (r2, w2) = call e (A_mkdir path) w1
               in if r2 = -1 then (EXIT_FAIL, w2) else (EXIT_SUCCESS, w2))
         else (EXIT_SUCCESS, w1))"

text \<open>
  \<open>fwrite\<close> answers the number of items written. The DHCPv4 code does not look
  at the result for the second segment, the DHCPv6 code does.
\<close>

definition DHCPMgr_storeDhcpv4Lease :: "env \<Rightarrow> COSA_DML_DHCPC_FULL \<Rightarrow> world \<Rightarrow> int \<times> world" where
  "DHCPMgr_storeDhcpv4Lease e c w =
     (let (d, w1) = Create_Dir_ifnEx e TMP_DIR_PATH w
      in if d \<noteq> EXIT_SUCCESS then (EXIT_FAIL, w1)
         else
           (let path = lease_path4 (c4_InstanceNumber (f4_Cfg c));
                (r, w2) = call e (A_fopen path ''wb'') w1
            in if r < 0 then (EXIT_FAIL, w2)
               else
                 (let (n, w3) = call e (A_fwrite path) (w2\<lparr>w_files := (w_files w2)(path \<mapsto> File_empty)\<rparr>)
                  in if n \<noteq> 1 then (EXIT_FAIL, w3)
                     else
                       (case f4_currentLease c of
                          None \<Rightarrow> (EXIT_SUCCESS, w3\<lparr>w_files := (w_files w3)(path \<mapsto> File4 c None)\<rparr>)
                        | Some l \<Rightarrow>
                            (let (m, w4) = call e (A_fwrite path) w3
                             in (EXIT_SUCCESS,
                                 w4\<lparr>w_files := (w_files w4)(path \<mapsto> File4 c (if m = 1 then Some l else None))\<rparr>))))))"

definition DHCPMgr_storeDhcpv6Lease :: "env \<Rightarrow> COSA_DML_DHCPCV6_FULL \<Rightarrow> world \<Rightarrow> int \<times> world" where
  "DHCPMgr_storeDhcpv6Lease e c w =
     (let (d, w1) = Create_Dir_ifnEx e TMP_DIR_PATH w
      in if d \<noteq> EXIT_SUCCESS then (EXIT_FAIL, w1)
         else
           (let path = lease_path6 (c6_InstanceNumber (f6_Cfg c));
                (r, w2) = call e (A_fopen path ''wb'') w1
            in if r < 0 then (EXIT_FAIL, w2)
               else
                 (let (n, w3) = call e (A_fwrite path) (w2\<lparr>w_files := (w_files w2)(path \<mapsto> File_empty)\<rparr>)
                  in if n \<noteq> 1 then (EXIT_FAIL, w3)
                     else
                       (case f6_currentLease c of
                          None \<Rightarrow> (EXIT_SUCCESS, w3\<lparr>w_files := (w_files w3)(path \<mapsto> File6 c None)\<rparr>)
                        | Some l \<Rightarrow>
                            (let (m, w4) = call e (A_fwrite path) w3
                             in (if m = 1 then EXIT_SUCCESS else EXIT_FAIL,
                                 w4\<lparr>w_files := (w_files w4)(path \<mapsto> File6 c (if m = 1 then Some l else None))\<rparr>))))))"

datatype dhcp_version = DHCP_v4 | DHCP_v6

definition remove_dhcp_lease_file :: "env \<Rightarrow> nat \<Rightarrow> dhcp_version \<Rightarrow> world \<Rightarrow> world" where
  "remove_dhcp_lease_file e n v w =
     (let path = (case v of DHCP_v4 \<Rightarrow> lease_path4 n | DHCP_v6 \<Rightarrow> lease_path6 n);
          (r, w1) = call e (A_remove path) w
      in if r = 0 then w1\<lparr>w_files := (w_files w1)(path := None)\<rparr> else w1)"

section \<open>Lemmas\<close>

lemma Create_Dir_quiet: "quiet w (snd (Create_Dir_ifnEx e p w))"
  by (auto simp: Create_Dir_ifnEx_def call_def Let_def intro!: quiet_intros)

lemma storeDhcpv4Lease_quiet: "quiet w (snd (DHCPMgr_storeDhcpv4Lease e c w))"
proof -
  obtain d w1 where d: "Create_Dir_ifnEx e TMP_DIR_PATH w = (d, w1)" by force
  with Create_Dir_quiet [of w e TMP_DIR_PATH] have "quiet w w1" by simp
  then show ?thesis
    by (auto simp: DHCPMgr_storeDhcpv4Lease_def d call_def Let_def split: option.splits intro!: quiet_intros)
qed

lemma storeDhcpv6Lease_quiet: "quiet w (snd (DHCPMgr_storeDhcpv6Lease e c w))"
proof -
  obtain d w1 where d: "Create_Dir_ifnEx e TMP_DIR_PATH w = (d, w1)" by force
  with Create_Dir_quiet [of w e TMP_DIR_PATH] have "quiet w w1" by simp
  then show ?thesis
    by (auto simp: DHCPMgr_storeDhcpv6Lease_def d call_def Let_def split: option.splits intro!: quiet_intros)
qed

lemma remove_lease_file_quiet: "quiet w (remove_dhcp_lease_file e n v w)"
  by (auto simp: remove_dhcp_lease_file_def call_def Let_def intro!: quiet_intros)

lemma remove_lease_file_gone:
  "\<forall>tr. e_ret e (tr @ [A_remove (lease_path4 n)]) = 0 \<Longrightarrow> w_files (remove_dhcp_lease_file e n DHCP_v4 w) (lease_path4 n) = None"
  by (simp add: remove_dhcp_lease_file_def case_prod_beta fst_call Let_def)

end
