(* ===== verification/Custom_Options.thy ===== *)
theory Custom_Options
  imports Dhcp_World
begin

text \<open>
  The vendor options, \<open>source/DHCPMgrUtils/CustomOptions/dhcpmgr_custom_options.c\<close>:
  the parsers of DHCPv6 option 17 and of the DHCPv4 options 122 and 125, which
  arrive as hex text and become system events. The functions are weak symbols
  that a platform may replace; the model has the implementations of the source.
  Allocations succeed. A read behind the terminating NUL and a copy larger than
  its destination make the result \<open>None\<close>.
\<close>

section \<open>Time offset\<close>

text \<open>\<open>%02x\<close> of \<open>sscanf\<close>: at most two characters, of which a sign or \<open>0x\<close> counts.\<close>

definition scan_hex2 :: "string \<Rightarrow> (int \<times> string) option" where
  "scan_hex2 s =
     (case dropWhile is_space s of
        [] \<Rightarrow> None
      | a # r \<Rightarrow>
          if a = CHR ''-'' \<or> a = CHR ''+''
          then (case r of
                  [] \<Rightarrow> None
                | b # r' \<Rightarrow> if is_hex b then Some (if a = CHR ''-'' then - int (hex_val b) else int (hex_val b), r') else None)
          else if \<not> is_hex a then None
          else (case r of
                  [] \<Rightarrow> Some (int (hex_val a), [])
                | b # r' \<Rightarrow> if a = CHR ''0'' \<and> is_x b then Some (0, r')
                           else if is_hex b then Some (int (16 * hex_val a + hex_val b), r')
                           else Some (int (hex_val a), r)))"

text \<open>\<open>sscanf(s, "%02x:%02x:%02x:%02x", ...) == 4\<close> and the value that the bytes make.\<close>

definition scan_colon :: "(int \<times> string) option \<Rightarrow> string option" where
  "scan_colon x = (case x of Some (_, c # r) \<Rightarrow> if c = CHR '':'' then Some r else None | _ \<Rightarrow> None)"

definition time_offset :: "string \<Rightarrow> u32" where
  "time_offset s =
     (let x0 = scan_hex2 s; x1 = Option.bind (scan_colon x0) scan_hex2;
          x2 = Option.bind (scan_colon x1) scan_hex2; x3 = Option.bind (scan_colon x2) scan_hex2
      in case (x0, x1, x2, x3) of
           (Some (b0, _), Some (b1, _), Some (b2, _), Some (b3, _)) \<Rightarrow>
             or (or (push_bit 24 (word_of_int b0)) (push_bit 16 (word_of_int b1)))
                (or (push_bit 8 (word_of_int b2)) (word_of_int b3))
         | _ \<Rightarrow> 0)"

section \<open>Option 17\<close>

text \<open>The fixed width of an identifier and of a length: two digits in a DHCPv4 option, four in a DHCPv6 one.\<close>

definition field_len :: "bool \<Rightarrow> nat" where
  "field_len v4 = (if v4 then 2 else 4)"

definition add_format :: "string option \<Rightarrow> string \<Rightarrow> string \<Rightarrow> string" where
  "add_format fmt sub val =
     (case fmt of None \<Rightarrow> sub @ ''='' @ val | Some f \<Rightarrow> f @ '' '' @ sub @ ''='' @ val)"

function (sequential) subopt17_loop :: "bool \<Rightarrow> string \<Rightarrow> string option \<Rightarrow> string option" where
  "subopt17_loop v4 remaining fmt =
     (let len = field_len v4
      in if length remaining < 2 * len then fmt
         else
           (let sub = take len remaining;
                l = c_strtol16 (take len (drop len remaining));
                rest = drop (2 * len) remaining
            in if l < 0 then fmt
               else if nat l * 2 \<ge> 256 \<or> nat l * 2 > length rest then fmt
               else subopt17_loop v4 (drop (nat l * 2) rest) (Some (add_format fmt sub (take (nat l * 2) rest)))))"
  by pat_completeness auto
termination
  by (relation "measure (\<lambda>(v4, r, fmt). length r)") (auto simp: field_len_def split: if_splits)

declare subopt17_loop.simps [simp del]

definition parse_dhcp_17_suboption :: "string \<Rightarrow> string \<Rightarrow> string option" where
  "parse_dhcp_17_suboption val ip_mode =
     subopt17_loop (ip_mode = ''v4'') (filter (\<lambda>c. c \<noteq> CHR '':'') val) None"

text \<open>\<open>strtok_r(s, "=")\<close> twice: the name and the value of a suboption.\<close>

definition name_value :: "string \<Rightarrow> (string \<times> string) option" where
  "name_value s = (case strtok ''='' s of n # v # _ \<Rightarrow> Some (n, v) | _ \<Rightarrow> None)"

text \<open>
  An address event is set when the event has no value yet. The state of the
  loops is the flag \<open>mta_dhcp_option_received\<close> and the world.
\<close>

definition set_if_unset :: "env \<Rightarrow> string \<Rightarrow> string \<Rightarrow> bool \<times> world \<Rightarrow> bool \<times> world" where
  "set_if_unset e name v = (\<lambda>(rx, w).
     (let (cur, w1) = ask e (A_get_event name) w
      in if c_trunc 64 cur = [] then (True, act (A_set_event name v) w1) else (rx, w1)))"

definition mta_nested :: "env \<Rightarrow> bool \<Rightarrow> string \<Rightarrow> bool \<times> world \<Rightarrow> bool \<times> world" where
  "mta_nested e is2170 tok st =
     (case name_value tok of
        None \<Rightarrow> st
      | Some (n, v) \<Rightarrow>
          if n = ''0001''
          then set_if_unset e (if is2170 then ''MTA_DHCPv4_PrimaryAddress'' else ''MTA_DHCPv6_PrimaryAddress'') v st
          else if n = ''0002''
          then set_if_unset e (if is2170 then ''MTA_DHCPv4_SecondaryAddress'' else ''MTA_DHCPv6_SecondaryAddress'') v st
          else st)"

definition option17_token :: "env \<Rightarrow> string \<Rightarrow> u32 \<times> bool \<times> world \<Rightarrow> u32 \<times> bool \<times> world" where
  "option17_token e tok = (\<lambda>(off, rx, w).
     (case name_value tok of
        None \<Rightarrow> (off, rx, w)
      | Some (n, v) \<Rightarrow>
          if n = ''vendor'' then (off, rx, act (A_set_event ''ipv6-vendor-id'' v) w)
          else if n = ''38'' then (time_offset v, rx, w)
          else if n = ''39''
          then (let w1 = act (A_set_event ''wan6_ippref'' v) w; (rx', w2) = set_if_unset e ''MTA_IP_PREF'' v (rx, w1)
                in (off, rx', w2))
          else if n = ''2'' then (off, rx, act (A_set_event ''ipv6-device-type'' v) w)
          else if n = ''3'' then (off, rx, act (A_set_event ''ipv6-embd-comp-in-device'' v) w)
          else if n = ''2170'' \<or> n = ''2171''
          then (case parse_dhcp_17_suboption v ''v6'' of
                  None \<Rightarrow> (off, rx, w)
                | Some p \<Rightarrow> (let (rx', w') = fold (mta_nested e (n = ''2170'')) (strtok '' '' p) (rx, w) in (off, rx', w')))
          else (off, rx, w)))"

definition DhcpMgr_Option17Set_Common :: "env \<Rightarrow> string \<Rightarrow> u32 \<Rightarrow> world \<Rightarrow> u32 \<times> world" where
  "DhcpMgr_Option17Set_Common e val off w =
     (let (off', rx, w1) = fold (option17_token e) (strtok '' '' val) (off, False, w)
      in (off', if rx then act (A_set_event ''dhcp_mta_option'' ''received'') w1 else w1))"

definition Set_DhcpV6_CustomOption17 :: "env \<Rightarrow> string \<Rightarrow> string \<Rightarrow> u32 \<Rightarrow> world \<Rightarrow> u32 \<times> world" where
  "Set_DhcpV6_CustomOption17 e ifName val off w = DhcpMgr_Option17Set_Common e val off w"

section \<open>Options 122 and 125\<close>

text \<open>Setting an event that marks the option as received; an empty address is not set.\<close>

definition set_rx :: "string \<Rightarrow> string \<Rightarrow> bool \<times> world \<Rightarrow> bool \<times> world" where
  "set_rx name v st = (True, act (A_set_event name v) (snd st))"

definition set_addr :: "string \<Rightarrow> string \<Rightarrow> bool \<times> world \<Rightarrow> bool \<times> world" where
  "set_addr name v st = (if v \<noteq> [] then set_rx name v st else st)"

text \<open>
  Option 122: the loop of \<open>set_mta_config\<close> for \<open>"v4"\<close>. It reads an identifier
  and a length of two characters without looking for the end, takes the length
  as a decimal number and copies twice as many characters to a buffer of 128.
\<close>

function (sequential) mta122_loop :: "env \<Rightarrow> string \<Rightarrow> bool \<times> world \<Rightarrow> (bool \<times> world) option" where
  "mta122_loop e opt st =
     (if opt = [] then Some st
      else if length opt < 4 then None
      else
        (let sub = c_atoi (take 2 opt); len = c_atoi (take 2 (drop 2 opt)); rest = drop 4 opt
         in if len < 0 \<or> 128 < nat len * 2 \<or> length rest < nat len * 2 then None
            else if (sub = 1 \<or> sub = 2) \<and> nat len * 2 = 128 then None
            else
              (let v = take (nat len * 2) rest; rest' = drop (nat len * 2) rest
               in mta122_loop e rest'
                    (if sub = 1 then set_rx ''MTA_DHCPv4_PrimaryAddress'' v st
                     else if sub = 2 then set_rx ''MTA_DHCPv4_SecondaryAddress'' v st
                     else st))))"
  by pat_completeness auto
termination
  by (relation "measure (\<lambda>(e, opt, st). length opt)") (auto simp: Let_def)

declare mta122_loop.simps [simp del]

text \<open>
  \<open>parse_nested_option\<close>: primary and secondary address; the value goes to an
  array of 256 characters and from there to another by \<open>strcpy\<close>.
\<close>

function (sequential) parse_nested_option :: "string \<Rightarrow> string \<times> string \<Rightarrow> (string \<times> string) option" where
  "parse_nested_option nested addrs =
     (if length nested < 4 then Some addrs
      else
        (let sub = c_atoi (take 2 nested); len = c_strtol16 (take 2 (drop 2 nested)); rest = drop 4 nested
         in if len < 0 then None
            else if length rest < nat len * 2 then Some addrs
            else if 256 \<le> nat len * 2 then None
            else
              (let v = take (nat len * 2) rest; rest' = drop (nat len * 2) rest
               in parse_nested_option rest'
                    (if sub = 1 then (v, snd addrs) else if sub = 2 then (fst addrs, v) else addrs))))"
  by pat_completeness auto
termination
  by (relation "measure (\<lambda>(n, st). length n)") (auto simp: Let_def)

declare parse_nested_option.simps [simp del]

definition upcase :: "string \<Rightarrow> string" where
  "upcase s = map (\<lambda>c. if (of_char c :: nat) \<in> {97..122} then char_of (of_char c - 32 :: nat) else c) s"

text \<open>Option 125: the loop of \<open>set_mta_config\<close> for \<open>"v6"\<close>.\<close>

function (sequential) mta125_loop :: "env \<Rightarrow> string \<Rightarrow> bool \<times> world \<Rightarrow> (bool \<times> world) option" where
  "mta125_loop e opt st =
     (if length opt < 4 then Some st
      else
        (let sub = upcase (take 2 opt); len = c_strtol16 (take 2 (drop 2 opt)); rest = drop 4 opt
         in if len < 0 then None
            else if length rest < nat len * 2 then Some st
            else
              (let v = take (nat len * 2) rest; rest' = drop (nat len * 2) rest
               in if sub = ''7C'' then mta125_loop e rest' (set_rx ''MTA_IP_PREF'' v st)
                  else if sub = ''7B''
                  then (case parse_nested_option v ([], []) of
                          None \<Rightarrow> None
                        | Some (p, s) \<Rightarrow>
                            mta125_loop e rest'
                              (set_addr ''MTA_DHCPv6_SecondaryAddress'' s (set_addr ''MTA_DHCPv6_PrimaryAddress'' p st)))
                  else mta125_loop e rest' st)))"
  by pat_completeness auto
termination
  by (relation "measure (\<lambda>(e, opt, st). length opt)") (auto simp: Let_def split: if_splits)

declare mta125_loop.simps [simp del]

definition set_mta_config :: "env \<Rightarrow> string \<Rightarrow> string \<Rightarrow> world \<Rightarrow> world option" where
  "set_mta_config e val version w =
     map_option (\<lambda>(rx, w'). if rx then act (A_set_event ''dhcp_mta_option'' ''received'') w' else w')
       (if version = ''v4'' then mta122_loop e val (False, w)
        else if version = ''v6'' then mta125_loop e val (False, w)
        else Some (False, w))"

definition Set_DhcpV4_CustomOption_mta :: "env \<Rightarrow> string \<Rightarrow> string \<Rightarrow> world \<Rightarrow> world option" where
  "Set_DhcpV4_CustomOption_mta e val version w = set_mta_config e val version w"

section \<open>Effects\<close>

text \<open>The parsers set events and do nothing else to the world.\<close>

lemma set_if_unset_quiet: "quiet w0 (snd st) \<Longrightarrow> quiet w0 (snd (set_if_unset e n v st))"
  by (cases st) (auto simp: set_if_unset_def ask_def Let_def intro!: quiet_intros)

lemma mta_nested_quiet: "quiet w0 (snd st) \<Longrightarrow> quiet w0 (snd (mta_nested e b tok st))"
  by (auto simp: mta_nested_def set_if_unset_quiet split: option.splits prod.splits)

lemma fold_mta_nested_quiet: "quiet w0 (snd st) \<Longrightarrow> quiet w0 (snd (fold (mta_nested e b) toks st))"
  by (induction toks arbitrary: st) (auto simp: mta_nested_quiet)

lemma option17_token_quiet:
  assumes "quiet w0 w"
  shows "quiet w0 (snd (snd (option17_token e tok (off, rx, w))))"
proof -
  have f: "quiet w0 (snd (fold (mta_nested e b) toks (rx, w)))" for b toks
    using assms by (intro fold_mta_nested_quiet) simp
  have g: "quiet w0 (snd (set_if_unset e n v (rx, act (A_set_event m v) w)))" for n m v
    using assms by (intro set_if_unset_quiet) (auto intro!: quiet_intros)
  show ?thesis
  proof (cases "name_value tok")
    case None
    then show ?thesis using assms by (simp add: option17_token_def)
  next
    case (Some p)
    then show ?thesis
      using assms by (cases p) (simp add: option17_token_def Let_def case_prod_beta f g quiet_step split: option.split)
  qed
qed

lemma option17_fold_quiet: "quiet w0 (snd (snd st)) \<Longrightarrow> quiet w0 (snd (snd (fold (option17_token e) toks st)))"
proof (induction toks arbitrary: st)
  case (Cons t toks)
  then show ?case using option17_token_quiet [of w0 "snd (snd st)" e t "fst st" "fst (snd st)"] by simp
qed simp

lemma Option17Set_quiet: "quiet w (snd (DhcpMgr_Option17Set_Common e val off w))"
  using option17_fold_quiet [of w "(off, False, w)" e "strtok '' '' val"]
  by (auto simp: DhcpMgr_Option17Set_Common_def Let_def case_prod_beta intro: quiet_step)

lemma set_rx_quiet: "quiet w0 (snd st) \<Longrightarrow> quiet w0 (snd (set_rx n v st))"
  by (simp add: set_rx_def quiet_step)

lemma set_addr_quiet: "quiet w0 (snd st) \<Longrightarrow> quiet w0 (snd (set_addr n v st))"
  by (simp add: set_addr_def set_rx_quiet)

lemma mta122_quiet: "quiet w0 (snd st) \<Longrightarrow> mta122_loop e opt st = Some st' \<Longrightarrow> quiet w0 (snd st')"
proof (induction "length opt" arbitrary: opt st rule: less_induct)
  case less
  have IH: "quiet w0 (snd st')" if "mta122_loop e (drop n (drop 4 opt)) st1 = Some st'" "quiet w0 (snd st1)" "opt \<noteq> []" for st1 n
    using that by (intro less.hyps [of "drop n (drop 4 opt)"]) auto
  show ?case
    using less.prems
    by (auto simp: mta122_loop.simps [of e opt] Let_def simp del: drop_drop intro: IH set_rx_quiet split: if_splits)
qed

lemma mta125_quiet: "quiet w0 (snd st) \<Longrightarrow> mta125_loop e opt st = Some st' \<Longrightarrow> quiet w0 (snd st')"
proof (induction "length opt" arbitrary: opt st rule: less_induct)
  case less
  have IH: "quiet w0 (snd st')" if "mta125_loop e (drop n (drop 4 opt)) st1 = Some st'" "quiet w0 (snd st1)" "\<not> length opt < 4" for st1 n
    using that by (intro less.hyps [of "drop n (drop 4 opt)"]) auto
  show ?case
    using less.prems
    by (auto simp: mta125_loop.simps [of e opt] Let_def simp del: drop_drop intro: IH set_rx_quiet set_addr_quiet
          split: if_splits option.splits)
qed

lemma set_mta_config_quiet: "set_mta_config e val v w = Some w' \<Longrightarrow> quiet w w'"
  using mta122_quiet [of w "(False, w)" e val] mta125_quiet [of w "(False, w)" e val]
  by (auto simp: set_mta_config_def split: if_splits intro: quiet_step)

text \<open>Whether the option parsers stay inside their buffers depends on the option alone.\<close>

lemma mta122_state_indep: "mta122_loop e opt st = None \<longleftrightarrow> mta122_loop e opt st' = None"
proof (induction "length opt" arbitrary: opt st st' rule: less_induct)
  case less
  have "mta122_loop e (drop n (drop 4 opt)) st1 = None \<longleftrightarrow> mta122_loop e (drop n (drop 4 opt)) st2 = None"
    if "opt \<noteq> []" for n st1 st2
    using that by (intro less.hyps) auto
  then show ?case
    by (simp add: mta122_loop.simps [of e opt st] mta122_loop.simps [of e opt st'] Let_def del: drop_drop)
qed

lemma mta125_state_indep: "mta125_loop e opt st = None \<longleftrightarrow> mta125_loop e opt st' = None"
proof (induction "length opt" arbitrary: opt st st' rule: less_induct)
  case less
  define P where "P n = (mta125_loop e (drop n (drop 4 opt)) st = None)" for n
  have IH: "mta125_loop e (drop n (drop 4 opt)) st1 = None \<longleftrightarrow> P n" if "\<not> length opt < 4" for n st1
    unfolding P_def using that by (intro less.hyps) auto
  show ?case
  proof (cases "length opt < 4")
    case True
    then show ?thesis by (simp add: mta125_loop.simps [of e opt])
  next
    case False
    have "mta125_loop e opt st1 = None \<longleftrightarrow>
        (let len = c_strtol16 (take 2 (drop 2 opt)); rest = drop 4 opt
         in len < 0 \<or> (nat len * 2 \<le> length rest \<and>
              ((upcase (take 2 opt) = ''7B'' \<and> parse_nested_option (take (nat len * 2) rest) ([], []) = None) \<or> P (nat len * 2))))"
      for st1
      using False by (simp add: mta125_loop.simps [of e opt] Let_def case_prod_beta IH [OF False] del: drop_drop split: option.split)
    then show ?thesis by simp
  qed
qed

definition mta_option_ok :: "env \<Rightarrow> string \<Rightarrow> string \<Rightarrow> bool" where
  "mta_option_ok e val version \<longleftrightarrow> Set_DhcpV4_CustomOption_mta e val version world_init \<noteq> None"

lemma mta_option_ok_Some: "mta_option_ok e val v \<Longrightarrow> \<exists>w'. Set_DhcpV4_CustomOption_mta e val v w = Some w' \<and> quiet w w'"
proof -
  assume "mta_option_ok e val v"
  then have "Set_DhcpV4_CustomOption_mta e val v w \<noteq> None"
    using mta122_state_indep [of e val "(False, world_init)" "(False, w)"]
      mta125_state_indep [of e val "(False, world_init)" "(False, w)"]
    by (simp add: mta_option_ok_def Set_DhcpV4_CustomOption_mta_def set_mta_config_def del: not_None_eq split: if_splits)
  then show ?thesis using set_mta_config_quiet by (auto simp: Set_DhcpV4_CustomOption_mta_def)
qed

end
