(* ===== verification/Lease_V4.thy ===== *)
theory Lease_V4
  imports Lease_Store Custom_Options
begin

text \<open>
  The DHCPv4 lease handler, \<open>source/DHCPMgrUtils/dhcpmgr_v4_lease_handler.c\<close>: a
  batch of new leases is worked off in order; each one is compared with the
  current lease, becomes the current lease and is stored, and a changed lease
  configures the interface, updates the data model and is published.
\<close>

unbundle bit_operations_syntax

section \<open>Handler\<close>

text \<open>\<open>%d\<close> of an unsigned lease time prints it as a signed integer.\<close>

definition set_inf_sysevents ::
  "env \<Rightarrow> DHCPv4_PLUGIN_MSG option \<Rightarrow> DHCPv4_PLUGIN_MSG \<Rightarrow> string \<Rightarrow> world \<Rightarrow> world" where
  "set_inf_sysevents e current newLease interface w =
     (let ev = (\<lambda>suffix v. act (A_set_event (c_trunc 128 (''ipv4_'' @ interface @ suffix)) (c_trunc 64 v)));
          w1 = (if current = None \<or> v4_dhcpServerId (the current) \<noteq> v4_dhcpServerId newLease
                then ev ''_dhcp_server'' (v4_dhcpServerId newLease) w else w);
          w2 = (if current = None \<or> v4_leaseTime (the current) \<noteq> v4_leaseTime newLease
                then ev ''_lease_time'' (show_int (sint (v4_leaseTime newLease))) w1 else w1);
          w3 = (if current = None \<or> v4_dhcpState (the current) \<noteq> v4_dhcpState newLease
                then ev ''_dhcp_state'' (v4_dhcpState newLease) w2 else w2);
          (up, w4) = call e A_uptime w3
      in ev ''_start_time'' (show_nat (nat up)) w4)"

text \<open>
  The routers of the gateway string go to an array of
  \<open>COSA_DML_DHCP_MAX_ENTRIES\<close> addresses with no check of the index.
\<close>

fun set_routers :: "env \<Rightarrow> string list \<Rightarrow> COSA_DML_DHCPC_INFO \<Rightarrow> COSA_DML_DHCPC_INFO option" where
  "set_routers e [] i = Some i"
| "set_routers e (tok # toks) i =
     (if i4_NumIPRouters i < COSA_DML_DHCP_MAX_ENTRIES
      then set_routers e toks
             (i\<lparr>i4_IPRouters := (i4_IPRouters i)[i4_NumIPRouters i := e_inet_addr e tok],
                i4_NumIPRouters := Suc (i4_NumIPRouters i)\<rparr>)
      else None)"

definition add_dns :: "env \<Rightarrow> string \<Rightarrow> COSA_DML_DHCPC_INFO \<Rightarrow> COSA_DML_DHCPC_INFO" where
  "add_dns e s i = (if s \<noteq> []
     then i\<lparr>i4_DNSServers := (i4_DNSServers i)[i4_NumDnsServers i := e_inet_addr e s],
            i4_NumDnsServers := Suc (i4_NumDnsServers i)\<rparr>
     else i)"

definition gateway_tokens :: "DHCPv4_PLUGIN_MSG \<Rightarrow> string list" where
  "gateway_tokens l = strtok '' '' (c_trunc 64 (v4_gateway l))"

definition DhcpMgr_updateDHCPv4DML ::
  "env \<Rightarrow> COSA_DML_DHCPC_FULL \<Rightarrow> (RETURN_STATUS \<times> COSA_DML_DHCPC_FULL) option" where
  "DhcpMgr_updateDHCPv4DML e c =
     (case f4_currentLease c of
        None \<Rightarrow> Some (STATUS_FAILURE, c)
      | Some current \<Rightarrow>
          if v4_addressAssigned current
          then (let i1 = (f4_Info c)\<lparr>i4_Status := COSA_DML_DHCP_STATUS_Enabled,
                           i4_DHCPStatus := COSA_DML_DHCPC_STATUS_Bound,
                           i4_IPAddress := e_inet_addr e (v4_address current),
                           i4_SubnetMask := e_inet_addr e (v4_netmask current),
                           i4_LeaseTimeRemaining := sint (v4_leaseTime current),
                           i4_NumDnsServers := 0, i4_NumIPRouters := 0\<rparr>;
                    i2 = add_dns e (v4_dnsServer1 current) (add_dns e (v4_dnsServer current) i1)
                in (case set_routers e (gateway_tokens current) i2 of
                      None \<Rightarrow> None
                    | Some i3 \<Rightarrow>
                        Some (STATUS_SUCCESS,
                              c\<lparr>f4_Info := i3\<lparr>i4_DHCPServer := e_inet_addr e (v4_dhcpServerId current)\<rparr>\<rparr>)))
          else Some (STATUS_SUCCESS, c))"

definition DhcpMgr_GetBCastFromIpSubnetMask :: "env \<Rightarrow> string \<Rightarrow> string \<Rightarrow> string" where
  "DhcpMgr_GetBCastFromIpSubnetMask e ip netmask = e_inet_ntoa e (e_inet_addr e ip OR NOT (e_inet_addr e netmask))"

text \<open>
  \<open>configureNetworkInterface\<close>: the ioctls in order, each one only when those
  before succeeded. The name of the request structure is cut to \<open>IFNAMSIZ\<close>.
\<close>

fun ioctls :: "env \<Rightarrow> string \<Rightarrow> (string \<times> string) list \<Rightarrow> world \<Rightarrow> int \<times> world" where
  "ioctls e n [] w = (0, w)"
| "ioctls e n ((req, arg) # rs) w =
     (let (r, w') = call e (A_ioctl req n arg) w in if r < 0 then (-1, w') else ioctls e n rs w')"

definition configureNetworkInterface :: "env \<Rightarrow> COSA_DML_DHCPC_FULL \<Rightarrow> world \<Rightarrow> int \<times> world" where
  "configureNetworkInterface e c w =
     (case f4_currentLease c of
        None \<Rightarrow> (-1, w)
      | Some current \<Rightarrow>
          (let (s, w1) = call e A_socket w
           in if s < 0 then (-1, w1)
              else ioctls e (take 16 (c4_Interface (f4_Cfg c)))
                     [(''SIOCSIFADDR'', v4_address current),
                      (''SIOCSIFNETMASK'', v4_netmask current),
                      (''SIOCSIFBRDADDR'', DhcpMgr_GetBCastFromIpSubnetMask e (v4_address current) (v4_netmask current)),
                      (''SIOCSIFMTU'', show_nat (unat (v4_mtuSize current))),
                      (''SIOCGIFFLAGS'', [])] w1))"

text \<open>The comparison of the current lease with a new one.\<close>

definition v4_differs :: "DHCPv4_PLUGIN_MSG \<Rightarrow> DHCPv4_PLUGIN_MSG \<Rightarrow> bool" where
  "v4_differs current newLease \<longleftrightarrow>
     v4_addressAssigned current \<noteq> v4_addressAssigned newLease \<or> v4_isExpired current \<noteq> v4_isExpired newLease \<or>
     v4_address current \<noteq> v4_address newLease \<or> v4_netmask current \<noteq> v4_netmask newLease \<or>
     v4_gateway current \<noteq> v4_gateway newLease \<or> v4_dnsServer current \<noteq> v4_dnsServer newLease \<or>
     v4_dnsServer1 current \<noteq> v4_dnsServer1 newLease"

definition mta_actions :: "env \<Rightarrow> DHCPv4_PLUGIN_MSG \<Rightarrow> world \<Rightarrow> world option" where
  "mta_actions e l w =
     (if e_EROUTER_DHCP_OPTION_MTA e
      then (case (if Assigned122 (v4_mtaOption l)
                  then Set_DhcpV4_CustomOption_mta e (option_122 (v4_mtaOption l)) ''v4'' w else Some w) of
              None \<Rightarrow> None
            | Some w1 \<Rightarrow>
                if Assigned125 (v4_mtaOption l)
                then Set_DhcpV4_CustomOption_mta e (option_125 (v4_mtaOption l)) ''v6'' w1 else Some w1)
      else Some w)"

definition mtu_default :: "DHCPv4_PLUGIN_MSG \<Rightarrow> DHCPv4_PLUGIN_MSG" where
  "mtu_default l = (if v4_mtuSize l = 0 then l\<lparr>v4_mtuSize := 1500\<rparr> else l)"

text \<open>
  What follows the storing of a lease when \<open>leaseChanged\<close> is set: the current
  lease is the new one, so that its default MTU is set in the current lease.
\<close>

definition v4_apply_change ::
  "env \<Rightarrow> DHCPv4_PLUGIN_MSG \<Rightarrow> COSA_DML_DHCPC_FULL \<Rightarrow> world \<Rightarrow> (COSA_DML_DHCPC_FULL \<times> world) option" where
  "v4_apply_change e newLease c w =
     (if v4_isExpired newLease
      then map_option (\<lambda>w'. (c, w')) (DhcpMgr_PublishDhcpV4Event e c DHCP_LEASE_DEL w)
      else
        (let c1 = c\<lparr>f4_currentLease := Some (mtu_default newLease)\<rparr>;
             w1 = snd (configureNetworkInterface e c1 w)
         in (case mta_actions e newLease w1 of
               None \<Rightarrow> None
             | Some w2 \<Rightarrow>
                 (case DhcpMgr_updateDHCPv4DML e c1 of
                    None \<Rightarrow> None
                  | Some (_, c2) \<Rightarrow>
                      map_option (\<lambda>w'. (c2, w')) (DhcpMgr_PublishDhcpV4Event e c2 DHCP_LEASE_UPDATE w2)))))"

text \<open>
  One turn of the loop for the lease at the head of \<open>NewLeases\<close>, with the rest
  of the list. \<open>leaseChanged\<close> is a variable of the function and is not reset
  between the leases of a batch: it is passed in and out.
\<close>

definition v4_lease_step ::
  "env \<Rightarrow> bool \<Rightarrow> DHCPv4_PLUGIN_MSG \<Rightarrow> DHCPv4_PLUGIN_MSG list \<Rightarrow> COSA_DML_DHCPC_FULL \<Rightarrow> world \<Rightarrow>
     (bool \<times> COSA_DML_DHCPC_FULL \<times> world) option" where
  "v4_lease_step e leaseChanged newLease rest c w =
     (let current = f4_currentLease c;
          changed = (leaseChanged \<or> current = None \<or> v4_differs (the current) newLease);
          renew = (current \<noteq> None \<and> \<not> v4_differs (the current) newLease \<and>
                   \<not> v4_isExpired newLease \<and> v4_addressAssigned newLease)
      in (case (if renew then DhcpMgr_PublishDhcpV4Event e c DHCP_LEASE_RENEW w else Some w) of
            None \<Rightarrow> None
          | Some w1 \<Rightarrow>
              (let w2 = set_inf_sysevents e current newLease (c4_Interface (f4_Cfg c)) w1;
                   c1 = c\<lparr>f4_currentLease := Some newLease, f4_NewLeases := rest\<rparr>;
                   w3 = snd (DHCPMgr_storeDhcpv4Lease e c1 w2)
               in if changed
                  then map_option (\<lambda>(c', w'). (changed, c', w')) (v4_apply_change e newLease c1 w3)
                  else Some (changed, c1, w3))))"

fun v4_lease_loop ::
  "env \<Rightarrow> bool \<Rightarrow> DHCPv4_PLUGIN_MSG list \<Rightarrow> COSA_DML_DHCPC_FULL \<Rightarrow> world \<Rightarrow> (COSA_DML_DHCPC_FULL \<times> world) option" where
  "v4_lease_loop e leaseChanged [] c w = Some (c, w)"
| "v4_lease_loop e leaseChanged (l # ls) c w =
     (case v4_lease_step e leaseChanged l ls c w of
        None \<Rightarrow> None
      | Some (changed, c', w') \<Rightarrow> v4_lease_loop e changed ls c' w')"

definition DhcpMgr_ProcessV4Lease ::
  "env \<Rightarrow> COSA_DML_DHCPC_FULL \<Rightarrow> world \<Rightarrow> (COSA_DML_DHCPC_FULL \<times> world) option" where
  "DhcpMgr_ProcessV4Lease e c w = v4_lease_loop e False (f4_NewLeases c) c w"

text \<open>\<open>DhcpMgr_clearDHCPv4Lease\<close>: the arrays are cleared up to their counters.\<close>

definition clear_first :: "nat \<Rightarrow> u32 list \<Rightarrow> u32 list" where
  "clear_first n xs = replicate (min n (length xs)) 0 @ drop n xs"

definition DhcpMgr_clearDHCPv4Lease :: "COSA_DML_DHCPC_FULL \<Rightarrow> COSA_DML_DHCPC_FULL" where
  "DhcpMgr_clearDHCPv4Lease c =
     c\<lparr>f4_Info := (f4_Info c)\<lparr>i4_DHCPStatus := COSA_DML_DHCPC_STATUS_Init, i4_IPAddress := 0, i4_SubnetMask := 0,
           i4_LeaseTimeRemaining := 0, i4_DHCPServer := 0,
           i4_DNSServers := clear_first (i4_NumDnsServers (f4_Info c)) (i4_DNSServers (f4_Info c)), i4_NumDnsServers := 0,
           i4_IPRouters := clear_first (i4_NumIPRouters (f4_Info c)) (i4_IPRouters (f4_Info c)), i4_NumIPRouters := 0\<rparr>,
        f4_currentLease := None, f4_NewLeases := []\<rparr>"

end
