(* ===== verification/Lease_V4_Spec.thy ===== *)
theory Lease_V4_Spec
  imports Lease_V4
begin

text \<open>
  What the DHCPv4 lease handler (\<open>Lease_V4\<close>) promises: the events of a batch of
  leases as a function of the current lease and the batch alone (\<open>v4_spec\<close>), and
  the proof that the handler publishes exactly these, whatever the system
  answers to its calls.
\<close>

section \<open>Specification\<close>

text \<open>
  The flag says that an earlier lease of the batch changed. A valid lease that
  does not differ renews, and the renewal carries the lease before it; a change
  deletes or updates; the flag keeps updating.
\<close>

definition v4_next :: "bool \<Rightarrow> DHCPv4_PLUGIN_MSG \<Rightarrow> DHCPv4_PLUGIN_MSG" where
  "v4_next ch l = (if ch \<and> \<not> v4_isExpired l then mtu_default l else l)"

definition v4_changed :: "DHCPv4_PLUGIN_MSG option \<Rightarrow> DHCPv4_PLUGIN_MSG \<Rightarrow> bool" where
  "v4_changed cur l = (case cur of None \<Rightarrow> True | Some k \<Rightarrow> v4_differs k l)"

definition v4_step_events ::
  "bool \<Rightarrow> DHCPv4_PLUGIN_MSG option \<Rightarrow> DHCPv4_PLUGIN_MSG \<Rightarrow> (DHCP_MESSAGE_TYPE \<times> DHCPv4_PLUGIN_MSG option) list" where
  "v4_step_events ch cur l =
     (if \<not> v4_changed cur l \<and> \<not> v4_isExpired l \<and> v4_addressAssigned l then [(DHCP_LEASE_RENEW, cur)] else []) @
     (if ch \<or> v4_changed cur l
      then (if v4_isExpired l then [(DHCP_LEASE_DEL, None)] else [(DHCP_LEASE_UPDATE, Some (mtu_default l))])
      else [])"

fun v4_spec ::
  "bool \<Rightarrow> DHCPv4_PLUGIN_MSG option \<Rightarrow> DHCPv4_PLUGIN_MSG list \<Rightarrow> (DHCP_MESSAGE_TYPE \<times> DHCPv4_PLUGIN_MSG option) list" where
  "v4_spec ch cur [] = []"
| "v4_spec ch cur (l # ls) =
     (let ch' = (ch \<or> v4_changed cur l)
      in v4_step_events ch cur l @ v4_spec ch' (Some (v4_next ch' l)) ls)"

fun v4_final :: "bool \<Rightarrow> DHCPv4_PLUGIN_MSG option \<Rightarrow> DHCPv4_PLUGIN_MSG list \<Rightarrow> DHCPv4_PLUGIN_MSG option" where
  "v4_final ch cur [] = cur"
| "v4_final ch cur (l # ls) =
     (let ch' = (ch \<or> v4_changed cur l) in v4_final ch' (Some (v4_next ch' l)) ls)"

definition as_msg :: "env \<Rightarrow> (DHCP_MESSAGE_TYPE \<times> DHCPv4_PLUGIN_MSG option) list \<Rightarrow>
    (DHCP_MESSAGE_TYPE \<times> DHCP_MGR_IPV4_MSG option) list" where
  "as_msg e = map (\<lambda>(t, l). (t, map_option (DhcpMgr_createLeaseInfoMsg e) l))"

definition routers_fit :: "DHCPv4_PLUGIN_MSG \<Rightarrow> bool" where
  "routers_fit l \<longleftrightarrow> length (gateway_tokens l) \<le> COSA_DML_DHCP_MAX_ENTRIES"

text \<open>
  The leases that the handler can work off: an expired one, or one whose gateway
  string fits the router table and whose MTA options, where the platform has
  them, stay inside the buffers of their parser.
\<close>

definition mta_ok :: "env \<Rightarrow> DHCPv4_PLUGIN_MSG \<Rightarrow> bool" where
  "mta_ok e l \<longleftrightarrow> \<not> e_EROUTER_DHCP_OPTION_MTA e \<or>
     ((\<not> Assigned122 (v4_mtaOption l) \<or> mta_option_ok e (option_122 (v4_mtaOption l)) ''v4'') \<and>
      (\<not> Assigned125 (v4_mtaOption l) \<or> mta_option_ok e (option_125 (v4_mtaOption l)) ''v6''))"

definition lease_fits :: "env \<Rightarrow> DHCPv4_PLUGIN_MSG \<Rightarrow> bool" where
  "lease_fits e l \<longleftrightarrow> v4_isExpired l \<or> (routers_fit l \<and> mta_ok e l)"

definition info_arrays_ok :: "COSA_DML_DHCPC_INFO \<Rightarrow> bool" where
  "info_arrays_ok i \<longleftrightarrow> length (i4_IPRouters i) = COSA_DML_DHCP_MAX_ENTRIES \<and> length (i4_DNSServers i) = COSA_DML_DHCP_MAX_ENTRIES"

section \<open>Lemmas\<close>

lemma set_inf_sysevents_quiet: "quiet w (set_inf_sysevents e cur l i w)"
  by (auto simp: set_inf_sysevents_def call_def Let_def intro!: quiet_intros)

lemma ioctls_quiet: "quiet w (snd (ioctls e n rs w))"
proof (induction e n rs w rule: ioctls.induct)
  case (2 e n req arg rs w)
  let ?w = "act (A_ioctl req n arg) w"
  have "quiet w ?w" by (simp add: quiet_act)
  then show ?case using "2.IH" [of "call e (A_ioctl req n arg) w" "e_ret e (w_trace ?w)" ?w]
    by (auto simp: call_def Let_def intro: quiet_trans)
qed simp

lemma configure_quiet: "quiet w (snd (configureNetworkInterface e c w))"
proof (cases "f4_currentLease c")
  case None
  then show ?thesis by (simp add: configureNetworkInterface_def)
next
  case (Some l)
  have "quiet w (act A_socket w)" by (simp add: quiet_act)
  then show ?thesis
    using Some quiet_trans [OF _ ioctls_quiet]
    by (auto simp: configureNetworkInterface_def call_def Let_def simp del: ioctls.simps)
qed

lemma mta_quiet:
  assumes "mta_ok e l"
  shows "\<exists>w'. mta_actions e l w = Some w' \<and> quiet w w'"
proof -
  have step: "\<exists>w2. (if a then Set_DhcpV4_CustomOption_mta e v ver w1 else Some w1) = Some w2 \<and> quiet w w2"
    if "\<not> a \<or> mta_option_ok e v ver" "quiet w w1" for a v ver w1
    using that mta_option_ok_Some [of e v ver w1] by (cases a) (auto intro: quiet_trans)
  obtain w1 where w1: "(if Assigned122 (v4_mtaOption l) then Set_DhcpV4_CustomOption_mta e (option_122 (v4_mtaOption l)) ''v4'' w
      else Some w) = Some w1" "quiet w w1" if "e_EROUTER_DHCP_OPTION_MTA e"
    using step [of "Assigned122 (v4_mtaOption l)" "option_122 (v4_mtaOption l)" "''v4''" w] assms by (auto simp: mta_ok_def)
  then show ?thesis
    using step [of "Assigned125 (v4_mtaOption l)" "option_125 (v4_mtaOption l)" "''v6''" w1] assms
    by (cases "e_EROUTER_DHCP_OPTION_MTA e") (auto simp: mta_actions_def mta_ok_def)
qed

lemma set_routers_Some:
  "i4_NumIPRouters i + length toks \<le> COSA_DML_DHCP_MAX_ENTRIES \<Longrightarrow> \<exists>i'. set_routers e toks i = Some i'"
  by (induction e toks i rule: set_routers.induct) auto

lemma updateDML_Some:
  assumes "f4_currentLease c = Some l" and "routers_fit l"
  shows "\<exists>i. DhcpMgr_updateDHCPv4DML e c = Some (STATUS_SUCCESS, c\<lparr>f4_Info := i\<rparr>)"
proof -
  have "\<exists>i'. set_routers e (gateway_tokens l) i = Some i'" if "i4_NumIPRouters i = 0" for i
    using that assms(2) by (intro set_routers_Some) (simp add: routers_fit_def)
  then obtain i' where "set_routers e (gateway_tokens l) (add_dns e (v4_dnsServer1 l) (add_dns e (v4_dnsServer l)
      ((f4_Info c)\<lparr>i4_Status := COSA_DML_DHCP_STATUS_Enabled, i4_DHCPStatus := COSA_DML_DHCPC_STATUS_Bound,
         i4_IPAddress := e_inet_addr e (v4_address l), i4_SubnetMask := e_inet_addr e (v4_netmask l),
         i4_LeaseTimeRemaining := sint (v4_leaseTime l), i4_NumDnsServers := 0, i4_NumIPRouters := 0\<rparr>))) = Some i'"
    by (force simp: add_dns_def)
  then have "\<exists>i. DhcpMgr_updateDHCPv4DML e c = Some (STATUS_SUCCESS, c\<lparr>f4_Info := i\<rparr>)" if "v4_addressAssigned l"
    using that assms(1) by (auto simp: DhcpMgr_updateDHCPv4DML_def Let_def)
  moreover have "DhcpMgr_updateDHCPv4DML e c = Some (STATUS_SUCCESS, c\<lparr>f4_Info := f4_Info c\<rparr>)" if "\<not> v4_addressAssigned l"
    using that assms(1) by (simp add: DhcpMgr_updateDHCPv4DML_def)
  ultimately show ?thesis by blast
qed

lemma routers_fit_mtu [simp]: "routers_fit (mtu_default l) = routers_fit l"
  by (simp add: routers_fit_def gateway_tokens_def mtu_default_def)

lemma v4_apply_change_Some:
  assumes "f4_currentLease c = Some l" and "lease_fits e l"
  shows "\<exists>i w'. v4_apply_change e l c w = Some (c\<lparr>f4_Info := i, f4_currentLease := Some (v4_next True l)\<rparr>, w') \<and>
    extends w w' \<and> events4 (new_actions w w') =
      as_msg e (if v4_isExpired l then [(DHCP_LEASE_DEL, None)] else [(DHCP_LEASE_UPDATE, Some (mtu_default l))])"
proof (cases "v4_isExpired l")
  case True
  then show ?thesis
    using assms(1) by (intro exI [of _ "f4_Info c"]) (simp add: v4_apply_change_def as_msg_def v4_next_def)
next
  case False
  let ?c1 = "c\<lparr>f4_currentLease := Some (mtu_default l)\<rparr>"
  let ?w1 = "snd (configureNetworkInterface e ?c1 w)"
  have fit: "routers_fit l" "mta_ok e l" using assms(2) False by (simp_all add: lease_fits_def)
  obtain w2 where w2: "mta_actions e l ?w1 = Some w2" "quiet ?w1 w2" using mta_quiet [OF fit(2)] by blast
  have q: "quiet w w2" using quiet_trans [OF configure_quiet w2(2)] .
  obtain i where u: "DhcpMgr_updateDHCPv4DML e ?c1 = Some (STATUS_SUCCESS, ?c1\<lparr>f4_Info := i\<rparr>)"
    using updateDML_Some [of ?c1 "mtu_default l" e] fit by auto
  let ?a = "A_publish4 (c4_InstanceNumber (f4_Cfg c)) (c4_Interface (f4_Cfg c)) DHCP_LEASE_UPDATE
     (Some (DhcpMgr_createLeaseInfoMsg e (mtu_default l)))"
  have "v4_apply_change e l c w = Some (?c1\<lparr>f4_Info := i\<rparr>, act ?a w2)"
    using False u w2(1) by (simp add: v4_apply_change_def publish4_lease Let_def)
  moreover have "extends w (act ?a w2)" using extends_trans [OF quiet_extends [OF q] extends_act] .
  moreover have "events4 (new_actions w (act ?a w2)) = [(DHCP_LEASE_UPDATE, Some (DhcpMgr_createLeaseInfoMsg e (mtu_default l)))]"
    using new_actions_trans [OF quiet_extends [OF q] extends_act] q by (simp add: quiet_def)
  ultimately show ?thesis
    using False by (intro exI [of _ i] exI [of _ "act ?a w2"]) (simp add: as_msg_def v4_next_def)
qed

lemma v4_renew_event:
  assumes "renew = (cur \<noteq> None \<and> \<not> v4_differs (the cur) l \<and> \<not> v4_isExpired l \<and> v4_addressAssigned l)"
    and "cur = f4_currentLease c"
  shows "\<exists>w1. (if renew then DhcpMgr_PublishDhcpV4Event e c DHCP_LEASE_RENEW w else Some w) = Some w1 \<and> extends w w1 \<and>
    events4 (new_actions w w1) = as_msg e (if \<not> v4_changed cur l \<and> \<not> v4_isExpired l \<and> v4_addressAssigned l
      then [(DHCP_LEASE_RENEW, cur)] else [])"
  using assms by (cases "f4_currentLease c") (auto simp: v4_changed_def as_msg_def publish4_lease)

lemma v4_lease_step_spec:
  assumes "lease_fits e l" and "ch' = (ch \<or> v4_changed (f4_currentLease c) l)"
  shows "\<exists>i w'. v4_lease_step e ch l ls c w =
      Some (ch', c\<lparr>f4_Info := i, f4_currentLease := Some (v4_next ch' l), f4_NewLeases := ls\<rparr>, w') \<and>
    extends w w' \<and> events4 (new_actions w w') = as_msg e (v4_step_events ch (f4_currentLease c) l)"
proof -
  let ?cur = "f4_currentLease c"
  obtain w1 where w1: "(if ?cur \<noteq> None \<and> \<not> v4_differs (the ?cur) l \<and> \<not> v4_isExpired l \<and> v4_addressAssigned l
        then DhcpMgr_PublishDhcpV4Event e c DHCP_LEASE_RENEW w else Some w) = Some w1"
      and x1: "extends w w1"
      and e1: "events4 (new_actions w w1) = as_msg e (if \<not> v4_changed ?cur l \<and> \<not> v4_isExpired l \<and> v4_addressAssigned l
      then [(DHCP_LEASE_RENEW, ?cur)] else [])"
    using v4_renew_event [OF refl refl] by blast
  let ?c1 = "c\<lparr>f4_currentLease := Some l, f4_NewLeases := ls\<rparr>"
  let ?w2 = "set_inf_sysevents e ?cur l (c4_Interface (f4_Cfg c)) w1"
  let ?w3 = "snd (DHCPMgr_storeDhcpv4Lease e ?c1 ?w2)"
  have q: "quiet w1 ?w3" using quiet_trans [OF set_inf_sysevents_quiet storeDhcpv4Lease_quiet] .
  have x3: "extends w ?w3" using extends_trans [OF x1 quiet_extends [OF q]] .
  have e3: "events4 (new_actions w ?w3) = events4 (new_actions w w1)"
    using new_actions_trans [OF x1 quiet_extends [OF q]] q by (simp add: quiet_def)
  have ch: "ch' = (ch \<or> ?cur = None \<or> v4_differs (the ?cur) l)"
    using assms(2) by (auto simp: v4_changed_def split: option.splits)
  show ?thesis
  proof (cases ch')
    case False
    then have "v4_lease_step e ch l ls c w = Some (ch', ?c1, ?w3)"
      by (simp only: v4_lease_step_def Let_def w1 option.case ch [symmetric] if_False)
    moreover have "?c1 = c\<lparr>f4_Info := f4_Info c, f4_currentLease := Some (v4_next ch' l), f4_NewLeases := ls\<rparr>"
      using False by (simp add: v4_next_def)
    ultimately have "v4_lease_step e ch l ls c w =
        Some (ch', c\<lparr>f4_Info := f4_Info c, f4_currentLease := Some (v4_next ch' l), f4_NewLeases := ls\<rparr>, ?w3)"
      by simp
    moreover have "events4 (new_actions w ?w3) = as_msg e (v4_step_events ch ?cur l)"
      using e3 e1 False assms(2) by (simp add: v4_step_events_def)
    ultimately show ?thesis using x3 by blast
  next
    case True
    obtain i w' where ac: "v4_apply_change e l ?c1 ?w3 = Some (?c1\<lparr>f4_Info := i, f4_currentLease := Some (v4_next True l)\<rparr>, w')"
      and x4: "extends ?w3 w'"
      and e4: "events4 (new_actions ?w3 w') = as_msg e (if v4_isExpired l then [(DHCP_LEASE_DEL, None)]
         else [(DHCP_LEASE_UPDATE, Some (mtu_default l))])"
      using v4_apply_change_Some [of ?c1 l e ?w3] assms(1) by auto
    have "v4_lease_step e ch l ls c w = Some (ch', c\<lparr>f4_Info := i, f4_currentLease := Some (v4_next ch' l), f4_NewLeases := ls\<rparr>, w')"
      using True ac by (simp only: v4_lease_step_def Let_def w1 option.case ch [symmetric] if_True) simp
    moreover have "events4 (new_actions w w') = as_msg e (v4_step_events ch ?cur l)"
      using new_actions_trans [OF x3 x4] e1 e3 e4 True assms(2) by (auto simp: v4_step_events_def as_msg_def)
    ultimately show ?thesis using extends_trans [OF x3 x4] by blast
  qed
qed

lemma v4_lease_loop_spec:
  "\<forall>l \<in> set ls. lease_fits e l \<Longrightarrow> f4_NewLeases c = ls \<Longrightarrow>
   \<exists>c' w'. v4_lease_loop e ch ls c w = Some (c', w') \<and> f4_NewLeases c' = [] \<and> f4_Cfg c' = f4_Cfg c \<and> extends w w' \<and>
     f4_currentLease c' = v4_final ch (f4_currentLease c) ls \<and>
     events4 (new_actions w w') = as_msg e (v4_spec ch (f4_currentLease c) ls)"
proof (induction ls arbitrary: ch c w)
  case Nil
  then show ?case by (simp add: as_msg_def)
next
  case (Cons l ls)
  let ?ch = "ch \<or> v4_changed (f4_currentLease c) l"
  obtain i w1 where s: "v4_lease_step e ch l ls c w =
      Some (?ch, c\<lparr>f4_Info := i, f4_currentLease := Some (v4_next ?ch l), f4_NewLeases := ls\<rparr>, w1)"
    and x: "extends w w1" and ev: "events4 (new_actions w w1) = as_msg e (v4_step_events ch (f4_currentLease c) l)"
    using v4_lease_step_spec [of e l ?ch ch c ls w] Cons.prems by auto
  let ?c1 = "c\<lparr>f4_Info := i, f4_currentLease := Some (v4_next ?ch l), f4_NewLeases := ls\<rparr>"
  obtain c' w' where r: "v4_lease_loop e ?ch ls ?c1 w1 = Some (c', w')" "f4_NewLeases c' = []" "f4_Cfg c' = f4_Cfg c"
      "extends w1 w'" "f4_currentLease c' = v4_final ?ch (Some (v4_next ?ch l)) ls" "events4 (new_actions w1 w') = as_msg e (v4_spec ?ch (Some (v4_next ?ch l)) ls)"
    using Cons.IH [of ?c1 ?ch w1] Cons.prems by auto
  have "events4 (new_actions w w') = as_msg e (v4_spec ch (f4_currentLease c) (l # ls))"
    using new_actions_trans [OF x r(4)] ev r(6) by (simp add: as_msg_def Let_def)
  with s r extends_trans [OF x r(4)] show ?case by (auto simp: Let_def)
qed

lemma v4_final_last:
  "ls \<noteq> [] \<Longrightarrow> v4_final ch cur ls = Some (last ls) \<or> v4_final ch cur ls = Some (mtu_default (last ls))"
proof (induction ls arbitrary: ch cur)
  case (Cons l ls)
  show ?case
  proof (cases "ls = []")
    case True
    then show ?thesis by (simp add: Let_def v4_next_def)
  next
    case False
    then have "last (l # ls) = last ls" by simp
    with Cons.IH [OF False] show ?thesis by (simp only: v4_final.simps Let_def)
  qed
qed simp

section \<open>Whose events\<close>

text \<open>The publications with the instance number and the interface they go out under.\<close>

fun bus4 :: "action \<Rightarrow> (nat \<times> string \<times> DHCP_MESSAGE_TYPE \<times> DHCP_MGR_IPV4_MSG option) list" where
  "bus4 (A_publish4 i n t l) = [(i, n, t, l)]"
| "bus4 _ = []"

definition bus_events4 :: "action list \<Rightarrow> (nat \<times> string \<times> DHCP_MESSAGE_TYPE \<times> DHCP_MGR_IPV4_MSG option) list" where
  "bus_events4 as = concat (map bus4 as)"

lemma event4_bus: "event4 a = map (snd \<circ> snd) (bus4 a)"
  by (cases a) simp_all

lemma events4_bus: "events4 as = map (snd \<circ> snd) (bus_events4 as)"
  by (induction as) (simp_all add: bus_events4_def event4_bus)

text \<open>Only events of one client are published between two states of the world.\<close>

definition own4 :: "COSA_DML_DHCPC_CFG \<Rightarrow> world \<Rightarrow> world \<Rightarrow> bool" where
  "own4 k w w' \<longleftrightarrow> extends w w' \<and>
     (\<forall>x \<in> set (bus_events4 (new_actions w w')). fst x = c4_InstanceNumber k \<and> fst (snd x) = c4_Interface k)"

lemma own4_trans: "own4 k u v \<Longrightarrow> own4 k v w \<Longrightarrow> own4 k u w"
  using new_actions_trans [of u v w] extends_trans [of u v w] by (auto simp: own4_def bus_events4_def)

lemma own4_quiet: "quiet w w' \<Longrightarrow> own4 k w w'"
  by (simp add: own4_def quiet_def events4_bus)

lemma own4_publish: "DhcpMgr_PublishDhcpV4Event e c t w = Some w' \<Longrightarrow> own4 (f4_Cfg c) w w'"
  by (auto simp: own4_def bus_events4_def DhcpMgr_PublishDhcpV4Event_def split: if_splits option.splits)

lemma own4_events:
  "own4 k w w' \<Longrightarrow> bus_events4 (new_actions w w') = map (\<lambda>(t, m). (c4_InstanceNumber k, c4_Interface k, t, m)) (events4 (new_actions w w'))"
  by (auto simp: own4_def events4_bus intro!: map_idI [symmetric])

lemma updateDML_cfg: "DhcpMgr_updateDHCPv4DML e c = Some (st, c') \<Longrightarrow> f4_Cfg c' = f4_Cfg c"
  by (auto simp: DhcpMgr_updateDHCPv4DML_def Let_def split: if_splits option.splits)

lemma v4_apply_change_own:
  assumes "v4_apply_change e l c w = Some (c', w')" "lease_fits e l"
  shows "own4 (f4_Cfg c) w w' \<and> f4_Cfg c' = f4_Cfg c"
proof (cases "v4_isExpired l")
  case True
  then show ?thesis using assms(1) by (auto simp: v4_apply_change_def DhcpMgr_PublishDhcpV4Event_def own4_def bus_events4_def)
next
  case False
  let ?c1 = "c\<lparr>f4_currentLease := Some (mtu_default l)\<rparr>"
  let ?w1 = "snd (configureNetworkInterface e ?c1 w)"
  obtain w2 where w2: "mta_actions e l ?w1 = Some w2" "quiet ?w1 w2" using mta_quiet [of e l ?w1] assms(2) False by (auto simp: lease_fits_def)
  obtain st c2 where c2: "DhcpMgr_updateDHCPv4DML e ?c1 = Some (st, c2)" "c' = c2" "DhcpMgr_PublishDhcpV4Event e c2 DHCP_LEASE_UPDATE w2 = Some w'"
    using assms(1) False w2(1) by (auto simp: v4_apply_change_def Let_def split: option.splits)
  have "f4_Cfg c2 = f4_Cfg c" using updateDML_cfg [OF c2(1)] by simp
  with own4_trans [OF own4_quiet [OF quiet_trans [OF configure_quiet w2(2)]]] own4_publish [OF c2(3)] c2(2) show ?thesis by simp
qed

lemma v4_lease_step_own:
  assumes "v4_lease_step e ch l ls c w = Some (ch', c', w')" "lease_fits e l"
  shows "own4 (f4_Cfg c) w w' \<and> f4_Cfg c' = f4_Cfg c"
proof -
  let ?c1 = "c\<lparr>f4_currentLease := Some l, f4_NewLeases := ls\<rparr>"
  let ?w3 = "\<lambda>w1. snd (DHCPMgr_storeDhcpv4Lease e ?c1 (set_inf_sysevents e (f4_currentLease c) l (c4_Interface (f4_Cfg c)) w1))"
  let ?r = "if f4_currentLease c \<noteq> None \<and> \<not> v4_differs (the (f4_currentLease c)) l \<and> \<not> v4_isExpired l \<and> v4_addressAssigned l
    then DhcpMgr_PublishDhcpV4Event e c DHCP_LEASE_RENEW w else Some w"
  obtain w1 where w1: "?r = Some w1"
  proof (cases ?r)
    case None
    with assms(1) show ?thesis by (simp only: v4_lease_step_def Let_def option.case) simp
  qed (rule that)
  have n: "(c' = ?c1 \<and> w' = ?w3 w1) \<or> v4_apply_change e l ?c1 (?w3 w1) = Some (c', w')"
    using assms(1) by (simp only: v4_lease_step_def Let_def w1 option.case) (auto split: if_splits)
  have "own4 (f4_Cfg c) w w1" using w1 by (cases "?r = Some w") (auto simp: own4_quiet dest: own4_publish split: if_splits)
  then have "own4 (f4_Cfg c) w (?w3 w1)"
    by (rule own4_trans [OF _ own4_quiet [OF quiet_trans [OF set_inf_sysevents_quiet storeDhcpv4Lease_quiet]]])
  with n v4_apply_change_own [OF _ assms(2), of ?c1 "?w3 w1" c' w'] own4_trans show ?thesis by auto
qed

lemma v4_lease_loop_own:
  "v4_lease_loop e ch ls c w = Some (c', w') \<Longrightarrow> \<forall>l \<in> set ls. lease_fits e l \<Longrightarrow> own4 (f4_Cfg c) w w'"
proof (induction ls arbitrary: ch c w)
  case (Cons l ls)
  then obtain ch1 c1 w1 where s: "v4_lease_step e ch l ls c w = Some (ch1, c1, w1)" "v4_lease_loop e ch1 ls c1 w1 = Some (c', w')"
    by (auto split: option.splits)
  with v4_lease_step_own [OF s(1)] Cons.IH [OF s(2)] Cons.prems(2) show ?case by (auto intro: own4_trans)
qed (simp add: own4_quiet)

section \<open>Properties\<close>

text \<open>
  Claim C4. The handler refines its specification: whatever the system answers, a
  batch of leases that fit the tables and buffers is worked off completely,
  the events published are exactly those of \<open>v4_spec\<close> in that order, each under the
  instance number and for the interface of the client, the current
  lease is the last one of the batch (with the default MTU where it was
  applied), and the configuration of the client is untouched.
\<close>

theorem v4_batch_events:
  assumes "\<forall>l \<in> set (f4_NewLeases c). lease_fits e l"
  shows "\<exists>c' w'. DhcpMgr_ProcessV4Lease e c w = Some (c', w') \<and> f4_NewLeases c' = [] \<and> f4_Cfg c' = f4_Cfg c \<and>
     f4_currentLease c' = v4_final False (f4_currentLease c) (f4_NewLeases c) \<and>
     events4 (new_actions w w') = as_msg e (v4_spec False (f4_currentLease c) (f4_NewLeases c)) \<and>
     bus_events4 (new_actions w w') = map (\<lambda>(t, m). (c4_InstanceNumber (f4_Cfg c), c4_Interface (f4_Cfg c), t, m))
       (as_msg e (v4_spec False (f4_currentLease c) (f4_NewLeases c)))"
  using v4_lease_loop_spec [OF assms refl, of False w] v4_lease_loop_own [OF _ assms] own4_events
  by (fastforce simp: DhcpMgr_ProcessV4Lease_def)

theorem v4_batch_events_witness:
  "\<exists>c' w'. DhcpMgr_ProcessV4Lease env0 (client4\<lparr>f4_NewLeases := [lease4]\<rparr>) world_init = Some (c', w') \<and> f4_NewLeases c' = [] \<and>
     map fst (events4 (new_actions world_init w')) = [DHCP_LEASE_UPDATE]"
proof -
  have "\<forall>l \<in> set (f4_NewLeases (client4\<lparr>f4_NewLeases := [lease4]\<rparr>)). lease_fits env0 l"
    by code_simp
  from v4_batch_events [OF this, of world_init] show ?thesis
    by (auto simp: sample_defs v4_step_events_def v4_changed_def as_msg_def Let_def)
qed

text \<open>
  One lease, at most one event: a first or different lease is published
  as an update with the new values, or as a deletion when it is expired; an
  equal lease that is valid as a renewal, which carries the values of the lease
  it replaces; an equal lease that is expired or has no address is silent.
\<close>

lemma v4_single_lease:
  assumes "f4_NewLeases c = [l]" and "lease_fits e l"
  shows "\<exists>c' w'. DhcpMgr_ProcessV4Lease e c w = Some (c', w') \<and>
     events4 (new_actions w w') =
       (case f4_currentLease c of
          Some k \<Rightarrow>
            if v4_differs k l
            then (if v4_isExpired l then [(DHCP_LEASE_DEL, None)]
                  else [(DHCP_LEASE_UPDATE, Some (DhcpMgr_createLeaseInfoMsg e (mtu_default l)))])
            else if \<not> v4_isExpired l \<and> v4_addressAssigned l
            then [(DHCP_LEASE_RENEW, Some (DhcpMgr_createLeaseInfoMsg e k))] else []
        | None \<Rightarrow>
            if v4_isExpired l then [(DHCP_LEASE_DEL, None)]
            else [(DHCP_LEASE_UPDATE, Some (DhcpMgr_createLeaseInfoMsg e (mtu_default l)))])"
  using v4_lease_loop_spec [of "f4_NewLeases c" e c False w] assms
  by (cases "f4_currentLease c")
     (auto simp: DhcpMgr_ProcessV4Lease_def v4_step_events_def v4_changed_def as_msg_def Let_def simp del: v4_lease_loop.simps)

theorem v4_single_lease_witness:
  "\<exists>c' w'. DhcpMgr_ProcessV4Lease env0 (client4\<lparr>f4_NewLeases := [lease4], f4_currentLease := Some lease4\<rparr>) world_init = Some (c', w') \<and>
     events4 (new_actions world_init w') = [(DHCP_LEASE_RENEW, Some (DhcpMgr_createLeaseInfoMsg env0 lease4))]"
proof -
  have "lease_fits env0 lease4" by code_simp
  from v4_single_lease [OF _ this, of "client4\<lparr>f4_NewLeases := [lease4], f4_currentLease := Some lease4\<rparr>" world_init]
  show ?thesis by (simp add: v4_differs_def) (simp add: lease4_def)
qed

text \<open>
  \<open>leaseChanged\<close> survives from one lease of a batch to the next: when a
  change is followed in the same batch by an equal lease, the second one is
  published both as a renewal and as an update.
\<close>

lemma v4_sticky_change:
  assumes "f4_NewLeases c = [l1, l2]" and "v4_changed (f4_currentLease c) l1" and "\<not> v4_differs l1 l2"
    and "\<not> v4_isExpired l1" and "v4_addressAssigned l1" and "lease_fits e l1" and "lease_fits e l2"
  shows "\<exists>c' w'. DhcpMgr_ProcessV4Lease e c w = Some (c', w') \<and>
     map fst (events4 (new_actions w w')) = [DHCP_LEASE_UPDATE, DHCP_LEASE_RENEW, DHCP_LEASE_UPDATE]"
proof -
  have d: "\<not> v4_differs (mtu_default l1) l2" using assms(3) by (simp add: v4_differs_def mtu_default_def)
  have "\<not> v4_isExpired l2" "v4_addressAssigned l2" using assms(3,4,5) by (auto simp: v4_differs_def)
  then show ?thesis
    using v4_lease_loop_spec [of "f4_NewLeases c" e c False w] assms d
    by (auto simp: DhcpMgr_ProcessV4Lease_def v4_step_events_def v4_changed_def [of "Some _"] v4_next_def as_msg_def Let_def
        simp del: v4_lease_loop.simps)
qed

lemma v4_sticky_change_witness:
  "\<exists>c' w'. DhcpMgr_ProcessV4Lease env0 (client4\<lparr>f4_NewLeases := [lease4, lease4]\<rparr>) world_init = Some (c', w') \<and>
     map fst (events4 (new_actions world_init w')) = [DHCP_LEASE_UPDATE, DHCP_LEASE_RENEW, DHCP_LEASE_UPDATE]"
proof -
  have f: "lease_fits env0 lease4" by code_simp
  show ?thesis
    by (rule v4_sticky_change [OF _ _ _ _ _ f f]) (simp_all add: v4_changed_def v4_differs_def client4_def, simp_all add: lease4_def)
qed

text \<open>
  The unchecked writes to the router table are safe for addresses: a
  gateway string that fits its 32 byte field and whose tokens have at least the
  seven characters of a dotted quad names at most four routers, and the update
  of the data model succeeds.
\<close>

lemma v4_routers_fit:
  assumes "length (v4_gateway l) < 32" and "\<forall>t \<in> set (gateway_tokens l). 7 \<le> length t" and "f4_currentLease c = Some l"
  shows "\<exists>c'. DhcpMgr_updateDHCPv4DML e c = Some (STATUS_SUCCESS, c')"
proof -
  have "Suc 7 * length (gateway_tokens l) \<le> 32"
    using strtok_long_tokens [of "'' ''" "c_trunc 64 (v4_gateway l)" 7] assms(1,2)
    by (simp add: gateway_tokens_def c_trunc_id)
  then have "routers_fit l" by (simp add: routers_fit_def COSA_DML_DHCP_MAX_ENTRIES_def)
  with updateDML_Some [OF assms(3)] show ?thesis by blast
qed

theorem v4_routers_fit_witness:
  "\<exists>c'. DhcpMgr_updateDHCPv4DML env0 (client4\<lparr>f4_currentLease := Some lease4\<rparr>) = Some (STATUS_SUCCESS, c')"
proof (rule v4_routers_fit [of lease4])
  show "length (v4_gateway lease4) < 32" by code_simp
  show "\<forall>t \<in> set (gateway_tokens lease4). 7 \<le> length t" by code_simp
  show "f4_currentLease (client4\<lparr>f4_currentLease := Some lease4\<rparr>) = Some lease4" by simp
qed

lemma set_routers_result:
  "i4_NumIPRouters i + length toks \<le> COSA_DML_DHCP_MAX_ENTRIES \<Longrightarrow> length (i4_IPRouters i) = COSA_DML_DHCP_MAX_ENTRIES \<Longrightarrow>
   \<exists>rs. set_routers e toks i = Some (i\<lparr>i4_IPRouters := rs, i4_NumIPRouters := i4_NumIPRouters i + length toks\<rparr>) \<and>
     length rs = COSA_DML_DHCP_MAX_ENTRIES \<and>
     take (i4_NumIPRouters i + length toks) rs = take (i4_NumIPRouters i) (i4_IPRouters i) @ map (e_inet_addr e) toks"
proof (induction e toks i rule: set_routers.induct)
  case (1 e i)
  then show ?case by (intro exI [of _ "i4_IPRouters i"]) simp
next
  case (2 e tok toks i)
  let ?i = "i\<lparr>i4_IPRouters := (i4_IPRouters i)[i4_NumIPRouters i := e_inet_addr e tok], i4_NumIPRouters := Suc (i4_NumIPRouters i)\<rparr>"
  have n: "i4_NumIPRouters i < COSA_DML_DHCP_MAX_ENTRIES" using "2.prems" by simp
  then obtain rs where "set_routers e toks ?i = Some (?i\<lparr>i4_IPRouters := rs, i4_NumIPRouters := i4_NumIPRouters ?i + length toks\<rparr>)"
      "length rs = COSA_DML_DHCP_MAX_ENTRIES"
      "take (i4_NumIPRouters ?i + length toks) rs = take (i4_NumIPRouters ?i) (i4_IPRouters ?i) @ map (e_inet_addr e) toks"
    using "2.IH" "2.prems" by auto
  then show ?case using n "2.prems"
    by (intro exI [of _ rs]) (simp add: take_Suc_conv_app_nth)
qed

text \<open>
  The update of the data model from an assigned lease: the client is
  enabled and bound, address, mask and server are those of the lease, the first
  entries of the router and DNS tables are the gateways and the non-empty name
  servers in order, and the process id is kept.
\<close>

lemma v4_dml_bound:
  assumes "f4_currentLease c = Some l" and "v4_addressAssigned l" and "routers_fit l" and "info_arrays_ok (f4_Info c)"
  shows "\<exists>i. DhcpMgr_updateDHCPv4DML e c = Some (STATUS_SUCCESS, c\<lparr>f4_Info := i\<rparr>) \<and> info_arrays_ok i \<and>
     i4_Status i = COSA_DML_DHCP_STATUS_Enabled \<and> i4_DHCPStatus i = COSA_DML_DHCPC_STATUS_Bound \<and>
     i4_ClientProcessId i = i4_ClientProcessId (f4_Info c) \<and>
     i4_IPAddress i = e_inet_addr e (v4_address l) \<and> i4_SubnetMask i = e_inet_addr e (v4_netmask l) \<and>
     i4_DHCPServer i = e_inet_addr e (v4_dhcpServerId l) \<and>
     take (i4_NumIPRouters i) (i4_IPRouters i) = map (e_inet_addr e) (gateway_tokens l) \<and>
     take (i4_NumDnsServers i) (i4_DNSServers i) =
       map (e_inet_addr e) (filter (\<lambda>s. s \<noteq> []) [v4_dnsServer l, v4_dnsServer1 l])"
proof -
  let ?i1 = "(f4_Info c)\<lparr>i4_Status := COSA_DML_DHCP_STATUS_Enabled, i4_DHCPStatus := COSA_DML_DHCPC_STATUS_Bound,
         i4_IPAddress := e_inet_addr e (v4_address l), i4_SubnetMask := e_inet_addr e (v4_netmask l),
         i4_LeaseTimeRemaining := sint (v4_leaseTime l), i4_NumDnsServers := 0, i4_NumIPRouters := 0\<rparr>"
  let ?i2 = "add_dns e (v4_dnsServer1 l) (add_dns e (v4_dnsServer l) ?i1)"
  have "i4_NumIPRouters ?i2 = 0" "length (i4_IPRouters ?i2) = COSA_DML_DHCP_MAX_ENTRIES"
    using assms(4) by (simp_all add: add_dns_def info_arrays_ok_def)
  then obtain rs where r: "set_routers e (gateway_tokens l) ?i2 =
        Some (?i2\<lparr>i4_IPRouters := rs, i4_NumIPRouters := length (gateway_tokens l)\<rparr>)"
      "length rs = COSA_DML_DHCP_MAX_ENTRIES" "take (length (gateway_tokens l)) rs = map (e_inet_addr e) (gateway_tokens l)"
    using set_routers_result [of ?i2 "gateway_tokens l" e] assms(3) by (auto simp: routers_fit_def)
  let ?i = "?i2\<lparr>i4_IPRouters := rs, i4_NumIPRouters := length (gateway_tokens l), i4_DHCPServer := e_inet_addr e (v4_dhcpServerId l)\<rparr>"
  have "DhcpMgr_updateDHCPv4DML e c = Some (STATUS_SUCCESS, c\<lparr>f4_Info := ?i\<rparr>)"
    using assms(1,2) r(1) by (simp add: DhcpMgr_updateDHCPv4DML_def Let_def)
  moreover have "take (i4_NumDnsServers ?i) (i4_DNSServers ?i) =
       map (e_inet_addr e) (filter (\<lambda>s. s \<noteq> []) [v4_dnsServer l, v4_dnsServer1 l])"
    using assms(4) by (simp add: add_dns_def info_arrays_ok_def COSA_DML_DHCP_MAX_ENTRIES_def take_Suc_conv_app_nth)
  moreover have "info_arrays_ok ?i"
    using assms(4) r(2) by (simp add: info_arrays_ok_def add_dns_def)
  ultimately show ?thesis
    using r by (intro exI [of _ ?i]) (simp add: add_dns_def)
qed

lemma v4_dml_bound_witness:
  "\<exists>i. DhcpMgr_updateDHCPv4DML env0 (client4\<lparr>f4_currentLease := Some lease4\<rparr>) =
      Some (STATUS_SUCCESS, client4\<lparr>f4_currentLease := Some lease4, f4_Info := i\<rparr>) \<and>
     i4_DHCPStatus i = COSA_DML_DHCPC_STATUS_Bound \<and> take (i4_NumIPRouters i) (i4_IPRouters i) = [9]"
proof -
  have f: "routers_fit lease4" and a: "v4_addressAssigned lease4" by code_simp+
  have i: "info_arrays_ok (f4_Info (client4\<lparr>f4_currentLease := Some lease4\<rparr>))" by code_simp
  have g: "map (e_inet_addr env0) (gateway_tokens lease4) = [9]" by code_simp
  from v4_dml_bound [OF _ a f i, of env0] g show ?thesis by auto
qed

section \<open>The event property\<close>

text \<open>
  After a batch with a change the last event is the one of the last lease, and tells
  the current lease: the flag makes every lease behind a change publish.
\<close>

definition tells :: "DHCPv4_PLUGIN_MSG option \<Rightarrow> DHCP_MESSAGE_TYPE \<times> DHCPv4_PLUGIN_MSG option" where
  "tells cur = (if v4_isExpired (the cur) then (DHCP_LEASE_DEL, None) else (DHCP_LEASE_UPDATE, cur))"

lemma mtu_default_expired [simp]: "v4_isExpired (mtu_default l) = v4_isExpired l"
  by (simp add: mtu_default_def)

lemma v4_spec_changed: "ls \<noteq> [] \<Longrightarrow> v4_spec True cur ls \<noteq> [] \<and> last (v4_spec True cur ls) = tells (v4_final True cur ls)"
proof (induction ls arbitrary: cur)
  case (Cons l ls)
  show ?case
  proof (cases "ls = []")
    case True
    then show ?thesis by (simp add: v4_step_events_def v4_next_def tells_def)
  next
    case False
    from Cons.IH [OF False, of "Some (v4_next True l)"] show ?thesis by simp
  qed
qed simp

lemma v4_spec_last:
  assumes "(t, x) \<in> set (v4_spec ch cur ls)" "t \<noteq> DHCP_LEASE_RENEW"
  shows "last (v4_spec ch cur ls) = tells (v4_final ch cur ls)"
  using assms
proof (induction ls arbitrary: ch cur)
  case (Cons l ls)
  let ?ch = "ch \<or> v4_changed cur l"
  show ?case
  proof (cases ?ch)
    case True
    then show ?thesis
      using v4_spec_changed [of ls "Some (v4_next True l)"]
      by (cases "ls = []") (simp_all add: v4_step_events_def v4_next_def tells_def)
  next
    case False
    then have "(t, x) \<in> set (v4_spec False (Some (v4_next False l)) ls)"
      using Cons.prems by (auto simp: v4_step_events_def split: if_splits)
    with Cons.IH [OF this Cons.prems(2)] False show ?thesis by (cases "v4_spec False (Some (v4_next False l)) ls") auto
  qed
qed simp

lemma v4_spec_quiet: "\<forall>x \<in> set (v4_spec ch cur ls). fst x = DHCP_LEASE_RENEW \<Longrightarrow> ls \<noteq> [] \<Longrightarrow> v4_final ch cur ls = Some (last ls)"
proof (induction ls arbitrary: ch cur)
  case (Cons l ls)
  have c: "\<not> (ch \<or> v4_changed cur l)" using Cons.prems(1) by (auto simp: v4_step_events_def Let_def split: if_splits)
  show ?case
  proof (cases "ls = []")
    case True
    with c show ?thesis by (simp add: v4_next_def)
  next
    case False
    with c Cons.IH [of False "Some (v4_next False l)"] Cons.prems(1) show ?thesis by simp
  qed
qed simp

text \<open>
  Claim C35. Reading the event property of a DHCPv4 client agrees with the events that
  were published for it. A client at the position of its instance number (\<open>n\<close>, counted from 1)
  works off a batch of leases. Every event of the batch goes out under the number \<open>n\<close> and for the
  interface of the client. Where the batch publishes an update or a deletion, a read
  under the event name of \<open>n\<close> after it gives the interface, the message type and the lease
  message of the last event. Where it publishes neither, because no lease of it differs
  from the current one, the read shows the last lease of the batch, and the last event
  carries the one before it.
\<close>

theorem property_read_matches_events:
  assumes "\<forall>l \<in> set (f4_NewLeases c). lease_fits e l" "f4_NewLeases c \<noteq> []" "DhcpMgr_ProcessV4Lease e c w = Some (c', w')"
    and "c4_InstanceNumber (f4_Cfg c) = n" "1 \<le> n" "n \<le> length cs" "evs = bus_events4 (new_actions w w')"
  shows "\<exists>t m. getDataHandler e (cs[n - 1 := c']) c6s (event_name4 n) = Some (Object4 (c4_Interface (f4_Cfg c)) t m) \<and>
    (\<forall>x \<in> set evs. fst x = n \<and> fst (snd x) = c4_Interface (f4_Cfg c)) \<and>
    (if \<exists>x \<in> set evs. fst (snd (snd x)) \<noteq> DHCP_LEASE_RENEW then last evs = (n, c4_Interface (f4_Cfg c), t, m)
     else if v4_isExpired (last (f4_NewLeases c)) then t = DHCP_LEASE_DEL \<and> m = None
     else t = DHCP_LEASE_UPDATE \<and> m = Some (DhcpMgr_createLeaseInfoMsg e (last (f4_NewLeases c))))"
proof -
  let ?cur = "f4_currentLease c" and ?ls = "f4_NewLeases c" and ?i = "c4_Interface (f4_Cfg c)"
  obtain f: "f4_Cfg c' = f4_Cfg c" "f4_currentLease c' = v4_final False ?cur ?ls" "events4 (new_actions w w') = as_msg e (v4_spec False ?cur ?ls)"
    using v4_lease_loop_spec [OF assms(1) refl, of False w] assms(3) by (auto simp: DhcpMgr_ProcessV4Lease_def)
  have own: "own4 (f4_Cfg c) w w'" using v4_lease_loop_own [OF _ assms(1)] assms(3) by (simp add: DhcpMgr_ProcessV4Lease_def)
  have ev: "evs = map (\<lambda>(t, m). (n, ?i, t, m)) (as_msg e (v4_spec False ?cur ?ls))" using own4_events [OF own] f(3) assms(4,7) by simp
  obtain k where k: "v4_final False ?cur ?ls = Some k" "k = last ?ls \<or> k = mtu_default (last ?ls)"
    using v4_final_last [OF assms(2)] by blast
  let ?t = "if v4_isExpired k then DHCP_LEASE_DEL else DHCP_LEASE_UPDATE"
  let ?m = "if v4_isExpired k then None else Some (DhcpMgr_createLeaseInfoMsg e k)"
  have r: "getDataHandler e (cs[n - 1 := c']) c6s (event_name4 n) = Some (Object4 ?i ?t ?m)"
    using assms(5,6) f(1,2) k(1) by (simp add: getDataHandler_position)
  have "last evs = (n, ?i, ?t, ?m)" if x: "x \<in> set evs" "fst (snd (snd x)) \<noteq> DHCP_LEASE_RENEW" for x
  proof -
    obtain t y where y: "(t, y) \<in> set (v4_spec False ?cur ?ls)" "t \<noteq> DHCP_LEASE_RENEW"
      using x by (auto simp: ev as_msg_def)
    then have "v4_spec False ?cur ?ls \<noteq> []" by auto
    with v4_spec_last [OF y] show ?thesis by (simp add: ev as_msg_def last_map tells_def k(1))
  qed
  moreover have "v4_final False ?cur ?ls = Some (last ?ls)" if "\<forall>x \<in> set evs. fst (snd (snd x)) = DHCP_LEASE_RENEW"
    using that v4_spec_quiet [OF _ assms(2), of False ?cur] by (force simp: ev as_msg_def)
  ultimately show ?thesis using r own k assms(4,7) by (intro exI [of _ ?t] exI [of _ ?m]) (auto simp: own4_def)
qed

theorem property_read_matches_events_witness:
  "\<exists>c' w' m. DhcpMgr_ProcessV4Lease env0 (client4\<lparr>f4_NewLeases := [lease4]\<rparr>) world_init = Some (c', w') \<and>
     last (bus_events4 (new_actions world_init w')) = (1, ''erouter0'', DHCP_LEASE_UPDATE, m) \<and>
     getDataHandler env0 [c'] [] (event_name4 1) = Some (Object4 ''erouter0'' DHCP_LEASE_UPDATE m)"
proof -
  let ?c = "client4\<lparr>f4_NewLeases := [lease4]\<rparr>"
  have fit: "\<forall>l \<in> set (f4_NewLeases ?c). lease_fits env0 l" and c: "c4_InstanceNumber (f4_Cfg ?c) = 1" "c4_Interface (f4_Cfg ?c) = ''erouter0''"
    "map fst (as_msg env0 (v4_spec False (f4_currentLease ?c) (f4_NewLeases ?c))) = [DHCP_LEASE_UPDATE]" by code_simp+
  obtain c' w' where p: "DhcpMgr_ProcessV4Lease env0 ?c world_init = Some (c', w')"
      "events4 (new_actions world_init w') = as_msg env0 (v4_spec False (f4_currentLease ?c) (f4_NewLeases ?c))"
    using v4_lease_loop_spec [OF fit refl, of False world_init] by (auto simp: DhcpMgr_ProcessV4Lease_def)
  obtain m where m: "bus_events4 (new_actions world_init w') = [(1, ''erouter0'', DHCP_LEASE_UPDATE, m)]"
    using own4_events [OF v4_lease_loop_own [OF p(1) [unfolded DhcpMgr_ProcessV4Lease_def] fit]] p(2) c by auto
  from property_read_matches_events [OF fit _ p(1) c(1) _ _ refl, of "[?c]" "[]"] m c(2) p(1) show ?thesis by auto
qed

text \<open>
  After a renewal the property has a lease that no event carried: the event has the lease
  before it, the read has the new one.
\<close>

lemma renewal_read_differs:
  assumes "f4_NewLeases c = [l]" "f4_currentLease c = Some k" "\<not> v4_differs k l" "\<not> v4_isExpired l" "v4_addressAssigned l"
    and "c4_InstanceNumber (f4_Cfg c) = n" "1 \<le> n" "n \<le> length cs"
  shows "\<exists>c' w'. DhcpMgr_ProcessV4Lease e c w = Some (c', w') \<and>
    events4 (new_actions w w') = [(DHCP_LEASE_RENEW, Some (DhcpMgr_createLeaseInfoMsg e k))] \<and>
    getDataHandler e (cs[n - 1 := c']) c6s (event_name4 n) =
      Some (Object4 (c4_Interface (f4_Cfg c)) DHCP_LEASE_UPDATE (Some (DhcpMgr_createLeaseInfoMsg e l)))"
proof -
  let ?w = "act (A_publish4 (c4_InstanceNumber (f4_Cfg c)) (c4_Interface (f4_Cfg c)) DHCP_LEASE_RENEW (Some (DhcpMgr_createLeaseInfoMsg e k))) w"
  let ?c = "c\<lparr>f4_currentLease := Some l, f4_NewLeases := []\<rparr>"
  let ?w' = "snd (DHCPMgr_storeDhcpv4Lease e ?c (set_inf_sysevents e (Some k) l (c4_Interface (f4_Cfg c)) ?w))"
  have q: "quiet ?w ?w'" using quiet_trans [OF set_inf_sysevents_quiet storeDhcpv4Lease_quiet] .
  have "DhcpMgr_ProcessV4Lease e c w = Some (?c, ?w')"
    using assms(1-5) by (simp add: DhcpMgr_ProcessV4Lease_def v4_lease_step_def publish4_lease Let_def)
  moreover have "events4 (new_actions w ?w') = [(DHCP_LEASE_RENEW, Some (DhcpMgr_createLeaseInfoMsg e k))]"
    using new_actions_trans [OF extends_act quiet_extends [OF q]] q by (simp add: quiet_def)
  ultimately show ?thesis using assms(4,7,8) by (intro exI [of _ ?c] exI [of _ ?w']) (simp add: getDataHandler_position)
qed

end
