(* ===== verification/Lease_V6.thy ===== *)
theory Lease_V6
  imports Lease_Store Custom_Options
begin

text \<open>
  The DHCPv6 lease handler, \<open>source/DHCPMgrUtils/dhcpmgr_v6_lease_handler.c\<close>: the
  leases of a batch are compared with the current lease one by one, a part that
  was not renewed is taken over, the lease is stored and, when it changed,
  applied to the interface and published. Strings and containers are compared
  as the code does, with the bytes behind a string taken as zero.
\<close>

section \<open>System events and the interface\<close>

text \<open>
  \<open>system\<close> answers a wait status: the low seven bits are the signal, the next
  byte above the low eight is the exit code.
\<close>

definition exec_shell_cmd :: "env \<Rightarrow> string \<Rightarrow> world \<Rightarrow> int \<times> world" where
  "exec_shell_cmd e command w =
     (let (status, w1) = call e (A_system command) w
      in if status = -1 then (-1, w1)
         else if status mod 128 = 0
         then (if (status div 256) mod 256 \<noteq> 0 then (-1, w1) else (0, w1))
         else (0, w1))"

text \<open>The names of the system events: the interface between a prefix and a suffix.\<close>

definition tr_event :: "string \<Rightarrow> string \<Rightarrow> string" where
  "tr_event ifname suffix = c_trunc 256 (''tr_'' @ ifname @ ''_dhcpv6_client_'' @ suffix)"

fun processv6LesSysevents :: "(string \<times> string) list \<Rightarrow> string \<Rightarrow> world \<Rightarrow> world" where
  "processv6LesSysevents [] ifname w = w"
| "processv6LesSysevents ((value, name) # evs) ifname w =
     processv6LesSysevents evs ifname
       (if value \<noteq> [] then act (A_set_event (tr_event ifname name) value) w else w)"

definition ConfigureIpv6Sysevents :: "COSA_DML_DHCPCV6_CFG \<Rightarrow> DHCPv6_PLUGIN_MSG \<Rightarrow> world \<Rightarrow> world" where
  "ConfigureIpv6Sysevents cfg l w =
     (let u = (\<lambda>x :: u32. c_trunc 32 (show_nat (unat x)));
          pd = v6_ia_pd l; na = v6_ia_na l;
          w1 = (if pd_assigned pd
                then processv6LesSysevents
                  [(c_trunc 56 (pd_Prefix pd @ ''/'' @ show_nat (unat (pd_PrefixLength pd))), ''v6pref''),
                   (u (pd_IA_ID pd), ''pref_iaid''), (u (pd_T1 pd), ''pref_t1''), (u (pd_T2 pd), ''pref_t2''),
                   (u (pd_PreferedLifeTime pd), ''pref_pretm''), (u (pd_ValidLifeTime pd), ''pref_vldtm'')]
                  (c6_Interface cfg) w
                else w)
      in if na_assigned na
         then processv6LesSysevents
           [(na_address na, ''v6addr''), (u (na_IA_ID na), ''addr_iaid''), (u (na_T1 na), ''addr_t1''),
            (u (na_T2 na), ''addr_t2''), (u (na_PreferedLifeTime na), ''addr_pretm''), (u (na_ValidLifeTime na), ''addr_vldtm'')]
           (c6_Interface cfg) w1
         else w1)"

definition lft :: "u32 \<Rightarrow> string" where
  "lft t = (if t = 0 \<or> t = 4294967295 then ''forever'' else c_trunc 20 (show_nat (unat t)))"

definition configureNetworkInterface6 :: "env \<Rightarrow> COSA_DML_DHCPCV6_FULL \<Rightarrow> world \<Rightarrow> world" where
  "configureNetworkInterface6 e c w =
     (case f6_currentLease c of
        None \<Rightarrow> w
      | Some l \<Rightarrow>
          snd (exec_shell_cmd e (c_trunc 256
            (''ip -6 addr replace '' @ [CHR 39] @ na_address (v6_ia_na l) @ [CHR 39] @ '' dev '' @ [CHR 39] @
             c6_Interface (f6_Cfg c) @ [CHR 39] @ '' preferred_lft '' @ lft (na_PreferedLifeTime (v6_ia_na l)) @
             '' valid_lft '' @ lft (na_ValidLifeTime (v6_ia_na l)))) w))"

section \<open>Comparison and merge\<close>

definition compare_dhcpv6_plugin_msg :: "DHCPv6_PLUGIN_MSG \<Rightarrow> DHCPv6_PLUGIN_MSG \<Rightarrow> bool" where
  "compare_dhcpv6_plugin_msg cur new \<longleftrightarrow>
     na_assigned (v6_ia_na cur) = na_assigned (v6_ia_na new) \<and>
     strncmp_eq 48 (na_address (v6_ia_na cur)) (na_address (v6_ia_na new)) \<and>
     na_IA_ID (v6_ia_na cur) = na_IA_ID (v6_ia_na new) \<and>
     pd_assigned (v6_ia_pd cur) = pd_assigned (v6_ia_pd new) \<and>
     strncmp_eq 48 (pd_Prefix (v6_ia_pd cur)) (pd_Prefix (v6_ia_pd new)) \<and>
     pd_PrefixLength (v6_ia_pd cur) = pd_PrefixLength (v6_ia_pd new) \<and>
     pd_IA_ID (v6_ia_pd cur) = pd_IA_ID (v6_ia_pd new) \<and>
     v6_isExpired cur = v6_isExpired new \<and> v6_dns cur = v6_dns new \<and> v6_mapt cur = v6_mapt new \<and>
     v6_mape cur = v6_mape new \<and> v6_domainName cur = v6_domainName new \<and> v6_ntpserver cur = v6_ntpserver new \<and>
     v6_aftr cur = v6_aftr new"

text \<open>The guard against a deletion of a prefix that is not the current one.\<close>

definition stale_del :: "DHCPv6_PLUGIN_MSG \<Rightarrow> DHCPv6_PLUGIN_MSG \<Rightarrow> bool" where
  "stale_del cur new \<longleftrightarrow>
     pd_assigned (v6_ia_pd cur) \<and> pd_assigned (v6_ia_pd new) \<and>
     (\<not> strncmp_eq 48 (pd_Prefix (v6_ia_pd cur)) (pd_Prefix (v6_ia_pd new)) \<or>
      pd_PrefixLength (v6_ia_pd cur) \<noteq> pd_PrefixLength (v6_ia_pd new))"

definition v6_merge :: "DHCPv6_PLUGIN_MSG \<Rightarrow> DHCPv6_PLUGIN_MSG \<Rightarrow> DHCPv6_PLUGIN_MSG" where
  "v6_merge cur new =
     (let n1 = (if \<not> na_assigned (v6_ia_na new) \<and> na_assigned (v6_ia_na cur) then new\<lparr>v6_ia_na := v6_ia_na cur\<rparr> else new)
      in if \<not> pd_assigned (v6_ia_pd n1) \<and> pd_assigned (v6_ia_pd cur)
         then n1\<lparr>v6_ia_pd := v6_ia_pd cur, v6_mapt := v6_mapt cur, v6_mape := v6_mape cur\<rparr>
         else n1)"

section \<open>Handler\<close>

text \<open>
  What follows the storing of a lease when \<open>leaseChanged\<close> is set. Option 17 sets
  the time offset of the lease, which is the current lease already.
\<close>

definition v6_apply_change ::
  "env \<Rightarrow> DHCPv6_PLUGIN_MSG \<Rightarrow> COSA_DML_DHCPCV6_FULL \<Rightarrow> world \<Rightarrow> (COSA_DML_DHCPCV6_FULL \<times> world) option" where
  "v6_apply_change e l c w =
     (let w1 = (if na_assigned (v6_ia_na l) then configureNetworkInterface6 e c w else w);
          w2 = ConfigureIpv6Sysevents (f6_Cfg c) l w1;
          (off, w3) = (if vd_Assigned (v6_vendor l)
                       then Set_DhcpV6_CustomOption17 e (c6_Interface (f6_Cfg c)) (vd_Data (v6_vendor l)) (v6_TimeOffset l) w2
                       else (v6_TimeOffset l, w2))
      in DhcpMgr_PublishDhcpV6Event e (c\<lparr>f6_currentLease := Some (l\<lparr>v6_TimeOffset := off\<rparr>)\<rparr>) DHCP_LEASE_UPDATE w3)"

text \<open>The lease becomes the current one and is stored; the rest of the batch is kept.\<close>

definition v6_take_lease ::
  "env \<Rightarrow> bool \<Rightarrow> DHCPv6_PLUGIN_MSG \<Rightarrow> DHCPv6_PLUGIN_MSG list \<Rightarrow> COSA_DML_DHCPCV6_FULL \<Rightarrow> world \<Rightarrow>
     (COSA_DML_DHCPCV6_FULL \<times> world) option" where
  "v6_take_lease e leaseChanged l rest c w =
     (let c1 = c\<lparr>f6_currentLease := Some l, f6_NewLeases := rest\<rparr>;
          w1 = snd (DHCPMgr_storeDhcpv6Lease e c1 w)
      in if leaseChanged then v6_apply_change e l c1 w1 else Some (c1, w1))"

definition v6_lease_step ::
  "env \<Rightarrow> DHCPv6_PLUGIN_MSG \<Rightarrow> DHCPv6_PLUGIN_MSG list \<Rightarrow> COSA_DML_DHCPCV6_FULL \<Rightarrow> world \<Rightarrow>
     (COSA_DML_DHCPCV6_FULL \<times> world) option" where
  "v6_lease_step e newLease rest c w =
     (case f6_currentLease c of
        None \<Rightarrow> v6_take_lease e True newLease rest c w
      | Some current \<Rightarrow>
          if \<not> v6_isExpired current \<and> v6_isExpired newLease
          then (if stale_del current newLease then Some (c\<lparr>f6_NewLeases := rest\<rparr>, w)
                else (case DhcpMgr_PublishDhcpV6Event e c DHCP_LEASE_DEL w of
                        None \<Rightarrow> None
                      | Some (c1, w1) \<Rightarrow> v6_take_lease e False newLease rest c1 w1))
          else
            (let l = v6_merge current newLease
             in if \<not> compare_dhcpv6_plugin_msg current l then v6_take_lease e True l rest c w
                else if \<not> v6_isExpired l \<and> (na_assigned (v6_ia_na l) \<or> pd_assigned (v6_ia_pd l))
                then (case DhcpMgr_PublishDhcpV6Event e c DHCP_LEASE_RENEW w of
                        None \<Rightarrow> None
                      | Some (c1, w1) \<Rightarrow> v6_take_lease e False l rest c1 w1)
                else v6_take_lease e False l rest c w))"

fun v6_lease_loop ::
  "env \<Rightarrow> DHCPv6_PLUGIN_MSG list \<Rightarrow> COSA_DML_DHCPCV6_FULL \<Rightarrow> world \<Rightarrow> (COSA_DML_DHCPCV6_FULL \<times> world) option" where
  "v6_lease_loop e [] c w = Some (c, w)"
| "v6_lease_loop e (l # ls) c w =
     (case v6_lease_step e l ls c w of
        None \<Rightarrow> None
      | Some (c', w') \<Rightarrow> v6_lease_loop e ls c' w')"

definition DhcpMgr_ProcessV6Lease ::
  "env \<Rightarrow> COSA_DML_DHCPCV6_FULL \<Rightarrow> world \<Rightarrow> (COSA_DML_DHCPCV6_FULL \<times> world) option" where
  "DhcpMgr_ProcessV6Lease e c w = v6_lease_loop e (f6_NewLeases c) c w"

definition DhcpMgr_clearDHCPv6Lease :: "COSA_DML_DHCPCV6_FULL \<Rightarrow> COSA_DML_DHCPCV6_FULL" where
  "DhcpMgr_clearDHCPv6Lease c = c\<lparr>f6_currentLease := None, f6_NewLeases := []\<rparr>"

end
