(* ===== verification/Lease_V6_Spec.thy ===== *)
theory Lease_V6_Spec
  imports Lease_V6 Dhcp_Samples
begin

text \<open>
  What the DHCPv6 lease handler (\<open>Lease_V6\<close>) promises: the events of a batch and
  the current lease after it as functions of the current lease and the batch
  alone (\<open>v6_spec\<close>, \<open>v6_final\<close>), and the proof that the handler refines them.
  The specification does not use the comparison and the merge of the handler: it says
  which part of a lease is its identity (\<open>v6_identity\<close>) and what a lease takes over from
  the current one (\<open>v6_carry\<close>). That the code agrees with this is proved.
\<close>

section \<open>Specification\<close>

text \<open>The time offset of option 17 is the one of its last suboption 38.\<close>

definition offset_token :: "string \<Rightarrow> u32 \<Rightarrow> u32" where
  "offset_token tok off = (case name_value tok of Some (n, v) \<Rightarrow> if n = ''38'' then time_offset v else off | None \<Rightarrow> off)"

definition v6_offset :: "DHCPv6_PLUGIN_MSG \<Rightarrow> DHCPv6_PLUGIN_MSG" where
  "v6_offset l = (if vd_Assigned (v6_vendor l)
     then l\<lparr>v6_TimeOffset := fold offset_token (strtok '' '' (vd_Data (v6_vendor l))) (v6_TimeOffset l)\<rparr> else l)"

text \<open>
  The identity of a lease: two leases with the same identity are the same lease, given
  again. The lifetimes, \<open>T1\<close>, \<open>T2\<close>, the vendor data and the time offset are not part of it.
\<close>

definition v6_identity where
  "v6_identity l =
     ((na_assigned (v6_ia_na l), take 48 (na_address (v6_ia_na l)), na_IA_ID (v6_ia_na l)),
      (pd_assigned (v6_ia_pd l), take 48 (pd_Prefix (v6_ia_pd l)), pd_PrefixLength (v6_ia_pd l), pd_IA_ID (v6_ia_pd l)),
      v6_isExpired l, (v6_dns l, v6_domainName l, v6_ntpserver l, v6_aftr l), (v6_mapt l, v6_mape l))"

text \<open>
  What the lease \<open>l\<close> becomes after the lease \<open>k\<close>: an address that only \<open>k\<close> has stays, and
  a prefix that only \<open>k\<close> has stays together with the MAP containers.
\<close>

definition v6_carry :: "DHCPv6_PLUGIN_MSG \<Rightarrow> DHCPv6_PLUGIN_MSG \<Rightarrow> DHCPv6_PLUGIN_MSG" where
  "v6_carry k l =
     (let na = (if na_assigned (v6_ia_na k) \<and> \<not> na_assigned (v6_ia_na l) then k else l);
          pd = (if pd_assigned (v6_ia_pd k) \<and> \<not> pd_assigned (v6_ia_pd l) then k else l)
      in l\<lparr>v6_ia_na := v6_ia_na na, v6_ia_pd := v6_ia_pd pd, v6_mapt := v6_mapt pd, v6_mape := v6_mape pd\<rparr>)"

text \<open>Both leases have a prefix, and it is not the same one.\<close>

definition other_prefix :: "DHCPv6_PLUGIN_MSG \<Rightarrow> DHCPv6_PLUGIN_MSG \<Rightarrow> bool" where
  "other_prefix k l \<longleftrightarrow> pd_assigned (v6_ia_pd k) \<and> pd_assigned (v6_ia_pd l) \<and>
     (take 48 (pd_Prefix (v6_ia_pd k)), pd_PrefixLength (v6_ia_pd k)) \<noteq> (take 48 (pd_Prefix (v6_ia_pd l)), pd_PrefixLength (v6_ia_pd l))"

definition v6_bound :: "DHCPv6_PLUGIN_MSG \<Rightarrow> bool" where
  "v6_bound l \<longleftrightarrow> \<not> v6_isExpired l \<and> (na_assigned (v6_ia_na l) \<or> pd_assigned (v6_ia_pd l))"

text \<open>One lease: the next current lease and the events, each with the lease it is about.\<close>

definition v6_step ::
  "DHCPv6_PLUGIN_MSG option \<Rightarrow> DHCPv6_PLUGIN_MSG \<Rightarrow>
     DHCPv6_PLUGIN_MSG option \<times> (DHCP_MESSAGE_TYPE \<times> DHCPv6_PLUGIN_MSG option) list" where
  "v6_step cur l =
     (case cur of
        None \<Rightarrow> (Some (v6_offset l), [(DHCP_LEASE_UPDATE, Some (v6_offset l))])
      | Some k \<Rightarrow>
          if v6_isExpired l \<and> \<not> v6_isExpired k
          then (if other_prefix k l then (Some k, []) else (Some l, [(DHCP_LEASE_DEL, None)]))
          else if v6_identity (v6_carry k l) \<noteq> v6_identity k
          then (Some (v6_offset (v6_carry k l)), [(DHCP_LEASE_UPDATE, Some (v6_offset (v6_carry k l)))])
          else (Some (v6_carry k l), if v6_bound (v6_carry k l) then [(DHCP_LEASE_RENEW, Some k)] else []))"

fun v6_spec ::
  "DHCPv6_PLUGIN_MSG option \<Rightarrow> DHCPv6_PLUGIN_MSG list \<Rightarrow> (DHCP_MESSAGE_TYPE \<times> DHCPv6_PLUGIN_MSG option) list" where
  "v6_spec cur [] = []"
| "v6_spec cur (l # ls) = snd (v6_step cur l) @ v6_spec (fst (v6_step cur l)) ls"

fun v6_final :: "DHCPv6_PLUGIN_MSG option \<Rightarrow> DHCPv6_PLUGIN_MSG list \<Rightarrow> DHCPv6_PLUGIN_MSG option" where
  "v6_final cur [] = cur"
| "v6_final cur (l # ls) = v6_final (fst (v6_step cur l)) ls"

definition as_msg6 :: "env \<Rightarrow> (DHCP_MESSAGE_TYPE \<times> DHCPv6_PLUGIN_MSG option) list \<Rightarrow>
    (DHCP_MESSAGE_TYPE \<times> DHCP_MGR_IPV6_MSG option) list" where
  "as_msg6 e = map (\<lambda>(t, l). (t, Option.bind l (DhcpMgr_createDhcpv6LeaseInfoMsg e)))"

text \<open>The MAP containers of the leases to publish stay inside the parser's buffers.\<close>

definition publishable :: "env \<Rightarrow> (DHCP_MESSAGE_TYPE \<times> DHCPv6_PLUGIN_MSG option) list \<Rightarrow> bool" where
  "publishable e evs = list_all (\<lambda>(t, l). case l of None \<Rightarrow> True | Some k \<Rightarrow> DhcpMgr_createDhcpv6LeaseInfoMsg e k \<noteq> None) evs"

section \<open>Lemmas\<close>

text \<open>The comparison, the merge and the guard of the code are those of the specification.\<close>

lemma compare_identity: "compare_dhcpv6_plugin_msg k l \<longleftrightarrow> v6_identity l = v6_identity k"
  by (auto simp: compare_dhcpv6_plugin_msg_def v6_identity_def strncmp_eq_def)

lemma merge_carry: "v6_merge k l = v6_carry k l"
  by (simp add: v6_merge_def v6_carry_def Let_def)

lemma stale_other: "stale_del k l \<longleftrightarrow> other_prefix k l"
  by (auto simp: stale_del_def other_prefix_def strncmp_eq_def)

lemma v6_step_code: "v6_step cur l =
    (case cur of
       None \<Rightarrow> (Some (v6_offset l), [(DHCP_LEASE_UPDATE, Some (v6_offset l))])
     | Some k \<Rightarrow>
         if \<not> v6_isExpired k \<and> v6_isExpired l
         then (if stale_del k l then (cur, []) else (Some l, [(DHCP_LEASE_DEL, None)]))
         else (let m = v6_merge k l
               in if \<not> compare_dhcpv6_plugin_msg k m then (Some (v6_offset m), [(DHCP_LEASE_UPDATE, Some (v6_offset m))])
                  else if \<not> v6_isExpired m \<and> (na_assigned (v6_ia_na m) \<or> pd_assigned (v6_ia_pd m))
                  then (Some m, [(DHCP_LEASE_RENEW, Some k)])
                  else (Some m, [])))"
  by (simp add: v6_step_def compare_identity merge_carry stale_other v6_bound_def Let_def split: option.split)

lemma processv6_quiet: "quiet w0 w \<Longrightarrow> quiet w0 (processv6LesSysevents evs i w)"
  by (induction evs i w rule: processv6LesSysevents.induct) (simp_all add: quiet_step)

lemma sysevents6_quiet: "quiet w0 w \<Longrightarrow> quiet w0 (ConfigureIpv6Sysevents cfg l w)"
  by (auto simp: ConfigureIpv6Sysevents_def Let_def intro!: processv6_quiet simp del: processv6LesSysevents.simps)

lemma configure6_quiet: "quiet w0 w \<Longrightarrow> quiet w0 (configureNetworkInterface6 e c w)"
  by (auto simp: configureNetworkInterface6_def exec_shell_cmd_def call_def Let_def split: option.splits intro!: quiet_intros)

lemma option17_token_offset: "fst (option17_token e tok st) = offset_token tok (fst st)"
  by (cases st) (auto simp: option17_token_def offset_token_def Let_def case_prod_beta split: option.split)

lemma option17_fold_offset: "fst (fold (option17_token e) toks st) = fold offset_token toks (fst st)"
  by (induction toks arbitrary: st) (simp_all add: option17_token_offset)

lemma Option17Set_offset: "fst (DhcpMgr_Option17Set_Common e val off w) = fold offset_token (strtok '' '' val) off"
  using option17_fold_offset [of e "strtok '' '' val" "(off, False, w)"]
  by (simp add: DhcpMgr_Option17Set_Common_def Let_def case_prod_beta)

text \<open>A publication appends one event and keeps everything of the client but the MAP information.\<close>

lemma publish6_Some:
  assumes "has_lease_info t \<Longrightarrow> \<exists>l m. f6_currentLease c = Some l \<and> DhcpMgr_createDhcpv6LeaseInfoMsg e l = Some m"
  shows "\<exists>i w'. DhcpMgr_PublishDhcpV6Event e c t w = Some (c\<lparr>f6_Info := i\<rparr>, w') \<and> extends w w' \<and>
    events6 (new_actions w w') =
      [(t, if has_lease_info t then Option.bind (f6_currentLease c) (DhcpMgr_createDhcpv6LeaseInfoMsg e) else None)]"
proof (cases "has_lease_info t")
  case True
  then show ?thesis using assms by (force simp: DhcpMgr_PublishDhcpV6Event_def)
next
  case False
  then show ?thesis by (intro exI [of _ "f6_Info c"]) (simp add: DhcpMgr_PublishDhcpV6Event_def)
qed

lemma v6_apply_change_Some:
  assumes "DhcpMgr_createDhcpv6LeaseInfoMsg e (v6_offset l) \<noteq> None"
  shows "\<exists>i w'. v6_apply_change e l c w = Some (c\<lparr>f6_Info := i, f6_currentLease := Some (v6_offset l)\<rparr>, w') \<and> extends w w' \<and>
    events6 (new_actions w w') = as_msg6 e [(DHCP_LEASE_UPDATE, Some (v6_offset l))]"
proof -
  let ?w1 = "if na_assigned (v6_ia_na l) then configureNetworkInterface6 e c w else w"
  let ?w2 = "ConfigureIpv6Sysevents (f6_Cfg c) l ?w1"
  let ?r = "if vd_Assigned (v6_vendor l)
    then Set_DhcpV6_CustomOption17 e (c6_Interface (f6_Cfg c)) (vd_Data (v6_vendor l)) (v6_TimeOffset l) ?w2
    else (v6_TimeOffset l, ?w2)"
  let ?c = "c\<lparr>f6_currentLease := Some (v6_offset l)\<rparr>"
  have q2: "quiet w ?w2" by (intro sysevents6_quiet) (simp add: configure6_quiet)
  have q: "quiet w (snd ?r)"
    using q2 quiet_trans [OF q2 Option17Set_quiet] by (simp add: Set_DhcpV6_CustomOption17_def)
  have off: "l\<lparr>v6_TimeOffset := fst ?r\<rparr> = v6_offset l"
    by (simp add: v6_offset_def Set_DhcpV6_CustomOption17_def Option17Set_offset)
  obtain i w' where p: "DhcpMgr_PublishDhcpV6Event e ?c DHCP_LEASE_UPDATE (snd ?r) = Some (?c\<lparr>f6_Info := i\<rparr>, w')"
      "extends (snd ?r) w'"
      "events6 (new_actions (snd ?r) w') = [(DHCP_LEASE_UPDATE, DhcpMgr_createDhcpv6LeaseInfoMsg e (v6_offset l))]"
    using publish6_Some [where t = DHCP_LEASE_UPDATE and c = ?c and e = e and w = "snd ?r"] assms by auto
  have "v6_apply_change e l c w = DhcpMgr_PublishDhcpV6Event e ?c DHCP_LEASE_UPDATE (snd ?r)"
    unfolding off [symmetric] by (simp only: v6_apply_change_def Let_def case_prod_beta)
  moreover have "events6 (new_actions w w') = as_msg6 e [(DHCP_LEASE_UPDATE, Some (v6_offset l))]"
    using new_actions_trans [OF quiet_extends [OF q] p(2)] q p(3) by (simp add: quiet_def as_msg6_def)
  ultimately show ?thesis
    using p(1) extends_trans [OF quiet_extends [OF q] p(2)] by (intro exI [of _ i] exI [of _ w']) simp
qed

lemma v6_take_lease_Some:
  assumes "ch \<Longrightarrow> DhcpMgr_createDhcpv6LeaseInfoMsg e (v6_offset l) \<noteq> None"
  shows "\<exists>i w'. v6_take_lease e ch l ls c w =
      Some (c\<lparr>f6_Info := i, f6_currentLease := Some (if ch then v6_offset l else l), f6_NewLeases := ls\<rparr>, w') \<and> extends w w' \<and>
    events6 (new_actions w w') = as_msg6 e (if ch then [(DHCP_LEASE_UPDATE, Some (v6_offset l))] else [])"
proof -
  let ?c = "c\<lparr>f6_currentLease := Some l, f6_NewLeases := ls\<rparr>"
  let ?w = "snd (DHCPMgr_storeDhcpv6Lease e ?c w)"
  have q: "quiet w ?w" by (rule storeDhcpv6Lease_quiet)
  show ?thesis
  proof (cases ch)
    case False
    then have "v6_take_lease e ch l ls c w = Some (c\<lparr>f6_Info := f6_Info c, f6_currentLease := Some l, f6_NewLeases := ls\<rparr>, ?w)"
      by (simp add: v6_take_lease_def Let_def)
    with False q show ?thesis by (intro exI [of _ "f6_Info c"] exI [of _ ?w]) (simp add: quiet_def as_msg6_def)
  next
    case True
    obtain i w' where a: "v6_apply_change e l ?c ?w = Some (?c\<lparr>f6_Info := i, f6_currentLease := Some (v6_offset l)\<rparr>, w')"
        "extends ?w w'" "events6 (new_actions ?w w') = as_msg6 e [(DHCP_LEASE_UPDATE, Some (v6_offset l))]"
      using v6_apply_change_Some [of e l ?c ?w] assms True by blast
    have "v6_take_lease e ch l ls c w = Some (c\<lparr>f6_Info := i, f6_currentLease := Some (v6_offset l), f6_NewLeases := ls\<rparr>, w')"
      using True a(1) by (simp add: v6_take_lease_def Let_def)
    moreover have "events6 (new_actions w w') = as_msg6 e [(DHCP_LEASE_UPDATE, Some (v6_offset l))]"
      using new_actions_trans [OF quiet_extends [OF q] a(2)] a(3) q by (simp add: quiet_def)
    ultimately show ?thesis using True extends_trans [OF quiet_extends [OF q] a(2)] by auto
  qed
qed

lemma v6_publish_take:
  assumes "has_lease_info t \<Longrightarrow> \<exists>k m. f6_currentLease c = Some k \<and> DhcpMgr_createDhcpv6LeaseInfoMsg e k = Some m"
  shows "\<exists>i w'. (case DhcpMgr_PublishDhcpV6Event e c t w of None \<Rightarrow> None | Some (c1, w1) \<Rightarrow> v6_take_lease e False l ls c1 w1) =
      Some (c\<lparr>f6_Info := i, f6_currentLease := Some l, f6_NewLeases := ls\<rparr>, w') \<and> extends w w' \<and>
    events6 (new_actions w w') =
      [(t, if has_lease_info t then Option.bind (f6_currentLease c) (DhcpMgr_createDhcpv6LeaseInfoMsg e) else None)]"
proof -
  obtain i w1 where p: "DhcpMgr_PublishDhcpV6Event e c t w = Some (c\<lparr>f6_Info := i\<rparr>, w1)" "extends w w1"
      "events6 (new_actions w w1) =
        [(t, if has_lease_info t then Option.bind (f6_currentLease c) (DhcpMgr_createDhcpv6LeaseInfoMsg e) else None)]"
    using publish6_Some [OF assms, where w = w] by blast
  obtain j w' where k: "v6_take_lease e False l ls (c\<lparr>f6_Info := i\<rparr>) w1 =
      Some (c\<lparr>f6_Info := j, f6_currentLease := Some l, f6_NewLeases := ls\<rparr>, w')" "extends w1 w'" "events6 (new_actions w1 w') = []"
    using v6_take_lease_Some [where ch = False and c = "c\<lparr>f6_Info := i\<rparr>" and w = w1 and e = e and l = l and ls = ls] by (auto simp: as_msg6_def)
  show ?thesis
    using p k new_actions_trans [OF p(2) k(2)] extends_trans [OF p(2) k(2)] by auto
qed

lemma v6_lease_step_spec:
  assumes "publishable e (snd (v6_step (f6_currentLease c) l))"
  shows "\<exists>i w'. v6_lease_step e l ls c w =
      Some (c\<lparr>f6_Info := i, f6_currentLease := fst (v6_step (f6_currentLease c) l), f6_NewLeases := ls\<rparr>, w') \<and>
    extends w w' \<and> events6 (new_actions w w') = as_msg6 e (snd (v6_step (f6_currentLease c) l))"
proof (cases "f6_currentLease c")
  case None
  then show ?thesis
    using v6_take_lease_Some [where ch = True and e = e and l = l and ls = ls and c = c and w = w] assms by (simp add: v6_lease_step_def v6_step_code publishable_def)
next
  case (Some k)
  let ?m = "v6_merge k l"
  consider (stale) "\<not> v6_isExpired k" "v6_isExpired l" "stale_del k l"
    | (del) "\<not> v6_isExpired k" "v6_isExpired l" "\<not> stale_del k l"
    | (upd) "\<not> (\<not> v6_isExpired k \<and> v6_isExpired l)" "\<not> compare_dhcpv6_plugin_msg k ?m"
    | (renew) "\<not> (\<not> v6_isExpired k \<and> v6_isExpired l)" "compare_dhcpv6_plugin_msg k ?m"
        "\<not> v6_isExpired ?m \<and> (na_assigned (v6_ia_na ?m) \<or> pd_assigned (v6_ia_pd ?m))"
    | (same) "\<not> (\<not> v6_isExpired k \<and> v6_isExpired l)" "compare_dhcpv6_plugin_msg k ?m"
        "\<not> (\<not> v6_isExpired ?m \<and> (na_assigned (v6_ia_na ?m) \<or> pd_assigned (v6_ia_pd ?m)))"
    by blast
  then show ?thesis
  proof cases
    case stale
    then show ?thesis
      using Some by (intro exI [of _ "f6_Info c"] exI [of _ w]) (simp add: v6_lease_step_def v6_step_code as_msg6_def)
  next
    case del
    then show ?thesis
      using Some v6_publish_take [where t = DHCP_LEASE_DEL and c = c and e = e and w = w and l = l and ls = ls]
      by (simp add: v6_lease_step_def v6_step_code as_msg6_def)
  next
    case upd
    then have s: "v6_step (Some k) l = (Some (v6_offset ?m), [(DHCP_LEASE_UPDATE, Some (v6_offset ?m))])"
      by (auto simp: v6_step_code Let_def)
    then have "DhcpMgr_createDhcpv6LeaseInfoMsg e (v6_offset ?m) \<noteq> None"
      using assms Some by (simp add: publishable_def)
    moreover have "v6_lease_step e l ls c w = v6_take_lease e True ?m ls c w" using upd Some by (auto simp: v6_lease_step_def Let_def)
    ultimately show ?thesis using v6_take_lease_Some [where ch = True and e = e and l = ?m and ls = ls and c = c and w = w] Some s by simp
  next
    case renew
    then have s: "v6_step (Some k) l = (Some ?m, [(DHCP_LEASE_RENEW, Some k)])" by (auto simp: v6_step_code Let_def)
    then obtain m where "DhcpMgr_createDhcpv6LeaseInfoMsg e k = Some m" using assms Some by (auto simp: publishable_def)
    with v6_publish_take [where t = DHCP_LEASE_RENEW and c = c and e = e and w = w and l = ?m and ls = ls] Some renew s show ?thesis
      by (auto simp: v6_lease_step_def Let_def as_msg6_def)
  next
    case same
    then have "v6_step (Some k) l = (Some ?m, [])" by (auto simp: v6_step_code Let_def)
    moreover have "v6_lease_step e l ls c w = v6_take_lease e False ?m ls c w" using same Some by (auto simp: v6_lease_step_def Let_def)
    ultimately show ?thesis using v6_take_lease_Some [where ch = False and e = e and l = ?m and ls = ls and c = c and w = w] Some by simp
  qed
qed

lemma v6_lease_loop_spec:
  "publishable e (v6_spec (f6_currentLease c) ls) \<Longrightarrow> f6_NewLeases c = ls \<Longrightarrow>
   \<exists>c' w'. v6_lease_loop e ls c w = Some (c', w') \<and> f6_NewLeases c' = [] \<and> f6_Cfg c' = f6_Cfg c \<and> extends w w' \<and>
     f6_currentLease c' = v6_final (f6_currentLease c) ls \<and>
     events6 (new_actions w w') = as_msg6 e (v6_spec (f6_currentLease c) ls)"
proof (induction ls arbitrary: c w)
  case Nil
  then show ?case by (simp add: as_msg6_def)
next
  case (Cons l ls)
  let ?s = "v6_step (f6_currentLease c) l"
  obtain i w1 where s: "v6_lease_step e l ls c w = Some (c\<lparr>f6_Info := i, f6_currentLease := fst ?s, f6_NewLeases := ls\<rparr>, w1)"
      "extends w w1" "events6 (new_actions w w1) = as_msg6 e (snd ?s)"
    using v6_lease_step_spec [of e c l ls w] Cons.prems by (auto simp: publishable_def)
  let ?c = "c\<lparr>f6_Info := i, f6_currentLease := fst ?s, f6_NewLeases := ls\<rparr>"
  obtain c' w' where r: "v6_lease_loop e ls ?c w1 = Some (c', w')" "f6_NewLeases c' = []" "f6_Cfg c' = f6_Cfg c" "extends w1 w'"
      "f6_currentLease c' = v6_final (fst ?s) ls" "events6 (new_actions w1 w') = as_msg6 e (v6_spec (fst ?s) ls)"
    using Cons.IH [of ?c w1] Cons.prems by (auto simp: publishable_def)
  have "events6 (new_actions w w') = as_msg6 e (v6_spec (f6_currentLease c) (l # ls))"
    using new_actions_trans [OF s(2) r(4)] s(3) r(6) by (simp add: as_msg6_def)
  with s r extends_trans [OF s(2) r(4)] show ?case by auto
qed

lemma v6_merge_na: "v6_ia_na (v6_merge k l) = (if na_assigned (v6_ia_na l) \<or> \<not> na_assigned (v6_ia_na k) then v6_ia_na l else v6_ia_na k)"
  by (simp add: v6_merge_def Let_def)

lemma v6_merge_pd: "v6_ia_pd (v6_merge k l) = (if pd_assigned (v6_ia_pd l) \<or> \<not> pd_assigned (v6_ia_pd k) then v6_ia_pd l else v6_ia_pd k)"
  by (simp add: v6_merge_def Let_def)

lemma v6_offset_parts [simp]:
  "v6_ia_na (v6_offset l) = v6_ia_na l" "v6_ia_pd (v6_offset l) = v6_ia_pd l"
  "v6_mapt (v6_offset l) = v6_mapt l" "v6_mape (v6_offset l) = v6_mape l"
  by (simp_all add: v6_offset_def)

section \<open>Properties\<close>

text \<open>
  Claim C5. The DHCPv6 handler refines its specification: whatever the system
  answers, a batch is worked off completely when the messages it has to publish
  can be built, the events are exactly those of \<open>v6_spec\<close> in that order, the
  current lease is \<open>v6_final\<close>, and the configuration of the client is untouched.
  A lease whose identity (\<open>v6_identity\<close>) is that of the current one is a renewal: it
  may have other lifetimes, other \<open>T1\<close> and \<open>T2\<close>, other vendor data, and the event carries
  the lease that was current before it. The comment of the comparison in the source speaks of identical
  messages and of all fields; the code compares the identity only.
\<close>

theorem v6_batch_events:
  assumes "publishable e (v6_spec (f6_currentLease c) (f6_NewLeases c))"
  shows "\<exists>c' w'. DhcpMgr_ProcessV6Lease e c w = Some (c', w') \<and> f6_NewLeases c' = [] \<and> f6_Cfg c' = f6_Cfg c \<and>
     f6_currentLease c' = v6_final (f6_currentLease c) (f6_NewLeases c) \<and>
     events6 (new_actions w w') = as_msg6 e (v6_spec (f6_currentLease c) (f6_NewLeases c))"
  using v6_lease_loop_spec [OF assms refl, of w] by (auto simp: DhcpMgr_ProcessV6Lease_def)

theorem v6_batch_events_witness:
  "\<exists>c' w'. DhcpMgr_ProcessV6Lease env0 (client6\<lparr>f6_NewLeases := [lease6, lease6]\<rparr>) world_init = Some (c', w') \<and>
     f6_NewLeases c' = [] \<and> map fst (events6 (new_actions world_init w')) = [DHCP_LEASE_UPDATE, DHCP_LEASE_RENEW]"
proof -
  let ?c = "client6\<lparr>f6_NewLeases := [lease6, lease6]\<rparr>"
  have p: "publishable env0 (v6_spec (f6_currentLease ?c) (f6_NewLeases ?c))" by code_simp
  have t: "map fst (as_msg6 env0 (v6_spec (f6_currentLease ?c) (f6_NewLeases ?c))) = [DHCP_LEASE_UPDATE, DHCP_LEASE_RENEW]"
    by code_simp
  from v6_batch_events [OF p, of world_init] t show ?thesis by auto
qed

text \<open>
  What a change of lifetimes or vendor data alone does: one renewal with the old
  lease. The lease file has the new one; no command is run and no system event is
  set, so the lifetimes of the address on the interface stay those of the old lease.
\<close>

definition applied :: "world \<Rightarrow> action list" where
  "applied w = filter (\<lambda>a. case a of A_system _ \<Rightarrow> True | A_set_event _ _ \<Rightarrow> True | _ \<Rightarrow> False) (w_trace w)"

lemma applied_store: "applied (snd (DHCPMgr_storeDhcpv6Lease e c w)) = applied w"
  by (simp add: applied_def DHCPMgr_storeDhcpv6Lease_def Create_Dir_ifnEx_def call_def Let_def split: option.split)

lemma v6_carry_same: "v6_identity l = v6_identity k \<Longrightarrow> v6_carry k l = l"
  by (simp add: v6_identity_def v6_carry_def)

lemma v6_lifetime_change_is_renewal:
  assumes "f6_currentLease c = Some k" "f6_NewLeases c = [l]" "v6_identity l = v6_identity k" "v6_bound l"
    and "DhcpMgr_createDhcpv6LeaseInfoMsg e k = Some m"
  shows "\<exists>c' w'. DhcpMgr_ProcessV6Lease e c w = Some (c', w') \<and> f6_currentLease c' = Some l \<and>
    events6 (new_actions w w') = [(DHCP_LEASE_RENEW, Some m)] \<and> applied w' = applied w"
proof -
  have x: "\<not> v6_isExpired k" "\<not> v6_isExpired l" "na_assigned (v6_ia_na l) \<or> pd_assigned (v6_ia_pd l)"
    using assms(3,4) by (auto simp: v6_identity_def v6_bound_def)
  then have s: "v6_step (Some k) l = (Some l, [(DHCP_LEASE_RENEW, Some k)])"
    using assms(3,4) by (simp add: v6_step_def v6_carry_same)
  obtain c' w' where r: "DhcpMgr_ProcessV6Lease e c w = Some (c', w')" "f6_currentLease c' = Some l"
      "events6 (new_actions w w') = [(DHCP_LEASE_RENEW, Some m)]"
    using v6_lease_loop_spec [of e c "[l]" w] assms s
    by (auto simp: DhcpMgr_ProcessV6Lease_def publishable_def as_msg6_def simp del: v6_lease_loop.simps)
  have "compare_dhcpv6_plugin_msg k l" "v6_merge k l = l" using assms(3) by (simp_all add: compare_identity merge_carry v6_carry_same)
  then have "applied w' = applied w"
    using r(1) assms(1,2,5) x
    by (auto simp: DhcpMgr_ProcessV6Lease_def v6_lease_step_def v6_take_lease_def DhcpMgr_PublishDhcpV6Event_def Let_def applied_store)
      (simp_all add: applied_def)
  with r show ?thesis by blast
qed

lemma stale_loop:
  "f6_currentLease c = Some k \<Longrightarrow> \<not> v6_isExpired k \<Longrightarrow> list_all (\<lambda>l. v6_isExpired l \<and> stale_del k l) ls \<Longrightarrow>
   v6_lease_loop e (ls @ rest) (c\<lparr>f6_NewLeases := ls @ rest\<rparr>) w = v6_lease_loop e rest (c\<lparr>f6_NewLeases := rest\<rparr>) w"
  by (induction ls arbitrary: c) (simp_all add: v6_lease_step_def)

text \<open>
  The stale deletion guard: expired leases for other prefixes than the
  current one, any number of them at the head of a batch, have no effect at all.
  The handler does to the client, the lease file, the interface and the bus
  exactly what it does for the batch without them.
\<close>

lemma v6_stale_del_ignored:
  assumes "f6_currentLease c = Some k" and "\<not> v6_isExpired k" and "list_all (\<lambda>l. v6_isExpired l \<and> stale_del k l) ls"
    and "f6_NewLeases c = ls @ rest"
  shows "DhcpMgr_ProcessV6Lease e c w = DhcpMgr_ProcessV6Lease e (c\<lparr>f6_NewLeases := rest\<rparr>) w"
proof -
  have "c\<lparr>f6_NewLeases := ls @ rest\<rparr> = c" by (simp add: assms(4) [symmetric])
  then have "DhcpMgr_ProcessV6Lease e c w = v6_lease_loop e (ls @ rest) (c\<lparr>f6_NewLeases := ls @ rest\<rparr>) w"
    by (simp only: DhcpMgr_ProcessV6Lease_def assms(4))
  with stale_loop [OF assms(1-3), of e rest w] show ?thesis by (simp add: DhcpMgr_ProcessV6Lease_def)
qed

lemma v6_stale_del_ignored_witness:
  "DhcpMgr_ProcessV6Lease env0 (client6\<lparr>f6_currentLease := Some lease6, f6_NewLeases :=
       [lease6\<lparr>v6_isExpired := True, v6_ia_pd := pd1\<lparr>pd_Prefix := ''2001:db8:2::''\<rparr>\<rparr>]\<rparr>) world_init =
   Some (client6\<lparr>f6_currentLease := Some lease6, f6_NewLeases := []\<rparr>, world_init)"
proof -
  let ?l = "lease6\<lparr>v6_isExpired := True, v6_ia_pd := pd1\<lparr>pd_Prefix := ''2001:db8:2::''\<rparr>\<rparr>"
  let ?c = "client6\<lparr>f6_currentLease := Some lease6, f6_NewLeases := [?l]\<rparr>"
  have "stale_del lease6 ?l" by code_simp
  moreover have "\<not> v6_isExpired lease6" by (simp add: lease6_def)
  ultimately have "DhcpMgr_ProcessV6Lease env0 ?c world_init = DhcpMgr_ProcessV6Lease env0 (?c\<lparr>f6_NewLeases := []\<rparr>) world_init"
    by (intro v6_stale_del_ignored [where k = lease6 and ls = "[?l]"]) simp_all
  then show ?thesis by (simp add: DhcpMgr_ProcessV6Lease_def)
qed

text \<open>
  A deletion of the current prefix is not lost: a valid lease that
  expires, with the same prefix or with no prefix in one of the two, publishes
  exactly one deletion and becomes the current lease, so that nothing valid
  stays behind.
\<close>

lemma v6_expiry_deletes:
  assumes "f6_currentLease c = Some k" and "f6_NewLeases c = [l]" and "\<not> v6_isExpired k" and "v6_isExpired l"
    and "\<not> stale_del k l"
  shows "\<exists>c' w'. DhcpMgr_ProcessV6Lease e c w = Some (c', w') \<and> f6_currentLease c' = Some l \<and>
     events6 (new_actions w w') = [(DHCP_LEASE_DEL, None)]"
proof -
  have s: "v6_step (Some k) l = (Some l, [(DHCP_LEASE_DEL, None)])" using assms by (simp add: v6_step_code)
  show ?thesis
    using v6_lease_loop_spec [of e c "[l]" w] assms s
    by (auto simp: DhcpMgr_ProcessV6Lease_def publishable_def as_msg6_def)
qed

theorem v6_expiry_deletes_witness:
  "\<exists>c' w'. DhcpMgr_ProcessV6Lease env0 (client6\<lparr>f6_currentLease := Some lease6, f6_NewLeases := [lease6\<lparr>v6_isExpired := True\<rparr>]\<rparr>)
       world_init = Some (c', w') \<and> f6_currentLease c' = Some (lease6\<lparr>v6_isExpired := True\<rparr>) \<and>
     events6 (new_actions world_init w') = [(DHCP_LEASE_DEL, None)]"
  by (rule v6_expiry_deletes) (simp_all add: stale_del_def, simp_all add: lease6_def)

text \<open>
  A partial renewal keeps the other half: when the current lease is
  valid and a valid lease has no address, the address of the current lease stays
  in the new current lease; when it has no prefix, prefix and MAP containers
  stay. What the lease assigns itself is taken from it.
\<close>

lemma v6_partial_renewal:
  assumes "f6_currentLease c = Some k" and "f6_NewLeases c = [l]" and "\<not> v6_isExpired k" and "\<not> v6_isExpired l"
    and "publishable e (v6_spec (Some k) [l])"
  shows "\<exists>c' w' n. DhcpMgr_ProcessV6Lease e c w = Some (c', w') \<and> f6_currentLease c' = Some n \<and>
     v6_ia_na n = (if na_assigned (v6_ia_na l) \<or> \<not> na_assigned (v6_ia_na k) then v6_ia_na l else v6_ia_na k) \<and>
     (if pd_assigned (v6_ia_pd l) \<or> \<not> pd_assigned (v6_ia_pd k)
      then v6_ia_pd n = v6_ia_pd l \<and> v6_mapt n = v6_mapt l \<and> v6_mape n = v6_mape l
      else v6_ia_pd n = v6_ia_pd k \<and> v6_mapt n = v6_mapt k \<and> v6_mape n = v6_mape k)"
proof -
  obtain n where f: "v6_final (Some k) [l] = Some n" and n: "n = v6_merge k l \<or> n = v6_offset (v6_merge k l)"
  proof -
    have "fst (v6_step (Some k) l) \<in> {Some (v6_merge k l), Some (v6_offset (v6_merge k l))}"
      using assms(3,4) by (simp add: v6_step_code Let_def)
    with that show ?thesis by auto
  qed
  obtain c' w' where "v6_lease_loop e [l] c w = Some (c', w')" "f6_currentLease c' = Some n"
    using v6_lease_loop_spec [of e c "[l]" w] assms f by (auto simp del: v6_lease_loop.simps v6_final.simps v6_spec.simps)
  moreover have "v6_mapt (v6_merge k l) = (if pd_assigned (v6_ia_pd l) \<or> \<not> pd_assigned (v6_ia_pd k) then v6_mapt l else v6_mapt k)"
      "v6_mape (v6_merge k l) = (if pd_assigned (v6_ia_pd l) \<or> \<not> pd_assigned (v6_ia_pd k) then v6_mape l else v6_mape k)"
    by (simp_all add: v6_merge_def Let_def)
  ultimately show ?thesis
    using assms(2) n v6_merge_na [of k l] v6_merge_pd [of k l]
    by (intro exI [of _ c'] exI [of _ w'] exI [of _ n])
       (auto simp: DhcpMgr_ProcessV6Lease_def simp del: v6_lease_loop.simps split: if_splits)
qed

lemma v6_partial_renewal_witness:
  "\<exists>c' w' n. DhcpMgr_ProcessV6Lease env0 (client6\<lparr>f6_currentLease := Some lease6, f6_NewLeases := [lease6\<lparr>v6_ia_na := na0\<rparr>]\<rparr>)
       world_init = Some (c', w') \<and> f6_currentLease c' = Some n \<and> v6_ia_na n = na1 \<and> v6_ia_pd n = pd1"
proof -
  have p: "publishable env0 (v6_spec (Some lease6) [lease6\<lparr>v6_ia_na := na0\<rparr>])" by code_simp
  have l: "\<not> v6_isExpired lease6" "v6_ia_na lease6 = na1" "v6_ia_pd lease6 = pd1" by (simp_all add: lease6_def)
  have a: "na_assigned na1" "\<not> na_assigned na0" "pd_assigned pd1" by (simp_all add: na1_def na0_def pd1_def)
  from v6_partial_renewal [of "client6\<lparr>f6_currentLease := Some lease6, f6_NewLeases := [lease6\<lparr>v6_ia_na := na0\<rparr>]\<rparr>" lease6
      "lease6\<lparr>v6_ia_na := na0\<rparr>" env0 world_init] p l a
  show ?thesis by auto
qed

text \<open>
  The first lease of a client is published as an update even when it is
  already expired: the handler looks at the expiry of a new lease only where
  there is a current one.
\<close>

lemma v6_expired_first_lease:
  assumes "f6_currentLease c = None" and "f6_NewLeases c = [l]" and "v6_isExpired l"
    and "DhcpMgr_createDhcpv6LeaseInfoMsg e (v6_offset l) = Some m"
  shows "\<exists>c' w'. DhcpMgr_ProcessV6Lease e c w = Some (c', w') \<and> events6 (new_actions w w') = [(DHCP_LEASE_UPDATE, Some m)]"
  using v6_lease_loop_spec [of e c "[l]" w] assms
  by (auto simp: DhcpMgr_ProcessV6Lease_def publishable_def as_msg6_def v6_step_code simp del: v6_lease_loop.simps)

theorem v6_expired_first_lease_witness:
  "\<exists>c' w'. DhcpMgr_ProcessV6Lease env0 (client6\<lparr>f6_NewLeases := [lease6\<lparr>v6_isExpired := True\<rparr>]\<rparr>) world_init = Some (c', w') \<and>
     events6 (new_actions world_init w') = [(DHCP_LEASE_UPDATE, Some (v6_base_msg env0 lease6))]"
proof (rule v6_expired_first_lease)
  show "f6_currentLease (client6\<lparr>f6_NewLeases := [lease6\<lparr>v6_isExpired := True\<rparr>]\<rparr>) = None" by (simp add: client6_def)
  show "DhcpMgr_createDhcpv6LeaseInfoMsg env0 (v6_offset (lease6\<lparr>v6_isExpired := True\<rparr>)) = Some (v6_base_msg env0 lease6)"
    by (simp add: DhcpMgr_createDhcpv6LeaseInfoMsg_def v6_base_msg_def v6_offset_def lease6_def Let_def)
qed simp_all

end
