(* ===== verification/Custom_Options_Spec.thy ===== *)
theory Custom_Options_Spec
  imports Custom_Options Dhcp_Samples
begin

text \<open>
  Properties of the vendor option parsers of \<open>Custom_Options\<close>: the suboptions of
  a well-formed option 17 come back exactly, the hex text of option 125 never
  leaves its buffers, and the parser of option 122 reads past the end of a short
  one.
\<close>

section \<open>Bounds\<close>

lemma is_hex_plain: "is_hex c \<Longrightarrow> \<not> is_space c \<and> c \<noteq> CHR ''-'' \<and> c \<noteq> CHR ''+''"
  by (auto simp: is_hex_def is_space_def is_digit_def)

lemma strtol16_nonneg: "\<forall>c \<in> set s. is_hex c \<Longrightarrow> 0 \<le> c_strtol16 s"
  by (cases s) (auto simp: c_strtol16_def Let_def is_hex_plain)

lemma nested_safe:
  "\<forall>c \<in> set s. is_hex c \<Longrightarrow> length s < 256 \<Longrightarrow> parse_nested_option s ps \<noteq> None"
proof (induction "length s" arbitrary: s ps rule: less_induct)
  case less
  show ?case
  proof (cases "length s < 4")
    case True
    then show ?thesis by (simp add: parse_nested_option.simps [of s])
  next
    case False
    let ?l = "c_strtol16 (take 2 (drop 2 s))"
    have "0 \<le> ?l" using less.prems(1) by (intro strtol16_nonneg) (auto dest: in_set_takeD in_set_dropD)
    moreover have "parse_nested_option (drop n (drop 4 s)) ps' \<noteq> None" for ps' n
      using False less.prems by (intro less.hyps) (auto dest: in_set_dropD)
    ultimately show ?thesis
      using False less.prems(2) by (simp add: parse_nested_option.simps [of s] Let_def del: drop_drop not_None_eq) arith
  qed
qed

lemma mta125_safe:
  "\<forall>c \<in> set s. is_hex c \<Longrightarrow> length s < 256 \<Longrightarrow> mta125_loop e s st \<noteq> None"
proof (induction "length s" arbitrary: s st rule: less_induct)
  case less
  show ?case
  proof (cases "length s < 4")
    case True
    then show ?thesis by (simp add: mta125_loop.simps [of e s])
  next
    case False
    let ?l = "c_strtol16 (take 2 (drop 2 s))"
    let ?v = "take (nat ?l * 2) (drop 4 s)"
    have "0 \<le> ?l" using less.prems(1) by (intro strtol16_nonneg) (auto dest: in_set_takeD in_set_dropD)
    moreover have "mta125_loop e (drop n (drop 4 s)) st' \<noteq> None" for st' n
      using False less.prems by (intro less.hyps) (auto dest: in_set_dropD)
    moreover have "parse_nested_option ?v ([], []) \<noteq> None"
      using less.prems by (intro nested_safe) (auto dest: in_set_takeD in_set_dropD)
    ultimately show ?thesis
      using False by (simp add: mta125_loop.simps [of e s] Let_def case_prod_beta del: drop_drop not_None_eq split: option.split)
  qed
qed

text \<open>
  Claim C37. The parser of option 125 never leaves its buffers: on every text of
  hexadecimal digits shorter than 256 characters it runs to its end, whatever
  lengths the digits encode.
\<close>

theorem option125_safe:
  assumes "\<forall>c \<in> set s. is_hex c" and "length s < 256"
  shows "\<exists>w'. Set_DhcpV4_CustomOption_mta e s ''v6'' w = Some w'"
  using mta125_safe [OF assms] by (auto simp: Set_DhcpV4_CustomOption_mta_def set_mta_config_def simp del: split_paired_Ex)

theorem option125_safe_witness:
  "\<exists>w'. Set_DhcpV4_CustomOption_mta env0 ''7B08010201020202aabb'' ''v6'' world_init = Some w'"
  by (rule option125_safe) (simp_all add: is_hex_def is_digit_def)

text \<open>
  The parser of option 122 does not look for the end of its input: an
  option of one to three characters makes it read behind the terminating NUL.
\<close>

lemma option122_overread:
  assumes "s \<noteq> []" and "length s < 4"
  shows "Set_DhcpV4_CustomOption_mta e s ''v4'' w = None"
  using assms by (simp add: Set_DhcpV4_CustomOption_mta_def set_mta_config_def mta122_loop.simps)

theorem option122_overread_witness:
  "Set_DhcpV4_CustomOption_mta env0 ''01'' ''v4'' world_init = None"
  by (rule option122_overread) simp_all

text \<open>The length digits of option 122 are read as a decimal number: a hexadecimal length is not honoured.\<close>

lemma option122_hex_length:
  "map_option w_trace (Set_DhcpV4_CustomOption_mta env0 (''010a'' @ replicate 20 (CHR ''3'')) ''v4'' world_init) \<noteq>
   Some [A_set_event ''MTA_DHCPv4_PrimaryAddress'' (replicate 20 (CHR ''3'')), A_set_event ''dhcp_mta_option'' ''received'']"
  by code_simp


section \<open>Round trip of option 17\<close>

text \<open>The encoding: identifier, number of value bytes in four hexadecimal digits, value.\<close>

definition hexd :: "nat \<Rightarrow> char" where
  "hexd k = ''0123456789abcdef'' ! k"

definition hex4 :: "nat \<Rightarrow> string" where
  "hex4 n = [hexd (n div 16 div 16 div 16 mod 16), hexd (n div 16 div 16 mod 16), hexd (n div 16 mod 16), hexd (n mod 16)]"

definition subopt17 :: "string \<times> string \<Rightarrow> string" where
  "subopt17 s = fst s @ hex4 (length (snd s) div 2) @ snd s"

definition subopt17_text :: "string \<times> string \<Rightarrow> string" where
  "subopt17_text s = fst s @ ''='' @ snd s"

definition plain17 :: "string \<Rightarrow> bool" where
  "plain17 s \<longleftrightarrow> s \<noteq> [] \<and> (\<forall>c \<in> set s. c \<noteq> CHR '':'' \<and> c \<noteq> CHR '' '' \<and> c \<noteq> CHR ''='')"

definition subopt17_ok :: "string \<times> string \<Rightarrow> bool" where
  "subopt17_ok s \<longleftrightarrow> length (fst s) = 4 \<and> even (length (snd s)) \<and> length (snd s) < 256 \<and>
     plain17 (fst s) \<and> plain17 (snd s)"

lemma nat16_cases:
  assumes "(k::nat) < 16"
  shows "k \<in> {0, 1, 2, 3, 4, 5, 6, 7, 8, 9, 10, 11, 12, 13, 14, 15}"
  using assms by simp presburger

lemma hexd_props: "k < 16 \<Longrightarrow> is_hex (hexd k) \<and> hex_val (hexd k) = k \<and> hexd k \<noteq> CHR '':''"
  using nat16_cases [of k] by (auto simp: hexd_def is_hex_def hex_val_def is_digit_def)

lemma is_hex_not_x: "is_hex c \<Longrightarrow> \<not> is_x c"
  by (auto simp: is_hex_def is_x_def is_digit_def)

lemma strtol16_hex4:
  assumes "n < 65536"
  shows "c_strtol16 (hex4 n) = int n"
proof -
  define a b c where "a = n div 16" and "b = a div 16" and "c = b div 16"
  have "16 * (16 * (16 * (c mod 16) + b mod 16) + a mod 16) + n mod 16 = n"
    using assms by (simp add: a_def b_def c_def)
  then show ?thesis
    using hexd_props [of "c mod 16"] hexd_props [of "b mod 16"] hexd_props [of "a mod 16"] hexd_props [of "n mod 16"]
      is_hex_plain [of "hexd (c mod 16)"] is_hex_not_x [of "hexd (b mod 16)"]
    by (simp add: c_strtol16_def hex4_def Let_def a_def [symmetric] b_def [symmetric] c_def [symmetric] del: One_nat_def)
qed

fun join17 :: "string option \<Rightarrow> (string \<times> string) list \<Rightarrow> string option" where
  "join17 fmt [] = fmt"
| "join17 fmt (s # ss) = join17 (Some (add_format fmt (fst s) (snd s))) ss"

lemma subopt17_loop_encode:
  "\<forall>s \<in> set subs. subopt17_ok s \<Longrightarrow> subopt17_loop False (concat (map subopt17 subs)) fmt = join17 fmt subs"
proof (induction subs arbitrary: fmt)
  case Nil
  then show ?case by (simp add: subopt17_loop.simps [of False "[]"] field_len_def)
next
  case (Cons s subs)
  obtain i v where s: "s = (i, v)" by (cases s)
  let ?r = "concat (map subopt17 subs)"
  have ok: "length i = 4" "even (length v)" "length v < 256" using Cons.prems by (auto simp: s subopt17_ok_def)
  have l: "c_strtol16 (hex4 (length v div 2)) = int (length v div 2)" using ok by (intro strtol16_hex4) simp
  have h: "length (hex4 (length v div 2)) = 4" by (simp add: hex4_def)
  have t: "take 4 (i @ hex4 (length v div 2) @ v @ ?r) = i"
      "take 4 (drop 4 (i @ hex4 (length v div 2) @ v @ ?r)) = hex4 (length v div 2)"
      "drop 8 (i @ hex4 (length v div 2) @ v @ ?r) = v @ ?r"
    using ok h by simp_all
  have "subopt17_loop False (i @ hex4 (length v div 2) @ v @ ?r) fmt = subopt17_loop False ?r (Some (add_format fmt i v))"
    using ok h t l
    by (subst subopt17_loop.simps) (simp only: field_len_def Let_def if_False, simp)
  moreover have "subopt17_loop False ?r (Some (add_format fmt i v)) = join17 (Some (add_format fmt i v)) subs"
    using Cons.prems by (intro Cons.IH) simp
  ultimately show ?case by (simp add: s subopt17_def [of "(i, v)"])
qed


lemma subopt17_text_ok:
  assumes "subopt17_ok s"
  shows "name_value (subopt17_text s) = Some s" and "strtok '' '' (subopt17_text s) = [subopt17_text s]"
    and "subopt17_text s \<noteq> []" and "set (subopt17_text s) \<inter> {CHR '' ''} = {}"
proof -
  have p: "plain17 (fst s)" "plain17 (snd s)" using assms by (auto simp: subopt17_ok_def)
  have "strtok ''='' (fst s @ CHR ''='' # snd s) = fst s # strtok ''='' (snd s)"
    using p(1) by (intro strtok_word_delim) (auto simp: plain17_def)
  also have "strtok ''='' (snd s) = [snd s]"
    using p(2) by (intro strtok_word) (auto simp: plain17_def)
  finally have "strtok ''='' (fst s @ CHR ''='' # snd s) = [fst s, snd s]" .
  then show "name_value (subopt17_text s) = Some s" by (simp add: name_value_def subopt17_text_def)
  show d: "set (subopt17_text s) \<inter> {CHR '' ''} = {}" and n: "subopt17_text s \<noteq> []"
    using p by (auto simp: subopt17_text_def plain17_def)
  from d n show "strtok '' '' (subopt17_text s) = [subopt17_text s]" by (intro strtok_word) simp_all
qed

lemma join17_tokens:
  "\<forall>s \<in> set subs. subopt17_ok s \<Longrightarrow> \<exists>p. join17 (Some f) subs = Some p \<and> strtok '' '' p = strtok '' '' f @ map subopt17_text subs"
proof (induction subs arbitrary: f)
  case (Cons s subs)
  let ?f = "f @ '' '' @ subopt17_text s"
  have "strtok '' '' ?f = strtok '' '' f @ [subopt17_text s]"
    using subopt17_text_ok(3,4) [of s] Cons.prems
    by (simp add: strtok_def strtok_append_word)
  with Cons.IH [of ?f] Cons.prems show ?case by (simp add: add_format_def subopt17_text_def)
qed simp

text \<open>
  Claim C36. Option 17 round trip: a sequence of suboptions, each a four character
  identifier with a value of whole bytes below 128, written as hex text with
  colons at any place, is parsed to a text whose tokens are exactly the pairs of
  identifier and value.
\<close>

theorem option17_roundtrip:
  assumes "subs \<noteq> []" and "\<forall>s \<in> set subs. subopt17_ok s"
    and "filter (\<lambda>c. c \<noteq> CHR '':'') val = concat (map subopt17 subs)"
  shows "\<exists>p. parse_dhcp_17_suboption val ''v6'' = Some p \<and> map name_value (strtok '' '' p) = map Some subs"
proof -
  obtain s ss where subs: "subs = s # ss" using assms(1) by (cases subs) auto
  have "parse_dhcp_17_suboption val ''v6'' = join17 None subs"
    using assms by (simp add: parse_dhcp_17_suboption_def subopt17_loop_encode)
  also have "\<dots> = join17 (Some (subopt17_text s)) ss" by (simp add: subs add_format_def subopt17_text_def)
  finally obtain p where "parse_dhcp_17_suboption val ''v6'' = Some p"
      and "strtok '' '' p = strtok '' '' (subopt17_text s) @ map subopt17_text ss"
    using join17_tokens [of ss "subopt17_text s"] assms(2) by (auto simp: subs)
  moreover have "map name_value (map subopt17_text subs) = map Some subs"
    using assms(2) subopt17_text_ok(1) by simp
  ultimately show ?thesis
    using subopt17_text_ok(2) [of s] assms(2) by (auto simp: subs)
qed

theorem option17_roundtrip_witness:
  "\<exists>p. parse_dhcp_17_suboption ''00:01:00:02:c0:a8:00:02:00:01:7f'' ''v6'' = Some p \<and>
       map name_value (strtok '' '' p) = [Some (''0001'', ''c0a8''), Some (''0002'', ''7f'')]"
  using option17_roundtrip [of "[(''0001'', ''c0a8''), (''0002'', ''7f'')]" "''00:01:00:02:c0:a8:00:02:00:01:7f''"]
  by (simp add: subopt17_ok_def plain17_def subopt17_def hex4_def hexd_def)

end
