(* ===== verification/Client_Common.thy ===== *)
theory Client_Common
  imports Dhcp_World
begin

text \<open>
  What the two client drivers share,
  \<open>source/DHCPClientUtils/DHCPv4Client/dhcp_client_common.c\<close>: sending signals,
  collecting children, finding a process in \<open>/proc\<close>, building an argument vector,
  starting a program, the option lists. Allocations succeed. Of a started
  program the model has the \<open>fork\<close> of the parent with the path and the argument
  vector that the child passes to \<open>execv\<close>; the redirection of the child's files
  and its signal dispositions are left out.
\<close>

definition SUCCESS :: int where "SUCCESS = 0"
definition FAILURE :: int where "FAILURE = 1"
definition RETURN_OK :: int where "RETURN_OK = 0"
definition RETURN_ERR :: int where "RETURN_ERR = -1"
definition COLLECT_WAIT_INTERVAL_MS :: nat where "COLLECT_WAIT_INTERVAL_MS = 4"
definition RETURN_PID_TIMEOUT_IN_MSEC :: nat where "RETURN_PID_TIMEOUT_IN_MSEC = 5000"
definition RETURN_PID_INTERVAL_IN_MSEC :: nat where "RETURN_PID_INTERVAL_IN_MSEC = 500"

definition SIGKILL :: int where "SIGKILL = 9"
definition SIGUSR1 :: int where "SIGUSR1 = 10"
definition SIGUSR2 :: int where "SIGUSR2 = 12"
definition SIGTERM :: int where "SIGTERM = 15"

lemmas client_consts = SUCCESS_def FAILURE_def RETURN_OK_def RETURN_ERR_def SIGKILL_def SIGUSR1_def SIGUSR2_def SIGTERM_def

section \<open>Signals and children\<close>

definition signal_process :: "env \<Rightarrow> int \<Rightarrow> int \<Rightarrow> world \<Rightarrow> int \<times> world" where
  "signal_process e pid sig w =
     (if pid \<le> 0 \<or> sig < 0 then (FAILURE, w)
      else (let (ret, w1) = call e (A_kill pid sig) w in if ret < 0 then (FAILURE, w1) else (SUCCESS, w1)))"

function (sequential) collect_loop :: "env \<Rightarrow> int \<Rightarrow> nat \<Rightarrow> world \<Rightarrow> int \<times> world" where
  "collect_loop e pid remaining w =
     (if remaining = 0 then (FAILURE, w)
      else
        (let (rc, w1) = call e (A_waitpid pid) w
         in if rc = 0
            then (if 1 < remaining
                  then collect_loop e pid (remaining - min COLLECT_WAIT_INTERVAL_MS (remaining - 1)) w1
                  else (FAILURE, w1))
            else if 0 < rc then (SUCCESS, w1)
            else (FAILURE, w1)))"
  by pat_completeness auto
termination
  by (relation "measure (\<lambda>(e, pid, r, w). r)") (auto simp: COLLECT_WAIT_INTERVAL_MS_def)

declare collect_loop.simps [simp del]

definition collect_waiting_process :: "env \<Rightarrow> int \<Rightarrow> nat \<Rightarrow> world \<Rightarrow> int \<times> world" where
  "collect_waiting_process e pid timeout w = collect_loop e pid (if timeout \<le> 1 then timeout + 1 else timeout) w"

section \<open>Finding a process\<close>

text \<open>\<open>strtoll(str, &end, 10)\<close>: the value and what is left; with no digits all of the string is left.\<close>

definition c_strtoll :: "string \<Rightarrow> int \<times> string" where
  "c_strtoll s =
     (let t = dropWhile is_space s;
          neg = (t \<noteq> [] \<and> hd t = CHR ''-'');
          u = (if t \<noteq> [] \<and> (hd t = CHR ''-'' \<or> hd t = CHR ''+'') then tl t else t)
      in if u \<noteq> [] \<and> is_digit (hd u)
         then (if neg then - int (read_digits 0 u) else int (read_digits 0 u), dropWhile is_digit u)
         else (0, s))"

definition strtol64 :: "string \<Rightarrow> int \<times> int" where
  "strtol64 str =
     (let (v, rest) = c_strtoll str
      in if v < - (2 ^ 63) \<or> 2 ^ 63 \<le> v \<or> rest \<noteq> [] then (FAILURE, 0) else (SUCCESS, v))"

text \<open>
  The search of \<open>find_strstr\<close>. The inner loop advances both indices over the
  common prefix; at a mismatch the outer loop goes on behind the character that
  did not match.
\<close>

fun common_prefix :: "string \<Rightarrow> string \<Rightarrow> nat" where
  "common_prefix (b # bs) (c # cs) = (if b = c then Suc (common_prefix bs cs) else 0)"
| "common_prefix _ _ = 0"

lemma common_prefix_le: "common_prefix b s \<le> length b" "common_prefix b s \<le> length s"
  by (induction b s rule: common_prefix.induct) auto

function (sequential) strstr_scan :: "string \<Rightarrow> string \<Rightarrow> bool" where
  "strstr_scan base sub =
     (if base = [] then False
      else if hd base = (if sub = [] then CHR 0x00 else hd sub)
      then (let n = common_prefix base sub
            in if sub \<noteq> [] \<and> n = length sub then True else strstr_scan (drop (Suc n) base) sub)
      else strstr_scan (tl base) sub)"
  by pat_completeness auto
termination
  by (relation "measure (\<lambda>(b, s). length b)") auto

declare strstr_scan.simps [simp del]

definition find_strstr :: "string \<Rightarrow> string \<Rightarrow> int" where
  "find_strstr basestr substr =
     (if length basestr \<le> length substr then FAILURE
      else if strstr_scan basestr substr then SUCCESS else FAILURE)"

definition replace_null_with_space :: "string \<Rightarrow> string" where
  "replace_null_with_space = map (\<lambda>c. if c = CHR 0x00 then CHR '' '' else c)"

text \<open>
  \<open>fscanf(fp, "%d (%255s %c ", ...)\<close> on the contents of a \<open>stat\<close> file: the name of
  the process, without a closing parenthesis, and the state. A field that is not
  scanned keeps its value: the name is empty, the state is that of the entry
  before.
\<close>

definition scan_stat :: "string \<Rightarrow> char \<Rightarrow> string \<times> char" where
  "scan_stat s status =
     (let (v, r0) = c_strtoll s; r1 = dropWhile is_space r0
      in if r0 = s \<or> r1 = [] \<or> hd r1 \<noteq> CHR ''('' then ([], status)
         else
           (let r2 = dropWhile is_space (tl r1);
                name = take 255 (takeWhile (\<lambda>c. \<not> is_space c) r2);
                r3 = dropWhile is_space (drop (length name) r2)
            in if name = [] then ([], status)
               else (if last name = CHR '')'' then butlast name else name, if r3 = [] then status else hd r3)))"

definition as_pid :: "int \<Rightarrow> int" where
  "as_pid v = sint (word_of_int v :: 32 word)"

fun proc_loop :: "string \<Rightarrow> string option \<Rightarrow> char \<Rightarrow> proc_entry list \<Rightarrow> int" where
  "proc_loop name args status [] = 0"
| "proc_loop name args status (d # ds) =
     (let (ok, pid) = strtol64 (pe_name d)
      in if pe_isdir d \<and> ok = SUCCESS
         then
           (case pe_stat d of
              None \<Rightarrow> proc_loop name args status ds
            | Some content \<Rightarrow>
                (let (pn, st) = scan_stat content status
                 in if pn = name \<and> (st = CHR ''R'' \<or> st = CHR ''S'' \<or> st = CHR ''D'')
                    then (case args of
                            None \<Rightarrow> as_pid pid
                          | Some a \<Rightarrow>
                              (case pe_cmdline d of
                                 None \<Rightarrow> proc_loop name args st ds
                               | Some cl \<Rightarrow>
                                   (let buf = replace_null_with_space (take 1023 cl)
                                    in if buf \<noteq> [] \<and>
                                          find_strstr (buf @ replicate (1024 - length buf) (CHR 0x00)) a = SUCCESS
                                       then as_pid pid
                                       else proc_loop name args st ds)))
                    else proc_loop name args st ds))
         else proc_loop name args status ds)"

definition args_text :: "string option \<Rightarrow> string" where
  "args_text args = (case args of None \<Rightarrow> [] | Some a \<Rightarrow> a)"

definition check_proc_entry_for_pid :: "env \<Rightarrow> string \<Rightarrow> string option \<Rightarrow> world \<Rightarrow> int \<times> world" where
  "check_proc_entry_for_pid e name args w =
     (let (r, w1) = call e (A_proc_lookup name (args_text args)) w
      in if r < 0 then (0, w1) else (proc_loop name args (CHR 0x00) (e_proc e (w_trace w1)), w1))"

function (sequential) pid_wait_loop :: "env \<Rightarrow> string \<Rightarrow> string option \<Rightarrow> nat \<Rightarrow> world \<Rightarrow> int \<times> world" where
  "pid_wait_loop e name args waitTime w =
     (if 1 < waitTime
      then (let (pid, w1) = check_proc_entry_for_pid e name args w
            in if pid \<noteq> 0 then (pid, w1)
               else pid_wait_loop e name args (waitTime - RETURN_PID_INTERVAL_IN_MSEC) w1)
      else (0, w))"
  by pat_completeness auto
termination
  by (relation "measure (\<lambda>(e, n, a, t, w). t)") (auto simp: RETURN_PID_INTERVAL_IN_MSEC_def)

declare pid_wait_loop.simps [simp del]

definition get_process_pid :: "env \<Rightarrow> string \<Rightarrow> string option \<Rightarrow> bool \<Rightarrow> world \<Rightarrow> int \<times> world" where
  "get_process_pid e name args waitForProcEntry w =
     (if waitForProcEntry then pid_wait_loop e name args RETURN_PID_TIMEOUT_IN_MSEC w
      else check_proc_entry_for_pid e name args w)"

section \<open>Starting a program\<close>

text \<open>The first loop of \<open>parseArgs\<close>: the number of array elements to allocate.\<close>

fun count_args :: "bool \<Rightarrow> string \<Rightarrow> nat" where
  "count_args inSpace [] = 0"
| "count_args inSpace (c # cs) =
     (if c = CHR '' '' \<and> \<not> inSpace then Suc (count_args True cs) else count_args False cs)"

text \<open>The second loop: the arguments in order.\<close>

fun fill_args :: "bool \<Rightarrow> string \<Rightarrow> string list" where
  "fill_args inSpace [] = []"
| "fill_args inSpace (c # cs) =
     (if c = CHR '' '' \<and> \<not> inSpace then fill_args True cs
      else if c \<noteq> CHR '' '' \<and> inSpace
      then takeWhile (\<lambda>x. x \<noteq> CHR '' '') (c # cs) # fill_args False cs
      else fill_args inSpace cs)"

definition cmd_name :: "string \<Rightarrow> string" where
  "cmd_name cmd = rev (takeWhile (\<lambda>c. c \<noteq> CHR ''/'') (rev cmd))"

text \<open>Command name, arguments and the closing NULL have to fit the array.\<close>

definition parseArgs :: "string \<Rightarrow> string \<Rightarrow> string list option" where
  "parseArgs cmd args =
     (let array = cmd_name cmd # fill_args True args
      in if length array < 3 + count_args True args then Some array else None)"

text \<open>
  \<open>start_exe\<close> and \<open>start_exe2\<close>: the process id that \<open>fork\<close> answers. The second one
  makes the manager a subreaper and installs the handler of \<open>SIGCHLD\<close>, which
  \<open>sigaction\<close> refuses for no valid signal.
\<close>

definition start_exe :: "env \<Rightarrow> string \<Rightarrow> string \<Rightarrow> world \<Rightarrow> (int \<times> world) option" where
  "start_exe e exe args w =
     (case parseArgs exe args of None \<Rightarrow> None | Some argv \<Rightarrow> Some (call e (A_fork exe argv) w))"

definition start_exe2 :: "env \<Rightarrow> string \<Rightarrow> string \<Rightarrow> world \<Rightarrow> (int \<times> world) option" where
  "start_exe2 e exe args w =
     (case parseArgs exe args of
        None \<Rightarrow> None
      | Some argv \<Rightarrow>
          Some (call e (A_fork exe argv)
            (act (A_custom ''sigaction'' ''SIGCHLD'') (act (A_custom ''prctl'' ''PR_SET_CHILD_SUBREAPER'') w))))"

section \<open>Option lists and directories\<close>

text \<open>A list of options; a new option goes to the front.\<close>

definition add_dhcp_opt_to_list :: "dhcp_opt list \<Rightarrow> int \<Rightarrow> string option \<Rightarrow> int \<times> dhcp_opt list" where
  "add_dhcp_opt_to_list opt_list opt opt_val =
     (if opt \<le> 0 then (RETURN_ERR, opt_list)
      else (RETURN_OK, \<lparr>dhcp_opt_num = opt, dhcp_opt_val = opt_val\<rparr> # opt_list))"

text \<open>\<open>stat\<close> is asked through \<open>access\<close>: a negative answer means that there is no such directory.\<close>

definition create_dir_path :: "env \<Rightarrow> string \<Rightarrow> world \<Rightarrow> world" where
  "create_dir_path e dirpath w =
     (let (r, w1) = call e (A_access dirpath) w in if r < 0 then act (A_mkdir dirpath) w1 else w1)"

section \<open>Lemmas\<close>

lemma signal_quiet: "quiet w0 w \<Longrightarrow> quiet w0 (snd (signal_process e pid sig w))"
  by (auto simp: signal_process_def call_def Let_def intro!: quiet_intros)

lemma collect_loop_quiet: "quiet w0 w \<Longrightarrow> quiet w0 (snd (collect_loop e pid r w))"
proof (induction r arbitrary: w rule: less_induct)
  case (less r)
  have "quiet w0 (act (A_waitpid pid) w)" using less.prems by (simp add: quiet_step)
  moreover from this have "quiet w0 (snd (collect_loop e pid (r - min COLLECT_WAIT_INTERVAL_MS (r - 1)) (act (A_waitpid pid) w)))"
    if "1 < r" using that by (intro less.IH) (auto simp: COLLECT_WAIT_INTERVAL_MS_def)
  ultimately show ?case
    using less.prems by (simp add: collect_loop.simps [of e pid r w] call_def Let_def)
qed

lemma collect_quiet: "quiet w0 w \<Longrightarrow> quiet w0 (snd (collect_waiting_process e pid t w))"
  by (simp add: collect_waiting_process_def collect_loop_quiet)

lemma check_proc_world: "snd (check_proc_entry_for_pid e name args w) = act (A_proc_lookup name (args_text args)) w"
  by (auto simp: check_proc_entry_for_pid_def call_def Let_def)

lemma pid_wait_quiet: "quiet w0 w \<Longrightarrow> quiet w0 (snd (pid_wait_loop e name args t w))"
proof (induction t arbitrary: w rule: less_induct)
  case (less t)
  let ?r = "check_proc_entry_for_pid e name args w"
  have q: "quiet w0 (snd ?r)" using less.prems by (simp add: check_proc_world quiet_step)
  have "quiet w0 (snd (pid_wait_loop e name args (t - RETURN_PID_INTERVAL_IN_MSEC) (snd ?r)))" if "1 < t"
    using that q by (intro less.IH) (simp_all add: RETURN_PID_INTERVAL_IN_MSEC_def)
  then show ?case using less.prems q by (simp add: pid_wait_loop.simps [of e name args t w] case_prod_beta)
qed

lemma get_process_pid_quiet: "quiet w0 w \<Longrightarrow> quiet w0 (snd (get_process_pid e name args b w))"
  by (simp add: get_process_pid_def pid_wait_quiet check_proc_world quiet_step)

text \<open>The arguments are the maximal runs of characters other than a space.\<close>

lemma fill_args_strtok:
  "fill_args True s = strtok '' '' s"
  "fill_args False s = strtok '' '' (dropWhile (\<lambda>c. c \<noteq> CHR '' '') s)"
proof (induction s)
  case (Cons c s)
  { case 1
    show ?case
    proof (cases "c = CHR '' ''")
      case True
      then show ?thesis using Cons by (simp add: strtok_def)
    next
      case False
      let ?t = "takeWhile (\<lambda>x. x \<noteq> CHR '' '') (c # s)" and ?r = "dropWhile (\<lambda>x. x \<noteq> CHR '' '') s"
      have t: "?t \<noteq> []" "set ?t \<inter> set '' '' = {}" using False by (auto dest: set_takeWhileD)
      have s: "c # s = ?t @ ?r" using False by simp
      have "strtok '' '' (?t @ ?r) = ?t # strtok '' '' ?r"
        using t by (intro strtok_word_rest) (use hd_dropWhile [of "\<lambda>x. x \<noteq> CHR '' ''" s] in auto)
      with s False Cons show ?thesis by simp
    qed
  next
    case 2
    show ?case using Cons by (auto simp: strtok_def)
  }
qed (simp_all add: strtok_def)

end
