(* ===== verification/Udhcpc.thy ===== *)
theory Udhcpc
  imports Client_Common
begin

text \<open>
  The DHCPv4 client driver for udhcpc,
  \<open>source/DHCPClientUtils/DHCPv4Client/dhcpv4_interface_udhcpc.c\<close>: the argument
  string from the option lists, starting, renewing, releasing and stopping the
  client. The argument buffer has 1024 bytes and is written with \<open>strcat\<close>; a
  write past it makes the result \<open>None\<close>.
\<close>

definition UDHCPC_CLIENT :: string where "UDHCPC_CLIENT = ''udhcpc''"
definition UDHCPC_CLIENT_PATH :: string where "UDHCPC_CLIENT_PATH = ''/sbin/udhcpc''"
definition UDHCPC_PLUGIN_EXE :: string where "UDHCPC_PLUGIN_EXE = ''/usr/bin/dhcpmgr_udhcpc_plugin''"
definition UDHCPC_TERMINATE_TIMEOUT :: nat where "UDHCPC_TERMINATE_TIMEOUT = 10000"
definition ARGS_LEN :: nat where "ARGS_LEN = 1024"

section \<open>Arguments\<close>

fun udhcpc_get_req_options :: "string \<Rightarrow> dhcp_opt list \<Rightarrow> string option" where
  "udhcpc_get_req_options buff [] = Some buff"
| "udhcpc_get_req_options buff (o1 # os) =
     (let args = (if dhcp_opt_num o1 = 2 then c_trunc 15 ''-O timezone ''
                  else if dhcp_opt_num o1 = 42 then ''-O ntpsrv ''
                  else c_trunc 16 (''-O '' @ show_int (dhcp_opt_num o1) @ '' ''))
      in (case strcat ARGS_LEN buff args of None \<Rightarrow> None | Some b \<Rightarrow> udhcpc_get_req_options b os))"

text \<open>The bytes of a hexadecimal text; \<open>%s\<close> prints them up to a NUL.\<close>

fun hex_bytes :: "string \<Rightarrow> string" where
  "hex_bytes (a # b # r) = char_of (nat (c_strtol16 [a, b] mod 256)) # hex_bytes r"
| "hex_bytes _ = []"

definition hex_to_ascii :: "string \<Rightarrow> nat \<Rightarrow> string option" where
  "hex_to_ascii hex ascii_len =
     (if length hex mod 2 \<noteq> 0 \<or> ascii_len \<le> length hex div 2 then None
      else Some (takeWhile (\<lambda>c. c \<noteq> CHR 0x00) (hex_bytes hex)))"

definition hex_upper :: "nat \<Rightarrow> char" where
  "hex_upper k = (if k < 10 then char_of (48 + k) else char_of (55 + k))"

fun show_hex :: "nat \<Rightarrow> string" where
  "show_hex n = (if n < 16 then [hex_upper n] else show_hex (n div 16) @ [hex_upper (n mod 16)])"

declare show_hex.simps [simp del]

text \<open>\<open>%02X\<close> of an int.\<close>

definition show_02X :: "int \<Rightarrow> string" where
  "show_02X v = (let h = show_hex (nat (v mod 2 ^ 32)) in if length h < 2 then CHR ''0'' # h else h)"

definition PKTC :: string where "PKTC = ''pktc2.0:''"

definition send_option_args :: "int \<Rightarrow> string \<Rightarrow> string" where
  "send_option_args opt val =
     (if opt = 60
      then (if take (length PKTC) val = PKTC then c_trunc 1024 (''-V '' @ val @ '' '')
            else (case hex_to_ascii val 128 of
                    None \<Rightarrow> []
                  | Some ascii_val \<Rightarrow> c_trunc 1024 (''-V '' @ ascii_val @ '' '')))
      else c_trunc 1024 (''-x 0x'' @ show_02X opt @ '':'' @ val @ '' ''))"

text \<open>The loop ends at the first option without a value.\<close>

fun udhcpc_get_send_options :: "string \<Rightarrow> dhcp_opt list \<Rightarrow> string option" where
  "udhcpc_get_send_options buff [] = Some buff"
| "udhcpc_get_send_options buff (o1 # os) =
     (case dhcp_opt_val o1 of
        None \<Rightarrow> Some buff
      | Some val \<Rightarrow>
          (case strcat ARGS_LEN buff (send_option_args (dhcp_opt_num o1) val) of
             None \<Rightarrow> None
           | Some b \<Rightarrow> udhcpc_get_send_options b os))"

definition mode_args :: "udhcpc_mode \<Rightarrow> string" where
  "mode_args m = (case m of RUN_IN_FOREGROUND \<Rightarrow> ''-f '' | RUN_IN_BACKGROUND \<Rightarrow> ''-b ''
     | EXIT_AFTER_LEAVE_FAILURE \<Rightarrow> ''-n '' | MODE_UNSET \<Rightarrow> [])"

fun strcats :: "nat \<Rightarrow> string \<Rightarrow> string list \<Rightarrow> string option" where
  "strcats n buff [] = Some buff"
| "strcats n buff (s # ss) = (case strcat n buff s of None \<Rightarrow> None | Some b \<Rightarrow> strcats n b ss)"

definition udhcpc_get_other_args :: "env \<Rightarrow> string \<Rightarrow> string \<Rightarrow> string option" where
  "udhcpc_get_other_args e buff interfaceName =
     strcats ARGS_LEN buff
       [c_trunc 16 (''-i '' @ interfaceName @ '' ''),
        c_trunc 32 (''-p /tmp/udhcpc.'' @ interfaceName @ ''.pid ''),
        c_trunc 64 (''-s '' @ UDHCPC_PLUGIN_EXE @ '' ''),
        mode_args (e_udhcpc_mode e),
        ''-R '']"

definition udhcpc_args_generator :: "env \<Rightarrow> string \<Rightarrow> dhcp_opt list \<Rightarrow> dhcp_opt list \<Rightarrow> string option" where
  "udhcpc_args_generator e interfaceName req_opt_list send_opt_list =
     (case udhcpc_get_req_options [] req_opt_list of
        None \<Rightarrow> None
      | Some b1 \<Rightarrow>
          (case udhcpc_get_send_options b1 send_opt_list of
             None \<Rightarrow> None
           | Some b2 \<Rightarrow> udhcpc_get_other_args e b2 interfaceName))"

section \<open>Operations\<close>

definition start_dhcpv4_client ::
  "env \<Rightarrow> string \<Rightarrow> dhcp_opt list \<Rightarrow> dhcp_opt list \<Rightarrow> world \<Rightarrow> (int \<times> world) option" where
  "start_dhcpv4_client e interfaceName req_opt_list send_opt_list w =
     (case udhcpc_args_generator e interfaceName req_opt_list send_opt_list of
        None \<Rightarrow> None
      | Some buff \<Rightarrow>
          (let (pid, w1) = get_process_pid e UDHCPC_CLIENT (Some buff) False w
           in if 0 < pid then Some (pid, w1)
              else (case start_exe2 e UDHCPC_CLIENT_PATH buff w1 of
                      None \<Rightarrow> None
                    | Some (pid2, w2) \<Rightarrow>
                        if e_udhcpc_mode e = RUN_IN_BACKGROUND
                        then (let w3 = snd (collect_waiting_process e pid2 UDHCPC_TERMINATE_TIMEOUT w2)
                              in Some (get_process_pid e UDHCPC_CLIENT (Some buff) True w3))
                        else Some (pid2, w2))))"

definition send_dhcpv4_renew :: "env \<Rightarrow> int \<Rightarrow> world \<Rightarrow> int \<times> world" where
  "send_dhcpv4_renew e pid w =
     (let (r, w1) = signal_process e pid SIGUSR1 w in (if r \<noteq> RETURN_OK then FAILURE else SUCCESS, w1))"

definition stop_dhcpv4_client :: "env \<Rightarrow> int \<Rightarrow> world \<Rightarrow> int \<times> world" where
  "stop_dhcpv4_client e pid w =
     (if pid \<le> 0 then (FAILURE, w)
      else (let (r, w1) = signal_process e pid SIGTERM w
            in if r \<noteq> RETURN_OK then (FAILURE, w1)
               else collect_waiting_process e pid UDHCPC_TERMINATE_TIMEOUT w1))"

definition send_dhcpv4_release :: "env \<Rightarrow> int \<Rightarrow> world \<Rightarrow> int \<times> world" where
  "send_dhcpv4_release e pid w =
     (let (r, w1) = signal_process e pid SIGUSR2 w
      in if r \<noteq> RETURN_OK then (FAILURE, w1) else (SUCCESS, snd (stop_dhcpv4_client e pid w1)))"

section \<open>Effects\<close>

lemma start4_quiet:
  assumes "start_dhcpv4_client e i rq sd w = Some (pid, w')"
  shows "quiet w w'"
proof -
  obtain buff where b: "udhcpc_args_generator e i rq sd = Some buff" using assms by (auto simp: start_dhcpv4_client_def split: option.splits)
  let ?g = "get_process_pid e UDHCPC_CLIENT (Some buff) False w"
  have g: "quiet w (snd ?g)" by (simp add: get_process_pid_quiet)
  have s: "quiet w w2" if "start_exe2 e UDHCPC_CLIENT_PATH buff (snd ?g) = Some (p2, w2)" for p2 w2
    using that g by (auto simp: start_exe2_def call_def Let_def split: option.splits intro!: quiet_step)
  show ?thesis
    using assms b g s
    by (auto simp: start_dhcpv4_client_def case_prod_beta Let_def split: if_splits option.splits
          dest!: arg_cong [where f = snd] intro!: get_process_pid_quiet collect_quiet)
qed

lemma stop4_quiet: "quiet w0 w \<Longrightarrow> quiet w0 (snd (stop_dhcpv4_client e pid w))"
  by (simp add: stop_dhcpv4_client_def case_prod_beta collect_quiet signal_quiet)

lemma renew4_quiet: "quiet w0 w \<Longrightarrow> quiet w0 (snd (send_dhcpv4_renew e pid w))"
  by (simp add: send_dhcpv4_renew_def case_prod_beta signal_quiet)

lemma release4_quiet: "quiet w0 w \<Longrightarrow> quiet w0 (snd (send_dhcpv4_release e pid w))"
  by (simp add: send_dhcpv4_release_def case_prod_beta signal_quiet stop4_quiet)

end
