(* ===== verification/Client_Common_Spec.thy ===== *)
theory Client_Common_Spec
  imports Client_Common Dhcp_Samples
begin

text \<open>
  Properties of the shared client functions of \<open>Client_Common\<close>: the argument
  vector, the bounded wait for a child, and what the search in a command line
  finds and misses.
\<close>

section \<open>Argument vector\<close>

lemma fill_args_count:
  "length (fill_args True s) \<le> Suc (count_args b s)"
  "length (fill_args False s) \<le> count_args False s"
proof (induction s arbitrary: b)
  case (Cons c s)
  { case 1
    show ?case using Cons.IH(1) [of True] Cons.IH(1) [of False] Cons.IH(2) by simp
  next
    case 2
    show ?case using Cons.IH(1) [of True] Cons.IH(2) by simp }
qed simp_all

text \<open>
  The argument vector is the name of the program and the words of the
  argument string, for every input: the array that the first loop of \<open>parseArgs\<close>
  sizes always holds what the second loop and the closing NULL write.
\<close>

lemma parseArgs_words:
  "parseArgs cmd args = Some (cmd_name cmd # strtok '' '' args)"
  using fill_args_count(1) [of args True] by (simp add: parseArgs_def Let_def fill_args_strtok)

lemma start_exe2_Some:
  "\<exists>r w'. start_exe2 e exe args w = Some (r, w') \<and> r = e_ret e (w_trace w') \<and>
     w' = act (A_fork exe (cmd_name exe # strtok '' '' args))
       (act (A_custom ''sigaction'' ''SIGCHLD'') (act (A_custom ''prctl'' ''PR_SET_CHILD_SUBREAPER'') w))"
proof -
  have "parseArgs exe args = Some (cmd_name exe # strtok '' '' args)"
    using fill_args_count(1) [of args True] by (simp add: parseArgs_def Let_def fill_args_strtok)
  then show ?thesis by (simp add: start_exe2_def call_def Let_def)
qed

section \<open>Waiting for a child\<close>

definition waits :: "int \<Rightarrow> nat \<Rightarrow> world \<Rightarrow> world" where
  "waits pid n w = (act (A_waitpid pid) ^^ n) w"

lemma waits_Suc: "waits pid n (act (A_waitpid pid) w) = waits pid (Suc n) w"
  by (simp add: waits_def funpow_swap1)

lemma poll_count: "4 * n \<le> x + 6 \<Longrightarrow> x + 4 \<le> r \<or> x = 1 \<Longrightarrow> 1 < r \<Longrightarrow> 4 * Suc n \<le> (r :: nat) + 6"
  by presburger

lemma collect_loop_polls:
  "0 < r \<Longrightarrow> \<exists>n. 0 < n \<and> 4 * n \<le> r + 6 \<and> snd (collect_loop e pid r w) = waits pid n w \<and>
     fst (collect_loop e pid r w) = (if 0 < e_ret e (w_trace (waits pid n w)) then SUCCESS else FAILURE) \<and>
     (\<forall>k. 0 < k \<longrightarrow> k < n \<longrightarrow> e_ret e (w_trace (waits pid k w)) = 0)"
proof (induction r arbitrary: w rule: less_induct)
  case (less r)
  let ?w = "act (A_waitpid pid) w" and ?rc = "e_ret e (w_trace (act (A_waitpid pid) w))"
  let ?r = "r - min COLLECT_WAIT_INTERVAL_MS (r - 1)"
  have w1: "waits pid 1 w = ?w" by (simp add: waits_def)
  show ?case
  proof (cases "?rc = 0 \<and> 1 < r")
    case True
    then have "?r < r" "0 < ?r" "?r + 4 \<le> r \<or> ?r = 1" by (auto simp: COLLECT_WAIT_INTERVAL_MS_def)
    then obtain n where n: "0 < n" "4 * n \<le> ?r + 6" "snd (collect_loop e pid ?r ?w) = waits pid n ?w"
        "fst (collect_loop e pid ?r ?w) = (if 0 < e_ret e (w_trace (waits pid n ?w)) then SUCCESS else FAILURE)"
        "\<forall>k. 0 < k \<longrightarrow> k < n \<longrightarrow> e_ret e (w_trace (waits pid k ?w)) = 0"
      using less.IH [of ?r ?w] by blast
    have l: "collect_loop e pid r w = collect_loop e pid ?r ?w"
      using True less.prems by (subst collect_loop.simps) (simp add: call_def Let_def)
    have "e_ret e (w_trace (waits pid k w)) = 0" if k: "0 < k" "k < Suc n" for k
    proof (cases "k = 1")
      case False
      then obtain j where "k = Suc j" "0 < j" using k(1) by (cases k) auto
      then have "e_ret e (w_trace (waits pid j ?w)) = 0" using k(2) n(5) by simp
      then show ?thesis using \<open>k = Suc j\<close> by (simp only: waits_Suc)
    qed (use True w1 in simp)
    moreover have "4 * Suc n \<le> r + 6" using poll_count [OF n(2) \<open>?r + 4 \<le> r \<or> ?r = 1\<close>] True by blast
    ultimately show ?thesis using n l by (intro exI [of _ "Suc n"]) (simp add: waits_Suc)
  next
    case False
    then have "snd (collect_loop e pid r w) = ?w \<and> fst (collect_loop e pid r w) = (if 0 < ?rc then SUCCESS else FAILURE)"
      using less.prems by (auto simp: collect_loop.simps [of e pid r w] call_def Let_def)
    then show ?thesis using w1 less.prems by (intro exI [of _ 1]) auto
  qed
qed

text \<open>
  Collecting a child ends: with a timeout of \<open>t\<close> milliseconds the child is
  polled at least once and at most \<open>(t + 7) div 4\<close> times, every poll but the last
  one found it running, and the result is \<open>SUCCESS\<close> exactly when the last one
  collected it.
\<close>

lemma collect_bounded:
  "\<exists>n. 0 < n \<and> n \<le> (t + 7) div 4 \<and> snd (collect_waiting_process e pid t w) = waits pid n w \<and>
     fst (collect_waiting_process e pid t w) = (if 0 < e_ret e (w_trace (waits pid n w)) then SUCCESS else FAILURE) \<and>
     \<not> (\<exists>k. 0 < k \<and> k < n \<and> e_ret e (w_trace (waits pid k w)) \<noteq> 0)"
proof -
  let ?t = "if t \<le> 1 then t + 1 else t"
  obtain n where "0 < n" "4 * n \<le> ?t + 6" "snd (collect_loop e pid ?t w) = waits pid n w"
      "fst (collect_loop e pid ?t w) = (if 0 < e_ret e (w_trace (waits pid n w)) then SUCCESS else FAILURE)"
      "\<forall>k. 0 < k \<longrightarrow> k < n \<longrightarrow> e_ret e (w_trace (waits pid k w)) = 0"
  proof -
    have "0 < ?t" by simp
    from collect_loop_polls [OF this, of e pid w] that show ?thesis by blast
  qed
  then show ?thesis by (intro exI [of _ n]) (auto simp: collect_waiting_process_def split: if_splits)
qed

text \<open>The signals among the actions of a computation.\<close>

fun kill_of :: "action \<Rightarrow> (int \<times> int) list" where
  "kill_of (A_kill p s) = [(p, s)]"
| "kill_of _ = []"

definition kills :: "action list \<Rightarrow> (int \<times> int) list" where
  "kills as = concat (map kill_of as)"

lemma kills_simps [simp]: "kills [] = []" "kills (a # as) = kill_of a @ kills as" "kills (as @ bs) = kills as @ kills bs"
  by (simp_all add: kills_def)

lemma waits_trace: "w_trace (waits pid n w) = w_trace w @ replicate n (A_waitpid pid)"
  by (induction n arbitrary: w) (simp_all add: waits_def funpow_swap1 replicate_append_same)

lemma kills_waits [simp]: "kills (replicate n (A_waitpid pid)) = []"
  by (induction n) simp_all

lemma collect_no_kill: "kills (new_actions w (snd (collect_waiting_process e pid t w))) = []"
proof -
  let ?t = "if t \<le> 1 then t + 1 else t"
  have "0 < ?t" by simp
  from collect_loop_polls [OF this, of e pid w] obtain n where "snd (collect_loop e pid ?t w) = waits pid n w" by blast
  then show ?thesis by (simp add: collect_waiting_process_def new_actions_def waits_trace)
qed

section \<open>Search in a command line\<close>

lemma common_prefix_take: "take (common_prefix b s) b = take (common_prefix b s) s"
  by (induction b s rule: common_prefix.induct) auto

lemma common_prefix_append: "common_prefix (s @ r) s = length s"
  by (induction s) auto

lemma strstr_scan_sound: "strstr_scan base sub \<Longrightarrow> \<exists>p q. base = p @ sub @ q"
proof (induction "length base" arbitrary: base rule: less_induct)
  case less
  let ?n = "common_prefix base sub"
  have ext: "\<exists>p q. base = p @ sub @ q" if st: "strstr_scan (drop k base) sub" "0 < k" "base \<noteq> []" for k
  proof -
    obtain p q where "drop k base = p @ sub @ q" using less.hyps [of "drop k base"] st by auto
    then have "base = (take k base @ p) @ sub @ q" by (metis append.assoc append_take_drop_id)
    then show ?thesis by blast
  qed
  consider (found) "sub \<noteq> []" "?n = length sub" | (skip) "strstr_scan (drop (Suc ?n) base) sub" "base \<noteq> []"
    | (step) "strstr_scan (drop 1 base) sub" "base \<noteq> []"
    using less.prems by (subst (asm) strstr_scan.simps) (auto simp: Let_def drop_Suc split: if_splits)
  then show ?case
  proof cases
    case found
    then have "take (length sub) base = sub" using common_prefix_take [of base sub] by simp
    then have "base = [] @ sub @ drop (length sub) base" by (metis append_Nil append_take_drop_id)
    then show ?thesis by blast
  qed (use ext in auto)
qed

lemma strstr_scan_first: "sub \<noteq> [] \<Longrightarrow> hd sub \<notin> set p \<Longrightarrow> strstr_scan (p @ sub @ q) sub"
proof (induction p)
  case Nil
  then show ?case by (subst strstr_scan.simps) (simp add: common_prefix_append)
next
  case (Cons c p)
  then show ?case by (subst strstr_scan.simps) auto
qed

text \<open>
  What the search in a command line reports is there, and it reports the
  text wherever its first character does not occur before it.
\<close>

lemma find_strstr_finds:
  "(find_strstr base sub = SUCCESS \<longrightarrow> (\<exists>p q. base = p @ sub @ q)) \<and>
   (base = p @ sub @ q \<and> sub \<noteq> [] \<and> hd sub \<notin> set p \<and> p @ q \<noteq> [] \<longrightarrow> find_strstr base sub = SUCCESS)"
  using strstr_scan_sound [of base sub] strstr_scan_first [of sub p q]
  by (auto simp: find_strstr_def client_consts split: if_splits)

theorem find_strstr_finds_witness:
  "find_strstr ''udhcpc -i erouter0 '' ''-i erouter0 '' = SUCCESS \<and> (\<exists>p q. ''udhcpc -i erouter0 '' = p @ ''-i erouter0 '' @ q)"
  using find_strstr_finds [of "''udhcpc -i erouter0 ''" "''-i erouter0 ''" "''udhcpc ''" "[]"] by simp

text \<open>A mismatch consumes the character that did not match: the search misses occurrences that overlap a false start.\<close>

lemma find_strstr_misses: "find_strstr ''xaab'' ''ab'' = FAILURE"
  by code_simp

section \<open>Finding a running process\<close>

text \<open>A process of the given name that runs with an argument vector, as \<open>/proc\<close> shows it.\<close>

definition cmdline_of :: "string list \<Rightarrow> string" where
  "cmdline_of argv = concat (map (\<lambda>a. a @ [CHR 0x00]) argv)"

definition runs_as :: "proc_entry \<Rightarrow> string list \<Rightarrow> bool" where
  "runs_as d argv \<longleftrightarrow> pe_isdir d \<and> pe_cmdline d = Some (cmdline_of argv) \<and>
     pe_stat d = Some (pe_name d @ '' ('' @ hd argv @ '') S 1'')"

definition pid_entry :: "proc_entry \<Rightarrow> bool" where
  "pid_entry d \<longleftrightarrow> pe_name d \<noteq> [] \<and> list_all is_digit (pe_name d) \<and> 0 < read_digits 0 (pe_name d) \<and> int (read_digits 0 (pe_name d)) < 2 ^ 31"

definition pids_ok :: "proc_entry list \<Rightarrow> bool" where
  "pids_ok ds \<longleftrightarrow> list_all (\<lambda>d. fst (strtol64 (pe_name d)) = SUCCESS \<longrightarrow> pid_entry d) ds"

lemma c_strtoll_digits:
  assumes "s \<noteq> []" and "list_all is_digit s" and "r = [] \<or> \<not> is_digit (hd r)"
  shows "c_strtoll (s @ r) = (int (read_digits 0 (s @ r)), r)"
proof -
  obtain c cs where s: "s = c # cs" using assms(1) by (cases s) auto
  then have "is_digit c" using assms(2) by simp
  moreover have "dropWhile is_digit (s @ r) = r"
    using assms(2,3) by (cases r) (simp_all add: dropWhile_append3 list_all_iff)
  ultimately show ?thesis by (simp add: c_strtoll_def s digit_not_space digit_not_sign Let_def)
qed

lemma strtol64_pid: "pid_entry d \<Longrightarrow> strtol64 (pe_name d) = (SUCCESS, int (read_digits 0 (pe_name d)))"
  using c_strtoll_digits [of "pe_name d" "[]"] by (simp add: pid_entry_def strtol64_def)

lemma as_pid_small: "0 < v \<Longrightarrow> v < 2 ^ 31 \<Longrightarrow> as_pid v = v"
  by (simp add: as_pid_def signed_of_int signed_take_bit_int_eq_self)

lemma scan_stat_running:
  assumes "pid_entry d" and "n \<noteq> []" and "list_all (\<lambda>c. \<not> is_space c) n" and "length n < 255"
  shows "scan_stat (pe_name d @ '' ('' @ n @ '') S 1'') st = (n, CHR ''S'')"
proof -
  let ?r = "'' ('' @ n @ '') S 1''"
  have c: "c_strtoll (pe_name d @ ?r) = (int (read_digits 0 (pe_name d @ ?r)), ?r)"
    using assms(1) by (intro c_strtoll_digits) (auto simp: pid_entry_def is_digit_def)
  have t: "dropWhile is_space (n @ '') S 1'') = n @ '') S 1''" using assms(2,3) by (cases n) (auto simp: is_space_def)
  have w: "takeWhile (\<lambda>c. \<not> is_space c) (n @ '') S 1'') = n @ '')''"
    using assms(3) by (simp add: takeWhile_append list_all_iff is_space_def)
  have d: "pe_name d \<noteq> []" using assms(1) by (simp add: pid_entry_def)
  have p: "dropWhile is_space ?r = CHR ''('' # n @ '') S 1''" by (simp add: is_space_def)
  have q: "is_space (CHR '' '')" "\<not> is_space (CHR ''S'')" "\<not> is_space (CHR ''1'')" "\<not> is_space (CHR '')'')" "\<not> is_space (CHR ''('')"
    by (simp_all add: is_space_def)
  show ?thesis using assms(4) d by (simp add: scan_stat_def c [simplified] p [simplified] t w q Let_def)
qed

lemma proc_loop_found:
  assumes "d \<in> set ds" and "pids_ok ds" and "pid_entry d" and "pe_isdir d"
    and "pe_cmdline d = Some cl" and "pe_stat d = Some (pe_name d @ '' ('' @ n @ '') S 1'')"
    and "n \<noteq> []" and "list_all (\<lambda>c. \<not> is_space c) n" and "length n < 255" and "cl \<noteq> []"
    and "find_strstr (replace_null_with_space (take 1023 cl) @
        replicate (1024 - length (take 1023 cl)) (CHR 0x00)) a = SUCCESS"
  shows "0 < proc_loop n (Some a) st ds"
  using assms(1,2)
proof (induction ds arbitrary: st)
  case (Cons x ds)
  have pos: "0 < as_pid (snd (strtol64 (pe_name x)))" if "fst (strtol64 (pe_name x)) = SUCCESS"
    using that Cons.prems(2) strtol64_pid [of x] as_pid_small [of "int (read_digits 0 (pe_name x))"]
    by (simp add: pids_ok_def pid_entry_def)
  have len: "length (replace_null_with_space (take 1023 cl)) = length (take 1023 cl)"
    by (simp add: replace_null_with_space_def)
  have ne: "replace_null_with_space (take 1023 cl) \<noteq> []" using assms(10) by (simp add: replace_null_with_space_def)
  show ?case
  proof (cases "x = d")
    case True
    then show ?thesis
      using pos assms strtol64_pid [OF assms(3)] scan_stat_running [OF assms(3,7-9), of st] ne len
      by (simp add: Let_def)
  next
    case False
    then have "0 < proc_loop n (Some a) st' ds" for st' using Cons by (simp add: pids_ok_def)
    then show ?thesis using pos by (simp add: case_prod_beta Let_def split: option.split)
  qed
qed simp

end
