(* ===== verification/Udhcpc_Spec.thy ===== *)
theory Udhcpc_Spec
  imports Udhcpc Client_Common_Spec
begin

text \<open>
  Properties of the udhcpc driver: the program gets exactly the arguments that
  the option lists mean, a client that runs with these arguments is found and
  not started twice, and the signals of release and stop are sent in order.
\<close>

section \<open>Words\<close>

definition is_word :: "string \<Rightarrow> bool" where
  "is_word t \<longleftrightarrow> t \<noteq> [] \<and> CHR '' '' \<notin> set t"

definition spaced :: "string list \<Rightarrow> string" where
  "spaced ts = concat (map (\<lambda>t. t @ '' '') ts)"

lemma spaced_simps [simp]: "spaced [] = []" "spaced (t # ts) = t @ '' '' @ spaced ts" "spaced (ts @ us) = spaced ts @ spaced us"
  by (simp_all add: spaced_def)

lemma strtok_spaced: "list_all is_word ts \<Longrightarrow> strtok '' '' (spaced ts) = ts"
proof (induction ts)
  case (Cons t ts)
  then have "strtok '' '' (t @ CHR '' '' # spaced ts) = t # strtok '' '' (spaced ts)"
    by (intro strtok_word_delim) (auto simp: is_word_def)
  with Cons show ?case by simp
qed simp

text \<open>The arguments that an option of either list stands for.\<close>

definition req_words :: "dhcp_opt \<Rightarrow> string list" where
  "req_words r = [''-O'', if dhcp_opt_num r = 2 then ''timezone'' else if dhcp_opt_num r = 42 then ''ntpsrv''
     else show_int (dhcp_opt_num r)]"

definition send_words :: "dhcp_opt \<Rightarrow> string list" where
  "send_words s =
     (case dhcp_opt_val s of
        None \<Rightarrow> []
      | Some v \<Rightarrow>
          if dhcp_opt_num s = 60
          then [''-V'', if take (length PKTC) v = PKTC then v else (case hex_to_ascii v 128 of None \<Rightarrow> [] | Some a \<Rightarrow> a)]
          else [''-x'', ''0x'' @ show_02X (dhcp_opt_num s) @ '':'' @ v])"

definition mode_words :: "udhcpc_mode \<Rightarrow> string list" where
  "mode_words m = (case m of RUN_IN_FOREGROUND \<Rightarrow> [''-f''] | RUN_IN_BACKGROUND \<Rightarrow> [''-b'']
     | EXIT_AFTER_LEAVE_FAILURE \<Rightarrow> [''-n''] | MODE_UNSET \<Rightarrow> [])"

definition udhcpc_words :: "env \<Rightarrow> string \<Rightarrow> dhcp_opt list \<Rightarrow> dhcp_opt list \<Rightarrow> string list" where
  "udhcpc_words e ifname rq sd =
     concat (map req_words rq) @ concat (map send_words sd) @
     [''-i'', ifname, ''-p'', ''/tmp/udhcpc.'' @ ifname @ ''.pid'', ''-s'', UDHCPC_PLUGIN_EXE] @
     mode_words (e_udhcpc_mode e) @ [''-R'']"

text \<open>
  The inputs on which the driver is exact: an interface name of at most eleven
  characters, options of one byte, sent options with a value that is one word,
  and arguments that fit the buffer together.
\<close>

definition req_fits :: "dhcp_opt \<Rightarrow> bool" where
  "req_fits r \<longleftrightarrow> 0 < dhcp_opt_num r \<and> dhcp_opt_num r < 256"

definition send_fits :: "dhcp_opt \<Rightarrow> bool" where
  "send_fits s \<longleftrightarrow> (case dhcp_opt_val s of
     None \<Rightarrow> False
   | Some v \<Rightarrow> list_all is_word (send_words s) \<and>
       (dhcp_opt_num s \<noteq> 60 \<or> take (length PKTC) v = PKTC \<or> hex_to_ascii v 128 \<noteq> None))"

definition udhcpc_fits :: "env \<Rightarrow> string \<Rightarrow> dhcp_opt list \<Rightarrow> dhcp_opt list \<Rightarrow> bool" where
  "udhcpc_fits e ifname rq sd \<longleftrightarrow>
     is_word ifname \<and> length ifname \<le> 11 \<and> list_all req_fits rq \<and> list_all send_fits sd \<and>
     length (spaced (udhcpc_words e ifname rq sd)) < ARGS_LEN"

section \<open>Lemmas\<close>

lemma strcats_Some:
  "length buff + length (concat ss) < n \<Longrightarrow> strcats n buff ss = Some (buff @ concat ss)"
  by (induction ss arbitrary: buff) (simp_all add: strcat_def)

lemma show_nat_word: "list_all is_digit (show_nat n) \<and> show_nat n \<noteq> []"
  using show_nat_digits [of n] by (simp add: list_all_iff)

lemma show_nat_len: "n < 10 ^ k \<Longrightarrow> 0 < k \<Longrightarrow> length (show_nat n) \<le> k"
proof (induction k arbitrary: n)
  case (Suc k)
  show ?case
  proof (cases "n < 10")
    case True
    then show ?thesis by (subst show_nat.simps) simp
  next
    case False
    then have "0 < k" using Suc.prems by (cases k) auto
    moreover have "n div 10 < 10 ^ k" using Suc.prems by (simp add: less_mult_imp_div_less)
    ultimately have "length (show_nat (n div 10)) \<le> k" by (rule Suc.IH [rotated])
    then show ?thesis using False by (subst show_nat.simps) simp
  qed
qed simp

lemma req_option_text:
  assumes "req_fits r"
  shows "(if dhcp_opt_num r = 2 then c_trunc 15 ''-O timezone '' else if dhcp_opt_num r = 42 then ''-O ntpsrv ''
     else c_trunc 16 (''-O '' @ show_int (dhcp_opt_num r) @ '' '')) = spaced (req_words r)"
proof -
  have "length (show_int (dhcp_opt_num r)) \<le> 3"
    using assms show_nat_len [of "nat (dhcp_opt_num r)" 3] by (auto simp: req_fits_def show_int_def)
  then show ?thesis by (simp add: req_words_def c_trunc_id)
qed

lemma req_words_ok: "req_fits r \<Longrightarrow> list_all is_word (req_words r)"
  using show_nat_word [of "nat (dhcp_opt_num r)"]
  by (auto simp: req_words_def req_fits_def is_word_def show_int_def list_all_iff is_digit_def)

lemma req_options_Some:
  "list_all req_fits rq \<Longrightarrow> length buff + length (spaced (concat (map req_words rq))) < ARGS_LEN \<Longrightarrow>
   udhcpc_get_req_options buff rq = Some (buff @ spaced (concat (map req_words rq)))"
proof (induction rq arbitrary: buff)
  case (Cons r rq)
  have t: "(if dhcp_opt_num r = 2 then c_trunc 15 ''-O timezone '' else if dhcp_opt_num r = 42 then ''-O ntpsrv ''
     else c_trunc 16 (''-O '' @ show_int (dhcp_opt_num r) @ '' '')) = spaced (req_words r)"
    using Cons.prems by (intro req_option_text) simp
  have "strcat ARGS_LEN buff (spaced (req_words r)) = Some (buff @ spaced (req_words r))"
    using Cons.prems by (simp add: strcat_def)
  moreover have "udhcpc_get_req_options (buff @ spaced (req_words r)) rq =
      Some ((buff @ spaced (req_words r)) @ spaced (concat (map req_words rq)))"
    using Cons.prems by (intro Cons.IH) simp_all
  ultimately show ?case by (simp only: udhcpc_get_req_options.simps t Let_def option.case list.map concat.simps spaced_simps append_assoc)
qed simp

lemma send_option_text:
  assumes "send_fits s" and "dhcp_opt_val s = Some v" and "length (spaced (send_words s)) < 1024"
  shows "send_option_args (dhcp_opt_num s) v = spaced (send_words s)"
  using assms by (auto simp: send_fits_def send_words_def send_option_args_def c_trunc_id split: option.splits if_splits)

lemma send_options_Some:
  "list_all send_fits sd \<Longrightarrow> length buff + length (spaced (concat (map send_words sd))) < ARGS_LEN \<Longrightarrow>
   udhcpc_get_send_options buff sd = Some (buff @ spaced (concat (map send_words sd)))"
proof (induction sd arbitrary: buff)
  case (Cons s sd)
  then obtain v where v: "dhcp_opt_val s = Some v" by (auto simp: send_fits_def split: option.splits)
  have t: "send_option_args (dhcp_opt_num s) v = spaced (send_words s)"
    using Cons.prems v by (intro send_option_text) (simp_all add: ARGS_LEN_def)
  have "strcat ARGS_LEN buff (spaced (send_words s)) = Some (buff @ spaced (send_words s))"
    using Cons.prems by (simp add: strcat_def)
  moreover have "udhcpc_get_send_options (buff @ spaced (send_words s)) sd =
      Some ((buff @ spaced (send_words s)) @ spaced (concat (map send_words sd)))"
    using Cons.prems by (intro Cons.IH) simp_all
  ultimately show ?case by (simp add: v t)
qed simp

lemma other_args_Some:
  assumes "length ifname \<le> 11"
    and "length buff + length (spaced ([''-i'', ifname, ''-p'', ''/tmp/udhcpc.'' @ ifname @ ''.pid'', ''-s'', UDHCPC_PLUGIN_EXE] @
           mode_words (e_udhcpc_mode e) @ [''-R''])) < ARGS_LEN"
  shows "udhcpc_get_other_args e buff ifname =
    Some (buff @ spaced ([''-i'', ifname, ''-p'', ''/tmp/udhcpc.'' @ ifname @ ''.pid'', ''-s'', UDHCPC_PLUGIN_EXE] @
           mode_words (e_udhcpc_mode e) @ [''-R'']))"
proof -
  let ?ss = "[''-i '' @ ifname @ '' '', ''-p /tmp/udhcpc.'' @ ifname @ ''.pid '', ''-s '' @ UDHCPC_PLUGIN_EXE @ '' '',
    spaced (mode_words (e_udhcpc_mode e)), ''-R '']"
  have "mode_args m = spaced (mode_words m)" for m by (cases m) (simp_all add: mode_args_def mode_words_def)
  then have "udhcpc_get_other_args e buff ifname = strcats ARGS_LEN buff ?ss"
    using assms(1) by (simp add: udhcpc_get_other_args_def c_trunc_id UDHCPC_PLUGIN_EXE_def del: strcats.simps)
  also have "\<dots> = Some (buff @ concat ?ss)" using assms(2) by (intro strcats_Some) simp
  finally show ?thesis by simp
qed

lemma udhcpc_words_ok:
  assumes "udhcpc_fits e ifname rq sd"
  shows "list_all is_word (udhcpc_words e ifname rq sd)"
proof -
  have "list_all is_word (concat (map req_words rq))" "list_all is_word (concat (map send_words sd))"
    using assms req_words_ok by (auto simp: udhcpc_fits_def list_all_iff send_fits_def split: option.splits)
  then show ?thesis
    using assms by (auto simp: udhcpc_words_def udhcpc_fits_def is_word_def mode_words_def UDHCPC_PLUGIN_EXE_def split: udhcpc_mode.splits)
qed

lemma args_generator_Some:
  assumes "udhcpc_fits e ifname rq sd"
  shows "udhcpc_args_generator e ifname rq sd = Some (spaced (udhcpc_words e ifname rq sd))"
proof -
  let ?r = "spaced (concat (map req_words rq))" and ?s = "spaced (concat (map send_words sd))"
  have l: "length (spaced (udhcpc_words e ifname rq sd)) < ARGS_LEN" using assms by (simp add: udhcpc_fits_def)
  have "udhcpc_get_req_options [] rq = Some ([] @ ?r)"
    using assms l by (intro req_options_Some) (simp_all add: udhcpc_fits_def udhcpc_words_def)
  moreover have "udhcpc_get_send_options ?r sd = Some (?r @ ?s)"
    using assms l by (intro send_options_Some) (simp_all add: udhcpc_fits_def udhcpc_words_def)
  ultimately show ?thesis
    using assms l other_args_Some [of ifname "?r @ ?s" e]
    by (simp add: udhcpc_args_generator_def udhcpc_fits_def udhcpc_words_def)
qed

section \<open>Properties\<close>

text \<open>
  Claim C38. The program is started with exactly the arguments that the option
  lists mean: on inputs that fit, where no client with these arguments runs yet,
  \<open>start_dhcpv4_client\<close> forks \<open>/sbin/udhcpc\<close> with one request argument per requested
  option, one argument per sent option, the interface, its pid file and the
  plugin, and returns what \<open>fork\<close> answers.
\<close>

theorem udhcpc_argv:
  assumes "udhcpc_fits e ifname rq sd" and "e_udhcpc_mode e \<noteq> RUN_IN_BACKGROUND"
    and "fst (get_process_pid e UDHCPC_CLIENT (Some (spaced (udhcpc_words e ifname rq sd))) False w) \<le> 0"
  shows "\<exists>pid w'. start_dhcpv4_client e ifname rq sd w = Some (pid, w') \<and> pid = e_ret e (w_trace w') \<and>
     last (w_trace w') = A_fork UDHCPC_CLIENT_PATH (UDHCPC_CLIENT # udhcpc_words e ifname rq sd)"
proof -
  let ?b = "spaced (udhcpc_words e ifname rq sd)"
  let ?g = "get_process_pid e UDHCPC_CLIENT (Some ?b) False w"
  have n: "cmd_name UDHCPC_CLIENT_PATH = UDHCPC_CLIENT" by code_simp
  obtain r w' where "start_exe2 e UDHCPC_CLIENT_PATH ?b (snd ?g) = Some (r, w')" "r = e_ret e (w_trace w')"
      "last (w_trace w') = A_fork UDHCPC_CLIENT_PATH (UDHCPC_CLIENT # udhcpc_words e ifname rq sd)"
    using start_exe2_Some [of e UDHCPC_CLIENT_PATH ?b "snd ?g"] strtok_spaced [OF udhcpc_words_ok [OF assms(1)]] n by auto
  then show ?thesis
    using assms(2,3) args_generator_Some [OF assms(1)]
    by (auto simp: start_dhcpv4_client_def case_prod_beta Let_def)
qed

theorem udhcpc_argv_witness:
  "\<exists>pid w'. start_dhcpv4_client env0 ''erouter0'' [\<lparr>dhcp_opt_num = 42, dhcp_opt_val = None\<rparr>]
        [\<lparr>dhcp_opt_num = 61, dhcp_opt_val = Some ''01ab''\<rparr>] world_init = Some (pid, w') \<and>
     last (w_trace w') = A_fork ''/sbin/udhcpc'' [''udhcpc'', ''-O'', ''ntpsrv'', ''-x'', ''0x3D:01ab'', ''-i'', ''erouter0'',
        ''-p'', ''/tmp/udhcpc.erouter0.pid'', ''-s'', ''/usr/bin/dhcpmgr_udhcpc_plugin'', ''-f'', ''-R'']"
proof -
  let ?rq = "[\<lparr>dhcp_opt_num = 42, dhcp_opt_val = None\<rparr>]" and ?sd = "[\<lparr>dhcp_opt_num = 61, dhcp_opt_val = Some ''01ab''\<rparr>]"
  have f: "udhcpc_fits env0 ''erouter0'' ?rq ?sd" by code_simp
  have g: "fst (get_process_pid env0 UDHCPC_CLIENT (Some (spaced (udhcpc_words env0 ''erouter0'' ?rq ?sd))) False world_init) \<le> 0"
    by code_simp
  have m: "e_udhcpc_mode env0 \<noteq> RUN_IN_BACKGROUND" by (simp add: env0_def)
  have u: "udhcpc_words env0 ''erouter0'' ?rq ?sd = [''-O'', ''ntpsrv'', ''-x'', ''0x3D:01ab'', ''-i'', ''erouter0'',
        ''-p'', ''/tmp/udhcpc.erouter0.pid'', ''-s'', ''/usr/bin/dhcpmgr_udhcpc_plugin'', ''-f'', ''-R'']"
    by code_simp
  from udhcpc_argv [OF f m g] show ?thesis unfolding u by (auto simp: UDHCPC_CLIENT_PATH_def UDHCPC_CLIENT_def)
qed

lemma replace_cmdline:
  "list_all (\<lambda>t. CHR 0x00 \<notin> set t) argv \<Longrightarrow> replace_null_with_space (cmdline_of argv) = spaced argv"
  by (induction argv) (auto simp: replace_null_with_space_def cmdline_of_def intro!: map_idI)

lemma length_cmdline: "length (cmdline_of argv) = length (spaced argv)"
  by (induction argv) (simp_all add: cmdline_of_def)

lemma udhcpc_words_dash:
  assumes "list_all send_fits sd"
  shows "spaced (udhcpc_words e i rq sd) \<noteq> [] \<and> hd (spaced (udhcpc_words e i rq sd)) = CHR ''-''"
proof (cases rq)
  case Nil
  then show ?thesis
    using assms by (cases sd) (auto simp: udhcpc_words_def send_words_def send_fits_def split: option.splits)
qed (simp add: udhcpc_words_def req_words_def)

text \<open>
  A client is not started twice: when \<open>/proc\<close> shows a running \<open>udhcpc\<close> whose
  command line is the argument vector of the same interface and options, the
  driver returns the id of a running client and forks nothing. The search has to
  find the argument string in the command line across the separators that
  replaced the NULs.
\<close>

lemma udhcpc_not_started_twice:
  assumes "udhcpc_fits e ifname rq sd" and "length (spaced (udhcpc_words e ifname rq sd)) \<le> 1016"
    and "list_all (\<lambda>t. CHR 0x00 \<notin> set t) (udhcpc_words e ifname rq sd)"
    and "a = A_proc_lookup UDHCPC_CLIENT (spaced (udhcpc_words e ifname rq sd))"
    and "0 \<le> e_ret e (w_trace w @ [a])" and "d \<in> set (e_proc e (w_trace w @ [a]))" and "pids_ok (e_proc e (w_trace w @ [a]))"
    and "pid_entry d" and "runs_as d (UDHCPC_CLIENT # udhcpc_words e ifname rq sd)"
  shows "\<exists>pid. start_dhcpv4_client e ifname rq sd w = Some (pid, act a w) \<and> 0 < pid"
proof -
  let ?b = "spaced (udhcpc_words e ifname rq sd)" and ?argv = "UDHCPC_CLIENT # udhcpc_words e ifname rq sd"
  let ?ds = "e_proc e (w_trace w @ [a])" and ?z = "replicate (1024 - length (cmdline_of ?argv)) (CHR 0x00)"
  have l: "length (cmdline_of ?argv) \<le> 1023" using assms(2) by (simp add: length_cmdline UDHCPC_CLIENT_def)
  have r: "replace_null_with_space (cmdline_of ?argv) = ''udhcpc '' @ ?b"
    using replace_cmdline [of ?argv] assms(3) by (simp add: UDHCPC_CLIENT_def)
  have b: "?b \<noteq> []" "hd ?b = CHR ''-''" using udhcpc_words_dash assms(1) by (auto simp: udhcpc_fits_def)
  then have "strstr_scan (''udhcpc '' @ ?b @ ?z) ?b" by (intro strstr_scan_first) simp_all
  then have f: "find_strstr (replace_null_with_space (take 1023 (cmdline_of ?argv)) @
      replicate (1024 - length (take 1023 (cmdline_of ?argv))) (CHR 0x00)) ?b = SUCCESS"
    using l r by (simp add: find_strstr_def length_cmdline UDHCPC_CLIENT_def)
  have "0 < proc_loop UDHCPC_CLIENT (Some ?b) (CHR 0x00) ?ds"
    using assms(6-9) f
    by (intro proc_loop_found [where d = d and cl = "cmdline_of ?argv"])
       (auto simp: runs_as_def UDHCPC_CLIENT_def is_space_def cmdline_of_def)
  then show ?thesis
    using args_generator_Some [OF assms(1)] assms(4,5)
    by (simp add: start_dhcpv4_client_def get_process_pid_def check_proc_entry_for_pid_def args_text_def call_def Let_def)
qed

definition proc0 :: proc_entry where
  "proc0 = \<lparr>pe_name = ''814'', pe_isdir = True, pe_stat = Some ''814 (udhcpc) S 1'',
     pe_cmdline = Some (cmdline_of (UDHCPC_CLIENT # udhcpc_words env0 ''erouter0'' [] [])), pe_comm = Some ''udhcpc''\<rparr>"

lemma udhcpc_not_started_twice_witness:
  "\<exists>pid. start_dhcpv4_client (env0\<lparr>e_proc := \<lambda>_. [proc0]\<rparr>) ''erouter0'' [] [] world_init =
     Some (pid, act (A_proc_lookup UDHCPC_CLIENT (spaced (udhcpc_words env0 ''erouter0'' [] []))) world_init) \<and> 0 < pid"
proof -
  let ?e = "env0\<lparr>e_proc := \<lambda>_. [proc0]\<rparr>"
  have u: "udhcpc_words ?e ''erouter0'' [] [] = udhcpc_words env0 ''erouter0'' [] []" by (simp add: udhcpc_words_def)
  have f: "udhcpc_fits env0 ''erouter0'' [] []" "length (spaced (udhcpc_words env0 ''erouter0'' [] [])) \<le> 1016"
      "list_all (\<lambda>t. CHR 0x00 \<notin> set t) (udhcpc_words env0 ''erouter0'' [] [])" "pids_ok [proc0]" "pid_entry proc0"
      "runs_as proc0 (UDHCPC_CLIENT # udhcpc_words env0 ''erouter0'' [] [])"
    by (code_simp, code_simp, code_simp, code_simp, code_simp, simp add: runs_as_def proc0_def UDHCPC_CLIENT_def)
  have "udhcpc_fits ?e ''erouter0'' [] []" using f(1) by (simp add: udhcpc_fits_def u)
  from udhcpc_not_started_twice [OF this, of "A_proc_lookup UDHCPC_CLIENT (spaced (udhcpc_words env0 ''erouter0'' [] []))" world_init proc0]
  show ?thesis using f by (simp add: u) (simp add: env0_def)
qed

section \<open>Signals\<close>

lemma stop4_kills:
  assumes "0 < pid"
  shows "kills (new_actions w (snd (stop_dhcpv4_client e pid w))) = [(pid, SIGTERM)]"
proof -
  let ?w = "act (A_kill pid SIGTERM) w"
  have s: "signal_process e pid SIGTERM w = (if e_ret e (w_trace ?w) < 0 then FAILURE else SUCCESS, ?w)"
    using assms by (simp add: signal_process_def call_def Let_def SIGTERM_def)
  have x: "extends ?w (snd (collect_waiting_process e pid UDHCPC_TERMINATE_TIMEOUT ?w))"
    using collect_quiet [OF quiet_refl] by (rule quiet_extends)
  show ?thesis
    using assms new_actions_trans [OF extends_act x] collect_no_kill [of ?w e pid UDHCPC_TERMINATE_TIMEOUT]
    by (simp add: stop_dhcpv4_client_def s SUCCESS_def FAILURE_def RETURN_OK_def)
qed

text \<open>
  The signals of the driver go to the client they are meant for, in
  order: a release sends \<open>SIGUSR2\<close> and, unless that failed, \<open>SIGTERM\<close> after it; a
  stop sends one \<open>SIGTERM\<close>, a renewal one \<open>SIGUSR1\<close>; for an id that is not positive
  (0 would address the whole process group) nothing is done at all.
\<close>

lemma udhcpc_signals:
  "(if pid \<le> 0
    then send_dhcpv4_release e pid w = (FAILURE, w) \<and> stop_dhcpv4_client e pid w = (FAILURE, w) \<and> send_dhcpv4_renew e pid w = (FAILURE, w)
    else kills (new_actions w (snd (send_dhcpv4_release e pid w))) =
           (if e_ret e (w_trace w @ [A_kill pid SIGUSR2]) < 0 then [(pid, SIGUSR2)] else [(pid, SIGUSR2), (pid, SIGTERM)]) \<and>
         kills (new_actions w (snd (stop_dhcpv4_client e pid w))) = [(pid, SIGTERM)] \<and>
         kills (new_actions w (snd (send_dhcpv4_renew e pid w))) = [(pid, SIGUSR1)])"
proof (cases "pid \<le> 0")
  case True
  then show ?thesis by (simp add: send_dhcpv4_release_def stop_dhcpv4_client_def send_dhcpv4_renew_def signal_process_def client_consts)
next
  case False
  let ?w = "act (A_kill pid SIGUSR2) w"
  have s: "signal_process e pid sg w = (if e_ret e (w_trace w @ [A_kill pid sg]) < 0 then FAILURE else SUCCESS, act (A_kill pid sg) w)"
    if "0 \<le> sg" for sg using that False by (simp add: signal_process_def call_def Let_def)
  have x: "extends ?w (snd (stop_dhcpv4_client e pid ?w))" using stop4_quiet [OF quiet_refl] by (rule quiet_extends)
  have k: "kills (new_actions ?w (snd (stop_dhcpv4_client e pid ?w))) = [(pid, SIGTERM)]" using stop4_kills False by simp
  have "kills (new_actions w (snd (send_dhcpv4_release e pid w))) =
      (if e_ret e (w_trace w @ [A_kill pid SIGUSR2]) < 0 then [(pid, SIGUSR2)] else [(pid, SIGUSR2), (pid, SIGTERM)])"
    using new_actions_trans [OF extends_act x] k s [of SIGUSR2] by (simp add: send_dhcpv4_release_def SUCCESS_def FAILURE_def RETURN_OK_def SIGUSR2_def)
  moreover have "kills (new_actions w (snd (send_dhcpv4_renew e pid w))) = [(pid, SIGUSR1)]"
    using s [of SIGUSR1] by (simp add: send_dhcpv4_renew_def SIGUSR1_def)
  ultimately show ?thesis using False stop4_kills [of pid w e] by simp
qed

section \<open>Limits\<close>

text \<open>
  An interface name of twelve characters fills the array of the \<open>-i\<close> argument, its
  closing space is cut off and the next argument is glued to the name.
\<close>

lemma udhcpc_long_ifname:
  "udhcpc_get_other_args env0 [] ''brlan0.10000'' =
     Some ''-i brlan0.10000-p /tmp/udhcpc.brlan0.10000.pid-s /usr/bin/dhcpmgr_udhcpc_plugin -f -R ''"
  by code_simp

text \<open>An option without a value ends the list of sent options.\<close>

lemma udhcpc_send_stops: "dhcp_opt_val o1 = None \<Longrightarrow> udhcpc_get_send_options buff (o1 # os) = Some buff"
  by simp

end
