(* ===== verification/Dibbler.thy ===== *)
theory Dibbler
  imports Client_Common
begin

text \<open>
  The DHCPv6 client driver for dibbler,
  \<open>source/DHCPClientUtils/DHCPv6Client/dhcpv6_interface_dibbler.c\<close>: the
  configuration file from the option lists, starting, renewing, releasing and
  stopping the client. A text that is written to a file is an action with the
  path and the text; copying a file writes the text that was written to it.
\<close>

definition DIBBLER_CLIENT :: string where "DIBBLER_CLIENT = ''dibbler-client''"
definition DIBBLER_CLIENT_PATH :: string where "DIBBLER_CLIENT_PATH = ''/usr/sbin/dibbler-client''"
definition DIBBLER_DFT_PATH :: string where "DIBBLER_DFT_PATH = ''/etc/dibbler/''"
definition DIBBLER_TMP_CONFIG_FILE :: string where "DIBBLER_TMP_CONFIG_FILE = ''/tmp/dibbler/client-tmp.conf''"
definition DIBBLER_DEFAULT_CONFIG_FILE :: string where "DIBBLER_DEFAULT_CONFIG_FILE = ''/tmp/dibbler/client.conf''"
definition DIBBLER_CLIENT_TERMINATE_TIMEOUT :: nat where "DIBBLER_CLIENT_TERMINATE_TIMEOUT = 10000"
definition DIBBLER_CLIENT_TERMINATE_INTERVAL :: nat where "DIBBLER_CLIENT_TERMINATE_INTERVAL = 500"
definition DIBBLER_PLUGIN_EXE :: string where "DIBBLER_PLUGIN_EXE = ''/usr/bin/dhcpmgr_dibbler_plugin''"
definition DIBBLER_TMP_DIR_PATH :: string where "DIBBLER_TMP_DIR_PATH = ''/var/lib/dibbler''"

text \<open>Characters that have no literal: newline, tab and double quote.\<close>

definition nl :: string where "nl = [CHR 0x0A]"
definition tab :: string where "tab = [CHR 0x09]"
definition quote :: string where "quote = [CHR 0x22]"

section \<open>The running client\<close>

text \<open>The first line of the file \<open>comm\<close> goes to an array of 16 characters.\<close>

definition is_dibbler_running :: "env \<Rightarrow> int \<Rightarrow> world \<Rightarrow> bool \<times> world" where
  "is_dibbler_running e pid w =
     (let (r, w1) = call e (A_proc_comm pid) w;
          content = e_str e (w_trace w1);
          name = takeWhile (\<lambda>c. c \<noteq> CHR 0x0A) (take 15 content)
      in (\<not> r < 0 \<and> content \<noteq> [] \<and> name = DIBBLER_CLIENT, w1))"

function (sequential) wait_for_dibbler_exit :: "env \<Rightarrow> int \<Rightarrow> nat \<Rightarrow> world \<Rightarrow> bool \<times> world" where
  "wait_for_dibbler_exit e pid timeout w =
     (let (running, w1) = is_dibbler_running e pid w
      in if \<not> running then (True, w1)
         else if timeout = 0 then (False, w1)
         else wait_for_dibbler_exit e pid (timeout - min DIBBLER_CLIENT_TERMINATE_INTERVAL timeout) w1)"
  by pat_completeness auto
termination
  by (relation "measure (\<lambda>(e, p, t, w). t)") (auto simp: DIBBLER_CLIENT_TERMINATE_INTERVAL_def)

declare wait_for_dibbler_exit.simps [simp del]

section \<open>Configuration\<close>

definition copy_file :: "env \<Rightarrow> string \<Rightarrow> string \<Rightarrow> string \<Rightarrow> world \<Rightarrow> int \<times> world" where
  "copy_file e content src dst w =
     (let (o1, w1) = call e (A_fopen dst ''wb'') w
      in if o1 < 0 then (FAILURE, w1)
         else (let (i1, w2) = call e (A_fopen src ''r'') w1
               in if i1 < 0 then (FAILURE, w2) else (SUCCESS, act (A_fputs dst content) w2)))"

definition opt_text :: "dhcp_opt \<Rightarrow> string" where
  "opt_text o1 = (case dhcp_opt_val o1 of None \<Rightarrow> [] | Some v \<Rightarrow> v)"

definition dibbler_req_option :: "dhcp_opt \<Rightarrow> string" where
  "dibbler_req_option o1 =
     (let n = dhcp_opt_num o1
      in if n = 5 \<or> n = 3 then c_trunc 512 (nl @ tab @ ''ia '' @ opt_text o1 @ '' '' @ nl)
         else if n = 23 then c_trunc 512 (nl @ tab @ ''option dns-server '' @ nl)
         else if n = 25 then c_trunc 512 (nl @ tab @ ''pd '' @ opt_text o1 @ '' '' @ nl)
         else if n = 24 then c_trunc 512 (nl @ tab @ ''option domain '' @ nl)
         else if n = 64 then nl @ tab @ ''option aftr'' @ nl
         else c_trunc 512 (nl @ tab @ ''option 00'' @ show_int n @ '' hex '' @ nl))"

definition dibbler_get_req_options :: "dhcp_opt list \<Rightarrow> string" where
  "dibbler_get_req_options req_opt_list = concat (map dibbler_req_option req_opt_list)"

definition dibbler_send_option :: "dhcp_opt \<Rightarrow> string" where
  "dibbler_send_option o1 =
     (let n = dhcp_opt_num o1
      in if n = 5 \<or> n = 3 then c_trunc 512 (nl @ tab @ ''ia '' @ opt_text o1 @ '' '' @ nl)
         else if n = 25 then c_trunc 512 (nl @ tab @ ''pd '' @ opt_text o1 @ '' '' @ nl)
         else if n = 14 then nl @ tab @ '' rapid-commit yes'' @ nl
         else if n = 20 then []
         else (case dhcp_opt_val o1 of
                 None \<Rightarrow> []
               | Some v \<Rightarrow> c_trunc 512 (nl @ tab @ ''option 00'' @ show_int n @ '' hex 0x'' @ v @ nl)))"

definition dibbler_get_send_options :: "dhcp_opt list \<Rightarrow> string" where
  "dibbler_get_send_options send_opt_list = concat (map dibbler_send_option send_opt_list)"

fun dibbler_get_reconfigureAccept :: "dhcp_opt list \<Rightarrow> bool" where
  "dibbler_get_reconfigureAccept [] = False"
| "dibbler_get_reconfigureAccept (o1 # os) = (if dhcp_opt_num o1 = 20 then True else dibbler_get_reconfigureAccept os)"

definition dibbler_config :: "string \<Rightarrow> dhcp_opt list \<Rightarrow> dhcp_opt list \<Rightarrow> string" where
  "dibbler_config interfaceName req_opt_list send_opt_list =
     c_trunc 128 (''script '' @ quote @ DIBBLER_PLUGIN_EXE @ quote @ nl) @
     ''log-level 7'' @ nl @ ''log-mode full'' @ nl @ ''duid-type duid-ll'' @ nl @
     c_trunc 128 (''iface '' @ interfaceName @ '' {'' @ nl) @
     dibbler_get_req_options req_opt_list @ dibbler_get_send_options send_opt_list @
     nl @ ''}'' @ nl @ ''skip-confirm'' @ nl @ ''downlink-prefix-ifaces '' @ quote @ ''brlan0'' @ quote @ nl @
     (if dibbler_get_reconfigureAccept send_opt_list then nl @ ''reconfigure-accept 1'' @ nl else [])"

definition dibbler_client_config_generator ::
  "env \<Rightarrow> string \<Rightarrow> string \<Rightarrow> dhcp_opt list \<Rightarrow> dhcp_opt list \<Rightarrow> world \<Rightarrow> int \<times> world" where
  "dibbler_client_config_generator e config_path interfaceName req_opt_list send_opt_list w =
     (let w1 = act (A_fopen ''/etc/dibbler/radvd.conf'' ''a'') (act (A_fopen ''/etc/dibbler/radvd.conf.old'' ''a'') w);
          (f, w2) = call e (A_fopen DIBBLER_TMP_CONFIG_FILE ''w+'') w1
      in if f < 0 then (FAILURE, w2)
         else
           (let text = dibbler_config interfaceName req_opt_list send_opt_list;
                w3 = act (A_fputs DIBBLER_TMP_CONFIG_FILE text) w2;
                file_path = c_trunc 128 (config_path @ ''/client.conf'');
                (r, w4) = copy_file e text DIBBLER_TMP_CONFIG_FILE file_path w3
            in if r \<noteq> SUCCESS then (FAILURE, w4)
               else (let (a, w5) = call e (A_access DIBBLER_DEFAULT_CONFIG_FILE) w4
                     in if a = 0 then (SUCCESS, w5)
                        else (let (k, w6) = call e (A_link DIBBLER_TMP_CONFIG_FILE DIBBLER_DEFAULT_CONFIG_FILE) w5
                              in if k = 0 then (SUCCESS, w6) else (FAILURE, w6)))))"

section \<open>Operations\<close>

definition start_dhcpv6_client ::
  "env \<Rightarrow> string \<Rightarrow> dhcp_opt list \<Rightarrow> dhcp_opt list \<Rightarrow> world \<Rightarrow> (int \<times> world) option" where
  "start_dhcpv6_client e interfaceName req_opt_list send_opt_list w =
     (let w1 = create_dir_path e DIBBLER_TMP_DIR_PATH w;
          (pid, w2) = get_process_pid e DIBBLER_CLIENT (Some interfaceName) False w1
      in if 0 < pid then Some (pid, w2)
         else
           (let config_path = c_trunc 256 (DIBBLER_DFT_PATH @ interfaceName);
                w3 = act (A_mkdir config_path) w2;
                (g, w4) = dibbler_client_config_generator e config_path interfaceName req_opt_list send_opt_list w3
            in if g \<noteq> SUCCESS then Some (FAILURE, w4)
               else
                 (let cmd_args = c_trunc 256 (''start -w '' @ config_path)
                  in (case start_exe2 e DIBBLER_CLIENT_PATH cmd_args w4 of
                        None \<Rightarrow> None
                      | Some (ret, w5) \<Rightarrow>
                          if ret \<le> 0 then Some (FAILURE, w5)
                          else (let w6 = snd (collect_waiting_process e ret DIBBLER_CLIENT_TERMINATE_TIMEOUT w5)
                                in Some (get_process_pid e DIBBLER_CLIENT (Some cmd_args) True w6))))))"

definition send_dhcpv6_renew :: "env \<Rightarrow> int \<Rightarrow> world \<Rightarrow> int \<times> world" where
  "send_dhcpv6_renew e pid w = (0, snd (signal_process e pid SIGUSR2 w))"

definition stop_dhcpv6_client :: "env \<Rightarrow> int \<Rightarrow> world \<Rightarrow> int \<times> world" where
  "stop_dhcpv6_client e pid w =
     (if pid \<le> 0 then (FAILURE, w)
      else
        (let (r, w1) = signal_process e pid SIGTERM w
         in if r \<noteq> RETURN_OK then (FAILURE, w1)
            else
              (let (gone, w2) = wait_for_dibbler_exit e pid DIBBLER_CLIENT_TERMINATE_TIMEOUT w1
               in if gone then (SUCCESS, w2)
                  else
                    (let (r2, w3) = signal_process e pid SIGKILL w2
                     in if r2 \<noteq> RETURN_OK then (FAILURE, w3)
                        else (let (gone2, w4) = wait_for_dibbler_exit e pid 1000 w3
                              in (if gone2 then SUCCESS else FAILURE, w4))))))"

definition send_dhcpv6_release :: "env \<Rightarrow> int \<Rightarrow> world \<Rightarrow> int \<times> world" where
  "send_dhcpv6_release e pid w = (0, snd (stop_dhcpv6_client e pid (act (A_creat ''/tmp/dhcpv6_release'') w)))"

section \<open>Effects\<close>

lemma running_world: "snd (is_dibbler_running e pid w) = act (A_proc_comm pid) w"
  by (simp add: is_dibbler_running_def case_prod_beta Let_def)

lemma wait_exit_quiet: "quiet w0 w \<Longrightarrow> quiet w0 (snd (wait_for_dibbler_exit e pid t w))"
proof (induction t arbitrary: w rule: less_induct)
  case (less t)
  let ?w = "act (A_proc_comm pid) w"
  have q: "quiet w0 ?w" using less.prems by (simp add: quiet_step)
  have "quiet w0 (snd (wait_for_dibbler_exit e pid (t - min DIBBLER_CLIENT_TERMINATE_INTERVAL t) ?w))" if "t \<noteq> 0"
    using that q by (intro less.IH) (auto simp: DIBBLER_CLIENT_TERMINATE_INTERVAL_def)
  then show ?case using q by (subst wait_for_dibbler_exit.simps) (simp add: case_prod_beta running_world)
qed

lemma copy_file_quiet: "quiet w0 w \<Longrightarrow> quiet w0 (snd (copy_file e c s d w))"
  by (simp add: copy_file_def call_def Let_def quiet_step)

lemma config_generator_quiet: "quiet w0 w \<Longrightarrow> quiet w0 (snd (dibbler_client_config_generator e cp i rq sd w))"
  by (simp add: dibbler_client_config_generator_def case_prod_beta Let_def quiet_step copy_file_quiet)

lemma create_dir_quiet: "quiet w0 w \<Longrightarrow> quiet w0 (create_dir_path e d w)"
  by (simp add: create_dir_path_def call_def Let_def quiet_step)

lemma start_exe2_quiet: "quiet w0 w \<Longrightarrow> start_exe2 e x a w = Some (p, w') \<Longrightarrow> quiet w0 w'"
  by (auto simp: start_exe2_def call_def Let_def split: option.splits intro!: quiet_step)

lemma start6_quiet:
  assumes "start_dhcpv6_client e i rq sd w = Some (pid, w')"
  shows "quiet w w'"
proof -
  let ?g = "get_process_pid e DIBBLER_CLIENT (Some i) False (create_dir_path e DIBBLER_TMP_DIR_PATH w)"
  let ?cp = "c_trunc 256 (DIBBLER_DFT_PATH @ i)"
  let ?w4 = "snd (dibbler_client_config_generator e ?cp i rq sd (act (A_mkdir ?cp) (snd ?g)))"
  have g: "quiet w (snd ?g)" by (intro get_process_pid_quiet create_dir_quiet quiet_refl)
  then have w4: "quiet w ?w4" by (intro config_generator_quiet quiet_step) simp_all
  show ?thesis
    using assms g w4
    by (auto simp: start_dhcpv6_client_def case_prod_beta Let_def split: if_splits option.splits
          dest!: arg_cong [where f = snd] intro!: get_process_pid_quiet collect_quiet dest: start_exe2_quiet)
qed

lemma stop6_quiet: "quiet w0 w \<Longrightarrow> quiet w0 (snd (stop_dhcpv6_client e pid w))"
  by (simp add: stop_dhcpv6_client_def case_prod_beta Let_def signal_quiet wait_exit_quiet)

lemma renew6_quiet: "quiet w0 w \<Longrightarrow> quiet w0 (snd (send_dhcpv6_renew e pid w))"
  by (simp add: send_dhcpv6_renew_def signal_quiet)

lemma release6_quiet: "quiet w0 w \<Longrightarrow> quiet w0 (snd (send_dhcpv6_release e pid w))"
  by (simp add: send_dhcpv6_release_def stop6_quiet quiet_step)

end
