(* ===== verification/Dibbler_Spec.thy ===== *)
theory Dibbler_Spec
  imports Dibbler Client_Common_Spec
begin

text \<open>
  Properties of the dibbler driver: stopping a client ends, escalates from
  \<open>SIGTERM\<close> to \<open>SIGKILL\<close> only after the full wait, and reports success only for a
  client that is seen to be gone; the configuration is in place before the
  client starts; and the test for a running client mixes up interfaces whose
  names contain one another.
\<close>

section \<open>Stopping\<close>

text \<open>What the file \<open>comm\<close> shows of a process, as a function of the history.\<close>

definition shown_running :: "env \<Rightarrow> action list \<Rightarrow> bool" where
  "shown_running e tr \<longleftrightarrow> \<not> e_ret e tr < 0 \<and> e_str e tr \<noteq> [] \<and>
     takeWhile (\<lambda>c. c \<noteq> CHR 0x0A) (take 15 (e_str e tr)) = DIBBLER_CLIENT"

definition looks :: "int \<Rightarrow> nat \<Rightarrow> action list" where
  "looks pid n = replicate n (A_proc_comm pid)"

lemma looks_snoc: "looks pid n @ [A_proc_comm pid] = looks pid (Suc n)"
  by (simp add: looks_def replicate_append_same)

lemma kills_looks [simp]: "kills (looks pid n) = []"
  by (induction n) (simp_all add: looks_def)

lemma running_shown: "fst (is_dibbler_running e pid w) = shown_running e (w_trace w @ [A_proc_comm pid])"
  by (simp add: is_dibbler_running_def shown_running_def call_def Let_def)

lemma looks_bound: "500 * n \<le> (t - min 500 t) + 999 \<Longrightarrow> 0 < t \<Longrightarrow> 500 * Suc n \<le> t + (999 :: nat)"
proof (cases "t \<le> 500")
  case True
  assume "500 * n \<le> (t - min 500 t) + 999" "0 < t"
  then have "n \<le> 1" using True by (simp add: min_def)
  then show "500 * Suc n \<le> t + 999" using \<open>0 < t\<close> by simp
qed (simp add: min_def)

lemma wait_exit_looks:
  "\<exists>n. 0 < n \<and> 500 * n \<le> t + 999 \<and>
     w_trace (snd (wait_for_dibbler_exit e pid t w)) = w_trace w @ looks pid n \<and>
     fst (wait_for_dibbler_exit e pid t w) = (\<not> shown_running e (w_trace w @ looks pid n)) \<and>
     (\<forall>k. 0 < k \<longrightarrow> k < n \<longrightarrow> shown_running e (w_trace w @ looks pid k)) \<and>
     (shown_running e (w_trace w @ looks pid n) \<longrightarrow> t + 500 \<le> 500 * n)"
proof (induction t arbitrary: w rule: less_induct)
  case (less t)
  let ?w = "act (A_proc_comm pid) w" and ?t = "t - min DIBBLER_CLIENT_TERMINATE_INTERVAL t"
  have one: "looks pid 1 = [A_proc_comm pid]" by (simp add: looks_def)
  have cons: "[A_proc_comm pid] @ looks pid k = looks pid (Suc k)" for k by (simp add: looks_def)
  show ?case
  proof (cases "shown_running e (w_trace w @ [A_proc_comm pid]) \<and> t \<noteq> 0")
    case False
    then have "snd (wait_for_dibbler_exit e pid t w) = ?w \<and>
        fst (wait_for_dibbler_exit e pid t w) = (\<not> shown_running e (w_trace w @ [A_proc_comm pid]))"
      by (subst (1 2) wait_for_dibbler_exit.simps) (auto simp: case_prod_beta running_world running_shown)
    then show ?thesis using one using False by (intro exI [of _ 1]) auto
  next
    case True
    then obtain n where n: "0 < n" "500 * n \<le> ?t + 999" "w_trace (snd (wait_for_dibbler_exit e pid ?t ?w)) = w_trace ?w @ looks pid n"
        "fst (wait_for_dibbler_exit e pid ?t ?w) = (\<not> shown_running e (w_trace ?w @ looks pid n))"
        "\<forall>k. 0 < k \<longrightarrow> k < n \<longrightarrow> shown_running e (w_trace ?w @ looks pid k)"
        "shown_running e (w_trace ?w @ looks pid n) \<longrightarrow> ?t + 500 \<le> 500 * n"
      using less.IH [of ?t ?w] by (auto simp: DIBBLER_CLIENT_TERMINATE_INTERVAL_def)
    have l: "wait_for_dibbler_exit e pid t w = wait_for_dibbler_exit e pid ?t ?w"
      using True by (subst wait_for_dibbler_exit.simps) (simp add: case_prod_beta running_world running_shown)
    have "500 * Suc n \<le> t + 999" using n(2) True by (intro looks_bound) (simp_all add: DIBBLER_CLIENT_TERMINATE_INTERVAL_def)
    moreover have "shown_running e (w_trace w @ looks pid k)" if k: "0 < k" "k < Suc n" for k
    proof (cases "k = 1")
      case False
      then obtain j where j: "k = Suc j" "0 < j" using k(1) by (cases k) auto
      then have "shown_running e (w_trace ?w @ looks pid j)" using k(2) n(5) by simp
      then show ?thesis using j(1) cons [of j] by simp
    qed (use True one in simp)
    moreover have "t \<le> ?t + 500" by (simp add: DIBBLER_CLIENT_TERMINATE_INTERVAL_def)
    moreover have "shown_running e (w_trace ?w @ looks pid n) \<longrightarrow> t + 500 \<le> 500 * Suc n"
      using n(6) \<open>t \<le> ?t + 500\<close> by auto
    ultimately show ?thesis using n(1,3,4) l cons [of n] by (intro exI [of _ "Suc n"]) simp
  qed
qed

lemma signal_dibbler:
  "0 < pid \<Longrightarrow> 0 \<le> s \<Longrightarrow>
   signal_process e pid s u = (if e_ret e (w_trace u @ [A_kill pid s]) < 0 then FAILURE else SUCCESS, act (A_kill pid s) u)"
  by (simp add: signal_process_def call_def Let_def)

lemma last_look: "0 < n \<Longrightarrow> last (tr @ looks pid n) = A_proc_comm pid"
  by (simp add: looks_def)

text \<open>The last resort: a process that is still there gets \<open>SIGKILL\<close> and is looked at up to three more times.\<close>

lemma kill_phase:
  assumes "0 < pid" "(let (r2, w3) = signal_process e pid SIGKILL w2
     in if r2 \<noteq> RETURN_OK then (FAILURE, w3)
        else (let (gone2, w4) = wait_for_dibbler_exit e pid 1000 w3 in (if gone2 then SUCCESS else FAILURE, w4))) = (r, w')"
  shows "\<exists>m \<le> 3. w_trace w' = w_trace w2 @ [A_kill pid SIGKILL] @ looks pid m \<and>
    (r = SUCCESS \<longleftrightarrow> last (w_trace w') = A_proc_comm pid \<and> \<not> shown_running e (w_trace w'))"
proof (cases "e_ret e (w_trace w2 @ [A_kill pid SIGKILL]) < 0")
  case True
  then have "r = FAILURE" "w' = act (A_kill pid SIGKILL) w2"
    using assms(2) signal_dibbler [OF assms(1), of SIGKILL e w2] by (simp_all add: SIGKILL_def RETURN_OK_def FAILURE_def)
  then show ?thesis by (intro exI [of _ 0]) (simp add: looks_def SUCCESS_def FAILURE_def)
next
  case False
  let ?w3 = "act (A_kill pid SIGKILL) w2"
  obtain m where m: "0 < m" "500 * m \<le> 1000 + 999" "w_trace (snd (wait_for_dibbler_exit e pid 1000 ?w3)) = w_trace ?w3 @ looks pid m"
      "fst (wait_for_dibbler_exit e pid 1000 ?w3) = (\<not> shown_running e (w_trace ?w3 @ looks pid m))"
    using wait_exit_looks [of 1000 e pid ?w3] by blast
  have "r = (if fst (wait_for_dibbler_exit e pid 1000 ?w3) then SUCCESS else FAILURE)" "w' = snd (wait_for_dibbler_exit e pid 1000 ?w3)"
    using assms(2) False signal_dibbler [OF assms(1), of SIGKILL e w2]
    by (auto simp: SIGKILL_def RETURN_OK_def SUCCESS_def case_prod_beta Let_def)
  then show ?thesis
    using m last_look [OF m(1), of "w_trace ?w3" pid] by (intro exI [of _ m]) (auto simp: SUCCESS_def FAILURE_def)
qed

text \<open>
  Claim C39. Stopping a dibbler client ends and tells the truth: for a positive id
  \<open>SIGTERM\<close> is sent, then the process is looked at up to 21 times; \<open>SIGKILL\<close> follows
  only when it was still there each time, with up to 3 more looks. \<open>SUCCESS\<close> is
  reported exactly when the last look showed that the client is gone, and no
  other signal is sent.
\<close>

theorem dibbler_stop:
  assumes "0 < pid" and "stop_dhcpv6_client e pid w = (r, w')"
  shows "\<exists>n m. n \<le> 21 \<and> m \<le> 3 \<and>
     new_actions w w' =
       [A_kill pid SIGTERM] @ looks pid n @ (if n = 21 \<and> shown_running e (w_trace w @ [A_kill pid SIGTERM] @ looks pid n)
                                              then [A_kill pid SIGKILL] @ looks pid m else []) \<and>
     (r = SUCCESS \<longleftrightarrow> last (w_trace w') = A_proc_comm pid \<and> \<not> shown_running e (w_trace w'))"
proof -
  let ?w1 = "act (A_kill pid SIGTERM) w" and ?T = "DIBBLER_CLIENT_TERMINATE_TIMEOUT"
  note trm = signal_dibbler [OF assms(1), of SIGTERM e w]
  show ?thesis
  proof (cases "e_ret e (w_trace w @ [A_kill pid SIGTERM]) < 0")
    case True
    then have "r = FAILURE" "w' = ?w1"
      using assms trm by (simp_all add: stop_dhcpv6_client_def RETURN_OK_def SIGTERM_def FAILURE_def)
    then show ?thesis by (intro exI [of _ 0]) (simp add: looks_def SUCCESS_def FAILURE_def)
  next
    case sent: False
    obtain n where n: "0 < n" "500 * n \<le> ?T + 999"
        "w_trace (snd (wait_for_dibbler_exit e pid ?T ?w1)) = w_trace ?w1 @ looks pid n"
        "fst (wait_for_dibbler_exit e pid ?T ?w1) = (\<not> shown_running e (w_trace ?w1 @ looks pid n))"
        "shown_running e (w_trace ?w1 @ looks pid n) \<longrightarrow> ?T + 500 \<le> 500 * n"
      using wait_exit_looks [of ?T e pid ?w1] by blast
    have n21: "n \<le> 21" using n(2) by (simp add: DIBBLER_CLIENT_TERMINATE_TIMEOUT_def)
    let ?w2 = "snd (wait_for_dibbler_exit e pid ?T ?w1)"
    show ?thesis
    proof (cases "shown_running e (w_trace ?w1 @ looks pid n)")
      case gone: False
      then have "r = SUCCESS" "w' = ?w2"
        using assms trm sent n(4) by (simp_all add: stop_dhcpv6_client_def RETURN_OK_def SIGTERM_def SUCCESS_def case_prod_beta)
      then show ?thesis
        using n(3) gone last_look [OF n(1), of "w_trace ?w1" pid] n21 by (intro exI [of _ n] exI [of _ 0]) (simp add: new_actions_def)
    next
      case still: True
      then have n21': "n = 21" using n(5) n21 by (simp add: DIBBLER_CLIENT_TERMINATE_TIMEOUT_def)
      have "(let (r2, w3) = signal_process e pid SIGKILL ?w2
         in if r2 \<noteq> RETURN_OK then (FAILURE, w3)
            else (let (gone2, w4) = wait_for_dibbler_exit e pid 1000 w3 in (if gone2 then SUCCESS else FAILURE, w4))) = (r, w')"
        using assms trm sent n(4) still by (simp add: stop_dhcpv6_client_def RETURN_OK_def SIGTERM_def SUCCESS_def case_prod_beta)
      from kill_phase [OF assms(1) this] obtain m where "m \<le> 3" "w_trace w' = w_trace ?w2 @ [A_kill pid SIGKILL] @ looks pid m"
        "r = SUCCESS \<longleftrightarrow> last (w_trace w') = A_proc_comm pid \<and> \<not> shown_running e (w_trace w')" by blast
      then show ?thesis using n(3) still n21' by (intro exI [of _ n] exI [of _ m]) (simp add: new_actions_def)
    qed
  qed
qed

theorem dibbler_stop_witness:
  "\<exists>n m. n \<le> 21 \<and> m \<le> 3 \<and> new_actions world_init (snd (stop_dhcpv6_client env0 4712 world_init)) =
     [A_kill 4712 SIGTERM] @ looks 4712 n @
       (if n = 21 \<and> shown_running env0 (w_trace world_init @ [A_kill 4712 SIGTERM] @ looks 4712 n) then [A_kill 4712 SIGKILL] @ looks 4712 m else [])"
proof -
  have "(0::int) < 4712" by simp
  from dibbler_stop [OF this surjective_pairing, where e = env0 and w = world_init] show ?thesis by blast
qed

section \<open>Starting\<close>

text \<open>
  The configuration is complete before the client runs: where no client
  runs yet and the files can be written, the last things done before the fork of
  dibbler are to copy the configuration text of the option lists into the
  directory of the interface and to make it the default, and the client is
  started with that directory.
\<close>

lemma dibbler_config_first:
  assumes "length ifname \<le> 100" and "CHR '' '' \<notin> set ifname"
    and "fst (get_process_pid e DIBBLER_CLIENT (Some ifname) False (create_dir_path e DIBBLER_TMP_DIR_PATH w)) \<le> 0"
    and "\<forall>tr. e_ret e tr = (case last tr of A_fork p a \<Rightarrow> 4711 | _ \<Rightarrow> 0)"
  shows "\<exists>r w' pre post. start_dhcpv6_client e ifname rq sd w = Some (r, w') \<and>
     new_actions w w' = pre @
       [A_fputs (''/etc/dibbler/'' @ ifname @ ''/client.conf'') (dibbler_config ifname rq sd),
        A_access DIBBLER_DEFAULT_CONFIG_FILE,
        A_custom ''prctl'' ''PR_SET_CHILD_SUBREAPER'', A_custom ''sigaction'' ''SIGCHLD'',
        A_fork DIBBLER_CLIENT_PATH [DIBBLER_CLIENT, ''start'', ''-w'', ''/etc/dibbler/'' @ ifname]] @ post \<and>
     \<not> (\<exists>p a. A_fork p a \<in> set pre)"
proof -
  let ?g = "get_process_pid e DIBBLER_CLIENT (Some ifname) False (create_dir_path e DIBBLER_TMP_DIR_PATH w)"
  let ?cp = "''/etc/dibbler/'' @ ifname" and ?t = "dibbler_config ifname rq sd"
  let ?fp = "''/etc/dibbler/'' @ ifname @ ''/client.conf''"
  let ?args = "''start -w /etc/dibbler/'' @ ifname"
  have ret: "e_ret e (tr @ [a]) = 0" if "\<not> (\<exists>p x. a = A_fork p x)" for tr a using assms(4) that by (cases a) auto
  define mid where "mid = [A_mkdir ?cp, A_fopen ''/etc/dibbler/radvd.conf.old'' ''a'', A_fopen ''/etc/dibbler/radvd.conf'' ''a'',
    A_fopen DIBBLER_TMP_CONFIG_FILE ''w+'', A_fputs DIBBLER_TMP_CONFIG_FILE ?t, A_fopen ?fp ''wb'', A_fopen DIBBLER_TMP_CONFIG_FILE ''r'']"
  have trunc: "c_trunc 256 (DIBBLER_DFT_PATH @ ifname) = ?cp" "c_trunc 128 (?cp @ ''/client.conf'') = ?fp" "c_trunc 256 (''start -w '' @ ?cp) = ?args"
    using assms(1) by (simp_all add: c_trunc_id DIBBLER_DFT_PATH_def)
  obtain w4 where w4: "dibbler_client_config_generator e ?cp ifname rq sd (act (A_mkdir ?cp) (snd ?g)) = (SUCCESS, w4)"
      "w_trace w4 = w_trace (snd ?g) @ mid @ [A_fputs ?fp ?t, A_access DIBBLER_DEFAULT_CONFIG_FILE]"
    using trunc(2) ret by (simp add: dibbler_client_config_generator_def copy_file_def call_def Let_def mid_def)
  have words: "strtok '' '' ?args = [''start'', ''-w'', ?cp]"
    using assms(2) strtok_from_word [of ifname "'' ''" "rev ''/etc/dibbler/''" "[]"] by (simp add: strtok_def)
  have n: "cmd_name DIBBLER_CLIENT_PATH = DIBBLER_CLIENT" by code_simp
  let ?last = "[A_custom ''prctl'' ''PR_SET_CHILD_SUBREAPER'', A_custom ''sigaction'' ''SIGCHLD'',
    A_fork DIBBLER_CLIENT_PATH [DIBBLER_CLIENT, ''start'', ''-w'', ?cp]]"
  obtain r5 w5 where w5: "start_exe2 e DIBBLER_CLIENT_PATH ?args w4 = Some (r5, w5)" "r5 = 4711" "w_trace w5 = w_trace w4 @ ?last"
    using start_exe2_Some [of e DIBBLER_CLIENT_PATH ?args w4] words n assms(4) by auto
  let ?w6 = "snd (collect_waiting_process e r5 DIBBLER_CLIENT_TERMINATE_TIMEOUT w5)"
  let ?r = "get_process_pid e DIBBLER_CLIENT (Some ?args) True ?w6"
  have st: "start_dhcpv6_client e ifname rq sd w = Some ?r"
    using assms(3) w4(1) w5(1,2) trunc
    by (simp add: start_dhcpv6_client_def case_prod_beta Let_def SUCCESS_def)
  have x: "extends w5 (snd ?r)" by (intro quiet_extends get_process_pid_quiet collect_quiet quiet_refl)
  obtain cr where cr: "w_trace (snd ?g) = w_trace w @ cr" "\<not> (\<exists>p a. A_fork p a \<in> set cr)"
    using ret [of "A_access DIBBLER_TMP_DIR_PATH" "w_trace w"]
    by (auto simp: get_process_pid_def check_proc_world create_dir_path_def call_def Let_def)
  have "new_actions w (snd ?r) = (cr @ mid) @ [A_fputs ?fp ?t, A_access DIBBLER_DEFAULT_CONFIG_FILE] @ ?last @ new_actions w5 (snd ?r)"
    by (rule new_actionsI, subst extends_trace [OF x]) (simp only: w5(3) w4(2) cr(1) append_assoc)
  moreover have "\<not> (\<exists>p a. A_fork p a \<in> set (cr @ mid))" using cr(2) by (auto simp: mid_def)
  ultimately show ?thesis
    using st by (intro exI [of _ "fst ?r"] exI [of _ "snd ?r"] exI [of _ "cr @ mid"] exI [of _ "new_actions w5 (snd ?r)"]) simp
qed

definition env_fork :: env where
  "env_fork = env0\<lparr>e_ret := \<lambda>tr. case last tr of A_fork p a \<Rightarrow> 4711 | _ \<Rightarrow> 0\<rparr>"

lemma dibbler_config_first_witness:
  "\<exists>r w' pre post. start_dhcpv6_client env_fork ''erouter0'' [] [] world_init = Some (r, w') \<and>
     new_actions world_init w' = pre @
       [A_fputs ''/etc/dibbler/erouter0/client.conf'' (dibbler_config ''erouter0'' [] []),
        A_access DIBBLER_DEFAULT_CONFIG_FILE,
        A_custom ''prctl'' ''PR_SET_CHILD_SUBREAPER'', A_custom ''sigaction'' ''SIGCHLD'',
        A_fork DIBBLER_CLIENT_PATH [DIBBLER_CLIENT, ''start'', ''-w'', ''/etc/dibbler/erouter0'']] @ post"
proof -
  have l: "length ''erouter0'' \<le> 100" and c: "CHR '' '' \<notin> set ''erouter0''" by simp_all
  have p: "fst (get_process_pid env_fork DIBBLER_CLIENT (Some ''erouter0'') False (create_dir_path env_fork DIBBLER_TMP_DIR_PATH world_init)) \<le> 0"
    by (simp add: get_process_pid_def check_proc_entry_for_pid_def call_def Let_def env_fork_def env0_def)
  have r: "\<forall>tr. e_ret env_fork tr = (case last tr of A_fork p a \<Rightarrow> 4711 | _ \<Rightarrow> 0)" by (simp add: env_fork_def)
  from dibbler_config_first [OF l c p r, of "[]" "[]"] show ?thesis by auto
qed

section \<open>Interfaces whose names contain one another\<close>

text \<open>
  The test whether a client runs already looks for the interface name
  anywhere in a command line: while a dibbler client runs for \<open>eth10\<close>, starting
  one for \<open>eth1\<close> returns the id of a running client, writes no configuration
  and starts nothing, whatever else \<open>/proc\<close> holds.
\<close>

lemma dibbler_name_confusion:
  assumes "w1 = create_dir_path e DIBBLER_TMP_DIR_PATH w" and "tr = w_trace w1 @ [A_proc_lookup DIBBLER_CLIENT ''eth1'']"
    and "0 \<le> e_ret e tr" and "pids_ok (e_proc e tr)" and "d \<in> set (e_proc e tr)" and "pid_entry d"
    and "runs_as d [DIBBLER_CLIENT, ''start'', ''-w'', ''/etc/dibbler/eth10'']"
  shows "\<exists>pid. 0 < pid \<and> start_dhcpv6_client e ''eth1'' rq sd w = Some (pid, act (A_proc_lookup DIBBLER_CLIENT ''eth1'') w1)"
proof -
  let ?cl = "cmdline_of [DIBBLER_CLIENT, ''start'', ''-w'', ''/etc/dibbler/eth10'']"
  have f: "find_strstr (replace_null_with_space (take 1023 ?cl) @ replicate (1024 - length (take 1023 ?cl)) (CHR 0x00)) ''eth1'' = SUCCESS"
    by code_simp
  have "0 < proc_loop DIBBLER_CLIENT (Some ''eth1'') (CHR 0x00) (e_proc e tr)"
    using assms(4-7) f
    by (intro proc_loop_found [where d = d and cl = ?cl]) (auto simp: runs_as_def DIBBLER_CLIENT_def is_space_def cmdline_of_def)
  then show ?thesis
    using assms(1-3)
    by (simp add: start_dhcpv6_client_def get_process_pid_def check_proc_entry_for_pid_def args_text_def call_def Let_def)
qed

definition proc6 :: proc_entry where
  "proc6 = \<lparr>pe_name = ''920'', pe_isdir = True, pe_stat = Some ''920 (dibbler-client) S 1'',
     pe_cmdline = Some (cmdline_of [DIBBLER_CLIENT, ''start'', ''-w'', ''/etc/dibbler/eth10'']), pe_comm = Some ''dibbler-client''\<rparr>"

theorem dibbler_name_confusion_witness:
  "\<exists>pid. 0 < pid \<and> start_dhcpv6_client (env0\<lparr>e_proc := \<lambda>_. [proc6]\<rparr>) ''eth1'' [] [] world_init =
     Some (pid, act (A_proc_lookup DIBBLER_CLIENT ''eth1'') (create_dir_path (env0\<lparr>e_proc := \<lambda>_. [proc6]\<rparr>) DIBBLER_TMP_DIR_PATH world_init))"
proof -
  have "pids_ok [proc6]" "pid_entry proc6" by code_simp+
  moreover have "runs_as proc6 [DIBBLER_CLIENT, ''start'', ''-w'', ''/etc/dibbler/eth10'']"
    by (simp add: runs_as_def proc6_def DIBBLER_CLIENT_def)
  ultimately show ?thesis by (intro dibbler_name_confusion [OF refl refl, where d = proc6]) (simp_all add: env0_def)
qed

end
