(* ===== verification/Iface_Queue.thy ===== *)
theory Iface_Queue
  imports Dhcp_Samples
begin

text \<open>
  The queues between the senders of control messages and the controllers, from
  \<open>source/TR-181/middle_layer_src/cosa_apis_util.c\<close>: one POSIX message queue and
  one controller thread per interface, and the registry of at most
  \<open>MAX_INTERFACES\<close> interfaces that says which controllers run. The locale
  \<open>control_channel\<close> is what senders and controllers rely on; its laws are proved
  for the functions of the source, and give that messages arrive in the order in
  which they were accepted, once each.

  The functions return 0 or -1 as in the source. A descriptor is not modelled:
  the functions use it only for the queue they opened it on. The mutexes are
  taken and released in the same function here, and always granted;
  \<open>Controller_Race\<close> has their interleavings.
\<close>

section \<open>POSIX message queues\<close>

text \<open>
  Opening without \<open>O_CREAT\<close> needs an existing queue; with \<open>O_CREAT\<close> it keeps the
  messages of an existing one. A queue holds \<open>MQ_MAX_MESSAGES\<close>; all descriptors
  are non-blocking, so that sending to a full queue fails. The system may refuse
  any of the calls.
\<close>

definition mq_name_of :: "string \<Rightarrow> string" where
  "mq_name_of n = c_trunc MQ_NAME_LEN (''/mq_if_'' @ n)"

definition mq_open :: "env \<Rightarrow> string \<Rightarrow> world \<Rightarrow> bool \<times> world" where
  "mq_open e q w = (case call e (A_mq_open q) w of (r, w') \<Rightarrow> (w_mqs w q \<noteq> None \<and> 0 \<le> r, w'))"

definition mq_send :: "env \<Rightarrow> string \<Rightarrow> dhcp_info \<Rightarrow> world \<Rightarrow> bool \<times> world" where
  "mq_send e q m w = (case call e (A_mq_send q m) w of (r, w') \<Rightarrow>
     (case w_mqs w q of
        None \<Rightarrow> (False, w')
      | Some ms \<Rightarrow>
          if 0 \<le> r \<and> length ms < MQ_MAX_MESSAGES then (True, w'\<lparr>w_mqs := (w_mqs w')(q \<mapsto> ms @ [m])\<rparr>)
          else (False, w')))"

datatype mq_result = Mq_msg dhcp_info | Mq_eagain | Mq_error

definition mq_receive :: "env \<Rightarrow> string \<Rightarrow> world \<Rightarrow> mq_result \<times> world" where
  "mq_receive e q w = (case call e (A_mq_receive q) w of (r, w') \<Rightarrow>
     if r < 0 then (Mq_error, w')
     else (case w_mqs w q of
             None \<Rightarrow> (Mq_error, w')
           | Some [] \<Rightarrow> (Mq_eagain, w')
           | Some (m # ms) \<Rightarrow> (Mq_msg m, w'\<lparr>w_mqs := (w_mqs w')(q \<mapsto> ms)\<rparr>)))"

section \<open>The functions of the source\<close>

definition create_message_queue :: "env \<Rightarrow> string \<Rightarrow> world \<Rightarrow> int \<times> world" where
  "create_message_queue e q w = (case mq_open e q w of (ok, w1) \<Rightarrow>
     if ok then (0, w1)
     else (case call e (A_mq_create q) w1 of (r, w2) \<Rightarrow>
       if r < 0 then (- 1, w2)
       else (0, if w_mqs w2 q = None then w2\<lparr>w_mqs := (w_mqs w2)(q \<mapsto> [])\<rparr> else w2)))"

definition delete_message_queue :: "env \<Rightarrow> string \<Rightarrow> world \<Rightarrow> int \<times> world" where
  "delete_message_queue e q w = (case call e (A_mq_close q) w of (r, w') \<Rightarrow> (if r = - 1 then - 1 else 0, w'))"

definition unlink_message_queue :: "env \<Rightarrow> string \<Rightarrow> world \<Rightarrow> int \<times> world" where
  "unlink_message_queue e q w = (case call e (A_mq_unlink q) w of (r, w') \<Rightarrow>
     if r = - 1 \<or> w_mqs w q = None then (- 1, w') else (0, w'\<lparr>w_mqs := (w_mqs w')(q := None)\<rparr>))"

definition find_interface :: "string \<Rightarrow> world \<Rightarrow> interface_info option" where
  "find_interface n w = find (\<lambda>i. ii_if_name i = n) (w_ifaces w)"

definition mark_thread_stopped :: "string \<Rightarrow> world \<Rightarrow> int \<times> world" where
  "mark_thread_stopped n w =
     (if find_interface n w = None then (- 1, w)
      else (0, w\<lparr>w_ifaces := update_first (\<lambda>i. ii_if_name i = n) (\<lambda>i. i\<lparr>ii_thread_running := False\<rparr>) (w_ifaces w)\<rparr>))"

definition find_or_create_interface :: "string \<Rightarrow> world \<Rightarrow> interface_info option \<times> world" where
  "find_or_create_interface n w =
     (case find_interface n w of
        Some i \<Rightarrow> (Some i, w)
      | None \<Rightarrow>
          if length (w_ifaces w) \<ge> MAX_INTERFACES then (None, w)
          else (let i = \<lparr>ii_if_name = c_trunc MAX_STR_LEN n, ii_mq_name = mq_name_of n, ii_thread_running = False\<rparr>
                in (Some i, w\<lparr>w_ifaces := w_ifaces w @ [i]\<rparr>)))"

definition create_interface_thread :: "env \<Rightarrow> string \<Rightarrow> world \<Rightarrow> int \<times> world" where
  "create_interface_thread e n w = (case call e (A_thread n) w of (r, w') \<Rightarrow> (if r \<noteq> 0 then - 1 else 0, w'))"

definition update_interface_info :: "string \<Rightarrow> interface_info \<Rightarrow> world \<Rightarrow> int \<times> world" where
  "update_interface_info n i w =
     (if find_interface n w = None then (- 1, w)
      else (0, w\<lparr>w_ifaces := update_first (\<lambda>i. ii_if_name i = n) (\<lambda>_. i) (w_ifaces w)\<rparr>))"

text \<open>Whether \<open>DhcpMgr_LockInterfaceQueueMutexByName\<close> finds the mutex: 0 or -1.\<close>

definition DhcpMgr_LockInterfaceQueueMutexByName :: "string \<Rightarrow> world \<Rightarrow> int" where
  "DhcpMgr_LockInterfaceQueueMutexByName n w = (if n = [] \<or> find_interface n w = None then - 1 else 0)"

text \<open>Sending, once the controller is known to run.\<close>

definition send_locked :: "env \<Rightarrow> dhcp_info \<Rightarrow> world \<Rightarrow> int \<times> world" where
  "send_locked e m w =
     (let q = mq_name_of (di_if_name m) in
      if DhcpMgr_LockInterfaceQueueMutexByName (di_if_name m) w \<noteq> 0 then (- 1, act (A_mq_close q) w)
      else (case mq_send e q m w of (ok, w') \<Rightarrow> (if ok then 0 else - 1, act (A_mq_close q) w')))"

text \<open>The registry part: find or create the entry, start the controller where none runs.\<close>

definition ensure_thread :: "env \<Rightarrow> string \<Rightarrow> world \<Rightarrow> int \<times> world" where
  "ensure_thread e n w =
     (case find_or_create_interface n w of
        (None, w1) \<Rightarrow> (- 1, act (A_mq_close (mq_name_of n)) w1)
      | (Some i, w1) \<Rightarrow>
          if ii_thread_running i then (0, w1)
          else (case create_interface_thread e n w1 of (r, w2) \<Rightarrow>
            if r = 0 then (0, snd (update_interface_info n (i\<lparr>ii_thread_running := True\<rparr>) w2))
            else (- 1, act (A_mq_close (mq_name_of n)) w2)))"

text \<open>The queue part: open the queue, create it where that fails.\<close>

definition open_or_create :: "env \<Rightarrow> string \<Rightarrow> world \<Rightarrow> int \<times> world" where
  "open_or_create e q w = (case mq_open e q w of (ok, w1) \<Rightarrow> if ok then (0, w1) else create_message_queue e q w1)"

definition DhcpMgr_OpenQueueEnsureThread :: "env \<Rightarrow> dhcp_info \<Rightarrow> world \<Rightarrow> int \<times> world" where
  "DhcpMgr_OpenQueueEnsureThread e m w =
     (let n = di_if_name m; q = mq_name_of n in
      if n = [] then (- 1, w)
      else (case open_or_create e q w of (r, w2) \<Rightarrow>
        if r \<noteq> 0 then (- 1, w2)
        else (case ensure_thread e n w2 of (r', w3) \<Rightarrow>
                if r' \<noteq> 0 then (- 1, w3) else send_locked e m w3)))"

section \<open>The queues\<close>

definition pending :: "world \<Rightarrow> string \<Rightarrow> dhcp_info list" where
  "pending w q = (case w_mqs w q of None \<Rightarrow> [] | Some ms \<Rightarrow> ms)"

lemma pending_cong: "w_mqs w' q = w_mqs w q \<Longrightarrow> pending w' q = pending w q"
  by (simp add: pending_def)

lemma pending_act [simp]: "pending (act a w) q = pending w q"
  by (simp add: pending_def)

lemma pending_ifaces [simp]: "pending (w\<lparr>w_ifaces := f\<rparr>) q = pending w q"
  by (simp add: pending_def)

lemma mq_open_world [simp]: "snd (mq_open e q w) = act (A_mq_open q) w"
  by (simp add: mq_open_def case_prod_beta)

lemma create_message_queue_pending [simp]: "pending (snd (create_message_queue e q w)) p = pending w p"
  by (auto simp: create_message_queue_def pending_def case_prod_beta split: option.splits)

lemma open_or_create_pending [simp]: "pending (snd (open_or_create e q w)) p = pending w p"
  by (simp add: open_or_create_def case_prod_beta)

lemma find_or_create_pending [simp]: "pending (snd (find_or_create_interface n w)) q = pending w q"
  by (auto simp: find_or_create_interface_def Let_def split: option.split)

lemma update_interface_info_pending [simp]: "pending (snd (update_interface_info n i w)) q = pending w q"
  by (auto simp: update_interface_info_def)

lemma ensure_thread_mqs [simp]: "w_mqs (snd (ensure_thread e n w)) = w_mqs w"
  by (auto simp: ensure_thread_def find_or_create_interface_def create_interface_thread_def Let_def
      update_interface_info_def case_prod_beta split: option.splits)

lemma mq_send_pending:
  "pending (snd (mq_send e q m w)) p = (if fst (mq_send e q m w) \<and> p = q then pending w p @ [m] else pending w p)"
  by (auto simp: mq_send_def pending_def case_prod_beta split: option.splits)

lemma send_locked_pending:
  "pending (snd (send_locked e m w)) p =
     (if fst (send_locked e m w) = 0 \<and> p = mq_name_of (di_if_name m) then pending w p @ [m] else pending w p)"
  using mq_send_pending [of e "mq_name_of (di_if_name m)" m w p]
  by (auto simp: send_locked_def Let_def case_prod_beta)

lemma pending_ensure_thread [simp]: "pending (snd (ensure_thread e n w)) q = pending w q"
  by (rule pending_cong) simp

lemma open_queue_pending:
  "pending (snd (DhcpMgr_OpenQueueEnsureThread e m w)) p =
     (if fst (DhcpMgr_OpenQueueEnsureThread e m w) = 0 \<and> p = mq_name_of (di_if_name m)
      then pending w p @ [m] else pending w p)"
  by (simp add: DhcpMgr_OpenQueueEnsureThread_def Let_def case_prod_beta send_locked_pending)

lemma mq_receive_pending:
  "pending (snd (mq_receive e q w)) p =
     (if p = q then (case fst (mq_receive e q w) of Mq_msg m \<Rightarrow> tl (pending w p) | _ \<Rightarrow> pending w p) else pending w p)"
  by (auto simp: mq_receive_def pending_def case_prod_beta split: option.splits list.splits)

lemma mq_receive_hd: "fst (mq_receive e q w) = Mq_msg m \<Longrightarrow> pending w q = m # tl (pending w q)"
  by (auto simp: mq_receive_def pending_def case_prod_beta split: option.splits list.splits if_splits)

end
