(* ===== verification/Controller_Race.thy ===== *)
theory Controller_Race
  imports Iface_Queue
begin

text \<open>
  The threads around one interface: any number of senders in
  \<open>DhcpMgr_OpenQueueEnsureThread\<close> (\<open>cosa_apis_util.c\<close>) and the controllers they
  start, \<open>DhcpMgr_MainController\<close> (\<open>dhcpmgr_controller.c\<close>), interleaved at the
  grain of the two mutexes, the registry entry and the message queue. The entry is
  in the registry; what is not observed here (names, descriptors, what a handler
  does with a message) is in \<open>Iface_Queue\<close> and \<open>Controller\<close>.

  There is never more than one controller that receives. But a controller that has
  found its queue empty for the last time does not look again once it holds the
  mutex, and a sender that starts a controller writes the whole entry back, with
  the mutex in it: there are runs that leave a message without a controller, and
  runs that leave the mutex locked by nobody.
\<close>

section \<open>Threads\<close>

text \<open>
  A sender: before the global mutex, in the critical section (before looking up
  the entry; with its copy, that is the flag and the state of the queue mutex;
  with a controller started), before and after the lookup of
  \<open>DhcpMgr_LockInterfaceQueueMutexByName\<close>, with the queue mutex, before and after
  the lookup of \<open>DhcpMgr_UnlockInterfaceQueueMutexByName\<close>, returned.
\<close>

datatype snd_pc =
    S_start dhcp_info | S_reg dhcp_info | S_copy dhcp_info bool bool | S_made dhcp_info bool
  | S_out dhcp_info | S_wait dhcp_info | S_send dhcp_info | S_sent bool | S_rel bool | S_done bool

text \<open>
  A controller: created, could not open its queue, in its loop with a retry
  counter, out of the loop before and after the lookup of the queue mutex, with the
  queue mutex, marked as stopped, before unlocking it, ended.
\<close>

datatype ctl_pc = C_new | C_nofd | C_run nat | C_quit | C_wait | C_exit | C_marked | C_rel | C_gone

record race =
  r_queue :: "dhcp_info list"
  r_running :: bool
  r_qlocked :: bool
  r_global :: bool
  r_senders :: "snd_pc list"
  r_ctls :: "ctl_pc list"
  r_sent :: "dhcp_info list"
  r_handled :: "dhcp_info list"

text \<open>An action is a step of a sender or of a controller; the flag says whether a call that may fail succeeds.\<close>

datatype race_act = Snd nat bool | Ctl nat bool

definition snd_pc_upd :: "nat \<Rightarrow> snd_pc \<Rightarrow> race \<Rightarrow> race" where
  "snd_pc_upd i p s = s\<lparr>r_senders := (r_senders s)[i := p]\<rparr>"

definition ctl_pc_upd :: "nat \<Rightarrow> ctl_pc \<Rightarrow> race \<Rightarrow> race" where
  "ctl_pc_upd i p s = s\<lparr>r_ctls := (r_ctls s)[i := p]\<rparr>"

definition sender_step :: "nat \<Rightarrow> bool \<Rightarrow> race \<Rightarrow> race option" where
  "sender_step i ok s =
     (if i \<ge> length (r_senders s) then None
      else (case r_senders s ! i of
        S_start m \<Rightarrow> if r_global s then None else Some (snd_pc_upd i (S_reg m) (s\<lparr>r_global := True\<rparr>))
      | S_reg m \<Rightarrow> Some (snd_pc_upd i (S_copy m (r_running s) (r_qlocked s)) s)
      | S_copy m running locked \<Rightarrow>
          if running then Some (snd_pc_upd i (S_out m) (s\<lparr>r_global := False\<rparr>))
          else if ok then Some (snd_pc_upd i (S_made m locked) (s\<lparr>r_ctls := r_ctls s @ [C_new]\<rparr>))
          else Some (snd_pc_upd i (S_done False) (s\<lparr>r_global := False\<rparr>))
      | S_made m locked \<Rightarrow> Some (snd_pc_upd i (S_out m) (s\<lparr>r_running := True, r_qlocked := locked, r_global := False\<rparr>))
      | S_out m \<Rightarrow> if r_global s then None else Some (snd_pc_upd i (S_wait m) s)
      | S_wait m \<Rightarrow> if r_qlocked s then None else Some (snd_pc_upd i (S_send m) (s\<lparr>r_qlocked := True\<rparr>))
      | S_send m \<Rightarrow>
          if ok \<and> length (r_queue s) < MQ_MAX_MESSAGES
          then Some (snd_pc_upd i (S_sent True) (s\<lparr>r_queue := r_queue s @ [m], r_sent := r_sent s @ [m]\<rparr>))
          else Some (snd_pc_upd i (S_sent False) s)
      | S_sent r \<Rightarrow> if r_global s then None else Some (snd_pc_upd i (S_rel r) s)
      | S_rel r \<Rightarrow> Some (snd_pc_upd i (S_done r) (s\<lparr>r_qlocked := False\<rparr>))
      | S_done r \<Rightarrow> None))"

definition ctl_step_at :: "nat \<Rightarrow> bool \<Rightarrow> race \<Rightarrow> race option" where
  "ctl_step_at i ok s =
     (if i \<ge> length (r_ctls s) then None
      else (case r_ctls s ! i of
        C_new \<Rightarrow> Some (ctl_pc_upd i (if ok then C_run 0 else C_nofd) s)
      | C_nofd \<Rightarrow> if r_global s then None else Some (ctl_pc_upd i C_gone (s\<lparr>r_running := False\<rparr>))
      | C_run retry \<Rightarrow>
          if \<not> ok then Some (ctl_pc_upd i C_quit s)
          else (case r_queue s of
                  m # ms \<Rightarrow> Some (ctl_pc_upd i (C_run 0) (s\<lparr>r_queue := ms, r_handled := r_handled s @ [m]\<rparr>))
                | [] \<Rightarrow> Some (ctl_pc_upd i (if retry > 20 then C_quit else C_run (Suc retry)) s))
      | C_quit \<Rightarrow> if r_global s then None else Some (ctl_pc_upd i C_wait s)
      | C_wait \<Rightarrow> if r_qlocked s then None else Some (ctl_pc_upd i C_exit (s\<lparr>r_qlocked := True\<rparr>))
      | C_exit \<Rightarrow> if r_global s then None else Some (ctl_pc_upd i C_marked (s\<lparr>r_running := False\<rparr>))
      | C_marked \<Rightarrow> if r_global s then None else Some (ctl_pc_upd i C_rel s)
      | C_rel \<Rightarrow> Some (ctl_pc_upd i C_gone (s\<lparr>r_qlocked := False\<rparr>))
      | C_gone \<Rightarrow> None))"

definition race_step :: "race_act \<Rightarrow> race \<Rightarrow> race option" where
  "race_step a s = (case a of Snd i ok \<Rightarrow> sender_step i ok s | Ctl i ok \<Rightarrow> ctl_step_at i ok s)"

definition race_init :: "dhcp_info list \<Rightarrow> race" where
  "race_init ms = \<lparr>r_queue = [], r_running = False, r_qlocked = False, r_global = False, r_senders = map S_start ms, r_ctls = [],
     r_sent = [], r_handled = []\<rparr>"

inductive race_reach :: "race \<Rightarrow> race \<Rightarrow> bool" where
  reach_refl: "race_reach s s"
| reach_step: "race_reach s t \<Longrightarrow> race_step a t = Some u \<Longrightarrow> race_reach s u"

fun race_run :: "race_act list \<Rightarrow> race \<Rightarrow> race option" where
  "race_run [] s = Some s"
| "race_run (a # as) s = (case race_step a s of None \<Rightarrow> None | Some t \<Rightarrow> race_run as t)"

lemma race_reach_trans: "race_reach t u \<Longrightarrow> race_reach s t \<Longrightarrow> race_reach s u"
  by (induction rule: race_reach.induct) (auto intro: reach_step)

lemma race_run_reach: "race_run as s = Some t \<Longrightarrow> race_reach s t"
proof (induction as arbitrary: s)
  case (Cons a as)
  then obtain u where "race_step a s = Some u" "race_reach u t" by (auto split: option.splits)
  then show ?case by (meson race_reach_trans reach_refl reach_step)
qed (simp add: reach_refl)

lemma race_invariant:
  assumes "race_reach s t" "J s" "\<And>a u v. J u \<Longrightarrow> race_step a u = Some v \<Longrightarrow> J v"
  shows "J t"
  using assms by (induction rule: race_reach.induct) auto

section \<open>At most one receiver\<close>

fun holds_global :: "snd_pc \<Rightarrow> bool" where
  "holds_global (S_reg m) = True" | "holds_global (S_copy m r l) = True" | "holds_global (S_made m l) = True"
| "holds_global _ = False"

fun is_made :: "snd_pc \<Rightarrow> bool" where
  "is_made (S_made m l) = True" | "is_made _ = False"

fun copy_ok :: "bool \<Rightarrow> snd_pc \<Rightarrow> bool" where
  "copy_ok running (S_copy m r l) = (r = running)" | "copy_ok running (S_made m l) = (\<not> running)" | "copy_ok running _ = True"

text \<open>A controller that may still receive, or has received and has not said that it stopped.\<close>

fun ctl_active :: "ctl_pc \<Rightarrow> bool" where
  "ctl_active C_marked = False" | "ctl_active C_rel = False" | "ctl_active C_gone = False" | "ctl_active _ = True"

definition num :: "('a \<Rightarrow> bool) \<Rightarrow> 'a list \<Rightarrow> nat" where
  "num P xs = length (filter P xs)"

lemma num_simps [simp]: "num P [] = 0" "num P (xs @ [x]) = num P xs + of_bool (P x)"
  by (simp_all add: num_def)

lemma num_update: "i < length xs \<Longrightarrow> num P (xs[i := v]) + of_bool (P (xs ! i)) = num P xs + of_bool (P v)"
proof (induction xs arbitrary: i)
  case (Cons x xs)
  then show ?case by (cases i) (fastforce simp: num_def)+
qed simp

lemma num_0: "num P xs = 0 \<longleftrightarrow> (\<forall>x \<in> set xs. \<not> P x)"
  by (simp add: num_def filter_empty_conv)

lemma num_made: "num is_made xs \<le> num holds_global xs"
proof -
  have "holds_global p" if "is_made p" for p using that by (cases p) auto
  then show ?thesis by (induction xs) (auto simp: num_def)
qed

definition race_ok :: "race \<Rightarrow> bool" where
  "race_ok s \<longleftrightarrow> num holds_global (r_senders s) = of_bool (r_global s) \<and>
     num ctl_active (r_ctls s) = of_bool (r_running s) + num is_made (r_senders s) \<and>
     (\<forall>p \<in> set (r_senders s). copy_ok (r_running s) p) \<and> r_handled s @ r_queue s = r_sent s"

lemma copy_ok_free: "\<not> holds_global p \<Longrightarrow> copy_ok r p"
  by (cases p) auto

lemma free_copies:
  "num holds_global (r_senders s) = of_bool (r_global s) \<Longrightarrow> \<not> r_global s \<Longrightarrow> \<forall>p \<in> set (r_senders s). copy_ok r p"
  by (simp add: num_0 copy_ok_free)

text \<open>A sender that leaves the critical section leaves nobody in it.\<close>

lemma left_alone:
  assumes "num holds_global xs = of_bool g" "i < length xs" "holds_global (xs ! i)" "\<not> holds_global v" "p \<in> set (xs[i := v])"
  shows "copy_ok r p"
proof -
  have "num holds_global (xs[i := v]) = 0" using num_update [OF assms(2), of holds_global v] assms(1,3,4) by (cases g) auto
  then show ?thesis using assms(5) by (auto simp: num_0 intro: copy_ok_free)
qed

lemma snd_pc_upd_ok:
  assumes "race_ok s" "i < length (r_senders s)" "r_senders s' = r_senders s" "r_running s' = r_running s"
    and "r_handled s' @ r_queue s' = r_sent s'" "copy_ok (r_running s) v"
    and "of_bool (r_global s') + of_bool (holds_global (r_senders s ! i)) = (of_bool (r_global s) + of_bool (holds_global v) :: nat)"
    and "num ctl_active (r_ctls s') + of_bool (is_made (r_senders s ! i)) = num ctl_active (r_ctls s) + of_bool (is_made v)"
  shows "race_ok (snd_pc_upd i v s')"
proof -
  note inv = assms(1) [unfolded race_ok_def]
  have "\<forall>p \<in> set ((r_senders s)[i := v]). copy_ok (r_running s) p"
    using inv assms(6) set_update_subset_insert [of "r_senders s" i v] by auto
  moreover have "num holds_global ((r_senders s)[i := v]) = of_bool (r_global s')"
    using num_update [OF assms(2), of holds_global v] inv assms(7) by simp
  moreover have "num ctl_active (r_ctls s') = of_bool (r_running s) + num is_made ((r_senders s)[i := v])"
    using num_update [OF assms(2), of is_made v] inv assms(8) by simp
  ultimately show ?thesis using assms(3-5) by (simp add: race_ok_def snd_pc_upd_def)
qed

lemma sender_step_ok:
  assumes "race_ok s" "sender_step i ok s = Some t"
  shows "race_ok t"
proof -
  have i: "i < length (r_senders s)" using assms(2) by (auto simp: sender_step_def split: if_splits)
  note inv = assms(1) [unfolded race_ok_def]
  have cur: "copy_ok (r_running s) (r_senders s ! i)" using inv i by simp
  have glob: "holds_global (r_senders s ! i) \<Longrightarrow> r_global s" using inv i nth_mem [OF i] by (cases "r_global s") (auto simp: num_0)
  have log: "r_handled s @ r_queue s = r_sent s" using inv by simp
  show ?thesis
  proof (cases "r_senders s ! i")
    case (S_made m l)
    then show ?thesis
      using assms(2) i inv cur num_update [OF i, of holds_global "S_out m"] num_update [OF i, of is_made "S_out m"]
        left_alone [of "r_senders s" "r_global s" i "S_out m" _ True]
      by (cases "r_global s") (auto simp: sender_step_def snd_pc_upd_def race_ok_def)
  qed (use assms(2) i cur glob log in \<open>auto simp: sender_step_def intro!: snd_pc_upd_ok [OF assms(1)] split: if_splits\<close>)
qed

lemma ctl_step_at_ok:
  assumes "race_ok s" "ctl_step_at i ok s = Some t"
  shows "race_ok t"
proof -
  have i: "i < length (r_ctls s)" using assms(2) by (auto simp: ctl_step_at_def split: if_splits)
  note inv = assms(1) [unfolded race_ok_def]
  have same: "num ctl_active ((r_ctls s)[i := v]) = num ctl_active (r_ctls s)" if "ctl_active v = ctl_active (r_ctls s ! i)" for v
    using num_update [OF i, of ctl_active v] that by auto
  have gone: "num ctl_active ((r_ctls s)[i := v]) + 1 = num ctl_active (r_ctls s)" if "ctl_active (r_ctls s ! i)" "\<not> ctl_active v" for v
    using num_update [OF i, of ctl_active v] that by auto
  have stop: "race_ok (ctl_pc_upd i v (s\<lparr>r_running := False\<rparr>))" if "\<not> r_global s" "ctl_active (r_ctls s ! i)" "\<not> ctl_active v" for v
  proof -
    have "num is_made (r_senders s) = 0" using that(1) inv num_made [of "r_senders s"] by simp
    then show ?thesis
      using inv gone [OF that(2,3)] free_copies [of s False] that(1) by (cases "r_running s") (auto simp: race_ok_def ctl_pc_upd_def)
  qed
  show ?thesis
  proof (cases "r_ctls s ! i")
    case (C_run retry)
    then show ?thesis
      using assms(2) i inv same [of C_quit] same [of "C_run 0"] same [of "C_run (Suc retry)"]
      by (auto simp: ctl_step_at_def ctl_pc_upd_def race_ok_def split: if_splits list.splits)
  next
    case C_nofd
    then show ?thesis using assms(2) i stop by (auto simp: ctl_step_at_def split: if_splits)
  next
    case C_exit
    then show ?thesis using assms(2) i stop by (auto simp: ctl_step_at_def split: if_splits)
  qed (use assms(2) i inv same in \<open>auto simp: ctl_step_at_def ctl_pc_upd_def race_ok_def split: if_splits\<close>)
qed

lemma race_step_ok: "race_ok s \<Longrightarrow> race_step a s = Some t \<Longrightarrow> race_ok t"
  by (cases a) (auto simp: race_step_def intro: sender_step_ok ctl_step_at_ok)

lemma race_init_ok: "race_ok (race_init ms)"
proof -
  have "num P (map S_start ms) = 0" if "\<And>m. \<not> P (S_start m)" for P using that by (simp add: num_0)
  then show ?thesis by (auto simp: race_ok_def race_init_def)
qed

section \<open>Properties\<close>

text \<open>
  Claim C10. Whatever the interleaving, and whichever calls fail, at most one
  controller of an interface receives; where the registry says that one runs and
  no sender is starting one, there is one; and the messages handled followed by
  those that wait are the messages accepted, in that order.
\<close>

theorem race_single_controller:
  assumes "race_reach (race_init ms) s"
  shows "num ctl_active (r_ctls s) \<le> 1 \<and> (r_running s \<longrightarrow> num ctl_active (r_ctls s) = 1) \<and> r_handled s @ r_queue s = r_sent s"
proof -
  have ok: "race_ok s" using race_invariant [where J = race_ok, OF assms race_init_ok race_step_ok] .
  have le: "num is_made (r_senders s) \<le> 1" using ok num_made [of "r_senders s"] by (cases "r_global s") (auto simp: race_ok_def)
  have "num is_made (r_senders s) = 0" if "r_running s"
  proof -
    have "\<not> is_made p" if "p \<in> set (r_senders s)" for p
      using ok \<open>r_running s\<close> that by (cases p) (auto simp: race_ok_def)
    then show ?thesis by (simp add: num_0)
  qed
  then show ?thesis using ok le by (cases "r_running s") (auto simp: race_ok_def)
qed

definition msg_a :: dhcp_info where
  "msg_a = \<lparr>di_if_name = ''erouter0'', di_ParamName = ''Enable'', di_bValue = True, di_dhcpType = DML_DHCPV4\<rparr>"

text \<open>The first sender runs to its end; its controller handles the message and then finds the queue empty 22 times.\<close>

definition serve_and_quit :: "race_act list" where
  "serve_and_quit = replicate 9 (Snd 0 True) @ replicate 24 (Ctl 0 True)"

theorem race_single_controller_witness:
  "\<exists>s. race_run serve_and_quit (race_init [msg_a]) = Some s \<and> num ctl_active (r_ctls s) \<le> 1 \<and> r_handled s = [msg_a]"
proof -
  have "map_option (\<lambda>s. (r_queue s, r_sent s)) (race_run serve_and_quit (race_init [msg_a])) = Some ([], [msg_a])" by code_simp
  then obtain s where s: "race_run serve_and_quit (race_init [msg_a]) = Some s" "r_queue s = []" "r_sent s = [msg_a]" by auto
  with race_single_controller [OF race_run_reach [OF s(1)]] show ?thesis by simp
qed

lemmas race_defs = race_step_def sender_step_def ctl_step_at_def snd_pc_upd_def ctl_pc_upd_def race_init_def
  serve_and_quit_def MQ_MAX_MESSAGES_def


text \<open>A state in which the queue mutex is locked, nobody who could unlock it is left, and no other copy of it is around.\<close>

fun off_mutex :: "snd_pc \<Rightarrow> bool" where
  "off_mutex (S_send m) = False" | "off_mutex (S_sent r) = False" | "off_mutex (S_rel r) = False"
| "off_mutex (S_copy m r l) = l" | "off_mutex (S_made m l) = l" | "off_mutex _ = True"

definition mutex_dead :: "race \<Rightarrow> bool" where
  "mutex_dead s \<longleftrightarrow> r_qlocked s \<and> (\<forall>p \<in> set (r_senders s). off_mutex p) \<and>
     (\<forall>c \<in> set (r_ctls s). c \<noteq> C_exit \<and> c \<noteq> C_marked \<and> c \<noteq> C_rel)"

lemma mutex_dead_sender:
  assumes "mutex_dead s" "sender_step i ok s = Some t"
  shows "mutex_dead t \<and> r_sent t = r_sent s \<and> (\<forall>j m. r_senders s ! j = S_wait m \<longrightarrow> r_senders t ! j = S_wait m)"
proof -
  have i: "i < length (r_senders s)" using assms(2) by (auto simp: sender_step_def split: if_splits)
  have cur: "off_mutex (r_senders s ! i)" using assms(1) i by (simp add: mutex_dead_def)
  have mem: "off_mutex p" if "p \<in> set ((r_senders s)[i := v])" "off_mutex v" for p v
    using that assms(1) set_update_subset_insert [of "r_senders s" i v] by (auto simp: mutex_dead_def)
  show ?thesis
    using assms i cur
    by (cases "r_senders s ! i")
       (auto simp: sender_step_def snd_pc_upd_def mutex_dead_def nth_list_update intro: mem split: if_splits)
qed

lemma mutex_dead_ctl:
  assumes "mutex_dead s" "ctl_step_at i ok s = Some t"
  shows "mutex_dead t \<and> r_sent t = r_sent s \<and> r_senders t = r_senders s"
proof -
  have i: "i < length (r_ctls s)" using assms(2) by (auto simp: ctl_step_at_def split: if_splits)
  have cur: "r_ctls s ! i \<noteq> C_exit \<and> r_ctls s ! i \<noteq> C_marked \<and> r_ctls s ! i \<noteq> C_rel" using assms(1) i by (simp add: mutex_dead_def)
  have mem: "c \<in> set (r_ctls s) \<or> c = v" if "c \<in> set ((r_ctls s)[i := v])" for c v
    using that set_update_subset_insert [of "r_ctls s" i v] by auto
  show ?thesis
    using assms i cur
    by (cases "r_ctls s ! i")
       (auto simp: ctl_step_at_def ctl_pc_upd_def mutex_dead_def dest!: mem split: if_splits list.splits)
qed

lemma mutex_dead_step:
  "mutex_dead s \<Longrightarrow> race_step a s = Some t \<Longrightarrow>
   mutex_dead t \<and> r_sent t = r_sent s \<and> (\<forall>j m. r_senders s ! j = S_wait m \<longrightarrow> r_senders t ! j = S_wait m)"
  by (cases a) (auto simp: race_step_def dest: mutex_dead_sender mutex_dead_ctl)

lemma mutex_dead_forever:
  "race_reach s t \<Longrightarrow> mutex_dead s \<Longrightarrow>
   mutex_dead t \<and> r_sent t = r_sent s \<and> (\<forall>j m. r_senders s ! j = S_wait m \<longrightarrow> r_senders t ! j = S_wait m)"
  by (induction rule: race_reach.induct) (use mutex_dead_step in \<open>simp, metis\<close>)

text \<open>
  Claim C28. A sender can be blocked for good: for any two messages and any further
  senders there is a run, again with every call successful, after which the second
  message is never sent, whatever happens next; nor is any other message for this
  interface. The sender that starts a new controller writes back a copy of the
  entry in which the queue mutex is still locked by the controller that just ended.
\<close>

theorem race_mutex_lost:
  "\<exists>s. race_reach (race_init (m # m' # ms)) s \<and> r_sent s = [m] \<and>
     (\<forall>t. race_reach s t \<longrightarrow> r_senders t ! 1 = S_wait m' \<and> r_sent t = [m])"
proof -
  let ?as = "serve_and_quit @ replicate 4 (Ctl 0 True) @ replicate 3 (Snd 1 True) @ [Ctl 0 True] @ replicate 2 (Snd 1 True)"
  let ?s = "\<lparr>r_queue = [], r_running = True, r_qlocked = True, r_global = False,
      r_senders = S_done True # S_wait m' # map S_start ms, r_ctls = [C_gone, C_new], r_sent = [m], r_handled = [m]\<rparr>"
  have "race_run ?as (race_init (m # m' # ms)) = Some ?s"
    by (simp add: race_defs eval_nat_numeral)
  then have r: "race_reach (race_init (m # m' # ms)) ?s" by (rule race_run_reach)
  have "mutex_dead ?s" by (auto simp: mutex_dead_def)
  then have "r_senders t ! 1 = S_wait m' \<and> r_sent t = [m]" if "race_reach ?s t" for t
    using mutex_dead_forever [OF that] by simp
  then show ?thesis using r by (intro exI [of _ ?s]) auto
qed

theorem race_mutex_lost_witness:
  "\<exists>s. race_reach (race_init [msg_a, msg_a]) s \<and> (\<forall>t. race_reach s t \<longrightarrow> r_senders t ! 1 = S_wait msg_a)"
  using race_mutex_lost [of msg_a msg_a "[]"] by blast

end
