(* ===== verification/Sysevent_Enable.thy ===== *)
theory Sysevent_Enable
  imports Rbus_Events
begin

text \<open>
  The system events that keep, for every client instance, its interface and
  whether it is enabled, so that a restarted manager can start the clients
  again: \<open>Dhcp_set_Sysevent_InterfaceEnable\<close> and
  \<open>Dhcp_get_Sysevent_InterfaceEnable\<close> of
  \<open>source/TR-181/middle_layer_src/cosa_apis_util.c\<close>, with the static helper
  \<open>DhcpMgr_UpdateEnableSysevent\<close> of the controller. Reading gives back what was
  written.
\<close>

section \<open>Writing\<close>

definition commonSyseventSet :: "env \<Rightarrow> string \<Rightarrow> string \<Rightarrow> world \<Rightarrow> int \<times> world" where
  "commonSyseventSet e key v w = call e (A_set_event key v) w"

definition enable_value :: "string \<Rightarrow> bool \<Rightarrow> string" where
  "enable_value ifname enabled = ifname @ '' '' @ (if enabled then ''1'' else ''0'')"

definition Dhcp_set_Sysevent_InterfaceEnable :: "env \<Rightarrow> string \<Rightarrow> string \<Rightarrow> bool \<Rightarrow> world \<Rightarrow> int \<times> world" where
  "Dhcp_set_Sysevent_InterfaceEnable e key ifname enabled w =
     (if key = [] \<or> ifname = [] \<or> length (enable_value ifname enabled) \<ge> 128 then (- 1, w)
      else (case commonSyseventSet e key (enable_value ifname enabled) w of (r, w') \<Rightarrow> (if r \<noteq> 0 then - 1 else 0, w')))"

definition enable_key :: "bool \<Rightarrow> nat \<Rightarrow> string" where
  "enable_key v6 n = c_trunc 64 ((if v6 then ''DHCPCV6_ENABLE_'' else ''DHCPCV4_ENABLE_'') @ show_nat n)"

definition DhcpMgr_UpdateEnableSysevent :: "env \<Rightarrow> nat \<Rightarrow> string \<Rightarrow> bool \<Rightarrow> bool \<Rightarrow> world \<Rightarrow> world" where
  "DhcpMgr_UpdateEnableSysevent e n ifname enabled v6 w =
     (if ifname = [] then w else snd (Dhcp_set_Sysevent_InterfaceEnable e (enable_key v6 n) ifname enabled w))"

section \<open>Reading\<close>

text \<open>
  \<open>%ns\<close> of \<open>sscanf\<close>: white space is skipped, then at most \<open>n\<close> other characters
  are taken, at least one.
\<close>

definition scan_word :: "nat \<Rightarrow> string \<Rightarrow> (string \<times> string) option" where
  "scan_word n s = (let t = dropWhile is_space s; v = take n (takeWhile (\<lambda>c. \<not> is_space c) t)
                    in if v = [] then None else Some (v, drop (length v) t))"

definition parse_enable :: "string \<Rightarrow> (string \<times> bool) option" where
  "parse_enable s =
     (case scan_word 63 s of
        None \<Rightarrow> Some (c_trunc 64 s, True)
      | Some (n, rest) \<Rightarrow>
          (case scan_int rest of
             None \<Rightarrow> Some (c_trunc 64 s, True)
           | Some status \<Rightarrow> if status \<noteq> 0 \<and> status \<noteq> 1 then None else Some (n, status = 1)))"

definition commonSyseventGet :: "env \<Rightarrow> string \<Rightarrow> nat \<Rightarrow> world \<Rightarrow> int \<times> string \<times> world" where
  "commonSyseventGet e key n w =
     (case call e (A_get_event key) w of (r, w') \<Rightarrow> (r, c_trunc n (e_str e (w_trace w')), w'))"

definition Dhcp_get_Sysevent_InterfaceEnable ::
  "env \<Rightarrow> string \<Rightarrow> nat \<Rightarrow> world \<Rightarrow> (string \<times> bool) option \<times> world" where
  "Dhcp_get_Sysevent_InterfaceEnable e key ifnameLen w =
     (if key = [] \<or> ifnameLen = 0 then (None, w)
      else (case commonSyseventGet e key 128 w of (r, v, w') \<Rightarrow>
        if r \<noteq> 0 \<or> v = [] then (None, w')
        else (case parse_enable v of
                None \<Rightarrow> (None, w')
              | Some (n, b) \<Rightarrow> (if ifnameLen \<le> length n then None else Some (n, b), w'))))"

section \<open>Effects\<close>

lemma set_enable_quiet: "quiet w (snd (Dhcp_set_Sysevent_InterfaceEnable e k n b w))"
  by (simp add: Dhcp_set_Sysevent_InterfaceEnable_def commonSyseventSet_def case_prod_beta quiet_act)

lemma update_enable_quiet: "quiet w (DhcpMgr_UpdateEnableSysevent e i n b v w)"
  by (simp add: DhcpMgr_UpdateEnableSysevent_def set_enable_quiet)

lemma get_enable_quiet: "quiet w (snd (Dhcp_get_Sysevent_InterfaceEnable e k n w))"
  by (auto simp: Dhcp_get_Sysevent_InterfaceEnable_def commonSyseventGet_def case_prod_beta quiet_act
      split: option.split)

section \<open>Round trip\<close>

lemma scan_word_all:
  assumes "n \<noteq> []" "length n \<le> k" "\<forall>c \<in> set n. \<not> is_space c"
  shows "s = [] \<or> is_space (hd s) \<Longrightarrow> scan_word k (n @ s) = Some (n, s)"
proof -
  assume s: "s = [] \<or> is_space (hd s)"
  have d: "dropWhile is_space (n @ s) = n @ s" using assms(1,3) by (cases n) auto
  have "takeWhile (\<lambda>c. \<not> is_space c) (n @ s) = n" using assms(3) s by (cases s) auto
  then show "scan_word k (n @ s) = Some (n, s)"
    unfolding scan_word_def Let_def d using assms(1,2) by (simp add: take_all)
qed

lemma scan_int_flag: "scan_int ('' '' @ (if b then ''1'' else ''0'')) = Some (if b then 1 else 0)"
  by (cases b) (simp_all add: scan_int_def is_space_def is_digit_def digit_val_def Let_def)

lemma parse_enable_value:
  assumes "n \<noteq> []" "length n \<le> 63" "\<forall>c \<in> set n. \<not> is_space c"
  shows "parse_enable (enable_value n b) = Some (n, b)"
  using scan_word_all [OF assms, of "'' '' @ (if b then ''1'' else ''0'')"] scan_int_flag [of b]
  by (simp add: parse_enable_def enable_value_def is_space_def)

text \<open>
  Claim C40. The enable state survives a restart: for an interface name of at most
  63 characters without white space, when writing it succeeds and the system
  event is later read back as it was written, reading gives the same name and
  the same flag.
\<close>

theorem enable_roundtrip:
  assumes "Dhcp_set_Sysevent_InterfaceEnable e key n b w = (0, w1)"
    and "length n \<le> 63" "\<forall>c \<in> set n. \<not> is_space c" "length n < ifnameLen"
    and stored: "e_ret e' (w_trace w2 @ [A_get_event key]) = 0"
                "A_set_event key (e_str e' (w_trace w2 @ [A_get_event key])) = last (w_trace w1)"
  shows "fst (Dhcp_get_Sysevent_InterfaceEnable e' key ifnameLen w2) = Some (n, b)"
proof -
  have set: "key \<noteq> []" "n \<noteq> []" "length (enable_value n b) < 128" "w1 = act (A_set_event key (enable_value n b)) w"
    using assms(1) by (auto simp: Dhcp_set_Sysevent_InterfaceEnable_def commonSyseventSet_def case_prod_beta
        split: if_splits)
  then have v: "e_str e' (w_trace w2 @ [A_get_event key]) = enable_value n b" using stored(2) by simp
  have "enable_value n b \<noteq> []" by (simp add: enable_value_def)
  with set v stored(1) assms(2-4) parse_enable_value [of n b] show ?thesis
    by (simp add: Dhcp_get_Sysevent_InterfaceEnable_def commonSyseventGet_def case_prod_beta fst_call c_trunc_id)
qed

theorem enable_roundtrip_witness:
  "fst (Dhcp_get_Sysevent_InterfaceEnable (env0\<lparr>e_str := (\<lambda>_. ''erouter0 0'')\<rparr>) ''DHCPCV4_ENABLE_1'' 64 world_init) =
     Some (''erouter0'', False)"
proof (rule enable_roundtrip [where e = env0 and w = world_init
      and ?w1.0 = "act (A_set_event ''DHCPCV4_ENABLE_1'' ''erouter0 0'') world_init"])
  show "Dhcp_set_Sysevent_InterfaceEnable env0 ''DHCPCV4_ENABLE_1'' ''erouter0'' False world_init =
      (0, act (A_set_event ''DHCPCV4_ENABLE_1'' ''erouter0 0'') world_init)"
    by (simp add: Dhcp_set_Sysevent_InterfaceEnable_def commonSyseventSet_def enable_value_def call_def Let_def env0_def)
qed (simp_all add: is_space_def env0_def)

text \<open>A name without a status is a value of the older format: the client is enabled.\<close>

lemma parse_enable_legacy:
  assumes "n \<noteq> []" "length n \<le> 63" "\<forall>c \<in> set n. \<not> is_space c"
  shows "parse_enable n = Some (n, True)"
  using scan_word_all [OF assms, of "[]"] assms(2)
  by (simp add: parse_enable_def scan_int_def Let_def c_trunc_id)

end
