(* ===== verification/Opt_Lists.thy ===== *)
theory Opt_Lists
  imports Client_Common Sysevent_Enable
begin

text \<open>
  The option lists that a client is started with, from
  \<open>source/DHCPMgrUtils/dhcpmgr_controller.c\<close>: \<open>DhcpMgr_build_dhcpv4_opt_list\<close> and
  \<open>DhcpMgr_build_dhcpv6_opt_list\<close>. Lists grow at the front. The getters of
  the custom options are weak symbols that a platform replaces: their answer is
  one of the environment (-1 for the weak definitions); option 25 has a weak
  definition with a value, which is the one here.
\<close>

section \<open>Options\<close>

text \<open>A tag is an \<open>unsigned long\<close> that is cast to \<open>int\<close>.\<close>

definition c_int :: "nat \<Rightarrow> int" where
  "c_int n = (let m = int n mod 2 ^ 32 in if 2 ^ 31 \<le> m then m - 2 ^ 32 else m)"

lemma c_int_id: "n < 2 ^ 31 \<Longrightarrow> c_int n = int n"
  by (simp add: c_int_def Let_def)

definition add_opt :: "int \<Rightarrow> string option \<Rightarrow> dhcp_opt list \<Rightarrow> dhcp_opt list" where
  "add_opt n v os = snd (add_dhcp_opt_to_list os n v)"

lemma add_opt_pos [simp]: "0 < n \<Longrightarrow> add_opt n v os = \<lparr>dhcp_opt_num = n, dhcp_opt_val = v\<rparr> # os"
  by (simp add: add_opt_def add_dhcp_opt_to_list_def)

definition custom_value :: "env \<Rightarrow> string \<Rightarrow> nat \<Rightarrow> string \<Rightarrow> world \<Rightarrow> string option \<times> world" where
  "custom_value e getter sz ifName w =
     (case call e (A_custom getter ifName) w of (r, w') \<Rightarrow>
        (if r = 0 then Some (c_trunc sz (e_str e (w_trace w'))) else None, w'))"

definition Get_DhcpV6_CustomOption_25 :: "dhcp_opt list \<Rightarrow> int \<times> dhcp_opt list" where
  "Get_DhcpV6_CustomOption_25 os = add_dhcp_opt_to_list os 25 None"

text \<open>The value of a sent option: its own, or what the getter of its tag gives.\<close>

definition add_custom ::
  "env \<Rightarrow> string \<Rightarrow> nat \<Rightarrow> string \<Rightarrow> nat \<Rightarrow> dhcp_opt list \<times> world \<Rightarrow> dhcp_opt list \<times> world" where
  "add_custom e getter sz ifName tag = (\<lambda>(os, w).
     (case custom_value e getter sz ifName w of
        (None, w') \<Rightarrow> (os, w')
      | (Some v, w') \<Rightarrow> (add_opt (c_int tag) (Some v) os, w')))"

section \<open>DHCPv4\<close>

definition v4_req_opt :: "COSA_DML_DHCPC_REQ_OPT \<Rightarrow> dhcp_opt list \<Rightarrow> dhcp_opt list" where
  "v4_req_opt r os = (if ro_bEnabled r then add_opt (c_int (ro_Tag r)) None os else os)"

definition v4_sent_opt ::
  "env \<Rightarrow> string \<Rightarrow> COSA_DML_DHCP_OPT \<Rightarrow> dhcp_opt list \<times> world \<Rightarrow> dhcp_opt list \<times> world" where
  "v4_sent_opt e ifName s = (\<lambda>(os, w).
     if \<not> so_bEnabled s then (os, w)
     else if so_Tag s = 60 \<and> so_Value s = [] then add_custom e ''Get_DhcpV4_CustomOption60'' 512 ifName (so_Tag s) (os, w)
     else if so_Tag s = 61 \<and> so_Value s = [] then add_custom e ''Get_DhcpV4_CustomOption61'' 256 ifName (so_Tag s) (os, w)
     else if so_Tag s = 43 \<and> so_Value s = [] then add_custom e ''Get_DhcpV4_CustomOption43'' 512 ifName (so_Tag s) (os, w)
     else (add_opt (c_int (so_Tag s)) (Some (so_Value s)) os, w))"

definition DhcpMgr_build_dhcpv4_opt_list ::
  "env \<Rightarrow> DHCPC_LINK_OBJECT \<Rightarrow> world \<Rightarrow> dhcp_opt list \<times> dhcp_opt list \<times> world" where
  "DhcpMgr_build_dhcpv4_opt_list e l w =
     (let req = fold v4_req_opt (l4_req_opts l) [];
          (sent, w') = fold (v4_sent_opt e (c4_Interface (f4_Cfg (l4_client l)))) (l4_sent_opts l) ([], w)
      in (req, sent, w'))"

section \<open>DHCPv6\<close>

definition t1T2Buffer :: "COSA_DML_DHCPCV6_CFG \<Rightarrow> string" where
  "t1T2Buffer c =
     (if c6_SuggestedT1 c \<noteq> - 1 \<or> c6_SuggestedT2 c \<noteq> - 1
      then (let t1 = (if c6_SuggestedT1 c \<noteq> - 1 then c_trunc 16 (''t1 '' @ show_int (c6_SuggestedT1 c)) else []);
                t2 = (if c6_SuggestedT2 c \<noteq> - 1 then c_trunc 16 (''t2 '' @ show_int (c6_SuggestedT2 c)) else [])
            in c_trunc 128 (''{'' @ [CHR 0x0A, CHR 0x09] @ t1 @ [CHR 0x0A, CHR 0x09] @ t2 @ [CHR 0x0A, CHR 0x09] @ ''}''))
      else [])"

definition v6_base_opts :: "COSA_DML_DHCPCV6_CFG \<Rightarrow> dhcp_opt list" where
  "v6_base_opts c =
     (let o1 = (if c6_RequestAddresses c then add_opt 3 (Some (t1T2Buffer c)) [] else []);
          o2 = (if c6_RequestPrefixes c then add_opt 25 (Some (t1T2Buffer c)) o1 else o1)
      in if c6_RapidCommit c then add_opt 14 None o2 else o2)"

text \<open>The loop over the sent options; \<open>False\<close> where option 25 could not be added and the function returns.\<close>

fun v6_sent_loop ::
  "env \<Rightarrow> string \<Rightarrow> COSA_DML_DHCP_OPT list \<Rightarrow> dhcp_opt list \<Rightarrow> world \<Rightarrow> bool \<times> dhcp_opt list \<times> world" where
  "v6_sent_loop e ifName [] os w = (True, os, w)"
| "v6_sent_loop e ifName (s # ss) os w =
     (if \<not> so_bEnabled s then v6_sent_loop e ifName ss os w
      else if so_Tag s = 25 \<and> so_Value s = []
      then (case Get_DhcpV6_CustomOption_25 os of (r, os') \<Rightarrow>
              if r \<noteq> RETURN_OK then (False, os', w) else v6_sent_loop e ifName ss os' w)
      else
        (case (if so_Tag s = 15 \<and> so_Value s = [] then add_custom e ''Get_DhcpV6_CustomOption15'' 256 ifName (so_Tag s) (os, w)
               else if so_Tag s = 16 \<and> so_Value s = [] then add_custom e ''Get_DhcpV6_CustomOption16'' 256 ifName (so_Tag s) (os, w)
               else if so_Tag s = 17 \<and> so_Value s = [] then add_custom e ''Get_DhcpV6_CustomOption17'' 256 ifName (so_Tag s) (os, w)
               else (add_opt (c_int (so_Tag s)) (Some (so_Value s)) os, w)) of
           (os', w') \<Rightarrow> v6_sent_loop e ifName ss os' w'))"

text \<open>Option 95 (MAP-T) is requested only where the setting \<open>MAPT_Enable\<close> is true.\<close>

fun v6_req_loop :: "env \<Rightarrow> string list \<Rightarrow> dhcp_opt list \<Rightarrow> world \<Rightarrow> dhcp_opt list \<times> world" where
  "v6_req_loop e [] os w = (os, w)"
| "v6_req_loop e (t # ts) os w =
     (let opt = c_atoi t
      in if opt = 95
         then (case ask e (A_syscfg_get ''MAPT_Enable'') w of (v, w') \<Rightarrow>
                 if c_trunc 16 v = ''true'' then v6_req_loop e ts (add_opt opt None os) w' else v6_req_loop e ts os w')
         else v6_req_loop e ts (add_opt opt None os) w)"

definition DhcpMgr_build_dhcpv6_opt_list ::
  "env \<Rightarrow> DHCPCV6_LINK_OBJECT \<Rightarrow> world \<Rightarrow> int \<times> dhcp_opt list \<times> dhcp_opt list \<times> world" where
  "DhcpMgr_build_dhcpv6_opt_list e l w =
     (let cfg = f6_Cfg (l6_client l)
      in (case v6_sent_loop e (c6_Interface cfg) (l6_sent_opts l) (v6_base_opts cfg) w of
            (ok, sent, w1) \<Rightarrow>
              if \<not> ok then (RETURN_ERR, [], sent, w1)
              else (case v6_req_loop e (strtok '' ,'' (c6_RequestedOptions cfg)) [] w1 of
                      (req, w2) \<Rightarrow> (0, req, sent, w2))))"

section \<open>Lemmas\<close>

lemma add_custom_quiet: "quiet w0 (snd p) \<Longrightarrow> quiet w0 (snd (add_custom e g n i t p))"
  by (auto simp: add_custom_def custom_value_def case_prod_beta quiet_step split: option.split)

lemma v4_sent_opt_quiet: "quiet w0 (snd p) \<Longrightarrow> quiet w0 (snd (v4_sent_opt e i s p))"
  by (simp add: v4_sent_opt_def case_prod_beta add_custom_quiet)

lemma v4_sent_fold_quiet: "quiet w0 (snd p) \<Longrightarrow> quiet w0 (snd (fold (v4_sent_opt e i) ss p))"
  by (induction ss arbitrary: p) (simp_all add: v4_sent_opt_quiet)

lemma build4_quiet: "quiet w (snd (snd (DhcpMgr_build_dhcpv4_opt_list e l w)))"
  by (simp add: DhcpMgr_build_dhcpv4_opt_list_def case_prod_beta Let_def v4_sent_fold_quiet)

lemma v6_sent_loop_quiet: "quiet w0 w \<Longrightarrow> quiet w0 (snd (snd (v6_sent_loop e i ss os w)))"
  by (induction ss arbitrary: os w) (simp_all add: case_prod_beta add_custom_quiet)

lemma v6_req_loop_quiet: "quiet w0 w \<Longrightarrow> quiet w0 (snd (v6_req_loop e ts os w))"
  by (induction ts arbitrary: os w) (simp_all add: Let_def case_prod_beta quiet_step)

lemma build6_quiet: "quiet w (snd (snd (snd (DhcpMgr_build_dhcpv6_opt_list e l w))))"
  by (simp add: DhcpMgr_build_dhcpv6_opt_list_def case_prod_beta Let_def v6_sent_loop_quiet v6_req_loop_quiet)

text \<open>The requested options of a DHCPv4 client: the enabled tags, in reverse.\<close>

lemma fold_req_opts:
  assumes "\<forall>r \<in> set rs. 0 < ro_Tag r \<and> ro_Tag r < 2 ^ 31"
  shows "map dhcp_opt_num (fold v4_req_opt rs os) =
     rev (map (\<lambda>r. int (ro_Tag r)) (filter ro_bEnabled rs)) @ map dhcp_opt_num os"
  using assms by (induction rs arbitrary: os) (simp_all add: v4_req_opt_def c_int_id)

text \<open>
  MAP-T is requested exactly where it is listed and the setting allows it: the
  requested options are the positive numbers of the list, in reverse, without 95
  unless the setting is true throughout.
\<close>

definition mapt_allowed :: "env \<Rightarrow> bool" where
  "mapt_allowed e \<longleftrightarrow> (\<forall>tr. c_trunc 16 (e_str e (tr @ [A_syscfg_get ''MAPT_Enable''])) = ''true'')"

definition mapt_denied :: "env \<Rightarrow> bool" where
  "mapt_denied e \<longleftrightarrow> (\<forall>tr. c_trunc 16 (e_str e (tr @ [A_syscfg_get ''MAPT_Enable''])) \<noteq> ''true'')"

lemma v6_req_loop_nums:
  assumes "if allow then mapt_allowed e else mapt_denied e"
  shows "map dhcp_opt_num (fst (v6_req_loop e ts os w)) =
     rev (filter (\<lambda>n. 0 < n \<and> (n = 95 \<longrightarrow> allow)) (map c_atoi ts)) @ map dhcp_opt_num os"
  using assms
proof (induction ts arbitrary: os w)
  case (Cons t ts)
  have "add_opt (c_atoi t) None os = os" if "\<not> 0 < c_atoi t"
    using that by (simp add: add_opt_def add_dhcp_opt_to_list_def)
  moreover have "c_trunc 16 (fst (ask e (A_syscfg_get ''MAPT_Enable'') w)) = ''true'' \<longleftrightarrow> allow"
    using Cons.prems by (auto simp: fst_ask mapt_allowed_def mapt_denied_def split: if_splits)
  ultimately show ?case using Cons by (auto simp: Let_def case_prod_beta)
qed simp

text \<open>
  What a DHCPv6 client requests: the numbers of the parameter
  \<open>RequestedOptions\<close> that are positive, each once per mention, without the MAP-T
  option 95 where the setting \<open>MAPT_Enable\<close> is off and with it where it is on.
\<close>

lemma v6_requested_options:
  assumes "if allow then mapt_allowed e else mapt_denied e"
    and "DhcpMgr_build_dhcpv6_opt_list e l w = (0, req, sent, w')"
  shows "map dhcp_opt_num req =
     rev (filter (\<lambda>n. 0 < n \<and> (n = 95 \<longrightarrow> allow))
            (map c_atoi (strtok '' ,'' (c6_RequestedOptions (f6_Cfg (l6_client l))))))"
proof -
  obtain w1 where "v6_req_loop e (strtok '' ,'' (c6_RequestedOptions (f6_Cfg (l6_client l)))) [] w1 = (req, w')"
    using assms(2) by (auto simp: DhcpMgr_build_dhcpv6_opt_list_def Let_def RETURN_ERR_def split: prod.splits if_splits)
  with v6_req_loop_nums [OF assms(1), where os = "[]" and w = w1] show ?thesis by (metis append_Nil2 fst_conv list.map(1))
qed

theorem v6_requested_options_witness:
  "map dhcp_opt_num (fst (snd (DhcpMgr_build_dhcpv6_opt_list env0
     \<lparr>l6_client = client6\<lparr>f6_Cfg := cfg6\<lparr>c6_RequestedOptions := ''23, 95,24''\<rparr>\<rparr>, l6_sent_opts = [], l6_bNew = False,
     l6_InstanceNumber = 1, l6_maxInstanceOfSent = 0, l6_AliasOfSent = []\<rparr> world_init))) = [24, 23]"
proof -
  let ?l = "\<lparr>l6_client = client6\<lparr>f6_Cfg := cfg6\<lparr>c6_RequestedOptions := ''23, 95,24''\<rparr>\<rparr>, l6_sent_opts = [], l6_bNew = False,
     l6_InstanceNumber = 1, l6_maxInstanceOfSent = 0, l6_AliasOfSent = []\<rparr>"
  have "fst (DhcpMgr_build_dhcpv6_opt_list env0 ?l world_init) = 0" by code_simp
  then obtain req sent w' where b: "DhcpMgr_build_dhcpv6_opt_list env0 ?l world_init = (0, req, sent, w')"
    by (cases "DhcpMgr_build_dhcpv6_opt_list env0 ?l world_init") auto
  have "mapt_denied env0" by (simp add: mapt_denied_def env0_def)
  moreover have "rev (filter (\<lambda>n. 0 < n \<and> (n = 95 \<longrightarrow> False)) (map c_atoi (strtok '' ,'' ''23, 95,24''))) = [24, 23]"
    by code_simp
  ultimately show ?thesis using v6_requested_options [where allow = False, OF _ b] b by simp
qed

end
