(* ===== verification/Link_Check.thy ===== *)
theory Link_Check
  imports Sysevent_Enable
begin

text \<open>
  What the controller looks at before it starts a client
  (\<open>source/DHCPMgrUtils/dhcpmgr_controller.c\<close>): whether the interface is up and
  running, and for DHCPv6 whether it has a link-local address whose duplicate
  detection is over. The second check reads \<open>/proc/net/if_inet6\<close> up to ten times,
  half a second apart, and restarts the IPv6 stack of the interface when there is
  still none.
\<close>

section \<open>Interface flags\<close>

text \<open>The answer to a successful \<open>SIOCGIFFLAGS\<close> is the flags: \<open>IFF_UP\<close> is 1, \<open>IFF_RUNNING\<close> is 64.\<close>

definition up_and_running :: "int \<Rightarrow> bool" where
  "up_and_running flags \<longleftrightarrow> odd flags \<and> odd (flags div 64)"

definition DhcpMgr_checkInterfaceStatus :: "env \<Rightarrow> string \<Rightarrow> world \<Rightarrow> bool \<times> world" where
  "DhcpMgr_checkInterfaceStatus e ifName w =
     (if ifName = [] then (False, w)
      else (case call e A_socket w of (fd, w1) \<Rightarrow>
        if fd < 0 then (False, w1)
        else (case call e (A_ioctl ''SIOCGIFFLAGS'' (c_trunc 16 ifName) []) w1 of (flags, w2) \<Rightarrow>
          (\<not> flags < 0 \<and> up_and_running flags, w2))))"

section \<open>Link-local addresses\<close>

text \<open>\<open>%x\<close> of \<open>scanf\<close> into an \<open>unsigned int\<close>: white space, an optional sign and prefix, digits.\<close>

definition strip_sign :: "string \<Rightarrow> string" where
  "strip_sign t = (if t \<noteq> [] \<and> (hd t = CHR ''-'' \<or> hd t = CHR ''+'') then tl t else t)"

definition strip_0x :: "string \<Rightarrow> string" where
  "strip_0x u = (case u of z # x # h # r \<Rightarrow> if z = CHR ''0'' \<and> is_x x \<and> is_hex h then h # r else u | _ \<Rightarrow> u)"

definition scan_x :: "string \<Rightarrow> (u32 \<times> string) option" where
  "scan_x s =
     (let t = dropWhile is_space s; v = strip_0x (strip_sign t); ds = takeWhile is_hex v; n = int (read_hex 0 ds)
      in if ds = [] then None
         else Some (word_of_int (if hd t = CHR ''-'' then - n else n), drop (length ds) v))"

text \<open>One line of the file: address, index, prefix length, scope, flags, name.\<close>

definition scan_inet6 :: "string \<Rightarrow> (u32 \<times> u32 \<times> string \<times> string) option" where
  "scan_inet6 s =
     (case scan_word 32 s of None \<Rightarrow> None
      | Some (_, s1) \<Rightarrow> (case scan_x s1 of None \<Rightarrow> None
      | Some (_, s2) \<Rightarrow> (case scan_x s2 of None \<Rightarrow> None
      | Some (_, s3) \<Rightarrow> (case scan_x s3 of None \<Rightarrow> None
      | Some (scope, s4) \<Rightarrow> (case scan_x s4 of None \<Rightarrow> None
      | Some (flags, s5) \<Rightarrow> (case scan_word 16 s5 of None \<Rightarrow> None
      | Some (name, s6) \<Rightarrow> Some (scope, flags, name, s6)))))))"

lemma scan_word_length: "scan_word n s = Some (v, r) \<Longrightarrow> length r < length s"
  using length_dropWhile_le [of is_space s]
  by (cases "dropWhile is_space s") (auto simp: scan_word_def Let_def split: if_splits)

lemma strip_length: "length (strip_sign t) \<le> length t" "length (strip_0x t) \<le> length t"
  by (simp_all add: strip_sign_def strip_0x_def split: list.split)

lemma scan_x_length: "scan_x s = Some (v, r) \<Longrightarrow> length r \<le> length s"
  using length_dropWhile_le [of is_space s] strip_length(1) [of "dropWhile is_space s"]
    strip_length(2) [of "strip_sign (dropWhile is_space s)"]
  by (auto simp: scan_x_def Let_def split: if_splits)

lemma scan_inet6_length: "scan_inet6 s = Some (sc, fl, n, r) \<Longrightarrow> length r < length s"
  by (fastforce simp: scan_inet6_def dest!: scan_word_length scan_x_length split: option.splits)

text \<open>
  The loop over the lines: whether a link-local address of the interface was
  found (scope 0x20), and whether all that were found are tentative (flag 0x40).
\<close>

function inet6_loop :: "string \<Rightarrow> bool \<Rightarrow> bool \<Rightarrow> string \<Rightarrow> bool \<times> bool" where
  "inet6_loop ifName found tentative s =
     (case scan_inet6 s of
        None \<Rightarrow> (found, tentative)
      | Some (scope, flags, name, rest) \<Rightarrow>
          if name \<noteq> ifName \<or> scope \<noteq> 0x20 then inet6_loop ifName found tentative rest
          else if bit flags 6 then inet6_loop ifName True True rest
          else (True, False))"
  by pat_completeness auto
termination
  by (relation "measure (\<lambda>(i, f, t, s). length s)") (auto dest: scan_inet6_length)

declare inet6_loop.simps [simp del]

definition INTF_V6LL_ROUNDS :: nat where
  "INTF_V6LL_ROUNDS = 5000 div 500"

text \<open>The loop over the rounds; \<open>True\<close> where it was left by \<open>break\<close>.\<close>

fun ll_rounds :: "env \<Rightarrow> string \<Rightarrow> nat \<Rightarrow> world \<Rightarrow> bool \<times> world" where
  "ll_rounds e ifName 0 w = (False, w)"
| "ll_rounds e ifName (Suc n) w =
     (case call e (A_inet6_scan ifName) w of (r, w1) \<Rightarrow>
        if r < 0 then (True, w1)
        else (case inet6_loop ifName False False (e_str e (w_trace w1)) of (found, tentative) \<Rightarrow>
                if found \<and> \<not> tentative then (True, w1) else ll_rounds e ifName n w1))"

definition sysctl_iface_set :: "env \<Rightarrow> string \<Rightarrow> string \<Rightarrow> world \<Rightarrow> int \<times> world" where
  "sysctl_iface_set e file content w =
     (case call e (A_sysctl (c_trunc 128 file) content) w of (r, w') \<Rightarrow> (if r < 0 then - 1 else 0, w'))"

definition disable_ipv6_file :: "string \<Rightarrow> string" where
  "disable_ipv6_file n = ''/proc/sys/net/ipv6/conf/'' @ n @ ''/disable_ipv6''"

definition DhcpMgr_checkLinkLocalAddress :: "env \<Rightarrow> string \<Rightarrow> world \<Rightarrow> bool \<times> world" where
  "DhcpMgr_checkLinkLocalAddress e ifName w =
     (case ll_rounds e ifName INTF_V6LL_ROUNDS w of (ok, w1) \<Rightarrow>
        if ok then (True, w1)
        else (False, snd (sysctl_iface_set e (disable_ipv6_file ifName) ''0''
                       (snd (sysctl_iface_set e (disable_ipv6_file ifName) ''1'' w1)))))"

section \<open>Lemmas\<close>

lemma checkInterfaceStatus_quiet: "quiet w (snd (DhcpMgr_checkInterfaceStatus e n w))"
  by (simp add: DhcpMgr_checkInterfaceStatus_def case_prod_beta quiet_act quiet_step)

lemma ll_rounds_quiet: "quiet w0 w \<Longrightarrow> quiet w0 (snd (ll_rounds e n k w))"
  by (induction k arbitrary: w) (simp_all add: case_prod_beta quiet_step)

lemma checkLinkLocal_quiet: "quiet w (snd (DhcpMgr_checkLinkLocalAddress e n w))"
  by (simp add: DhcpMgr_checkLinkLocalAddress_def sysctl_iface_set_def case_prod_beta quiet_step ll_rounds_quiet)

text \<open>
  The specification of the scan: the lines of the file up to the first that does
  not parse, and of those the link-local ones of the interface.
\<close>

function inet6_lines :: "string \<Rightarrow> (u32 \<times> u32 \<times> string) list" where
  "inet6_lines s = (case scan_inet6 s of None \<Rightarrow> [] | Some (scope, flags, name, rest) \<Rightarrow> (scope, flags, name) # inet6_lines rest)"
  by pat_completeness auto
termination
  by (relation "measure length") (auto dest: scan_inet6_length)

declare inet6_lines.simps [simp del]

definition ll_flags :: "string \<Rightarrow> string \<Rightarrow> u32 list" where
  "ll_flags ifName s = map (\<lambda>(sc, fl, n). fl) (filter (\<lambda>(sc, fl, n). n = ifName \<and> sc = 0x20) (inet6_lines s))"

lemma inet6_loop_spec:
  "inet6_loop n f t s =
     (f \<or> ll_flags n s \<noteq> [], if ll_flags n s = [] then t else \<forall>fl \<in> set (ll_flags n s). bit fl 6)"
proof (induction n f t s rule: inet6_loop.induct)
  case (1 n f t s)
  show ?case
  proof (cases "scan_inet6 s")
    case None
    then show ?thesis by (simp add: inet6_loop.simps [of n f t s] ll_flags_def inet6_lines.simps [of s])
  next
    case (Some x)
    obtain sc fl nm r where x: "x = (sc, fl, nm, r)" by (cases x) auto
    have ll: "ll_flags n s = (if nm = n \<and> sc = 0x20 then [fl] else []) @ ll_flags n r"
      by (simp add: ll_flags_def inet6_lines.simps [of s] Some x)
    show ?thesis
      using "1.IH"(1) [OF Some x [symmetric] refl refl] "1.IH"(2) [OF Some x [symmetric] refl refl]
      by (simp add: inet6_loop.simps [of n f t s] Some x ll) auto
  qed
qed

definition ll_ready :: "env \<Rightarrow> string \<Rightarrow> action list \<Rightarrow> bool" where
  "ll_ready e n tr \<longleftrightarrow> e_ret e tr < 0 \<or> (\<exists>fl \<in> set (ll_flags n (e_str e tr)). \<not> bit fl 6)"

lemma ll_rounds_Suc:
  "ll_rounds e n (Suc k) w =
     (let w1 = act (A_inet6_scan n) w in if ll_ready e n (w_trace w1) then (True, w1) else ll_rounds e n k w1)"
  by (auto simp: inet6_loop_spec ll_ready_def case_prod_beta fst_call Let_def)

declare ll_rounds.simps(2) [simp del]

lemma ll_rounds_spec:
  "fst (ll_rounds e n k w) \<longleftrightarrow> (\<exists>i < k. ll_ready e n (w_trace w @ replicate (Suc i) (A_inet6_scan n)))"
  "\<not> fst (ll_rounds e n k w) \<Longrightarrow> w_trace (snd (ll_rounds e n k w)) = w_trace w @ replicate k (A_inet6_scan n)"
proof (induction k arbitrary: w)
  case (Suc k)
  {
    case 1
    then show ?case using Suc(1) [of "act (A_inet6_scan n) w"] by (auto simp: ll_rounds_Suc Let_def less_Suc_eq_0_disj)
  next
    case 2
    then show ?case using Suc(2) [of "act (A_inet6_scan n) w"] by (auto simp: ll_rounds_Suc Let_def split: if_splits)
  }
qed simp_all

text \<open>
  A DHCPv6 client is held back exactly while no link-local address is
  usable: the check answers true where, in one of ten rounds, the list of
  addresses cannot be read or has a link-local address of the interface that is
  not tentative. Otherwise it answers false, having read the list ten times and
  then switched IPv6 off and on again for the interface.
\<close>

lemma link_local_check:
  "(fst (DhcpMgr_checkLinkLocalAddress e n w) \<longleftrightarrow>
      (\<exists>i < 10. ll_ready e n (w_trace w @ replicate (Suc i) (A_inet6_scan n)))) \<and>
   (fst (DhcpMgr_checkLinkLocalAddress e n w) \<or>
      new_actions w (snd (DhcpMgr_checkLinkLocalAddress e n w)) =
        replicate 10 (A_inet6_scan n) @
        [A_sysctl (c_trunc 128 (disable_ipv6_file n)) ''1'', A_sysctl (c_trunc 128 (disable_ipv6_file n)) ''0''])"
  using ll_rounds_spec [where e = e and n = n and k = 10 and w = w]
  by (auto simp: DhcpMgr_checkLinkLocalAddress_def INTF_V6LL_ROUNDS_def sysctl_iface_set_def case_prod_beta
      intro!: new_actionsI)

end
