(* ===== verification/Controller.thy ===== *)
theory Controller
  imports Opt_Lists Link_Check Iface_Queue Lease_V4 Lease_V6 Udhcpc Dibbler
begin

text \<open>
  The controllers, \<open>source/DHCPMgrUtils/dhcpmgr_controller.c\<close>: the handlers of a
  control message for the DHCPv4 and the DHCPv6 client of an interface, the loop
  that receives the messages of an interface, the functions that hand a new lease
  to a client, and what happens when a client process dies. The tables of clients
  are lists; the loops over a table run to the number of clients that
  \<open>CosaDmlDhcpcGetNumberOfEntries\<close> and \<open>CosaDmlDhcpv6cGetNumberOfEntries\<close> return, which is
  the one in the persistent store and not the length of the table. \<open>None\<close> stands for a write or a read outside an object in a called
  function (see \<open>Lease_V4\<close>, \<open>Lease_V6\<close>, \<open>Udhcpc\<close>).
\<close>

section \<open>DHCPv4 handler\<close>

abbreviation set4 :: "(COSA_DML_DHCPC_CFG \<Rightarrow> COSA_DML_DHCPC_CFG) \<Rightarrow> COSA_DML_DHCPC_FULL \<Rightarrow> COSA_DML_DHCPC_FULL" where
  "set4 f c \<equiv> c\<lparr>f4_Cfg := f (f4_Cfg c)\<rparr>"

abbreviation status4 :: "COSA_DML_DHCP_STATUS \<Rightarrow> COSA_DML_DHCPC_FULL \<Rightarrow> COSA_DML_DHCPC_FULL" where
  "status4 s c \<equiv> c\<lparr>f4_Info := (f4_Info c)\<lparr>i4_Status := s\<rparr>\<rparr>"

text \<open>The first part of the handler: the parameter of the message. The flag is \<open>release_ip\<close>.\<close>

definition v4_param ::
  "env \<Rightarrow> dhcp_info \<Rightarrow> COSA_DML_DHCPC_FULL \<Rightarrow> world \<Rightarrow> (bool \<times> COSA_DML_DHCPC_FULL \<times> world) option" where
  "v4_param e m c w =
     (if di_ParamName m = ''Enable'' then Some (False, set4 (c4_bEnabled_update (\<lambda>_. di_bValue m)) c, w)
      else if di_ParamName m = ''Renew'' then Some (False, set4 (c4_Renew_update (\<lambda>_. di_bValue m)) c, w)
      else if di_ParamName m = ''X_RDK_Restart'' then Some (False, set4 (c4_Restart_update (\<lambda>_. di_bValue m)) c, w)
      else if di_ParamName m = ''ProcessLease''
      then map_option (\<lambda>(c', w'). (False, c', w')) (DhcpMgr_ProcessV4Lease e c w)
      else Some (di_ParamName m = ''X_RDK_Release'', c, w))"

definition v4_start :: "env \<Rightarrow> DHCPC_LINK_OBJECT \<Rightarrow> world \<Rightarrow> (COSA_DML_DHCPC_FULL \<times> world) option" where
  "v4_start e l w =
     (let c = l4_client l; cfg = f4_Cfg c in
      (case DhcpMgr_checkInterfaceStatus e (c4_Interface cfg) w of (up, w1) \<Rightarrow>
         if \<not> up
         then (let c1 = set4 (c4_bEnabled_update (\<lambda>_. False)) c;
                   w2 = DhcpMgr_UpdateEnableSysevent e (c4_InstanceNumber cfg) (c4_Interface cfg) False False w1
               in map_option (\<lambda>w'. (c1, w')) (DhcpMgr_PublishDhcpV4Event e c1 DHCP_CLIENT_FAILED w2))
         else (case DhcpMgr_build_dhcpv4_opt_list e l w1 of (req, sent, w2) \<Rightarrow>
            (case start_dhcpv4_client e (c4_Interface cfg) req sent w2 of
               None \<Rightarrow> None
             | Some (pid, w3) \<Rightarrow>
                 (let c1 = c\<lparr>f4_Info := (f4_Info c)\<lparr>i4_ClientProcessId := pid\<rparr>\<rparr>
                  in if 0 < pid
                     then (let c2 = status4 COSA_DML_DHCP_STATUS_Enabled c1
                           in map_option (\<lambda>w'. (c2, w')) (DhcpMgr_PublishDhcpV4Event e c2 DHCP_CLIENT_STARTED w3))
                     else map_option (\<lambda>w'. (c1, w')) (DhcpMgr_PublishDhcpV4Event e c1 DHCP_CLIENT_FAILED w3))))))"

definition v4_restart :: "env \<Rightarrow> COSA_DML_DHCPC_FULL \<Rightarrow> world \<Rightarrow> (COSA_DML_DHCPC_FULL \<times> world) option" where
  "v4_restart e c w =
     (let w1 = snd (send_dhcpv4_release e (i4_ClientProcessId (f4_Info c)) w);
          c1 = set4 (c4_Restart_update (\<lambda>_. False)) (status4 COSA_DML_DHCP_STATUS_Disabled c)
      in map_option (\<lambda>w'. (c1, w')) (DhcpMgr_PublishDhcpV4Event e c1 DHCP_LEASE_DEL w1))"

definition v4_stop :: "env \<Rightarrow> bool \<Rightarrow> COSA_DML_DHCPC_FULL \<Rightarrow> world \<Rightarrow> (COSA_DML_DHCPC_FULL \<times> world) option" where
  "v4_stop e release_ip c w =
     (let cfg = f4_Cfg c; pid = i4_ClientProcessId (f4_Info c);
          (c1, w1) =
            (if release_ip
             then (set4 (c4_bEnabled_update (\<lambda>_. False)) c,
                   DhcpMgr_UpdateEnableSysevent e (c4_InstanceNumber cfg) (c4_Interface cfg) False False
                     (snd (send_dhcpv4_release e pid w)))
             else (c, snd (stop_dhcpv4_client e pid w)));
          c2 = set4 (c4_Renew_update (\<lambda>_. False)) (status4 COSA_DML_DHCP_STATUS_Disabled c1)
      in (case DhcpMgr_PublishDhcpV4Event e c2 DHCP_LEASE_DEL w1 of
            None \<Rightarrow> None
          | Some w2 \<Rightarrow>
              (let c3 = DhcpMgr_clearDHCPv4Lease c2;
                   w3 = remove_dhcp_lease_file e (c4_InstanceNumber cfg) DHCP_v4 w2
               in map_option (\<lambda>w'. (c3, w')) (DhcpMgr_PublishDhcpV4Event e c3 DHCP_CLIENT_STOPPED w3))))"

definition v4_control ::
  "env \<Rightarrow> bool \<Rightarrow> DHCPC_LINK_OBJECT \<Rightarrow> world \<Rightarrow> (COSA_DML_DHCPC_FULL \<times> world) option" where
  "v4_control e release_ip l w =
     (let c = l4_client l in
      if c4_bEnabled (f4_Cfg c) \<and> \<not> release_ip
      then (if i4_Status (f4_Info c) = COSA_DML_DHCP_STATUS_Disabled then v4_start e l w
            else if c4_Renew (f4_Cfg c)
            then Some (set4 (c4_Renew_update (\<lambda>_. False)) c, snd (send_dhcpv4_renew e (i4_ClientProcessId (f4_Info c)) w))
            else if c4_Restart (f4_Cfg c) then v4_restart e c w
            else Some (c, w))
      else if i4_Status (f4_Info c) = COSA_DML_DHCP_STATUS_Enabled then v4_stop e release_ip c w
      else Some (c, w))"

definition v4_handle_client ::
  "env \<Rightarrow> dhcp_info \<Rightarrow> DHCPC_LINK_OBJECT \<Rightarrow> world \<Rightarrow> (DHCPC_LINK_OBJECT \<times> world) option" where
  "v4_handle_client e m l w =
     (case v4_param e m (l4_client l) w of
        None \<Rightarrow> None
      | Some (release_ip, c, w1) \<Rightarrow>
          map_option (\<lambda>(c', w'). (l\<lparr>l4_client := c'\<rparr>, w')) (v4_control e release_ip (l\<lparr>l4_client := c\<rparr>) w1))"

text \<open>
  The first \<open>clientCount\<close> entries of the table are searched for the first client of the
  interface. Behind the end of the table the loop looks at the last client again, which
  was not the one.
\<close>

fun Process_DHCPv4_Handler ::
  "env \<Rightarrow> dhcp_info \<Rightarrow> nat \<Rightarrow> DHCPC_LINK_OBJECT list \<Rightarrow> world \<Rightarrow> (DHCPC_LINK_OBJECT list \<times> world) option" where
  "Process_DHCPv4_Handler e m 0 ls w = Some (ls, w)"
| "Process_DHCPv4_Handler e m (Suc clientCount) [] w = Some ([], w)"
| "Process_DHCPv4_Handler e m (Suc clientCount) (l # ls) w =
     (if strncmp_eq 64 (c4_Interface (f4_Cfg (l4_client l))) (di_if_name m)
      then map_option (\<lambda>(l', w'). (l' # ls, w')) (v4_handle_client e m l w)
      else map_option (\<lambda>(ls', w'). (l # ls', w')) (Process_DHCPv4_Handler e m clientCount ls w))"

section \<open>DHCPv6 handler\<close>

abbreviation set6 :: "(COSA_DML_DHCPCV6_CFG \<Rightarrow> COSA_DML_DHCPCV6_CFG) \<Rightarrow> COSA_DML_DHCPCV6_FULL \<Rightarrow> COSA_DML_DHCPCV6_FULL" where
  "set6 f c \<equiv> c\<lparr>f6_Cfg := f (f6_Cfg c)\<rparr>"

abbreviation status6 :: "COSA_DML_DHCP_STATUS \<Rightarrow> COSA_DML_DHCPCV6_FULL \<Rightarrow> COSA_DML_DHCPCV6_FULL" where
  "status6 s c \<equiv> c\<lparr>f6_Info := (f6_Info c)\<lparr>i6_Status := s\<rparr>\<rparr>"

definition selfheal_msg :: "string \<Rightarrow> dhcp_type \<Rightarrow> dhcp_info" where
  "selfheal_msg n t = \<lparr>di_if_name = c_trunc MAX_STR_LEN n, di_ParamName = ''Selfheal_ClientRestart'', di_bValue = False, di_dhcpType = t\<rparr>"

definition v6_param ::
  "env \<Rightarrow> dhcp_info \<Rightarrow> COSA_DML_DHCPCV6_FULL \<Rightarrow> world \<Rightarrow> (bool \<times> COSA_DML_DHCPCV6_FULL \<times> world) option" where
  "v6_param e m c w =
     (if di_ParamName m = ''Enable'' then Some (False, set6 (c6_bEnabled_update (\<lambda>_. di_bValue m)) c, w)
      else if di_ParamName m = ''Renew'' then Some (False, set6 (c6_Renew_update (\<lambda>_. di_bValue m)) c, w)
      else if di_ParamName m = ''X_RDK_Restart'' then Some (False, set6 (c6_Restart_update (\<lambda>_. di_bValue m)) c, w)
      else if di_ParamName m = ''ProcessLease''
      then map_option (\<lambda>(c', w'). (False, c', w')) (DhcpMgr_ProcessV6Lease e c w)
      else Some (di_ParamName m = ''X_RDK_Release'', c, w))"

definition v6_start :: "env \<Rightarrow> DHCPCV6_LINK_OBJECT \<Rightarrow> world \<Rightarrow> (COSA_DML_DHCPCV6_FULL \<times> world) option" where
  "v6_start e l w =
     (let c = l6_client l; cfg = f6_Cfg c in
      (case DhcpMgr_checkInterfaceStatus e (c6_Interface cfg) w of (up, w1) \<Rightarrow>
         if \<not> up
         then (let c1 = set6 (c6_bEnabled_update (\<lambda>_. False)) c;
                   w2 = DhcpMgr_UpdateEnableSysevent e (c6_InstanceNumber cfg) (c6_Interface cfg) False True w1
               in DhcpMgr_PublishDhcpV6Event e c1 DHCP_CLIENT_FAILED w2)
         else (case DhcpMgr_checkLinkLocalAddress e (c6_Interface cfg) w1 of (ready, w2) \<Rightarrow>
            if \<not> ready
            then Some (c, snd (DhcpMgr_OpenQueueEnsureThread e (selfheal_msg (c6_Interface cfg) DML_DHCPV6) w2))
            else (case DhcpMgr_build_dhcpv6_opt_list e l w2 of (_, req, sent, w3) \<Rightarrow>
               (case start_dhcpv6_client e (c6_Interface cfg) req sent w3 of
                  None \<Rightarrow> None
                | Some (pid, w4) \<Rightarrow>
                    (let c1 = c\<lparr>f6_Info := (f6_Info c)\<lparr>i6_ClientProcessId := pid\<rparr>\<rparr>
                     in if 0 < pid
                        then DhcpMgr_PublishDhcpV6Event e (status6 COSA_DML_DHCP_STATUS_Enabled c1) DHCP_CLIENT_STARTED w4
                        else DhcpMgr_PublishDhcpV6Event e c1 DHCP_CLIENT_FAILED w4))))))"

definition v6_restart :: "env \<Rightarrow> COSA_DML_DHCPCV6_FULL \<Rightarrow> world \<Rightarrow> (COSA_DML_DHCPCV6_FULL \<times> world) option" where
  "v6_restart e c w =
     (let w1 = snd (send_dhcpv6_release e (i6_ClientProcessId (f6_Info c)) w);
          c1 = set6 (c6_Restart_update (\<lambda>_. False)) (status6 COSA_DML_DHCP_STATUS_Disabled c)
      in map_option (\<lambda>(c2, w'). (DhcpMgr_clearDHCPv6Lease c2, w')) (DhcpMgr_PublishDhcpV6Event e c1 DHCP_LEASE_DEL w1))"

definition v6_stop :: "env \<Rightarrow> bool \<Rightarrow> COSA_DML_DHCPCV6_FULL \<Rightarrow> world \<Rightarrow> (COSA_DML_DHCPCV6_FULL \<times> world) option" where
  "v6_stop e release_ip c w =
     (let cfg = f6_Cfg c; pid = i6_ClientProcessId (f6_Info c);
          (c1, w1) =
            (if release_ip
             then (set6 (c6_bEnabled_update (\<lambda>_. False)) c,
                   DhcpMgr_UpdateEnableSysevent e (c6_InstanceNumber cfg) (c6_Interface cfg) False True
                     (snd (send_dhcpv6_release e pid w)))
             else (c, snd (stop_dhcpv6_client e pid w)));
          c2 = set6 (c6_Renew_update (\<lambda>_. False)) (status6 COSA_DML_DHCP_STATUS_Disabled c1)
      in (case DhcpMgr_PublishDhcpV6Event e c2 DHCP_LEASE_DEL w1 of
            None \<Rightarrow> None
          | Some (c3, w2) \<Rightarrow>
              DhcpMgr_PublishDhcpV6Event e (DhcpMgr_clearDHCPv6Lease c3) DHCP_CLIENT_STOPPED
                (remove_dhcp_lease_file e (c6_InstanceNumber cfg) DHCP_v6 w2)))"

definition v6_control ::
  "env \<Rightarrow> bool \<Rightarrow> DHCPCV6_LINK_OBJECT \<Rightarrow> world \<Rightarrow> (COSA_DML_DHCPCV6_FULL \<times> world) option" where
  "v6_control e release_ip l w =
     (let c = l6_client l in
      if c6_bEnabled (f6_Cfg c) \<and> \<not> release_ip
      then (if i6_Status (f6_Info c) = COSA_DML_DHCP_STATUS_Disabled then v6_start e l w
            else if c6_Renew (f6_Cfg c)
            then Some (set6 (c6_Renew_update (\<lambda>_. False)) c, snd (send_dhcpv6_renew e (i6_ClientProcessId (f6_Info c)) w))
            else if c6_Restart (f6_Cfg c) then v6_restart e c w
            else Some (c, w))
      else if i6_Status (f6_Info c) = COSA_DML_DHCP_STATUS_Enabled then v6_stop e release_ip c w
      else Some (c, w))"

definition v6_handle_client ::
  "env \<Rightarrow> dhcp_info \<Rightarrow> DHCPCV6_LINK_OBJECT \<Rightarrow> world \<Rightarrow> (DHCPCV6_LINK_OBJECT \<times> world) option" where
  "v6_handle_client e m l w =
     (case v6_param e m (l6_client l) w of
        None \<Rightarrow> None
      | Some (release_ip, c, w1) \<Rightarrow>
          map_option (\<lambda>(c', w'). (l\<lparr>l6_client := c'\<rparr>, w')) (v6_control e release_ip (l\<lparr>l6_client := c\<rparr>) w1))"

fun Process_DHCPv6_Handler ::
  "env \<Rightarrow> dhcp_info \<Rightarrow> nat \<Rightarrow> DHCPCV6_LINK_OBJECT list \<Rightarrow> world \<Rightarrow> (DHCPCV6_LINK_OBJECT list \<times> world) option" where
  "Process_DHCPv6_Handler e m 0 ls w = Some (ls, w)"
| "Process_DHCPv6_Handler e m (Suc clientCount) [] w = Some ([], w)"
| "Process_DHCPv6_Handler e m (Suc clientCount) (l # ls) w =
     (if strncmp_eq 64 (c6_Interface (f6_Cfg (l6_client l))) (di_if_name m)
      then map_option (\<lambda>(l', w'). (l' # ls, w')) (v6_handle_client e m l w)
      else map_option (\<lambda>(ls', w'). (l # ls', w')) (Process_DHCPv6_Handler e m clientCount ls w))"

section \<open>The state of the manager\<close>

text \<open>
  The tables, and the numbers of clients that were read from the persistent store when
  the tables were filled. They are kept from then on: adding an entry to a table does
  not change them. (While a number is 0 the code reads the store again; the model keeps the 0.)
\<close>

record manager =
  g_v4 :: "DHCPC_LINK_OBJECT list"
  g_v6 :: "DHCPCV6_LINK_OBJECT list"
  g_Dhcp4ClientNum :: nat
  g_Dhcp6ClientNum :: nat
  g_world :: world

text \<open>The clients that the loops reach.\<close>

abbreviation reach4 :: "manager \<Rightarrow> DHCPC_LINK_OBJECT list" where
  "reach4 g \<equiv> take (g_Dhcp4ClientNum g) (g_v4 g)"

abbreviation reach6 :: "manager \<Rightarrow> DHCPCV6_LINK_OBJECT list" where
  "reach6 g \<equiv> take (g_Dhcp6ClientNum g) (g_v6 g)"

text \<open>The state after start-up: every client of the tables is one of the store.\<close>

abbreviation loaded :: "DHCPC_LINK_OBJECT list \<Rightarrow> DHCPCV6_LINK_OBJECT list \<Rightarrow> world \<Rightarrow> manager" where
  "loaded t4 t6 w \<equiv> \<lparr>g_v4 = t4, g_v6 = t6, g_Dhcp4ClientNum = length t4, g_Dhcp6ClientNum = length t6, g_world = w\<rparr>"

definition dispatch :: "env \<Rightarrow> dhcp_info \<Rightarrow> manager \<Rightarrow> manager option" where
  "dispatch e m g =
     (case di_dhcpType m of
        DML_DHCPV4 \<Rightarrow> map_option (\<lambda>(t, w). g\<lparr>g_v4 := t, g_world := w\<rparr>) (Process_DHCPv4_Handler e m (g_Dhcp4ClientNum g) (g_v4 g) (g_world g))
      | DML_DHCPV6 \<Rightarrow> map_option (\<lambda>(t, w). g\<lparr>g_v6 := t, g_world := w\<rparr>) (Process_DHCPv6_Handler e m (g_Dhcp6ClientNum g) (g_v6 g) (g_world g)))"

text \<open>
  \<open>DhcpMgr_MainController\<close>. The loop ends after 22 receives in a row without a
  message (\<open>retry_count > max_retries\<close>) or on an error; what other threads put
  into the queue meanwhile is not in this sequential model, nor in it can the
  loop run forever unless a handler keeps sending to its own queue, as the
  DHCPv6 handler does while there is no link-local address: hence the fuel, one
  unit per receive. \<open>Controller_Race\<close> has the other threads.
\<close>

definition max_retries :: nat where "max_retries = 20"

datatype loop_result = Loop_exit manager | Loop_fault | Loop_fuel

fun controller_loop :: "env \<Rightarrow> string \<Rightarrow> nat \<Rightarrow> nat \<Rightarrow> manager \<Rightarrow> loop_result" where
  "controller_loop e q 0 retry g = Loop_fuel"
| "controller_loop e q (Suc fuel) retry g =
     (case mq_receive e q (g_world g) of (r, w) \<Rightarrow>
        (case r of
           Mq_msg m \<Rightarrow> (case dispatch e m (g\<lparr>g_world := w\<rparr>) of
                          None \<Rightarrow> Loop_fault
                        | Some g' \<Rightarrow> controller_loop e q fuel 0 g')
         | Mq_eagain \<Rightarrow> if retry > max_retries then Loop_exit (g\<lparr>g_world := w\<rparr>)
                        else controller_loop e q fuel (Suc retry) (g\<lparr>g_world := w\<rparr>)
         | Mq_error \<Rightarrow> Loop_exit (g\<lparr>g_world := w\<rparr>)))"

definition DhcpMgr_MainController :: "env \<Rightarrow> nat \<Rightarrow> string \<Rightarrow> manager \<Rightarrow> loop_result" where
  "DhcpMgr_MainController e fuel n g =
     (let q = mq_name_of n; inf_name = c_trunc MAX_STR_LEN n in
      (case mq_open e q (g_world g) of (ok, w1) \<Rightarrow>
         if \<not> ok then Loop_exit (g\<lparr>g_world := snd (mark_thread_stopped inf_name w1)\<rparr>)
         else (case controller_loop e q fuel 0 (g\<lparr>g_world := w1\<rparr>) of
                 Loop_exit g' \<Rightarrow>
                   Loop_exit (g'\<lparr>g_world := act (A_mq_close q) (snd (mark_thread_stopped inf_name (g_world g')))\<rparr>)
               | r \<Rightarrow> r)))"

section \<open>New leases\<close>

text \<open>The first of the first \<open>n\<close> entries that fits is changed.\<close>

definition update_upto :: "nat \<Rightarrow> ('a \<Rightarrow> bool) \<Rightarrow> ('a \<Rightarrow> 'a) \<Rightarrow> 'a list \<Rightarrow> 'a list" where
  "update_upto n P f t = update_first P f (take n t) @ drop n t"

lemma first_idx_take: "first_idx P (take n t) = Some k \<Longrightarrow> k < n \<and> k < length t \<and> take n t ! k = t ! k \<and> P (t ! k)"
  using first_idx_SomeD [of P "take n t" k] by auto

lemma update_upto_idx: "update_upto n P f t = (case first_idx P (take n t) of None \<Rightarrow> t | Some k \<Rightarrow> t[k := f (t ! k)])"
proof (cases "first_idx P (take n t)")
  case (Some k)
  from first_idx_take [OF this] have "(take n t)[k := f (t ! k)] @ drop n t = t[k := f (t ! k)]"
    by (metis append_take_drop_id length_take list_update_append1 min_less_iff_conj)
  with Some first_idx_take [OF Some] show ?thesis by (simp add: update_upto_def update_first_idx)
qed (simp add: update_upto_def update_first_idx)

lemma take_update_upto: "take n (update_upto n P f t) = update_first P f (take n t)"
  by (auto simp: update_upto_def)

definition DHCPMgr_AddDhcpv4Lease :: "string \<Rightarrow> DHCPv4_PLUGIN_MSG \<Rightarrow> nat \<Rightarrow> DHCPC_LINK_OBJECT list \<Rightarrow> DHCPC_LINK_OBJECT list" where
  "DHCPMgr_AddDhcpv4Lease ifName newLease clientCount =
     update_upto clientCount
       (\<lambda>l. ifName = c4_Interface (f4_Cfg (l4_client l)) \<and> i4_Status (f4_Info (l4_client l)) = COSA_DML_DHCP_STATUS_Enabled)
       (\<lambda>l. l\<lparr>l4_client := (l4_client l)\<lparr>f4_NewLeases := f4_NewLeases (l4_client l) @ [newLease]\<rparr>\<rparr>)"

text \<open>
  The message for a lease that finds no client names the interface of the last
  client that was looked at: where there was none that is a NULL pointer.
\<close>

definition v6_takes :: "string \<Rightarrow> DHCPCV6_LINK_OBJECT \<Rightarrow> bool" where
  "v6_takes ifName l \<longleftrightarrow>
     ifName = c6_Interface (f6_Cfg (l6_client l)) \<and> i6_Status (f6_Info (l6_client l)) = COSA_DML_DHCP_STATUS_Enabled"

definition DHCPMgr_AddDhcpv6Lease ::
  "string \<Rightarrow> DHCPv6_PLUGIN_MSG \<Rightarrow> nat \<Rightarrow> DHCPCV6_LINK_OBJECT list \<Rightarrow> DHCPCV6_LINK_OBJECT list option" where
  "DHCPMgr_AddDhcpv6Lease ifName newLease clientCount ls =
     (if clientCount = 0 \<or> ls = [] then None
      else Some (update_upto clientCount (v6_takes ifName)
             (\<lambda>l. l\<lparr>l6_client := (l6_client l)\<lparr>f6_NewLeases := f6_NewLeases (l6_client l) @ [newLease]\<rparr>\<rparr>) ls))"

section \<open>Dead clients\<close>

definition processKilled :: "env \<Rightarrow> int \<Rightarrow> manager \<Rightarrow> manager" where
  "processKilled e pid g =
     (let is4 = (\<lambda>l. i4_ClientProcessId (f4_Info (l4_client l)) = pid);
          is6 = (\<lambda>l. i6_ClientProcessId (f6_Info (l6_client l)) = pid);
          mark4 = (\<lambda>l. if i4_Status (f4_Info (l4_client l)) = COSA_DML_DHCP_STATUS_Enabled
                       then l\<lparr>l4_client := status4 COSA_DML_DHCP_STATUS_Disabled (l4_client l)\<rparr> else l);
          mark6 = (\<lambda>l. if i6_Status (f6_Info (l6_client l)) = COSA_DML_DHCP_STATUS_Enabled
                       then l\<lparr>l6_client := status6 COSA_DML_DHCP_STATUS_Disabled (l6_client l)\<rparr> else l)
      in (case find is4 (reach4 g) of
            Some l \<Rightarrow>
              g\<lparr>g_v4 := update_upto (g_Dhcp4ClientNum g) is4 mark4 (g_v4 g),
                g_world := snd (DhcpMgr_OpenQueueEnsureThread e (selfheal_msg (c4_Interface (f4_Cfg (l4_client l))) DML_DHCPV4) (g_world g))\<rparr>
          | None \<Rightarrow>
              (case find is6 (reach6 g) of
                 Some l \<Rightarrow>
                   g\<lparr>g_v6 := update_upto (g_Dhcp6ClientNum g) is6 mark6 (g_v6 g),
                     g_world := snd (DhcpMgr_OpenQueueEnsureThread e (selfheal_msg (c6_Interface (f6_Cfg (l6_client l))) DML_DHCPV6) (g_world g))\<rparr>
               | None \<Rightarrow> g)))"

text \<open>
  \<open>sigchld_handler\<close> (\<open>dhcp_client_common.c\<close>) works off the terminated children;
  there are finitely many, given here as the list of what \<open>waitpid\<close> returns
  before its first answer that is not positive.
\<close>

definition sigchld_handler :: "env \<Rightarrow> int list \<Rightarrow> manager \<Rightarrow> manager" where
  "sigchld_handler e pids g = fold (processKilled e) (takeWhile (\<lambda>p. 0 < p) pids) g"

end
