(* ===== verification/Recovery.thy ===== *)
theory Recovery
  imports Controller
begin

text \<open>
  Recovery after a restart of the manager, the second half of
  \<open>source/DHCPMgrUtils/dhcpmgr_recovery_handler.c\<close>: the lease files are read, a
  client that still runs is taken over with its configuration and its lease and
  its process is watched, a client that does not run in the way its system event
  says is handed to its controller. A process that is watched ends in
  \<open>dhcp_pid_mon\<close>, since it is not a child of the new manager.

  The instance number of a table entry is the one of its configuration, as the
  data model sets them. Memory allocation succeeds. A write past the end of the
  array \<open>pids\<close> is \<open>None\<close>.
\<close>

section \<open>Asking the controller for a restart\<close>

definition MAX_PIDS :: nat where "MAX_PIDS = 20"

definition DhcpMgr_EnqueueSelfhealRestart :: "env \<Rightarrow> string \<Rightarrow> dhcp_type \<Rightarrow> world \<Rightarrow> world" where
  "DhcpMgr_EnqueueSelfhealRestart e ifname t w =
     (if ifname = [] then w else snd (DhcpMgr_OpenQueueEnsureThread e (selfheal_msg ifname t) w))"

text \<open>
  What \<open>DhcpMgr_SetStatusAndEnqueueRestart\<close> writes through its pointers: the
  interface, the enable flag and the status, or nothing. What the system event
  says is \<open>None\<close> where it could not be read.
\<close>

definition DhcpMgr_SetStatusAndEnqueueRestart ::
  "env \<Rightarrow> (string \<times> bool) option \<Rightarrow> nat \<Rightarrow> dhcp_type \<Rightarrow> world \<Rightarrow> (string \<times> bool \<times> COSA_DML_DHCP_STATUS) option \<times> world" where
  "DhcpMgr_SetStatusAndEnqueueRestart e sysev cfgInterfaceSize t w =
     (case sysev of
        None \<Rightarrow> (None, w)
      | Some (ifName, isEnabled) \<Rightarrow>
          if ifName = [] then (None, w)
          else (Some (c_trunc cfgInterfaceSize ifName, isEnabled,
                      if isEnabled then COSA_DML_DHCP_STATUS_Disabled else COSA_DML_DHCP_STATUS_Enabled),
                DhcpMgr_EnqueueSelfhealRestart e ifName t w))"

definition write_back4 :: "(string \<times> bool \<times> COSA_DML_DHCP_STATUS) option \<Rightarrow> COSA_DML_DHCPC_FULL \<Rightarrow> COSA_DML_DHCPC_FULL" where
  "write_back4 r c =
     (case r of
        None \<Rightarrow> c
      | Some (n, b, s) \<Rightarrow> status4 s (set4 (\<lambda>g. g\<lparr>c4_Interface := n, c4_bEnabled := b\<rparr>) c))"

definition write_back6 :: "(string \<times> bool \<times> COSA_DML_DHCP_STATUS) option \<Rightarrow> COSA_DML_DHCPCV6_FULL \<Rightarrow> COSA_DML_DHCPCV6_FULL" where
  "write_back6 r c =
     (case r of
        None \<Rightarrow> c
      | Some (n, b, s) \<Rightarrow> status6 s (set6 (\<lambda>g. g\<lparr>c6_Interface := n, c6_bEnabled := b\<rparr>) c))"

definition restart_client4 :: "env \<Rightarrow> (string \<times> bool) option \<Rightarrow> COSA_DML_DHCPC_FULL \<Rightarrow> world \<Rightarrow> COSA_DML_DHCPC_FULL \<times> world" where
  "restart_client4 e sysev c w =
     (case DhcpMgr_SetStatusAndEnqueueRestart e sysev COSA_DML_ALIAS_NAME_LENGTH DML_DHCPV4 w of (r, w') \<Rightarrow> (write_back4 r c, w'))"

definition restart_client6 :: "env \<Rightarrow> (string \<times> bool) option \<Rightarrow> COSA_DML_DHCPCV6_FULL \<Rightarrow> world \<Rightarrow> COSA_DML_DHCPCV6_FULL \<times> world" where
  "restart_client6 e sysev c w =
     (case DhcpMgr_SetStatusAndEnqueueRestart e sysev COSA_DML_ALIAS_NAME_LENGTH DML_DHCPV6 w of (r, w') \<Rightarrow> (write_back6 r c, w'))"

section \<open>Reading the files\<close>

definition file_exists :: "env \<Rightarrow> string \<Rightarrow> world \<Rightarrow> bool \<times> world" where
  "file_exists e path w = (case call e (A_access path) w of (r, w') \<Rightarrow> (r = 0 \<and> w_files w path \<noteq> None, w'))"

definition open_rb :: "env \<Rightarrow> string \<Rightarrow> world \<Rightarrow> bool \<times> world" where
  "open_rb e path w = (case call e (A_fopen path ''rb'') w of (r, w') \<Rightarrow> (0 \<le> r, w'))"

definition read_client4 :: "env \<Rightarrow> string \<Rightarrow> world \<Rightarrow> COSA_DML_DHCPC_FULL option \<times> world" where
  "read_client4 e path w = (case call e (A_fread path) w of (r, w') \<Rightarrow>
     (case w_files w path of Some (File4 c l) \<Rightarrow> if r = 1 then Some c else None | _ \<Rightarrow> None, w'))"

definition read_lease4 :: "env \<Rightarrow> string \<Rightarrow> world \<Rightarrow> DHCPv4_PLUGIN_MSG option \<times> world" where
  "read_lease4 e path w = (case call e (A_fread path) w of (r, w') \<Rightarrow>
     (case w_files w path of Some (File4 c l) \<Rightarrow> if r = 1 then l else None | _ \<Rightarrow> None, w'))"

definition read_client6 :: "env \<Rightarrow> string \<Rightarrow> world \<Rightarrow> COSA_DML_DHCPCV6_FULL option \<times> world" where
  "read_client6 e path w = (case call e (A_fread path) w of (r, w') \<Rightarrow>
     (case w_files w path of Some (File6 c l) \<Rightarrow> if r = 1 then Some c else None | _ \<Rightarrow> None, w'))"

definition read_lease6 :: "env \<Rightarrow> string \<Rightarrow> world \<Rightarrow> DHCPv6_PLUGIN_MSG option \<times> world" where
  "read_lease6 e path w = (case call e (A_fread path) w of (r, w') \<Rightarrow>
     (case w_files w path of Some (File6 c l) \<Rightarrow> if r = 1 then l else None | _ \<Rightarrow> None, w'))"

definition pid_running :: "env \<Rightarrow> int \<Rightarrow> world \<Rightarrow> bool \<times> world" where
  "pid_running e pid w = (case call e (A_access (c_trunc 64 (''/proc/'' @ show_int pid))) w of (r, w') \<Rightarrow> (r = 0, w'))"

definition watch_pid :: "int \<Rightarrow> int list \<Rightarrow> int list option" where
  "watch_pid pid pids = (if length pids < MAX_PIDS then Some (pids @ [pid]) else None)"

section \<open>One client\<close>

text \<open>The flag of the result says that \<open>ret\<close> was set to \<open>EXIT_SUCCESS\<close>.\<close>

definition adopt_client4 ::
  "env \<Rightarrow> string \<Rightarrow> COSA_DML_DHCPC_FULL \<Rightarrow> COSA_DML_DHCPC_FULL \<Rightarrow> int list \<Rightarrow> world \<Rightarrow>
     (bool \<times> COSA_DML_DHCPC_FULL \<times> int list \<times> world) option" where
  "adopt_client4 e path stored c pids w =
     (let pid = i4_ClientProcessId (f4_Info stored) in
      (case watch_pid pid pids of
         None \<Rightarrow> None
       | Some pids' \<Rightarrow>
           (case read_lease4 e path w of (l, w1) \<Rightarrow>
              (let c1 = c\<lparr>f4_Cfg := f4_Cfg stored,
                          f4_Info := (f4_Info c)\<lparr>i4_Status := COSA_DML_DHCP_STATUS_Enabled, i4_ClientProcessId := pid\<rparr>,
                          f4_currentLease := l\<rparr>
               in map_option (\<lambda>(_, c2). (True, c2, pids', w1)) (DhcpMgr_updateDHCPv4DML e c1)))))"

definition load_v4_client ::
  "env \<Rightarrow> COSA_DML_DHCPC_FULL \<Rightarrow> int list \<Rightarrow> world \<Rightarrow> (bool \<times> COSA_DML_DHCPC_FULL \<times> int list \<times> world) option" where
  "load_v4_client e c pids w =
     (let n = c4_InstanceNumber (f4_Cfg c); path = lease_path4 n;
          (sysev, w1) = Dhcp_get_Sysevent_InterfaceEnable e (enable_key False n) 64 w;
          (there, w2) = file_exists e path w1
      in if \<not> there then (let (c', w') = restart_client4 e sysev c w2 in Some (False, c', pids, w'))
         else (let (opened, w3) = open_rb e path w2
               in if \<not> opened then (let (c', w') = restart_client4 e sysev c w3 in Some (False, c', pids, w'))
                  else (case read_client4 e path w3 of
                          (None, w4) \<Rightarrow> Some (False, c, pids, w4)
                        | (Some stored, w4) \<Rightarrow>
                            (let pid = i4_ClientProcessId (f4_Info stored); (runs, w5) = pid_running e pid w4;
                                 restart = (let (c', w') = restart_client4 e sysev c w5
                                            in Some (False, c'\<lparr>f4_Info := (f4_Info c')\<lparr>i4_ClientProcessId := pid\<rparr>\<rparr>, pids, w'))
                             in (case sysev of
                                   Some (_, isEnabled) \<Rightarrow>
                                     if \<not> isEnabled \<and> \<not> runs
                                     then Some (False, status4 COSA_DML_DHCP_STATUS_Disabled c, pids, w5)
                                     else if isEnabled \<noteq> runs then restart
                                     else adopt_client4 e path stored c pids w5
                                 | None \<Rightarrow> adopt_client4 e path stored c pids w5)))))"

definition adopt_client6 ::
  "env \<Rightarrow> string \<Rightarrow> COSA_DML_DHCPCV6_FULL \<Rightarrow> COSA_DML_DHCPCV6_FULL \<Rightarrow> int list \<Rightarrow> world \<Rightarrow>
     (bool \<times> COSA_DML_DHCPCV6_FULL \<times> int list \<times> world) option" where
  "adopt_client6 e path stored c pids w =
     (let pid = i6_ClientProcessId (f6_Info stored) in
      (case watch_pid pid pids of
         None \<Rightarrow> None
       | Some pids' \<Rightarrow>
           (case read_lease6 e path w of (l, w1) \<Rightarrow>
              Some (True,
                    c\<lparr>f6_Cfg := f6_Cfg stored,
                      f6_Info := (f6_Info c)\<lparr>i6_Status := COSA_DML_DHCP_STATUS_Enabled, i6_ClientProcessId := pid\<rparr>,
                      f6_currentLease := l\<rparr>,
                    pids', w1))))"

definition load_v6_client ::
  "env \<Rightarrow> COSA_DML_DHCPCV6_FULL \<Rightarrow> int list \<Rightarrow> world \<Rightarrow> (bool \<times> COSA_DML_DHCPCV6_FULL \<times> int list \<times> world) option" where
  "load_v6_client e c pids w =
     (let n = c6_InstanceNumber (f6_Cfg c); path = lease_path6 n;
          (sysev, w1) = Dhcp_get_Sysevent_InterfaceEnable e (enable_key True n) 64 w;
          (there, w2) = file_exists e path w1
      in if \<not> there then (let (c', w') = restart_client6 e sysev c w2 in Some (False, c', pids, w'))
         else (let (opened, w3) = open_rb e path w2
               in if \<not> opened then (let (c', w') = restart_client6 e sysev c w3 in Some (False, c', pids, w'))
                  else (case read_client6 e path w3 of
                          (None, w4) \<Rightarrow> Some (False, c, pids, w4)
                        | (Some stored, w4) \<Rightarrow>
                            (let pid = i6_ClientProcessId (f6_Info stored); (runs, w5) = pid_running e pid w4;
                                 restart = (let (c', w') = restart_client6 e sysev c w5
                                            in Some (False, c'\<lparr>f6_Info := (f6_Info c')\<lparr>i6_ClientProcessId := pid\<rparr>\<rparr>, pids, w'))
                             in (case sysev of
                                   Some (_, isEnabled) \<Rightarrow>
                                     if \<not> isEnabled \<and> \<not> runs
                                     then Some (False, status6 COSA_DML_DHCP_STATUS_Disabled c, pids, w5)
                                     else if isEnabled \<noteq> runs then restart
                                     else adopt_client6 e path stored c pids w5
                                 | None \<Rightarrow> adopt_client6 e path stored c pids w5)))))"

section \<open>The tables\<close>

text \<open>
  The loop runs to \<open>clientCount\<close>; behind the end of the table it takes the last client
  again. With an empty table the DHCPv4 code uses an instance number that was never
  set, the DHCPv6 code goes on to the next index.
\<close>

fun load_v4_loop ::
  "env \<Rightarrow> nat \<Rightarrow> nat \<Rightarrow> DHCPC_LINK_OBJECT list \<Rightarrow> int list \<Rightarrow> world \<Rightarrow> (bool \<times> DHCPC_LINK_OBJECT list \<times> int list \<times> world) option" where
  "load_v4_loop e 0 i ls pids w = Some (False, ls, pids, w)"
| "load_v4_loop e (Suc n) i ls pids w =
     (let k = min i (length ls - 1)
      in if ls = [] then None
         else (case load_v4_client e (l4_client (ls ! k)) pids w of
                 None \<Rightarrow> None
               | Some (r, c, pids', w') \<Rightarrow>
                   map_option (\<lambda>(r', res). (r \<or> r', res)) (load_v4_loop e n (Suc i) (ls[k := (ls ! k)\<lparr>l4_client := c\<rparr>]) pids' w')))"

definition load_v4dhcp_leases ::
  "env \<Rightarrow> nat \<Rightarrow> DHCPC_LINK_OBJECT list \<Rightarrow> int list \<Rightarrow> world \<Rightarrow> (bool \<times> DHCPC_LINK_OBJECT list \<times> int list \<times> world) option" where
  "load_v4dhcp_leases e clientCount ls pids w = load_v4_loop e clientCount 0 ls pids w"

fun load_v6_loop ::
  "env \<Rightarrow> nat \<Rightarrow> nat \<Rightarrow> DHCPCV6_LINK_OBJECT list \<Rightarrow> int list \<Rightarrow> world \<Rightarrow> (bool \<times> DHCPCV6_LINK_OBJECT list \<times> int list \<times> world) option" where
  "load_v6_loop e 0 i ls pids w = Some (False, ls, pids, w)"
| "load_v6_loop e (Suc n) i ls pids w =
     (let k = min i (length ls - 1)
      in if ls = [] then load_v6_loop e n (Suc i) ls pids w
         else (case load_v6_client e (l6_client (ls ! k)) pids w of
                 None \<Rightarrow> None
               | Some (r, c, pids', w') \<Rightarrow>
                   map_option (\<lambda>(r', res). (r \<or> r', res)) (load_v6_loop e n (Suc i) (ls[k := (ls ! k)\<lparr>l6_client := c\<rparr>]) pids' w')))"

definition load_v6dhcp_leases ::
  "env \<Rightarrow> nat \<Rightarrow> DHCPCV6_LINK_OBJECT list \<Rightarrow> int list \<Rightarrow> world \<Rightarrow> (bool \<times> DHCPCV6_LINK_OBJECT list \<times> int list \<times> world) option" where
  "load_v6dhcp_leases e clientCount ls pids w = load_v6_loop e clientCount 0 ls pids w"

text \<open>No clients in the store is a failure of the protocol; recovery fails where both protocols do.\<close>

definition DHCPMgr_loadDhcpLeases :: "env \<Rightarrow> int list \<Rightarrow> manager \<Rightarrow> (int \<times> int list \<times> manager) option" where
  "DHCPMgr_loadDhcpLeases e pids g =
     (case load_v4dhcp_leases e (g_Dhcp4ClientNum g) (g_v4 g) pids (g_world g) of
        None \<Rightarrow> None
      | Some (ok4, t4, pids1, w1) \<Rightarrow>
          (case load_v6dhcp_leases e (g_Dhcp6ClientNum g) (g_v6 g) pids1 w1 of
             None \<Rightarrow> None
           | Some (ok6, t6, pids2, w2) \<Rightarrow>
               Some (if \<not> ok4 \<and> \<not> ok6 then EXIT_FAIL else EXIT_SUCCESS, pids2, g\<lparr>g_v4 := t4, g_v6 := t6, g_world := w2\<rparr>)))"

definition DhcpMgr_Dhcp_Recovery_Start :: "env \<Rightarrow> manager \<Rightarrow> (int \<times> int list \<times> manager) option" where
  "DhcpMgr_Dhcp_Recovery_Start e g =
     (case DHCPMgr_loadDhcpLeases e [] g of
        None \<Rightarrow> None
      | Some (r, pids, g1) \<Rightarrow>
          if r \<noteq> EXIT_SUCCESS \<or> pids = [] then Some (EXIT_FAIL, pids, g1)
          else (case call e (A_thread ''dhcp_pid_mon'') (g_world g1) of (t, w) \<Rightarrow>
                  Some (if t \<noteq> 0 then EXIT_FAIL else EXIT_SUCCESS, pids, g1\<lparr>g_world := w\<rparr>)))"

section \<open>The watched processes\<close>

text \<open>
  What \<open>waitpid\<close> reports: an error, the end of a process, a stop by a signal, or
  something else (\<open>WIFCONTINUED\<close>). The thread is run on the reports it gets; the
  list of the watched processes is walked for each one, and the count is taken
  down for each entry that matches. The result has the count that is left: the
  thread has ended where it is not positive.
\<close>

datatype wait_report = Wait_error | Wait_exit int | Wait_stopped int int | Wait_other int

definition pid_exited :: "env \<Rightarrow> int list \<Rightarrow> int \<Rightarrow> int \<times> manager \<Rightarrow> int \<times> manager" where
  "pid_exited e pids pid s =
     fold (\<lambda>p (active, g). if p = pid then (active - 1, processKilled e pid g) else (active, g)) pids s"

fun pid_mon_loop :: "env \<Rightarrow> int list \<Rightarrow> wait_report list \<Rightarrow> int \<times> manager \<Rightarrow> int \<times> manager" where
  "pid_mon_loop e pids [] s = s"
| "pid_mon_loop e pids (r # rs) (active, g) =
     (if active \<le> 0 then (active, g)
      else (case r of
              Wait_exit pid \<Rightarrow> pid_mon_loop e pids rs (pid_exited e pids pid (active, g))
            | Wait_stopped pid sig \<Rightarrow> pid_mon_loop e pids rs (active, g\<lparr>g_world := act (A_ptrace pid) (g_world g)\<rparr>)
            | _ \<Rightarrow> pid_mon_loop e pids rs (active, g)))"

definition dhcp_pid_mon :: "env \<Rightarrow> int list \<Rightarrow> wait_report list \<Rightarrow> manager \<Rightarrow> int \<times> manager" where
  "dhcp_pid_mon e pids reports g =
     pid_mon_loop e pids reports
       (int (length pids), g\<lparr>g_world := fold (\<lambda>p w. act (A_ptrace p) w) pids (g_world g)\<rparr>)"

end
