(* ===== verification/Client_Machine.thy ===== *)
theory Client_Machine
  imports Dhcp_World
begin

text \<open>
  The life of a DHCP client as its controller sees it, the same for DHCPv4 and
  DHCPv6: whether the client is enabled, whether it runs, the requests that wait
  and whether leases wait. A control message is one step of the machine, with the
  types of the events it publishes. The locale \<open>client_control\<close> is the contract
  of a handler that implements the machine, with what follows from it for any
  sequence of messages; \<open>Controller_Spec\<close> interprets it for both handlers.
\<close>

section \<open>The machine\<close>

datatype control = C_enable bool | C_renew bool | C_restart bool | C_lease | C_release | C_other

definition control_of :: "dhcp_info \<Rightarrow> control" where
  "control_of m =
     (if di_ParamName m = ''Enable'' then C_enable (di_bValue m)
      else if di_ParamName m = ''Renew'' then C_renew (di_bValue m)
      else if di_ParamName m = ''X_RDK_Restart'' then C_restart (di_bValue m)
      else if di_ParamName m = ''ProcessLease'' then C_lease
      else if di_ParamName m = ''X_RDK_Release'' then C_release
      else C_other)"

record ctl =
  k_enabled :: bool
  k_running :: bool
  k_renew :: bool
  k_restart :: bool
  k_leases :: bool

lemma not_running_self: "\<not> k_running k \<Longrightarrow> k\<lparr>k_running := False\<rparr> = k"
  by (cases k) simp

definition lease_types :: "DHCP_MESSAGE_TYPE set" where
  "lease_types = {DHCP_LEASE_UPDATE, DHCP_LEASE_RENEW, DHCP_LEASE_DEL}"

text \<open>
  The parameter of a message. Working off waiting leases may mark the client as
  running, as the DHCPv4 data model does for an assigned address.
\<close>

inductive ctl_param :: "control \<Rightarrow> ctl \<Rightarrow> DHCP_MESSAGE_TYPE list \<Rightarrow> ctl \<Rightarrow> bool" where
  enable: "ctl_param (C_enable b) k [] (k\<lparr>k_enabled := b\<rparr>)"
| renew: "ctl_param (C_renew b) k [] (k\<lparr>k_renew := b\<rparr>)"
| restart: "ctl_param (C_restart b) k [] (k\<lparr>k_restart := b\<rparr>)"
| no_leases: "\<not> k_leases k \<Longrightarrow> ctl_param C_lease k [] k"
| leases: "k_leases k \<Longrightarrow> set ts \<subseteq> lease_types \<Longrightarrow> (k_running k \<longrightarrow> r) \<Longrightarrow>
    ctl_param C_lease k ts (k\<lparr>k_running := r, k_leases := False\<rparr>)"
| release: "ctl_param C_release k [] k"
| other: "ctl_param C_other k [] k"

text \<open>What the controller then does; the flag says that the message was a release.\<close>

inductive ctl_move :: "bool \<Rightarrow> ctl \<Rightarrow> DHCP_MESSAGE_TYPE list \<Rightarrow> ctl \<Rightarrow> bool" where
  started: "k_enabled k \<Longrightarrow> \<not> k_running k \<Longrightarrow> ctl_move False k [DHCP_CLIENT_STARTED] (k\<lparr>k_running := True\<rparr>)"
| failed: "k_enabled k \<Longrightarrow> \<not> k_running k \<Longrightarrow> ctl_move False k [DHCP_CLIENT_FAILED] k"
| link_down: "k_enabled k \<Longrightarrow> \<not> k_running k \<Longrightarrow> ctl_move False k [DHCP_CLIENT_FAILED] (k\<lparr>k_enabled := False\<rparr>)"
| wait_link: "k_enabled k \<Longrightarrow> \<not> k_running k \<Longrightarrow> ctl_move False k [] k"
| do_renew: "k_enabled k \<Longrightarrow> k_running k \<Longrightarrow> k_renew k \<Longrightarrow> ctl_move False k [] (k\<lparr>k_renew := False\<rparr>)"
| do_restart: "k_enabled k \<Longrightarrow> k_running k \<Longrightarrow> \<not> k_renew k \<Longrightarrow> k_restart k \<Longrightarrow> (l \<longrightarrow> k_leases k) \<Longrightarrow>
    ctl_move False k [DHCP_LEASE_DEL] (k\<lparr>k_running := False, k_restart := False, k_leases := l\<rparr>)"
| keep: "k_enabled k \<Longrightarrow> k_running k \<Longrightarrow> \<not> k_renew k \<Longrightarrow> \<not> k_restart k \<Longrightarrow> ctl_move False k [] k"
| stop: "\<not> k_enabled k \<or> rel \<Longrightarrow> k_running k \<Longrightarrow>
    ctl_move rel k [DHCP_LEASE_DEL, DHCP_CLIENT_STOPPED]
      (k\<lparr>k_running := False, k_enabled := False, k_renew := False, k_leases := False\<rparr>)"
| idle: "\<not> k_enabled k \<or> rel \<Longrightarrow> \<not> k_running k \<Longrightarrow> ctl_move rel k [] k"

inductive_cases ctl_param_cases: "ctl_param c k ts k'"
inductive_cases ctl_move_cases: "ctl_move rel k ts k'"

definition ctl_step :: "control \<Rightarrow> ctl \<Rightarrow> DHCP_MESSAGE_TYPE list \<Rightarrow> ctl \<Rightarrow> bool" where
  "ctl_step c k ts k' \<longleftrightarrow>
     (\<exists>ts1 k1 ts2. ctl_param c k ts1 k1 \<and> ctl_move (c = C_release) k1 ts2 k' \<and> ts = ts1 @ ts2)"

inductive ctl_run :: "control list \<Rightarrow> ctl \<Rightarrow> DHCP_MESSAGE_TYPE list \<Rightarrow> ctl \<Rightarrow> bool" where
  run_nil: "ctl_run [] k [] k"
| run_cons: "ctl_step c k ts k1 \<Longrightarrow> ctl_run cs k1 ts' k' \<Longrightarrow> ctl_run (c # cs) k (ts @ ts') k'"

inductive_cases ctl_run_NilE: "ctl_run [] k ts k'"
inductive_cases ctl_run_ConsE: "ctl_run (c # cs) k ts k'"

section \<open>What the machine guarantees\<close>

text \<open>A client that is off, with nothing waiting, stays off until it is enabled.\<close>

definition ctl_off :: "ctl \<Rightarrow> bool" where
  "ctl_off k \<longleftrightarrow> \<not> k_enabled k \<and> \<not> k_running k \<and> \<not> k_leases k"

lemma step_off:
  assumes "ctl_off k" "c \<noteq> C_enable True" "ctl_step c k ts k'"
  shows "ts = [] \<and> ctl_off k'"
proof -
  obtain ts1 k1 ts2 where s: "ctl_param c k ts1 k1" "ctl_move (c = C_release) k1 ts2 k'" "ts = ts1 @ ts2"
    using assms(3) by (auto simp: ctl_step_def)
  have "ts1 = [] \<and> ctl_off k1" using s(1) assms(1,2) by (cases rule: ctl_param.cases) (auto simp: ctl_off_def)
  then show ?thesis using s(2,3) by (auto simp: ctl_off_def elim: ctl_move.cases)
qed

lemma run_off: "ctl_run cs k ts k' \<Longrightarrow> ctl_off k \<Longrightarrow> C_enable True \<notin> set cs \<Longrightarrow> ts = [] \<and> ctl_off k'"
proof (induction rule: ctl_run.induct)
  case (run_cons c k ts k1 cs ts' k')
  then have "ts = [] \<and> ctl_off k1" by (intro step_off) auto
  with run_cons show ?case by simp
qed simp

text \<open>Disabling or releasing a running client turns it off, with exactly two events.\<close>

lemma step_stop:
  assumes "c = C_enable False \<or> c = C_release" "k_running k" "ctl_step c k ts k'"
  shows "ts = [DHCP_LEASE_DEL, DHCP_CLIENT_STOPPED] \<and> ctl_off k'"
proof -
  obtain ts1 k1 ts2 where s: "ctl_param c k ts1 k1" "ctl_move (c = C_release) k1 ts2 k'" "ts = ts1 @ ts2"
    using assms(3) by (auto simp: ctl_step_def)
  have "ts1 = [] \<and> k_running k1 \<and> (\<not> k_enabled k1 \<or> c = C_release)"
    using s(1) assms(1,2) by (cases rule: ctl_param.cases) auto
  then show ?thesis using s(2,3) assms(1) by (auto simp: ctl_off_def elim: ctl_move.cases)
qed

text \<open>A client is reported as started only where it did not run, and then runs.\<close>

lemma step_started:
  assumes "ctl_step c k ts k'" "DHCP_CLIENT_STARTED \<in> set ts"
  shows "\<not> k_running k \<and> k_running k' \<and> k_enabled k'"
proof -
  obtain ts1 k1 ts2 where s: "ctl_param c k ts1 k1" "ctl_move (c = C_release) k1 ts2 k'" "ts = ts1 @ ts2"
    using assms(1) by (auto simp: ctl_step_def)
  have "DHCP_CLIENT_STARTED \<notin> set ts1 \<and> (k_running k \<longrightarrow> k_running k1)"
    using s(1) by (cases rule: ctl_param.cases) (auto simp: lease_types_def)
  moreover have "\<not> k_running k1 \<and> k_running k' \<and> k_enabled k'" if "DHCP_CLIENT_STARTED \<in> set ts2"
    using s(2) that by (cases rule: ctl_move.cases) auto
  ultimately show ?thesis using assms(2) s(3) by auto
qed

section \<open>Handlers\<close>

locale client_control =
  fixes handle :: "dhcp_info \<Rightarrow> 's \<Rightarrow> (DHCP_MESSAGE_TYPE list \<times> 's) option"
    and view :: "'s \<Rightarrow> ctl"
    and ok :: "'s \<Rightarrow> bool"
  assumes refine: "ok s \<Longrightarrow> handle m s = Some (ts, s') \<Longrightarrow> ctl_step (control_of m) (view s) ts (view s') \<and> ok s'"
begin

lemma handled_stop:
  "ok s \<Longrightarrow> control_of m = C_enable False \<or> control_of m = C_release \<Longrightarrow> k_running (view s) \<Longrightarrow>
   handle m s = Some (ts, s') \<Longrightarrow> ts = [DHCP_LEASE_DEL, DHCP_CLIENT_STOPPED] \<and> ctl_off (view s')"
  using refine step_stop by blast

end

fun handle_all ::
  "(dhcp_info \<Rightarrow> 's \<Rightarrow> (DHCP_MESSAGE_TYPE list \<times> 's) option) \<Rightarrow> dhcp_info list \<Rightarrow> 's \<Rightarrow> (DHCP_MESSAGE_TYPE list \<times> 's) option" where
  "handle_all h [] s = Some ([], s)"
| "handle_all h (m # ms) s =
     (case h m s of
        None \<Rightarrow> None
      | Some (ts, s1) \<Rightarrow> map_option (\<lambda>(ts', s'). (ts @ ts', s')) (handle_all h ms s1))"

context client_control
begin

lemma handle_all_refines:
  "ok s \<Longrightarrow> handle_all handle ms s = Some (ts, s') \<Longrightarrow> ctl_run (map control_of ms) (view s) ts (view s') \<and> ok s'"
proof (induction ms arbitrary: s ts)
  case (Cons m ms)
  obtain ts1 s1 ts2 where h: "handle m s = Some (ts1, s1)" "handle_all handle ms s1 = Some (ts2, s')" "ts = ts1 @ ts2"
    using Cons.prems(2) by (auto split: option.splits)
  have s1: "ctl_step (control_of m) (view s) ts1 (view s1)" "ok s1" using refine [OF Cons.prems(1) h(1)] by simp_all
  with Cons.IH [OF s1(2) h(2)] show ?case by (auto simp: h(3) intro: run_cons)
qed (auto intro: run_nil)

lemma handle_all_off:
  "ok s \<Longrightarrow> ctl_off (view s) \<Longrightarrow> C_enable True \<notin> set (map control_of ms) \<Longrightarrow>
   handle_all handle ms s = Some (ts, s') \<Longrightarrow> ts = [] \<and> ctl_off (view s')"
  using handle_all_refines run_off by blast

lemma handled_stays_off:
  assumes "ok s" "control_of m = C_enable False \<or> control_of m = C_release" "k_running (view s)"
    "C_enable True \<notin> set (map control_of ms)" "handle_all handle (m # ms) s = Some (ts, s')"
  shows "ts = [DHCP_LEASE_DEL, DHCP_CLIENT_STOPPED] \<and> ctl_off (view s')"
proof -
  obtain ts1 s1 ts2 where h: "handle m s = Some (ts1, s1)" "handle_all handle ms s1 = Some (ts2, s')" "ts = ts1 @ ts2"
    using assms(5) by (auto split: option.splits)
  have "ts1 = [DHCP_LEASE_DEL, DHCP_CLIENT_STOPPED]" "ctl_off (view s1)" "ok s1"
    using handled_stop [OF assms(1-3) h(1)] refine [OF assms(1) h(1)] by simp_all
  then show ?thesis using handle_all_off [OF _ _ assms(4) h(2)] h(3) by simp
qed

end

end
