(* ===== verification/Controller_Frame.thy ===== *)
theory Controller_Frame
  imports Controller Client_Machine Lease_V4_Spec Lease_V6_Spec
begin

text \<open>
  What the pieces of the handlers publish and what they leave alone, for any
  answers of the system: the relation \<open>pubs\<close> between the worlds before and after,
  with the types of the DHCPv4 and of the DHCPv6 events between them.
\<close>

section \<open>Publications\<close>

definition pubs :: "DHCP_MESSAGE_TYPE list \<Rightarrow> DHCP_MESSAGE_TYPE list \<Rightarrow> world \<Rightarrow> world \<Rightarrow> bool" where
  "pubs ts4 ts6 w w' \<longleftrightarrow> extends w w' \<and> map fst (events4 (new_actions w w')) = ts4 \<and> map fst (events6 (new_actions w w')) = ts6"

lemma pubs_refl [simp]: "pubs [] [] w w"
  by (simp add: pubs_def)

lemma pubs_trans: "pubs a b u v \<Longrightarrow> pubs a' b' v w \<Longrightarrow> pubs (a @ a') (b @ b') u w"
  using new_actions_trans [of u v w] extends_trans [of u v w] by (simp add: pubs_def)

lemma quiet_pubs: "quiet w w' \<Longrightarrow> pubs [] [] w w'"
  by (simp add: quiet_def pubs_def)

lemma pubs_quiet: "pubs a b u v \<Longrightarrow> quiet v w \<Longrightarrow> pubs a b u w"
  using pubs_trans [of a b u v "[]" "[]" w] by (simp add: quiet_pubs)

lemma pubs_publish4: "pubs a b u w \<Longrightarrow> pubs (a @ [t]) b u (act (A_publish4 i n t l) w)"
  using pubs_trans [of a b u w "[t]" "[]"] by (simp add: pubs_def)

lemma pubs_publish6: "pubs a b u w \<Longrightarrow> pubs a (b @ [t]) u (act (A_publish6 i n t l) w)"
  using pubs_trans [of a b u w "[]" "[t]"] by (simp add: pubs_def)

lemma pubs_act: "event4 a = [] \<Longrightarrow> event6 a = [] \<Longrightarrow> pubs x y u w \<Longrightarrow> pubs x y u (act a w)"
  by (erule pubs_quiet) (simp add: quiet_act)

lemma pubs_update [simp]:
  "pubs a b u (w\<lparr>w_mqs := m\<rparr>) = pubs a b u w" "pubs a b u (w\<lparr>w_ifaces := is\<rparr>) = pubs a b u w"
  "pubs a b u (w\<lparr>w_files := f\<rparr>) = pubs a b u w"
  by (simp_all add: pubs_def extends_def new_actions_def)

lemma pubs_mq_open: "pubs a b u w \<Longrightarrow> pubs a b u (snd (mq_open e q w))"
  by (simp add: pubs_act)

lemma pubs_create: "pubs a b u w \<Longrightarrow> pubs a b u (snd (create_message_queue e q w))"
  by (simp add: create_message_queue_def case_prod_beta pubs_act)

lemma pubs_ensure: "pubs a b u w \<Longrightarrow> pubs a b u (snd (ensure_thread e n w))"
  by (simp add: ensure_thread_def find_or_create_interface_def create_interface_thread_def update_interface_info_def
      case_prod_beta Let_def pubs_act split: option.split)

lemma pubs_mq_send: "pubs a b u w \<Longrightarrow> pubs a b u (snd (mq_send e q m w))"
  by (simp add: mq_send_def case_prod_beta pubs_act split: option.split)

lemma pubs_send: "pubs a b u w \<Longrightarrow> pubs a b u (snd (send_locked e m w))"
  by (simp add: send_locked_def case_prod_beta Let_def pubs_act pubs_mq_send)

lemma pubs_open_queue: "pubs a b u w \<Longrightarrow> pubs a b u (snd (DhcpMgr_OpenQueueEnsureThread e m w))"
  by (simp add: DhcpMgr_OpenQueueEnsureThread_def open_or_create_def case_prod_beta Let_def
      pubs_create pubs_ensure pubs_send pubs_act)

text \<open>The DHCPv4 handler in addition leaves the queues and the registry alone.\<close>

definition pubs4 :: "DHCP_MESSAGE_TYPE list \<Rightarrow> world \<Rightarrow> world \<Rightarrow> bool" where
  "pubs4 ts w w' \<longleftrightarrow> pubs ts [] w w' \<and> w_mqs w' = w_mqs w \<and> w_ifaces w' = w_ifaces w"

lemma pubs4_refl [simp]: "pubs4 [] w w"
  by (simp add: pubs4_def)

lemma pubs4_trans: "pubs4 a u v \<Longrightarrow> pubs4 b v w \<Longrightarrow> pubs4 (a @ b) u w"
  using pubs_trans [of a "[]" u v b "[]" w] by (simp add: pubs4_def)

lemma quiet_pubs4: "quiet w w' \<Longrightarrow> pubs4 [] w w'"
  by (simp add: pubs4_def quiet_pubs) (simp add: quiet_def)

lemma pubs4_quiet: "pubs4 a u v \<Longrightarrow> quiet v w \<Longrightarrow> pubs4 a u w"
  using pubs4_trans [of a u v "[]" w] by (simp add: quiet_pubs4)

lemma pubs4_publish: "pubs4 a u w \<Longrightarrow> pubs4 (a @ [t]) u (act (A_publish4 i n t l) w)"
  by (simp add: pubs4_def pubs_publish4)

section \<open>DHCPv4 leases\<close>

text \<open>What handling a lease keeps: the configuration, the process and, where it ran, the status.\<close>

definition keeps4 :: "COSA_DML_DHCPC_FULL \<Rightarrow> COSA_DML_DHCPC_FULL \<Rightarrow> bool" where
  "keeps4 c c' \<longleftrightarrow> f4_Cfg c' = f4_Cfg c \<and> i4_ClientProcessId (f4_Info c') = i4_ClientProcessId (f4_Info c) \<and>
     i4_Status (f4_Info c') \<in> {i4_Status (f4_Info c), COSA_DML_DHCP_STATUS_Enabled}"

lemma keeps4_refl [simp]: "keeps4 c c"
  by (simp add: keeps4_def)

lemma keeps4_trans: "keeps4 a b \<Longrightarrow> keeps4 b c \<Longrightarrow> keeps4 a c"
  by (auto simp: keeps4_def)

lemma keeps4_update [simp]:
  "keeps4 c (d\<lparr>f4_currentLease := l\<rparr>) = keeps4 c d" "keeps4 c (d\<lparr>f4_NewLeases := ls\<rparr>) = keeps4 c d"
  by (simp_all add: keeps4_def)

lemma set_routers_keeps:
  "set_routers e toks i = Some i' \<Longrightarrow> i4_Status i' = i4_Status i \<and> i4_ClientProcessId i' = i4_ClientProcessId i"
  by (induction e toks i rule: set_routers.induct) (auto split: if_splits)

lemma updateDML_keeps: "DhcpMgr_updateDHCPv4DML e c = Some (r, c') \<Longrightarrow> keeps4 c c' \<and> f4_NewLeases c' = f4_NewLeases c"
  by (auto simp: DhcpMgr_updateDHCPv4DML_def keeps4_def add_dns_def Let_def dest!: set_routers_keeps
      split: option.splits if_splits)

lemma mta_actions_quiet: "mta_actions e l w = Some w' \<Longrightarrow> quiet w w'"
  by (auto simp: mta_actions_def Set_DhcpV4_CustomOption_mta_def dest!: set_mta_config_quiet
      split: option.splits if_splits intro: quiet_trans)

lemma publish4_Some:
  "DhcpMgr_PublishDhcpV4Event e c t w = Some w' \<Longrightarrow>
   \<exists>l. w' = act (A_publish4 (c4_InstanceNumber (f4_Cfg c)) (c4_Interface (f4_Cfg c)) t l) w"
  by (auto simp: DhcpMgr_PublishDhcpV4Event_def split: if_splits option.splits)

definition leases4 :: "world \<Rightarrow> world \<Rightarrow> bool" where
  "leases4 w w' \<longleftrightarrow> (\<exists>ts. set ts \<subseteq> lease_types \<and> pubs4 ts w w')"

lemma leases4_quiet: "leases4 u w \<Longrightarrow> quiet w w' \<Longrightarrow> leases4 u w'"
  by (auto simp: leases4_def intro: pubs4_quiet)

lemma leases4_trans: "leases4 u v \<Longrightarrow> leases4 v w \<Longrightarrow> leases4 u w"
proof -
  assume "leases4 u v" "leases4 v w"
  then obtain a b where "set a \<subseteq> lease_types" "pubs4 a u v" "set b \<subseteq> lease_types" "pubs4 b v w"
    by (auto simp: leases4_def)
  then show ?thesis using pubs4_trans [of a u v b w] by (auto simp: leases4_def intro!: exI [of _ "a @ b"])
qed

lemma leases4_publish: "t \<in> lease_types \<Longrightarrow> leases4 u w \<Longrightarrow> leases4 u (act (A_publish4 i n t l) w)"
proof -
  assume t: "t \<in> lease_types" and "leases4 u w"
  then obtain a where "set a \<subseteq> lease_types" "pubs4 a u w" by (auto simp: leases4_def)
  with t show ?thesis unfolding leases4_def by (intro exI [of _ "a @ [t]"]) (auto intro: pubs4_publish)
qed

lemma leases4_refl [simp]: "leases4 w w"
  by (auto simp: leases4_def intro!: exI [of _ "[]"])

lemma v4_apply_change_keeps:
  assumes "v4_apply_change e l c w = Some (c', w')" "leases4 w0 w"
  shows "keeps4 c c' \<and> f4_NewLeases c' = f4_NewLeases c \<and> leases4 w0 w'"
proof (cases "v4_isExpired l")
  case True
  then show ?thesis using assms by (auto simp: v4_apply_change_def lease_types_def intro!: leases4_publish)
next
  case False
  let ?c1 = "c\<lparr>f4_currentLease := Some (mtu_default l)\<rparr>"
  let ?w1 = "snd (configureNetworkInterface e ?c1 w)"
  from False assms(1) obtain w2 r c2 where s: "mta_actions e l ?w1 = Some w2" "DhcpMgr_updateDHCPv4DML e ?c1 = Some (r, c2)"
      "c' = c2" "DhcpMgr_PublishDhcpV4Event e c2 DHCP_LEASE_UPDATE w2 = Some w'"
    by (auto simp: v4_apply_change_def Let_def split: option.splits)
  have "leases4 w0 w2"
    using leases4_quiet [OF leases4_quiet [OF assms(2) configure_quiet] mta_actions_quiet [OF s(1)]] .
  with publish4_Some [OF s(4)] have "leases4 w0 w'" by (auto simp: lease_types_def intro!: leases4_publish)
  with updateDML_keeps [OF s(2)] s(3) show ?thesis by (auto simp: keeps4_def)
qed

lemma v4_lease_step_keeps:
  assumes "v4_lease_step e ch l ls c w = Some (ch', c', w')" "leases4 w0 w"
  shows "keeps4 c c' \<and> f4_NewLeases c' = ls \<and> leases4 w0 w'"
proof -
  let ?renew = "f4_currentLease c \<noteq> None \<and> \<not> v4_differs (the (f4_currentLease c)) l \<and> \<not> v4_isExpired l \<and> v4_addressAssigned l"
  let ?c1 = "c\<lparr>f4_currentLease := Some l, f4_NewLeases := ls\<rparr>"
  obtain w1 where w1: "(if ?renew then DhcpMgr_PublishDhcpV4Event e c DHCP_LEASE_RENEW w else Some w) = Some w1"
    using assms(1) by (auto simp: v4_lease_step_def Let_def split: option.splits)
  have l1: "leases4 w0 w1"
    using w1 assms(2) publish4_Some [of e c DHCP_LEASE_RENEW w w1]
    by (auto simp: lease_types_def split: if_splits intro!: leases4_publish)
  let ?w2 = "set_inf_sysevents e (f4_currentLease c) l (c4_Interface (f4_Cfg c)) w1"
  let ?w3 = "snd (DHCPMgr_storeDhcpv4Lease e ?c1 ?w2)"
  have l3: "leases4 w0 ?w3"
    by (rule leases4_quiet [OF leases4_quiet [OF l1 set_inf_sysevents_quiet] storeDhcpv4Lease_quiet])
  consider "c' = ?c1" "w' = ?w3" | "v4_apply_change e l ?c1 ?w3 = Some (c', w')"
    using assms(1) w1 by (auto simp: v4_lease_step_def Let_def split: if_splits)
  then show ?thesis
    using l3 v4_apply_change_keeps [of e l ?c1 ?w3 c' w' w0] by cases (auto simp: keeps4_def)
qed

lemma v4_lease_loop_keeps:
  "v4_lease_loop e ch ls c w = Some (c', w') \<Longrightarrow> leases4 w0 w \<Longrightarrow> f4_NewLeases c = ls \<Longrightarrow>
   keeps4 c c' \<and> f4_NewLeases c' = [] \<and> leases4 w0 w'"
proof (induction ls arbitrary: ch c w)
  case (Cons l ls)
  obtain ch1 c1 w1 where s: "v4_lease_step e ch l ls c w = Some (ch1, c1, w1)" "v4_lease_loop e ch1 ls c1 w1 = Some (c', w')"
    using Cons.prems(1) by (auto split: option.splits)
  have k: "keeps4 c c1" "f4_NewLeases c1 = ls" "leases4 w0 w1"
    using v4_lease_step_keeps [OF s(1) Cons.prems(2)] by simp_all
  show ?case using Cons.IH [OF s(2) k(3) k(2)] keeps4_trans [OF k(1)] by blast
qed simp

lemma ProcessV4Lease_keeps:
  "DhcpMgr_ProcessV4Lease e c w = Some (c', w') \<Longrightarrow> keeps4 c c' \<and> f4_NewLeases c' = [] \<and> leases4 w w'"
  unfolding DhcpMgr_ProcessV4Lease_def by (erule v4_lease_loop_keeps [OF _ leases4_refl refl])

section \<open>DHCPv6 leases\<close>

definition keeps6 :: "COSA_DML_DHCPCV6_FULL \<Rightarrow> COSA_DML_DHCPCV6_FULL \<Rightarrow> bool" where
  "keeps6 c c' \<longleftrightarrow> f6_Cfg c' = f6_Cfg c \<and> i6_ClientProcessId (f6_Info c') = i6_ClientProcessId (f6_Info c) \<and>
     i6_Status (f6_Info c') = i6_Status (f6_Info c)"

lemma keeps6_refl [simp]: "keeps6 c c"
  by (simp add: keeps6_def)

lemma keeps6_trans: "keeps6 a b \<Longrightarrow> keeps6 b c \<Longrightarrow> keeps6 a c"
  by (simp add: keeps6_def)

lemma keeps6_update [simp]:
  "keeps6 c (d\<lparr>f6_currentLease := l\<rparr>) = keeps6 c d" "keeps6 c (d\<lparr>f6_NewLeases := ls\<rparr>) = keeps6 c d"
  "keeps6 (d\<lparr>f6_currentLease := l\<rparr>) c = keeps6 d c" "keeps6 (d\<lparr>f6_NewLeases := ls\<rparr>) c = keeps6 d c"
  by (simp_all add: keeps6_def)

definition leases6 :: "world \<Rightarrow> world \<Rightarrow> bool" where
  "leases6 w w' \<longleftrightarrow> (\<exists>ts. set ts \<subseteq> lease_types \<and> pubs [] ts w w')"

lemma leases6_refl [simp]: "leases6 w w"
  by (auto simp: leases6_def intro!: exI [of _ "[]"])

lemma leases6_quiet: "leases6 u w \<Longrightarrow> quiet w w' \<Longrightarrow> leases6 u w'"
  by (auto simp: leases6_def intro: pubs_quiet)

lemma publish6_keeps:
  assumes "DhcpMgr_PublishDhcpV6Event e c t w = Some (c', w')"
  shows "keeps6 c c' \<and> f6_NewLeases c' = f6_NewLeases c \<and> (pubs a b u w \<longrightarrow> pubs a (b @ [t]) u w')"
  using assms
  by (auto simp: DhcpMgr_PublishDhcpV6Event_def keeps6_def intro: pubs_publish6 split: if_splits option.splits)

lemma publish6_leases:
  assumes "DhcpMgr_PublishDhcpV6Event e c t w = Some (c', w')" "leases6 u w" "t \<in> lease_types"
  shows "keeps6 c c' \<and> f6_NewLeases c' = f6_NewLeases c \<and> leases6 u w'"
proof -
  obtain b where "set b \<subseteq> lease_types" "pubs [] b u w" using assms(2) by (auto simp: leases6_def)
  with publish6_keeps [OF assms(1), of "[]" b u] assms(3) show ?thesis
    unfolding leases6_def by (metis Un_least empty_set empty_subsetI insert_subset list.simps(15) set_append)
qed

lemma v6_apply_change_keeps:
  assumes "v6_apply_change e l c w = Some (c', w')" "leases6 u w"
  shows "keeps6 c c' \<and> f6_NewLeases c' = f6_NewLeases c \<and> leases6 u w'"
proof -
  let ?w1 = "if na_assigned (v6_ia_na l) then configureNetworkInterface6 e c w else w"
  let ?w2 = "ConfigureIpv6Sysevents (f6_Cfg c) l ?w1"
  let ?r = "if vd_Assigned (v6_vendor l)
    then Set_DhcpV6_CustomOption17 e (c6_Interface (f6_Cfg c)) (vd_Data (v6_vendor l)) (v6_TimeOffset l) ?w2
    else (v6_TimeOffset l, ?w2)"
  have q2: "quiet w ?w2" by (intro sysevents6_quiet) (simp add: configure6_quiet)
  have "quiet w (snd ?r)"
    using q2 quiet_trans [OF q2 Option17Set_quiet] by (simp add: Set_DhcpV6_CustomOption17_def)
  then have "leases6 u (snd ?r)" by (rule leases6_quiet [OF assms(2)])
  moreover have "DhcpMgr_PublishDhcpV6Event e (c\<lparr>f6_currentLease := Some (l\<lparr>v6_TimeOffset := fst ?r\<rparr>)\<rparr>)
      DHCP_LEASE_UPDATE (snd ?r) = Some (c', w')"
    using assms(1) by (simp only: v6_apply_change_def Let_def case_prod_beta)
  ultimately show ?thesis using publish6_leases by (fastforce simp: lease_types_def)
qed

lemma v6_take_lease_keeps:
  assumes "v6_take_lease e ch l ls c w = Some (c', w')" "leases6 u w"
  shows "keeps6 c c' \<and> f6_NewLeases c' = ls \<and> leases6 u w'"
proof -
  let ?c = "c\<lparr>f6_currentLease := Some l, f6_NewLeases := ls\<rparr>"
  let ?w = "snd (DHCPMgr_storeDhcpv6Lease e ?c w)"
  have "leases6 u ?w" by (rule leases6_quiet [OF assms(2) storeDhcpv6Lease_quiet])
  then show ?thesis
    using assms(1) v6_apply_change_keeps [of e l ?c ?w c' w' u]
    by (auto simp: v6_take_lease_def Let_def split: if_splits)
qed

lemma v6_publish_take_keeps:
  assumes "(case DhcpMgr_PublishDhcpV6Event e c t w of None \<Rightarrow> None | Some (c1, w1) \<Rightarrow> v6_take_lease e ch l ls c1 w1) =
      Some (c', w')" "leases6 u w" "t \<in> lease_types"
  shows "keeps6 c c' \<and> f6_NewLeases c' = ls \<and> leases6 u w'"
proof -
  obtain c1 w1 where s: "DhcpMgr_PublishDhcpV6Event e c t w = Some (c1, w1)" "v6_take_lease e ch l ls c1 w1 = Some (c', w')"
    using assms(1) by (auto split: option.splits)
  show ?thesis
    using publish6_leases [OF s(1) assms(2,3)] v6_take_lease_keeps [OF s(2)] keeps6_trans by blast
qed

lemma v6_lease_step_keeps:
  assumes "v6_lease_step e l ls c w = Some (c', w')" "leases6 u w"
  shows "keeps6 c c' \<and> f6_NewLeases c' = ls \<and> leases6 u w'"
proof (cases "f6_currentLease c")
  case None
  then show ?thesis using assms v6_take_lease_keeps by (fastforce simp: v6_lease_step_def)
next
  case (Some k)
  have "DHCP_LEASE_DEL \<in> lease_types" "DHCP_LEASE_RENEW \<in> lease_types" by (simp_all add: lease_types_def)
  then show ?thesis
    using assms Some v6_take_lease_keeps [where e = e and ls = ls and c = c and w = w and c' = c' and w' = w' and u = u]
      v6_publish_take_keeps [where e = e and c = c and w = w and ls = ls and c' = c' and w' = w' and u = u]
    by (auto simp: v6_lease_step_def Let_def simp del: publish6_plain split: if_splits)
qed

lemma v6_lease_loop_keeps:
  "v6_lease_loop e ls c w = Some (c', w') \<Longrightarrow> leases6 u w \<Longrightarrow> f6_NewLeases c = ls \<Longrightarrow>
   keeps6 c c' \<and> f6_NewLeases c' = [] \<and> leases6 u w'"
proof (induction ls arbitrary: c w)
  case (Cons l ls)
  obtain c1 w1 where s: "v6_lease_step e l ls c w = Some (c1, w1)" "v6_lease_loop e ls c1 w1 = Some (c', w')"
    using Cons.prems(1) by (auto split: option.splits)
  have k: "keeps6 c c1" "f6_NewLeases c1 = ls" "leases6 u w1"
    using v6_lease_step_keeps [OF s(1) Cons.prems(2)] by simp_all
  show ?case using Cons.IH [OF s(2) k(3) k(2)] keeps6_trans [OF k(1)] by blast
qed simp

lemma ProcessV6Lease_keeps:
  "DhcpMgr_ProcessV6Lease e c w = Some (c', w') \<Longrightarrow> keeps6 c c' \<and> f6_NewLeases c' = [] \<and> leases6 w w'"
  unfolding DhcpMgr_ProcessV6Lease_def by (erule v6_lease_loop_keeps [OF _ leases6_refl refl])

end
