(* ===== verification/Iface_Queue_Spec.thy ===== *)
theory Iface_Queue_Spec
  imports Iface_Queue
begin

text \<open>
  What the queues of \<open>Iface_Queue\<close> promise: the locale \<open>control_channel\<close> (messages
  accepted are delivered in order, once each, and no queue disturbs another) with
  its interpretation on the functions of the source; the invariant of the
  registry; and what a successful or a failed \<open>DhcpMgr_OpenQueueEnsureThread\<close>
  leaves behind.
\<close>

section \<open>Channels\<close>

datatype ('m, 'q) chan_op = Chan_send 'm | Chan_receive 'q
datatype ('m, 'q) chan_event = Accepted 'm | Delivered 'q 'm

fun chan_run ::
  "('m \<Rightarrow> 's \<Rightarrow> bool \<times> 's) \<Rightarrow> ('q \<Rightarrow> 's \<Rightarrow> 'm option \<times> 's) \<Rightarrow> ('m, 'q) chan_op list \<Rightarrow> 's \<Rightarrow>
   ('m, 'q) chan_event list \<times> 's" where
  "chan_run snd_op rcv_op [] s = ([], s)"
| "chan_run snd_op rcv_op (Chan_send m # ops) s =
     (case snd_op m s of (ok, s1) \<Rightarrow>
        (case chan_run snd_op rcv_op ops s1 of (evs, s') \<Rightarrow> (if ok then Accepted m # evs else evs, s')))"
| "chan_run snd_op rcv_op (Chan_receive q # ops) s =
     (case rcv_op q s of (r, s1) \<Rightarrow>
        (case chan_run snd_op rcv_op ops s1 of (evs, s') \<Rightarrow>
           (case r of None \<Rightarrow> (evs, s') | Some m \<Rightarrow> (Delivered q m # evs, s'))))"

fun accepted :: "('m \<Rightarrow> 'q) \<Rightarrow> 'q \<Rightarrow> ('m, 'q) chan_event list \<Rightarrow> 'm list" where
  "accepted d q [] = []"
| "accepted d q (Accepted m # evs) = (if d m = q then m # accepted d q evs else accepted d q evs)"
| "accepted d q (Delivered p m # evs) = accepted d q evs"

fun delivered :: "'q \<Rightarrow> ('m, 'q) chan_event list \<Rightarrow> 'm list" where
  "delivered q [] = []"
| "delivered q (Accepted m # evs) = delivered q evs"
| "delivered q (Delivered p m # evs) = (if p = q then m # delivered q evs else delivered q evs)"

locale control_channel =
  fixes chan_send :: "'m \<Rightarrow> 's \<Rightarrow> bool \<times> 's"
    and chan_recv :: "'q \<Rightarrow> 's \<Rightarrow> 'm option \<times> 's"
    and dest :: "'m \<Rightarrow> 'q"
    and backlog :: "'s \<Rightarrow> 'q \<Rightarrow> 'm list"
  assumes send_law: "backlog (snd (chan_send m s)) q =
      (if fst (chan_send m s) \<and> dest m = q then backlog s q @ [m] else backlog s q)"
    and recv_some: "fst (chan_recv q s) = Some m \<Longrightarrow> backlog s q = m # backlog (snd (chan_recv q s)) q"
    and recv_none: "fst (chan_recv q s) = None \<Longrightarrow> backlog (snd (chan_recv q s)) q = backlog s q"
    and recv_other: "p \<noteq> q \<Longrightarrow> backlog (snd (chan_recv q s)) p = backlog s p"
begin

text \<open>What was waiting and what was accepted is what was delivered and what still waits, in this order.\<close>

lemma chan_conservation:
  "chan_run chan_send chan_recv ops s = (evs, s') \<Longrightarrow>
   backlog s q @ accepted dest q evs = delivered q evs @ backlog s' q"
proof (induction ops arbitrary: s evs)
  case (Cons opr ops)
  show ?case
  proof (cases opr)
    case (Chan_send m)
    obtain ok s1 where s1: "chan_send m s = (ok, s1)" by force
    obtain evs1 where run: "chan_run chan_send chan_recv ops s1 = (evs1, s')"
        and evs: "evs = (if ok then Accepted m # evs1 else evs1)"
      using Cons.prems Chan_send s1 by (auto split: prod.splits if_splits)
    show ?thesis using Cons.IH [OF run] send_law [of m s q] by (auto simp: s1 evs)
  next
    case (Chan_receive p)
    obtain r s1 where s1: "chan_recv p s = (r, s1)" by force
    obtain evs1 where run: "chan_run chan_send chan_recv ops s1 = (evs1, s')"
        and evs: "evs = (case r of None \<Rightarrow> evs1 | Some m \<Rightarrow> Delivered p m # evs1)"
      using Cons.prems Chan_receive s1 by (auto split: prod.splits option.splits)
    have step: "backlog s q = (case r of Some m \<Rightarrow> if p = q then m # backlog s1 q else backlog s1 q | None \<Rightarrow> backlog s1 q)"
      using recv_some [of p s] recv_none [of p s] recv_other [of q p s] s1
      by (cases "p = q") (auto split: option.splits)
    show ?thesis using Cons.IH [OF run] by (simp add: evs step split: option.splits)
  qed
qed simp

lemma chan_in_order:
  "chan_run chan_send chan_recv ops s = (evs, s') \<Longrightarrow> backlog s q = [] \<Longrightarrow>
   accepted dest q evs = delivered q evs @ backlog s' q"
  using chan_conservation [of ops s evs s' q] by simp

end

text \<open>The two ends of a queue as a channel.\<close>

definition open_send :: "env \<Rightarrow> dhcp_info \<Rightarrow> world \<Rightarrow> bool \<times> world" where
  "open_send e m w = (case DhcpMgr_OpenQueueEnsureThread e m w of (r, w') \<Rightarrow> (r = 0, w'))"

definition mq_recv :: "env \<Rightarrow> string \<Rightarrow> world \<Rightarrow> dhcp_info option \<times> world" where
  "mq_recv e q w = (case mq_receive e q w of (r, w') \<Rightarrow> (case r of Mq_msg m \<Rightarrow> Some m | _ \<Rightarrow> None, w'))"

interpretation mq: control_channel "open_send e" "mq_recv e" "\<lambda>m. mq_name_of (di_if_name m)" pending
  for e
proof unfold_locales
  fix m :: dhcp_info and w q
  show "pending (snd (open_send e m w)) q =
      (if fst (open_send e m w) \<and> mq_name_of (di_if_name m) = q then pending w q @ [m] else pending w q)"
    by (auto simp: open_send_def case_prod_beta open_queue_pending)
next
  fix q :: string and p m w
  show "fst (mq_recv e q w) = Some m \<Longrightarrow> pending w q = m # pending (snd (mq_recv e q w)) q"
    using mq_receive_hd [of e q w]
    by (auto simp: mq_recv_def case_prod_beta mq_receive_pending split: mq_result.splits)
  show "fst (mq_recv e q w) = None \<Longrightarrow> pending (snd (mq_recv e q w)) q = pending w q"
    by (auto simp: mq_recv_def case_prod_beta mq_receive_pending split: mq_result.splits)
  show "p \<noteq> q \<Longrightarrow> pending (snd (mq_recv e q w)) p = pending w p"
    by (simp add: mq_recv_def case_prod_beta mq_receive_pending)
qed

section \<open>The registry\<close>

text \<open>
  Names are distinct and fit their array, there are at most \<open>MAX_INTERFACES\<close>, each
  entry has the queue of its name, which exists where a controller was started.
\<close>

definition entry_ok :: "world \<Rightarrow> interface_info \<Rightarrow> bool" where
  "entry_ok w i \<longleftrightarrow> ii_if_name i \<noteq> [] \<and> length (ii_if_name i) < MAX_STR_LEN \<and>
     ii_mq_name i = mq_name_of (ii_if_name i) \<and> (ii_thread_running i \<longrightarrow> w_mqs w (ii_mq_name i) \<noteq> None)"

definition registry_ok :: "world \<Rightarrow> bool" where
  "registry_ok w \<longleftrightarrow> distinct (map ii_if_name (w_ifaces w)) \<and> length (w_ifaces w) \<le> MAX_INTERFACES \<and>
     (\<forall>i \<in> set (w_ifaces w). entry_ok w i)"

definition mqs_bounded :: "world \<Rightarrow> bool" where
  "mqs_bounded w \<longleftrightarrow> (\<forall>q. length (pending w q) \<le> MQ_MAX_MESSAGES)"

lemma registry_mono:
  "registry_ok w \<Longrightarrow> w_ifaces w' = w_ifaces w \<Longrightarrow> (\<And>q. w_mqs w q \<noteq> None \<Longrightarrow> w_mqs w' q \<noteq> None) \<Longrightarrow> registry_ok w'"
  by (auto simp: registry_ok_def entry_ok_def)

lemma registry_act [simp]: "registry_ok (act a w) = registry_ok w"
  by (simp add: registry_ok_def entry_ok_def)

lemma find_interface_act [simp]: "find_interface n (act a w) = find_interface n w"
  by (simp add: find_interface_def)

lemma find_interface_SomeD: "find_interface n w = Some i \<Longrightarrow> i \<in> set (w_ifaces w) \<and> ii_if_name i = n"
  by (auto simp: find_interface_def find_Some_iff)

lemma find_interface_NoneD: "find_interface n w = None \<Longrightarrow> i \<in> set (w_ifaces w) \<Longrightarrow> ii_if_name i \<noteq> n"
  by (auto simp: find_interface_def find_None_iff)

lemma update_first_names:
  "(\<And>i. P i \<Longrightarrow> ii_if_name (f i) = ii_if_name i) \<Longrightarrow> map ii_if_name (update_first P f is) = map ii_if_name is"
  by (induction "is") auto

lemma registry_update:
  assumes "registry_ok w" "w_mqs w' = w_mqs w"
    and "w_ifaces w' = update_first (\<lambda>i. ii_if_name i = n) f (w_ifaces w)"
    and f: "\<And>i. i \<in> set (w_ifaces w) \<Longrightarrow> ii_if_name i = n \<Longrightarrow> entry_ok w i \<Longrightarrow> entry_ok w (f i)"
           "\<And>i. ii_if_name i = n \<Longrightarrow> ii_if_name (f i) = n"
  shows "registry_ok w'"
proof -
  have "map ii_if_name (w_ifaces w') = map ii_if_name (w_ifaces w)"
    unfolding assms(3) by (rule update_first_names) (simp add: f(2))
  moreover have "entry_ok w i" if "i \<in> set (w_ifaces w')" for i
    using set_update_first [of i "\<lambda>i. ii_if_name i = n" f "w_ifaces w"] that assms(1,3) f(1)
    by (auto simp: registry_ok_def)
  then have "entry_ok w' i" if "i \<in> set (w_ifaces w')" for i
    using that assms(2) unfolding entry_ok_def by metis
  ultimately show ?thesis using assms(1,3) by (auto simp: registry_ok_def)
qed

lemma mark_stopped_registry: "registry_ok w \<Longrightarrow> registry_ok (snd (mark_thread_stopped n w))"
  by (auto simp: mark_thread_stopped_def entry_ok_def intro!: registry_update [of w _ n])

lemma find_or_create_registry:
  assumes "registry_ok w" "n \<noteq> []" "length n < MAX_STR_LEN"
  shows "registry_ok (snd (find_or_create_interface n w))"
proof (cases "find_interface n w")
  case None
  then have "n \<notin> ii_if_name ` set (w_ifaces w)" by (auto dest: find_interface_NoneD)
  then show ?thesis using assms None
    by (auto simp: find_or_create_interface_def registry_ok_def entry_ok_def c_trunc_id Let_def)
qed (use assms in \<open>simp add: find_or_create_interface_def\<close>)

lemma find_append_new: "find P xs = None \<Longrightarrow> P x \<Longrightarrow> find P (xs @ [x]) = Some x"
  by (induction xs) auto

lemma find_or_create_Some:
  assumes "length n < MAX_STR_LEN" "find_or_create_interface n w = (Some i, w')"
  shows "ii_if_name i = n" "find_interface n w' = Some i" "w_mqs w' = w_mqs w"
  using assms find_interface_SomeD [of n w]
  by (auto simp: find_or_create_interface_def Let_def c_trunc_id find_interface_def find_append_new
      split: option.splits if_splits)

text \<open>What \<open>ensure_thread\<close> leaves: on success the controller of the name is registered as running.\<close>

lemma ensure_thread_ok:
  assumes "length n < MAX_STR_LEN" "fst (ensure_thread e n w) = 0"
  shows "\<exists>i. find_interface n (snd (ensure_thread e n w)) = Some i \<and> ii_thread_running i"
proof -
  obtain i w1 where fc: "find_or_create_interface n w = (Some i, w1)"
    using assms(2) by (cases "find_or_create_interface n w"; cases "fst (find_or_create_interface n w)")
      (auto simp: ensure_thread_def)
  note i = find_or_create_Some [OF assms(1) fc]
  have upd: "find (\<lambda>i. ii_if_name i = n) (update_first (\<lambda>i. ii_if_name i = n) (\<lambda>_. j) is) = Some j"
    if "find (\<lambda>i. ii_if_name i = n) is = Some k" "ii_if_name j = n" for "is" j k
    using that by (induction "is") (auto split: if_splits)
  show ?thesis
    using i assms(2) upd [of "w_ifaces w1" i "i\<lparr>ii_thread_running := True\<rparr>"]
    by (auto simp: ensure_thread_def fc create_interface_thread_def update_interface_info_def find_interface_def
        case_prod_beta split: if_splits)
qed

lemma ensure_thread_registry:
  assumes "registry_ok w" "n \<noteq> []" "length n < MAX_STR_LEN" "w_mqs w (mq_name_of n) \<noteq> None"
  shows "registry_ok (snd (ensure_thread e n w))"
proof (cases "find_or_create_interface n w")
  case (Pair r w1)
  have ok1: "registry_ok w1" using find_or_create_registry [OF assms(1-3)] by (simp add: Pair)
  show ?thesis
  proof (cases r)
    case None
    then show ?thesis using ok1 by (simp add: ensure_thread_def Pair)
  next
    case (Some i)
    note i = find_or_create_Some [OF assms(3) Pair [unfolded Some]]
    have "entry_ok w1 i" using ok1 find_interface_SomeD [OF i(2)] by (simp add: registry_ok_def)
    then have "entry_ok (act (A_thread n) w1) (i\<lparr>ii_thread_running := True\<rparr>)"
      using assms(4) i by (simp add: entry_ok_def)
    then have "registry_ok (snd (update_interface_info n (i\<lparr>ii_thread_running := True\<rparr>) (act (A_thread n) w1)))"
      using ok1 i registry_update [of "act (A_thread n) w1"
          "snd (update_interface_info n (i\<lparr>ii_thread_running := True\<rparr>) (act (A_thread n) w1))" n
          "\<lambda>_. i\<lparr>ii_thread_running := True\<rparr>"]
      by (simp add: update_interface_info_def)
    then show ?thesis
      using ok1 by (auto simp: ensure_thread_def Pair Some create_interface_thread_def case_prod_beta)
  qed
qed

lemma mq_send_frame [simp]: "w_ifaces (snd (mq_send e q m w)) = w_ifaces w"
  "w_mqs w p \<noteq> None \<Longrightarrow> w_mqs (snd (mq_send e q m w)) p \<noteq> None"
  by (auto simp: mq_send_def case_prod_beta split: option.splits)

lemma send_locked_registry: "registry_ok w \<Longrightarrow> registry_ok (snd (send_locked e m w))"
  using registry_mono [of w "snd (mq_send e (mq_name_of (di_if_name m)) m w)"]
  by (auto simp: send_locked_def Let_def case_prod_beta simp del: not_None_eq)

lemma create_message_queue_registry:
  "registry_ok w \<Longrightarrow> registry_ok (snd (create_message_queue e q w))"
  by (erule registry_mono) (auto simp: create_message_queue_def case_prod_beta)

lemma create_message_queue_exists:
  "fst (create_message_queue e q w) = 0 \<Longrightarrow> w_mqs (snd (create_message_queue e q w)) q \<noteq> None"
  by (auto simp: create_message_queue_def mq_open_def case_prod_beta split: if_splits)

lemma open_or_create_registry: "registry_ok w \<Longrightarrow> registry_ok (snd (open_or_create e q w))"
  by (simp add: open_or_create_def case_prod_beta create_message_queue_registry)

lemma open_or_create_exists: "fst (open_or_create e q w) = 0 \<Longrightarrow> w_mqs (snd (open_or_create e q w)) q \<noteq> None"
  using create_message_queue_exists [of e q "act (A_mq_open q) w"]
  by (auto simp: open_or_create_def mq_open_def case_prod_beta split: if_splits)

lemma open_queue_registry:
  assumes "registry_ok w" "length (di_if_name m) < MAX_STR_LEN"
  shows "registry_ok (snd (DhcpMgr_OpenQueueEnsureThread e m w))"
proof -
  let ?w2 = "snd (open_or_create e (mq_name_of (di_if_name m)) w)"
  have "registry_ok ?w2" by (rule open_or_create_registry [OF assms(1)])
  then show ?thesis
    using assms ensure_thread_registry [of ?w2 "di_if_name m" e] open_or_create_exists
    by (simp add: DhcpMgr_OpenQueueEnsureThread_def Let_def case_prod_beta send_locked_registry)
qed

lemma mq_receive_registry: "registry_ok w \<Longrightarrow> registry_ok (snd (mq_receive e q w))"
  by (erule registry_mono) (auto simp: mq_receive_def case_prod_beta split: option.splits list.splits)

text \<open>
  Claim C32. The registry invariant is kept by every operation on the registry and
  the queues: sending a control message, whatever the system refuses on the way,
  receiving one, and marking a controller as stopped.
\<close>

theorem registry_invariant:
  assumes "registry_ok w" "length (di_if_name m) < MAX_STR_LEN"
  shows "registry_ok (snd (DhcpMgr_OpenQueueEnsureThread e m w)) \<and> registry_ok (snd (mq_receive e q w)) \<and>
         registry_ok (snd (mark_thread_stopped n w))"
  using assms by (simp add: open_queue_registry mq_receive_registry mark_stopped_registry)

definition msg0 :: dhcp_info where
  "msg0 = \<lparr>di_if_name = ''erouter0'', di_ParamName = ''Enable'', di_bValue = True, di_dhcpType = DML_DHCPV4\<rparr>"

lemma registry_init: "registry_ok world_init"
  by (simp add: registry_ok_def world_init_def)

theorem registry_invariant_witness:
  "registry_ok (snd (DhcpMgr_OpenQueueEnsureThread env0 msg0 world_init)) \<and>
   length (w_ifaces (snd (DhcpMgr_OpenQueueEnsureThread env0 msg0 world_init))) = 1"
proof
  show "registry_ok (snd (DhcpMgr_OpenQueueEnsureThread env0 msg0 world_init))"
    using registry_invariant [of world_init msg0 env0] registry_init by (simp add: msg0_def MAX_STR_LEN_def)
qed code_simp

lemma open_queue_running:
  assumes "length (di_if_name m) < MAX_STR_LEN" "DhcpMgr_OpenQueueEnsureThread e m w = (0, w')"
  shows "\<exists>i. find_interface (di_if_name m) w' = Some i \<and> ii_thread_running i"
  using assms ensure_thread_ok [of "di_if_name m" e "snd (open_or_create e (mq_name_of (di_if_name m)) w)"]
  by (auto simp: DhcpMgr_OpenQueueEnsureThread_def Let_def case_prod_beta send_locked_def find_interface_def
      split: if_splits)

text \<open>
  When a control message is accepted, its interface is registered with
  a controller marked as running and the message is the last of its queue; when
  it is refused, no queue has changed its messages. Either way no other queue
  changes.
\<close>

lemma open_queue_ensures:
  assumes "length (di_if_name m) < MAX_STR_LEN" and "DhcpMgr_OpenQueueEnsureThread e m w = (r, w')"
  shows "(r = 0 \<longrightarrow> (\<exists>i. find_interface (di_if_name m) w' = Some i \<and> ii_thread_running i) \<and>
           pending w' (mq_name_of (di_if_name m)) = pending w (mq_name_of (di_if_name m)) @ [m]) \<and>
         (r \<noteq> 0 \<longrightarrow> r = - 1 \<and> (\<forall>q. pending w' q = pending w q)) \<and>
         (\<forall>q. q \<noteq> mq_name_of (di_if_name m) \<longrightarrow> pending w' q = pending w q)"
proof -
  have "\<exists>i. find_interface (di_if_name m) w' = Some i \<and> ii_thread_running i" if "r = 0"
    using open_queue_running assms that by blast
  moreover have "r = 0 \<or> r = - 1"
    using assms(2) by (auto simp: DhcpMgr_OpenQueueEnsureThread_def Let_def case_prod_beta send_locked_def split: if_splits)
  ultimately show ?thesis using open_queue_pending [of e m w] assms(2) by auto
qed

lemma open_queue_ensures_witness:
  "pending (snd (DhcpMgr_OpenQueueEnsureThread env0 msg0 world_init)) ''/mq_if_erouter0'' = [msg0]"
proof -
  have "fst (DhcpMgr_OpenQueueEnsureThread env0 msg0 world_init) = 0"
    "mq_name_of (di_if_name msg0) = ''/mq_if_erouter0''" "pending world_init ''/mq_if_erouter0'' = []"
    by code_simp+
  then show ?thesis
    using open_queue_ensures [OF _ prod.collapse [symmetric], of msg0 env0 world_init]
    by (simp add: msg0_def MAX_STR_LEN_def)
qed

text \<open>
  Claim C14. Control messages arrive in order, once each: over any interleaving of
  senders and receivers, for every queue, the messages that waited at the start
  followed by those accepted since are the messages received followed by those
  that still wait.
\<close>

theorem control_messages_in_order:
  assumes "chan_run (open_send e) (mq_recv e) ops w = (evs, w')"
  shows "pending w q @ accepted (\<lambda>m. mq_name_of (di_if_name m)) q evs = delivered q evs @ pending w' q"
  by (rule mq.chan_conservation [OF assms])

theorem control_messages_in_order_witness:
  "delivered ''/mq_if_erouter0'' (fst (chan_run (open_send env0) (mq_recv env0)
     [Chan_send msg0, Chan_send (msg0\<lparr>di_ParamName := ''Renew''\<rparr>), Chan_receive ''/mq_if_erouter0''] world_init)) = [msg0]"
proof -
  let ?ops = "[Chan_send msg0, Chan_send (msg0\<lparr>di_ParamName := ''Renew''\<rparr>), Chan_receive ''/mq_if_erouter0'']"
  let ?r = "chan_run (open_send env0) (mq_recv env0) ?ops world_init" and ?q = "''/mq_if_erouter0''"
  have "accepted (\<lambda>m. mq_name_of (di_if_name m)) ?q (fst ?r) = [msg0, msg0\<lparr>di_ParamName := ''Renew''\<rparr>]"
    "pending (snd ?r) ?q = [msg0\<lparr>di_ParamName := ''Renew''\<rparr>]" "pending world_init ?q = []"
    by code_simp+
  then show ?thesis
    using control_messages_in_order [of env0 ?ops world_init "fst ?r" "snd ?r" ?q] by simp
qed

text \<open>A queue never holds more than the 20 messages it was created for.\<close>

lemma open_queue_bounded: "mqs_bounded w \<Longrightarrow> mqs_bounded (snd (DhcpMgr_OpenQueueEnsureThread e m w))"
proof -
  have "length (pending w q) < MQ_MAX_MESSAGES" if "fst (mq_send e q m w) = True" for w q
    using that by (auto simp: mq_send_def pending_def case_prod_beta split: option.splits if_splits)
  then have "length (pending w (mq_name_of (di_if_name m))) < MQ_MAX_MESSAGES"
    if "fst (DhcpMgr_OpenQueueEnsureThread e m w) = 0"
    using that
    by (fastforce simp: DhcpMgr_OpenQueueEnsureThread_def Let_def case_prod_beta send_locked_def split: if_splits)
  then show "mqs_bounded w \<Longrightarrow> ?thesis"
    by (auto simp: mqs_bounded_def open_queue_pending Suc_le_eq)
qed

end
