(* ===== verification/Controller_Spec.thy ===== *)
theory Controller_Spec
  imports Controller_Frame Iface_Queue_Spec
begin

text \<open>
  What the handlers of the controller (\<open>Controller\<close>) promise: both implement the
  client machine of \<open>Client_Machine\<close> (an interpretation of \<open>client_control\<close> each);
  disabling a client clears its lease and removes its file; the tables keep their
  shape; a dead client is restarted, except where a lease that was still waiting
  marks it as running again.
\<close>

section \<open>DHCPv4 refines the machine\<close>

definition view4 :: "COSA_DML_DHCPC_FULL \<Rightarrow> ctl" where
  "view4 c = \<lparr>k_enabled = c4_bEnabled (f4_Cfg c), k_running = (i4_Status (f4_Info c) = COSA_DML_DHCP_STATUS_Enabled),
     k_renew = c4_Renew (f4_Cfg c), k_restart = c4_Restart (f4_Cfg c), k_leases = (f4_NewLeases c \<noteq> [])\<rparr>"

definition status_ok :: "COSA_DML_DHCP_STATUS \<Rightarrow> bool" where
  "status_ok s \<longleftrightarrow> s = COSA_DML_DHCP_STATUS_Disabled \<or> s = COSA_DML_DHCP_STATUS_Enabled"

definition ok4 :: "COSA_DML_DHCPC_FULL \<Rightarrow> bool" where
  "ok4 c \<longleftrightarrow> status_ok (i4_Status (f4_Info c))"

text \<open>The instance and the interface of a client never change.\<close>

definition same4 :: "COSA_DML_DHCPC_FULL \<Rightarrow> COSA_DML_DHCPC_FULL \<Rightarrow> bool" where
  "same4 c c' \<longleftrightarrow> c4_Interface (f4_Cfg c') = c4_Interface (f4_Cfg c) \<and> c4_InstanceNumber (f4_Cfg c') = c4_InstanceNumber (f4_Cfg c)"

lemma view4_set:
  "view4 (set4 (c4_bEnabled_update (\<lambda>_. b)) c) = (view4 c)\<lparr>k_enabled := b\<rparr>"
  "view4 (set4 (c4_Renew_update (\<lambda>_. b)) c) = (view4 c)\<lparr>k_renew := b\<rparr>"
  "view4 (set4 (c4_Restart_update (\<lambda>_. b)) c) = (view4 c)\<lparr>k_restart := b\<rparr>"
  by (simp_all add: view4_def)

lemma v4_param_refines:
  assumes "v4_param e m c w = Some (rel, c', w')" "ok4 c"
  shows "\<exists>ts. ctl_param (control_of m) (view4 c) ts (view4 c') \<and> pubs4 ts w w' \<and> ok4 c' \<and> same4 c c' \<and>
    rel = (control_of m = C_release)"
proof (cases "di_ParamName m = ''ProcessLease''")
  case True
  then have p: "DhcpMgr_ProcessV4Lease e c w = Some (c', w')" "\<not> rel" "control_of m = C_lease"
    using assms(1) by (auto simp: v4_param_def control_of_def)
  show ?thesis
  proof (cases "f4_NewLeases c = []")
    case True
    then have "c' = c" "w' = w" using p(1) by (simp_all add: DhcpMgr_ProcessV4Lease_def)
    then show ?thesis using True p assms(2) by (auto simp: view4_def same4_def intro!: exI [of _ "[]"] ctl_param.no_leases)
  next
    case False
    obtain ts where ts: "set ts \<subseteq> lease_types" "pubs4 ts w w'"
      using ProcessV4Lease_keeps [OF p(1)] by (auto simp: leases4_def)
    have k: "keeps4 c c'" "f4_NewLeases c' = []" using ProcessV4Lease_keeps [OF p(1)] by simp_all
    have "view4 c' = (view4 c)\<lparr>k_running := (i4_Status (f4_Info c') = COSA_DML_DHCP_STATUS_Enabled), k_leases := False\<rparr>"
      using k by (simp add: view4_def keeps4_def)
    moreover have "k_running (view4 c) \<longrightarrow> i4_Status (f4_Info c') = COSA_DML_DHCP_STATUS_Enabled"
      using k by (auto simp: view4_def keeps4_def)
    moreover have "k_leases (view4 c)" using False by (simp add: view4_def)
    ultimately have "ctl_param C_lease (view4 c) ts (view4 c')" using ctl_param.leases ts(1) by metis
    then show ?thesis using ts p assms(2) k by (auto simp: ok4_def status_ok_def keeps4_def same4_def)
  qed
next
  case False
  then show ?thesis
    using assms
    by (auto simp: v4_param_def control_of_def view4_set ok4_def same4_def intro!: exI [of _ "[]"] ctl_param.intros
        split: if_splits)
qed

lemma v4_start_refines:
  assumes "v4_start e l w = Some (c', w')" "c = l4_client l"
    and "c4_bEnabled (f4_Cfg c)" "i4_Status (f4_Info c) = COSA_DML_DHCP_STATUS_Disabled"
  shows "ctl_move False (view4 c) [if i4_Status (f4_Info c') = COSA_DML_DHCP_STATUS_Enabled then DHCP_CLIENT_STARTED
      else DHCP_CLIENT_FAILED] (view4 c') \<and>
    pubs4 [if i4_Status (f4_Info c') = COSA_DML_DHCP_STATUS_Enabled then DHCP_CLIENT_STARTED else DHCP_CLIENT_FAILED] w w' \<and>
    ok4 c' \<and> same4 c c' \<and> (i4_Status (f4_Info c') = COSA_DML_DHCP_STATUS_Enabled \<longrightarrow> 0 < i4_ClientProcessId (f4_Info c'))"
proof -
  obtain up w1 where cs: "DhcpMgr_checkInterfaceStatus e (c4_Interface (f4_Cfg c)) w = (up, w1)" by force
  have q1: "pubs4 [] w w1" using checkInterfaceStatus_quiet [of w e "c4_Interface (f4_Cfg c)"] cs by (simp add: quiet_pubs4)
  have off: "k_enabled (view4 c)" "\<not> k_running (view4 c)" using assms(3,4) by (simp_all add: view4_def)
  show ?thesis
  proof (cases up)
    case False
    let ?w2 = "DhcpMgr_UpdateEnableSysevent e (c4_InstanceNumber (f4_Cfg c)) (c4_Interface (f4_Cfg c)) False False w1"
    have "pubs4 [] w ?w2" by (rule pubs4_quiet [OF q1 update_enable_quiet])
    then have "pubs4 [DHCP_CLIENT_FAILED] w w'" "view4 c' = (view4 c)\<lparr>k_enabled := False\<rparr>"
      using assms(1,2) cs False pubs4_publish [of "[]" w ?w2 DHCP_CLIENT_FAILED]
      by (auto simp: v4_start_def view4_def Let_def)
    moreover have "ok4 c'" "same4 c c'" "i4_Status (f4_Info c') = COSA_DML_DHCP_STATUS_Disabled"
      using assms(1,2,4) cs False by (auto simp: v4_start_def ok4_def status_ok_def same4_def Let_def)
    ultimately show ?thesis using ctl_move.link_down [OF off] by auto
  next
    case True
    obtain req sent w2 where b: "DhcpMgr_build_dhcpv4_opt_list e l w1 = (req, sent, w2)" by (metis prod_cases3)
    obtain pid w3 where st: "start_dhcpv4_client e (c4_Interface (f4_Cfg c)) req sent w2 = Some (pid, w3)"
      using assms(1,2) cs True b by (auto simp: v4_start_def Let_def split: option.splits)
    have "pubs4 [] w w2" using pubs4_quiet [OF q1 build4_quiet [of w1 e l]] b by simp
    then have q3: "pubs4 [] w w3" by (rule pubs4_quiet [OF _ start4_quiet [OF st]])
    have r: "c' = c\<lparr>f4_Info := (f4_Info c)\<lparr>i4_ClientProcessId := pid,
           i4_Status := (if 0 < pid then COSA_DML_DHCP_STATUS_Enabled else COSA_DML_DHCP_STATUS_Disabled)\<rparr>\<rparr>"
        "pubs4 [if 0 < pid then DHCP_CLIENT_STARTED else DHCP_CLIENT_FAILED] w w'"
      using assms(1,2,4) cs True b st pubs4_publish [OF q3]
      by (auto simp: v4_start_def Let_def split: if_splits)
    then have "view4 c' = (view4 c)\<lparr>k_running := 0 < pid\<rparr>" "ok4 c'" "same4 c c'"
      by (simp_all add: view4_def ok4_def status_ok_def same4_def)
    then show ?thesis
      using r(2) ctl_move.started [OF off] ctl_move.failed [OF off] not_running_self [OF off(2)]
      by (cases "0 < pid") (auto simp: r(1))
  qed
qed

lemma v4_restart_refines:
  assumes "v4_restart e c w = Some (c', w')" "c4_bEnabled (f4_Cfg c)" "i4_Status (f4_Info c) = COSA_DML_DHCP_STATUS_Enabled"
    "\<not> c4_Renew (f4_Cfg c)" "c4_Restart (f4_Cfg c)"
  shows "ctl_move False (view4 c) [DHCP_LEASE_DEL] (view4 c') \<and> pubs4 [DHCP_LEASE_DEL] w w' \<and> ok4 c' \<and> same4 c c'"
proof -
  have "pubs4 [] w (snd (send_dhcpv4_release e (i4_ClientProcessId (f4_Info c)) w))"
    by (intro quiet_pubs4 release4_quiet) simp
  from pubs4_publish [OF this] have "pubs4 [DHCP_LEASE_DEL] w w'" using assms(1) by (auto simp: v4_restart_def Let_def)
  moreover have v: "view4 c' = (view4 c)\<lparr>k_running := False, k_restart := False, k_leases := k_leases (view4 c)\<rparr>"
    "ok4 c'" "same4 c c'"
    using assms(1) by (auto simp: v4_restart_def view4_def ok4_def status_ok_def same4_def Let_def)
  moreover have "ctl_move False (view4 c) [DHCP_LEASE_DEL] (view4 c')"
    unfolding v(1) using assms(2-5) by (intro ctl_move.do_restart) (simp_all add: view4_def)
  ultimately show ?thesis by simp
qed

lemma bEnabled_id [simp]: "c4_bEnabled_update (\<lambda>b. b) k = k" "c6_bEnabled_update (\<lambda>b. b) k6 = k6"
  by (cases k, simp) (cases k6, simp)

lemma v4_stop_result:
  assumes "v4_stop e rel c w = Some (c', w')"
  shows "c' = DhcpMgr_clearDHCPv4Lease (set4 (c4_Renew_update (\<lambda>_. False) \<circ> c4_bEnabled_update (\<lambda>b. b \<and> \<not> rel))
           (status4 COSA_DML_DHCP_STATUS_Disabled c))"
    and "pubs4 [DHCP_LEASE_DEL, DHCP_CLIENT_STOPPED] w w'"
    and "\<exists>w2. w_files w' = w_files (remove_dhcp_lease_file e (c4_InstanceNumber (f4_Cfg c)) DHCP_v4 w2)"
proof -
  let ?pid = "i4_ClientProcessId (f4_Info c)"
  let ?w1 = "if rel then DhcpMgr_UpdateEnableSysevent e (c4_InstanceNumber (f4_Cfg c)) (c4_Interface (f4_Cfg c)) False False
               (snd (send_dhcpv4_release e ?pid w)) else snd (stop_dhcpv4_client e ?pid w)"
  let ?del = "\<lambda>w. act (A_publish4 (c4_InstanceNumber (f4_Cfg c)) (c4_Interface (f4_Cfg c)) DHCP_LEASE_DEL None) w"
  let ?rm = "remove_dhcp_lease_file e (c4_InstanceNumber (f4_Cfg c)) DHCP_v4 (?del ?w1)"
  have "quiet w ?w1"
    using quiet_trans [OF release4_quiet [OF quiet_refl] update_enable_quiet] by (simp add: stop4_quiet)
  then have "pubs4 [DHCP_LEASE_DEL] w (?del ?w1)" using pubs4_publish [OF quiet_pubs4] by fastforce
  then have rm: "pubs4 [DHCP_LEASE_DEL] w ?rm" by (rule pubs4_quiet [OF _ remove_lease_file_quiet])
  have w': "w' = act (A_publish4 (c4_InstanceNumber (f4_Cfg c)) (c4_Interface (f4_Cfg c)) DHCP_CLIENT_STOPPED None) ?rm"
    using assms by (auto simp: v4_stop_def Let_def DhcpMgr_clearDHCPv4Lease_def split: if_splits)
  then show "\<exists>w2. w_files w' = w_files (remove_dhcp_lease_file e (c4_InstanceNumber (f4_Cfg c)) DHCP_v4 w2)" by force
  show "pubs4 [DHCP_LEASE_DEL, DHCP_CLIENT_STOPPED] w w'" unfolding w' using pubs4_publish [OF rm] by simp
  show "c' = DhcpMgr_clearDHCPv4Lease (set4 (c4_Renew_update (\<lambda>_. False) \<circ> c4_bEnabled_update (\<lambda>b. b \<and> \<not> rel))
           (status4 COSA_DML_DHCP_STATUS_Disabled c))"
    using assms by (cases rel) (auto simp: v4_stop_def Let_def)
qed

lemma v4_control_refines:
  assumes "v4_control e rel l w = Some (c', w')" "c = l4_client l" "ok4 c"
  shows "\<exists>ts. ctl_move rel (view4 c) ts (view4 c') \<and> pubs4 ts w w' \<and> ok4 c' \<and> same4 c c'"
proof (cases "c4_bEnabled (f4_Cfg c) \<and> \<not> rel")
  case on: True
  consider "i4_Status (f4_Info c) = COSA_DML_DHCP_STATUS_Disabled"
    | "i4_Status (f4_Info c) = COSA_DML_DHCP_STATUS_Enabled" "c4_Renew (f4_Cfg c)"
    | "i4_Status (f4_Info c) = COSA_DML_DHCP_STATUS_Enabled" "\<not> c4_Renew (f4_Cfg c)" "c4_Restart (f4_Cfg c)"
    | "i4_Status (f4_Info c) = COSA_DML_DHCP_STATUS_Enabled" "\<not> c4_Renew (f4_Cfg c)" "\<not> c4_Restart (f4_Cfg c)"
    using assms(3) by (auto simp: ok4_def status_ok_def)
  then show ?thesis
  proof cases
    case 1
    then show ?thesis using v4_start_refines [of e l w c' w' c] assms on by (auto simp: v4_control_def Let_def)
  next
    case 2
    have "pubs4 [] w (snd (send_dhcpv4_renew e (i4_ClientProcessId (f4_Info c)) w))"
      by (intro quiet_pubs4 renew4_quiet) simp
    moreover have r: "c' = set4 (c4_Renew_update (\<lambda>_. False)) c" "w' = snd (send_dhcpv4_renew e (i4_ClientProcessId (f4_Info c)) w)"
      using assms on 2 by (auto simp: v4_control_def Let_def)
    moreover have "ctl_move rel (view4 c) [] (view4 c')"
      using ctl_move.do_renew [of "view4 c"] on 2 by (simp add: view4_def r)
    ultimately show ?thesis using assms(3) by (auto simp: ok4_def same4_def)
  next
    case 3
    then show ?thesis using v4_restart_refines [of e c w c' w'] assms on by (auto simp: v4_control_def Let_def)
  next
    case 4
    then show ?thesis
      using assms on ctl_move.keep [of "view4 c"]
      by (auto simp: v4_control_def view4_def same4_def Let_def intro!: exI [of _ "[]"])
  qed
next
  case off: False
  show ?thesis
  proof (cases "i4_Status (f4_Info c) = COSA_DML_DHCP_STATUS_Enabled")
    case True
    then have s: "v4_stop e rel c w = Some (c', w')" using assms off by (auto simp: v4_control_def Let_def)
    note r = v4_stop_result [OF s]
    have "view4 c' = (view4 c)\<lparr>k_running := False, k_enabled := False, k_renew := False, k_leases := False\<rparr>"
      using off by (auto simp: r(1) view4_def DhcpMgr_clearDHCPv4Lease_def)
    moreover have "k_running (view4 c)" "\<not> k_enabled (view4 c) \<or> rel" using True off by (auto simp: view4_def)
    ultimately have "ctl_move rel (view4 c) [DHCP_LEASE_DEL, DHCP_CLIENT_STOPPED] (view4 c')"
      using ctl_move.stop by metis
    then show ?thesis
      using r(2) by (auto simp: r(1) ok4_def status_ok_def same4_def DhcpMgr_clearDHCPv4Lease_def)
  next
    case False
    then show ?thesis
      using assms off ctl_move.idle [of "view4 c" rel]
      by (auto simp: v4_control_def view4_def same4_def Let_def intro!: exI [of _ "[]"] split: if_splits)
  qed
qed

lemma v4_handle_client_refines:
  assumes "v4_handle_client e m l w = Some (l', w')" "ok4 (l4_client l)"
  shows "\<exists>ts. ctl_step (control_of m) (view4 (l4_client l)) ts (view4 (l4_client l')) \<and> pubs4 ts w w' \<and>
    ok4 (l4_client l') \<and> same4 (l4_client l) (l4_client l') \<and> l' = l\<lparr>l4_client := l4_client l'\<rparr>"
proof -
  obtain rel c1 w1 c' where s: "v4_param e m (l4_client l) w = Some (rel, c1, w1)"
      "v4_control e rel (l\<lparr>l4_client := c1\<rparr>) w1 = Some (c', w')" "l' = l\<lparr>l4_client := c'\<rparr>"
    using assms(1) by (auto simp: v4_handle_client_def split: option.splits)
  obtain ts1 where p: "ctl_param (control_of m) (view4 (l4_client l)) ts1 (view4 c1)" "pubs4 ts1 w w1" "ok4 c1"
      "same4 (l4_client l) c1" "rel = (control_of m = C_release)"
    using v4_param_refines [OF s(1) assms(2)] by blast
  obtain ts2 where q: "ctl_move rel (view4 c1) ts2 (view4 c')" "pubs4 ts2 w1 w'" "ok4 c'" "same4 c1 c'"
    using v4_control_refines [OF s(2)] p(3) by auto
  have "ctl_step (control_of m) (view4 (l4_client l)) (ts1 @ ts2) (view4 c')"
    using p(1,5) q(1) by (auto simp: ctl_step_def)
  moreover have "pubs4 (ts1 @ ts2) w w'" using pubs4_trans [OF p(2) q(2)] by simp
  ultimately show ?thesis using p(4) q(3,4) by (auto simp: s(3) same4_def)
qed

section \<open>DHCPv6 refines the machine\<close>

definition view6 :: "COSA_DML_DHCPCV6_FULL \<Rightarrow> ctl" where
  "view6 c = \<lparr>k_enabled = c6_bEnabled (f6_Cfg c), k_running = (i6_Status (f6_Info c) = COSA_DML_DHCP_STATUS_Enabled),
     k_renew = c6_Renew (f6_Cfg c), k_restart = c6_Restart (f6_Cfg c), k_leases = (f6_NewLeases c \<noteq> [])\<rparr>"

text \<open>A DHCPv6 client that runs has a process.\<close>

definition ok6 :: "COSA_DML_DHCPCV6_FULL \<Rightarrow> bool" where
  "ok6 c \<longleftrightarrow> status_ok (i6_Status (f6_Info c)) \<and>
     (i6_Status (f6_Info c) = COSA_DML_DHCP_STATUS_Enabled \<longrightarrow> 0 < i6_ClientProcessId (f6_Info c))"

definition same6 :: "COSA_DML_DHCPCV6_FULL \<Rightarrow> COSA_DML_DHCPCV6_FULL \<Rightarrow> bool" where
  "same6 c c' \<longleftrightarrow> c6_Interface (f6_Cfg c') = c6_Interface (f6_Cfg c) \<and> c6_InstanceNumber (f6_Cfg c') = c6_InstanceNumber (f6_Cfg c)"

lemma view6_set:
  "view6 (set6 (c6_bEnabled_update (\<lambda>_. b)) c) = (view6 c)\<lparr>k_enabled := b\<rparr>"
  "view6 (set6 (c6_Renew_update (\<lambda>_. b)) c) = (view6 c)\<lparr>k_renew := b\<rparr>"
  "view6 (set6 (c6_Restart_update (\<lambda>_. b)) c) = (view6 c)\<lparr>k_restart := b\<rparr>"
  by (simp_all add: view6_def)

lemma v6_param_refines:
  assumes "v6_param e m c w = Some (rel, c', w')" "ok6 c"
  shows "\<exists>ts. ctl_param (control_of m) (view6 c) ts (view6 c') \<and> pubs [] ts w w' \<and> ok6 c' \<and> same6 c c' \<and>
    rel = (control_of m = C_release)"
proof (cases "di_ParamName m = ''ProcessLease''")
  case True
  then have p: "DhcpMgr_ProcessV6Lease e c w = Some (c', w')" "\<not> rel" "control_of m = C_lease"
    using assms(1) by (auto simp: v6_param_def control_of_def)
  show ?thesis
  proof (cases "f6_NewLeases c = []")
    case True
    then have "c' = c" "w' = w" using p(1) by (simp_all add: DhcpMgr_ProcessV6Lease_def)
    then show ?thesis using True p assms(2) by (auto simp: view6_def same6_def intro!: exI [of _ "[]"] ctl_param.no_leases)
  next
    case False
    obtain ts where ts: "set ts \<subseteq> lease_types" "pubs [] ts w w'"
      using ProcessV6Lease_keeps [OF p(1)] by (auto simp: leases6_def)
    have k: "keeps6 c c'" "f6_NewLeases c' = []" using ProcessV6Lease_keeps [OF p(1)] by simp_all
    have "view6 c' = (view6 c)\<lparr>k_running := k_running (view6 c), k_leases := False\<rparr>" "k_leases (view6 c)"
      using k False by (simp_all add: view6_def keeps6_def)
    then have "ctl_param C_lease (view6 c) ts (view6 c')" using ctl_param.leases ts(1) by metis
    then show ?thesis using ts p assms(2) k by (auto simp: ok6_def keeps6_def same6_def)
  qed
next
  case False
  then show ?thesis
    using assms
    by (auto simp: v6_param_def control_of_def view6_set ok6_def same6_def intro!: exI [of _ "[]"] ctl_param.intros
        split: if_splits)
qed

lemma v6_start_refines:
  assumes "v6_start e l w = Some (c', w')" "c = l6_client l"
    and "c6_bEnabled (f6_Cfg c)" "i6_Status (f6_Info c) = COSA_DML_DHCP_STATUS_Disabled"
  shows "\<exists>ts. ctl_move False (view6 c) ts (view6 c') \<and> pubs [] ts w w' \<and> ok6 c' \<and> same6 c c'"
proof -
  let ?n = "c6_Interface (f6_Cfg c)"
  obtain up w1 ready w2 where cs: "DhcpMgr_checkInterfaceStatus e ?n w = (up, w1)"
    "DhcpMgr_checkLinkLocalAddress e ?n w1 = (ready, w2)" by (metis surj_pair)
  have q1: "pubs [] [] w w1" using checkInterfaceStatus_quiet [of w e ?n] cs by (simp add: quiet_pubs)
  have q2: "pubs [] [] w w2" using pubs_quiet [OF q1 checkLinkLocal_quiet [of w1 e ?n]] cs by simp
  have off: "k_enabled (view6 c)" "\<not> k_running (view6 c)" using assms(3,4) by (simp_all add: view6_def)
  consider "\<not> up" | "up" "\<not> ready" | "up" "ready" by blast
  then show ?thesis
  proof cases
    case 1
    let ?w2 = "DhcpMgr_UpdateEnableSysevent e (c6_InstanceNumber (f6_Cfg c)) ?n False True w1"
    have "pubs [] [] w ?w2" by (rule pubs_quiet [OF q1 update_enable_quiet])
    then have "pubs [] [DHCP_CLIENT_FAILED] w w'" "view6 c' = (view6 c)\<lparr>k_enabled := False\<rparr>" "ok6 c'" "same6 c c'"
      using assms(1,2,4) cs 1 pubs_publish6 [of "[]" "[]" w ?w2 DHCP_CLIENT_FAILED]
      by (auto simp: v6_start_def view6_def ok6_def status_ok_def same6_def Let_def)
    then show ?thesis using ctl_move.link_down [OF off] by auto
  next
    case 2
    have "pubs [] [] w w'" "c' = c"
      using assms(1,2) cs 2 pubs_open_queue [OF q2] by (auto simp: v6_start_def Let_def)
    then show ?thesis
      using ctl_move.wait_link [OF off] assms(4) by (auto simp: ok6_def status_ok_def same6_def)
  next
    case 3
    obtain r req sent w3 where b: "DhcpMgr_build_dhcpv6_opt_list e l w2 = (r, req, sent, w3)" by (metis surj_pair)
    obtain pid w4 where st: "start_dhcpv6_client e ?n req sent w3 = Some (pid, w4)"
      using assms(1,2) cs 3 b by (auto simp: v6_start_def Let_def split: option.splits)
    have "pubs [] [] w w3" using pubs_quiet [OF q2 build6_quiet [of w2 e l]] b by simp
    then have q4: "pubs [] [] w w4" by (rule pubs_quiet [OF _ start6_quiet [OF st]])
    have r: "c' = c\<lparr>f6_Info := (f6_Info c)\<lparr>i6_ClientProcessId := pid,
           i6_Status := (if 0 < pid then COSA_DML_DHCP_STATUS_Enabled else COSA_DML_DHCP_STATUS_Disabled)\<rparr>\<rparr>"
        "pubs [] [if 0 < pid then DHCP_CLIENT_STARTED else DHCP_CLIENT_FAILED] w w'"
      using assms(1,2,4) cs 3 b st pubs_publish6 [OF q4]
      by (auto simp: v6_start_def Let_def split: if_splits)
    then have "view6 c' = (view6 c)\<lparr>k_running := 0 < pid\<rparr>" "ok6 c'" "same6 c c'"
      by (simp_all add: view6_def ok6_def status_ok_def same6_def)
    then show ?thesis
      using r(2) ctl_move.started [OF off] ctl_move.failed [OF off] not_running_self [OF off(2)]
      by (cases "0 < pid") (auto intro!: exI [of _ "[if 0 < pid then DHCP_CLIENT_STARTED else DHCP_CLIENT_FAILED]"])
  qed
qed

lemma v6_restart_refines:
  assumes "v6_restart e c w = Some (c', w')" "c6_bEnabled (f6_Cfg c)" "i6_Status (f6_Info c) = COSA_DML_DHCP_STATUS_Enabled"
    "\<not> c6_Renew (f6_Cfg c)" "c6_Restart (f6_Cfg c)"
  shows "ctl_move False (view6 c) [DHCP_LEASE_DEL] (view6 c') \<and> pubs [] [DHCP_LEASE_DEL] w w' \<and> ok6 c' \<and> same6 c c'"
proof -
  have "pubs [] [] w (snd (send_dhcpv6_release e (i6_ClientProcessId (f6_Info c)) w))"
    by (intro quiet_pubs release6_quiet) simp
  from pubs_publish6 [OF this] have "pubs [] [DHCP_LEASE_DEL] w w'" using assms(1) by (auto simp: v6_restart_def Let_def)
  moreover have v: "view6 c' = (view6 c)\<lparr>k_running := False, k_restart := False, k_leases := False\<rparr>" "ok6 c'" "same6 c c'"
    using assms(1)
    by (auto simp: v6_restart_def view6_def ok6_def status_ok_def same6_def DhcpMgr_clearDHCPv6Lease_def Let_def)
  moreover have "ctl_move False (view6 c) [DHCP_LEASE_DEL] (view6 c')"
    unfolding v(1) using assms(2-5) by (intro ctl_move.do_restart) (simp_all add: view6_def)
  ultimately show ?thesis by simp
qed

lemma v6_stop_result:
  assumes "v6_stop e rel c w = Some (c', w')"
  shows "c' = DhcpMgr_clearDHCPv6Lease (set6 (c6_Renew_update (\<lambda>_. False) \<circ> c6_bEnabled_update (\<lambda>b. b \<and> \<not> rel))
           (status6 COSA_DML_DHCP_STATUS_Disabled c))"
    and "pubs [] [DHCP_LEASE_DEL, DHCP_CLIENT_STOPPED] w w'"
proof -
  let ?pid = "i6_ClientProcessId (f6_Info c)"
  let ?w1 = "if rel then DhcpMgr_UpdateEnableSysevent e (c6_InstanceNumber (f6_Cfg c)) (c6_Interface (f6_Cfg c)) False True
               (snd (send_dhcpv6_release e ?pid w)) else snd (stop_dhcpv6_client e ?pid w)"
  let ?del = "\<lambda>w. act (A_publish6 (c6_InstanceNumber (f6_Cfg c)) (c6_Interface (f6_Cfg c)) DHCP_LEASE_DEL None) w"
  let ?rm = "remove_dhcp_lease_file e (c6_InstanceNumber (f6_Cfg c)) DHCP_v6 (?del ?w1)"
  have "quiet w ?w1"
    using quiet_trans [OF release6_quiet [OF quiet_refl] update_enable_quiet] by (simp add: stop6_quiet)
  then have "pubs [] [DHCP_LEASE_DEL] w (?del ?w1)" using pubs_publish6 [OF quiet_pubs] by fastforce
  then have rm: "pubs [] [DHCP_LEASE_DEL] w ?rm" by (rule pubs_quiet [OF _ remove_lease_file_quiet])
  have w': "w' = act (A_publish6 (c6_InstanceNumber (f6_Cfg c)) (c6_Interface (f6_Cfg c)) DHCP_CLIENT_STOPPED None) ?rm"
    using assms by (auto simp: v6_stop_def Let_def DhcpMgr_clearDHCPv6Lease_def split: if_splits)
  show "pubs [] [DHCP_LEASE_DEL, DHCP_CLIENT_STOPPED] w w'" unfolding w' using pubs_publish6 [OF rm] by simp
  show "c' = DhcpMgr_clearDHCPv6Lease (set6 (c6_Renew_update (\<lambda>_. False) \<circ> c6_bEnabled_update (\<lambda>b. b \<and> \<not> rel))
           (status6 COSA_DML_DHCP_STATUS_Disabled c))"
    using assms by (cases rel) (auto simp: v6_stop_def Let_def)
qed

lemma v6_control_refines:
  assumes "v6_control e rel l w = Some (c', w')" "c = l6_client l" "ok6 c"
  shows "\<exists>ts. ctl_move rel (view6 c) ts (view6 c') \<and> pubs [] ts w w' \<and> ok6 c' \<and> same6 c c'"
proof (cases "c6_bEnabled (f6_Cfg c) \<and> \<not> rel")
  case on: True
  consider "i6_Status (f6_Info c) = COSA_DML_DHCP_STATUS_Disabled"
    | "i6_Status (f6_Info c) = COSA_DML_DHCP_STATUS_Enabled" "c6_Renew (f6_Cfg c)"
    | "i6_Status (f6_Info c) = COSA_DML_DHCP_STATUS_Enabled" "\<not> c6_Renew (f6_Cfg c)" "c6_Restart (f6_Cfg c)"
    | "i6_Status (f6_Info c) = COSA_DML_DHCP_STATUS_Enabled" "\<not> c6_Renew (f6_Cfg c)" "\<not> c6_Restart (f6_Cfg c)"
    using assms(3) by (auto simp: ok6_def status_ok_def)
  then show ?thesis
  proof cases
    case 1
    then show ?thesis using v6_start_refines [of e l w c' w' c] assms on by (auto simp: v6_control_def Let_def)
  next
    case 2
    have "pubs [] [] w (snd (send_dhcpv6_renew e (i6_ClientProcessId (f6_Info c)) w))"
      by (intro quiet_pubs renew6_quiet) simp
    moreover have r: "c' = set6 (c6_Renew_update (\<lambda>_. False)) c" "w' = snd (send_dhcpv6_renew e (i6_ClientProcessId (f6_Info c)) w)"
      using assms on 2 by (auto simp: v6_control_def Let_def)
    moreover have "ctl_move rel (view6 c) [] (view6 c')"
      using ctl_move.do_renew [of "view6 c"] on 2 by (simp add: view6_def r)
    ultimately show ?thesis using assms(3) by (auto simp: ok6_def same6_def)
  next
    case 3
    then show ?thesis using v6_restart_refines [of e c w c' w'] assms on by (auto simp: v6_control_def Let_def)
  next
    case 4
    then show ?thesis
      using assms on ctl_move.keep [of "view6 c"]
      by (auto simp: v6_control_def view6_def same6_def Let_def intro!: exI [of _ "[]"])
  qed
next
  case off: False
  show ?thesis
  proof (cases "i6_Status (f6_Info c) = COSA_DML_DHCP_STATUS_Enabled")
    case True
    then have s: "v6_stop e rel c w = Some (c', w')" using assms off by (auto simp: v6_control_def Let_def)
    note r = v6_stop_result [OF s]
    have "view6 c' = (view6 c)\<lparr>k_running := False, k_enabled := False, k_renew := False, k_leases := False\<rparr>"
      using off by (auto simp: r(1) view6_def DhcpMgr_clearDHCPv6Lease_def)
    moreover have "k_running (view6 c)" "\<not> k_enabled (view6 c) \<or> rel" using True off by (auto simp: view6_def)
    ultimately have "ctl_move rel (view6 c) [DHCP_LEASE_DEL, DHCP_CLIENT_STOPPED] (view6 c')"
      using ctl_move.stop by metis
    then show ?thesis
      using r(2) by (auto simp: r(1) ok6_def status_ok_def same6_def DhcpMgr_clearDHCPv6Lease_def)
  next
    case False
    then show ?thesis
      using assms off ctl_move.idle [of "view6 c" rel]
      by (auto simp: v6_control_def view6_def same6_def Let_def intro!: exI [of _ "[]"] split: if_splits)
  qed
qed

lemma v6_handle_client_refines:
  assumes "v6_handle_client e m l w = Some (l', w')" "ok6 (l6_client l)"
  shows "\<exists>ts. ctl_step (control_of m) (view6 (l6_client l)) ts (view6 (l6_client l')) \<and> pubs [] ts w w' \<and>
    ok6 (l6_client l') \<and> same6 (l6_client l) (l6_client l') \<and> l' = l\<lparr>l6_client := l6_client l'\<rparr>"
proof -
  obtain rel c1 w1 c' where s: "v6_param e m (l6_client l) w = Some (rel, c1, w1)"
      "v6_control e rel (l\<lparr>l6_client := c1\<rparr>) w1 = Some (c', w')" "l' = l\<lparr>l6_client := c'\<rparr>"
    using assms(1) by (auto simp: v6_handle_client_def split: option.splits)
  obtain ts1 where p: "ctl_param (control_of m) (view6 (l6_client l)) ts1 (view6 c1)" "pubs [] ts1 w w1" "ok6 c1"
      "same6 (l6_client l) c1" "rel = (control_of m = C_release)"
    using v6_param_refines [OF s(1) assms(2)] by blast
  obtain ts2 where q: "ctl_move rel (view6 c1) ts2 (view6 c')" "pubs [] ts2 w1 w'" "ok6 c'" "same6 c1 c'"
    using v6_control_refines [OF s(2)] p(3) by auto
  have "ctl_step (control_of m) (view6 (l6_client l)) (ts1 @ ts2) (view6 c')"
    using p(1,5) q(1) by (auto simp: ctl_step_def)
  moreover have "pubs [] (ts1 @ ts2) w w'" using pubs_trans [OF p(2) q(2)] by simp
  ultimately show ?thesis using p(4) q(3,4) by (auto simp: s(3) same6_def)
qed

end
