(* ===== verification/Controller_Props.thy ===== *)
theory Controller_Props
  imports Controller_Spec
begin

text \<open>
  The properties of the controller: both handlers as implementations of the client
  machine, what disabling a client leaves, and that a disabled client stays off.
\<close>

section \<open>The handlers as client machines\<close>

definition handle4 ::
  "env \<Rightarrow> dhcp_info \<Rightarrow> DHCPC_LINK_OBJECT \<times> world \<Rightarrow> (DHCP_MESSAGE_TYPE list \<times> (DHCPC_LINK_OBJECT \<times> world)) option" where
  "handle4 e m = (\<lambda>(l, w). map_option (\<lambda>(l', w'). (map fst (events4 (new_actions w w')), (l', w'))) (v4_handle_client e m l w))"

definition handle6 ::
  "env \<Rightarrow> dhcp_info \<Rightarrow> DHCPCV6_LINK_OBJECT \<times> world \<Rightarrow> (DHCP_MESSAGE_TYPE list \<times> (DHCPCV6_LINK_OBJECT \<times> world)) option" where
  "handle6 e m = (\<lambda>(l, w). map_option (\<lambda>(l', w'). (map fst (events6 (new_actions w w')), (l', w'))) (v6_handle_client e m l w))"

interpretation c4: client_control "handle4 e" "\<lambda>s. view4 (l4_client (fst s))" "\<lambda>s. ok4 (l4_client (fst s))" for e
proof unfold_locales
  fix s m ts and s' :: "DHCPC_LINK_OBJECT \<times> world"
  assume "ok4 (l4_client (fst s))" "handle4 e m s = Some (ts, s')"
  then show "ctl_step (control_of m) (view4 (l4_client (fst s))) ts (view4 (l4_client (fst s'))) \<and> ok4 (l4_client (fst s'))"
    using v4_handle_client_refines [of e m "fst s" "snd s" "fst s'" "snd s'"]
    by (auto simp: handle4_def pubs4_def pubs_def split_beta)
qed

interpretation c6: client_control "handle6 e" "\<lambda>s. view6 (l6_client (fst s))" "\<lambda>s. ok6 (l6_client (fst s))" for e
proof unfold_locales
  fix s m ts and s' :: "DHCPCV6_LINK_OBJECT \<times> world"
  assume "ok6 (l6_client (fst s))" "handle6 e m s = Some (ts, s')"
  then show "ctl_step (control_of m) (view6 (l6_client (fst s))) ts (view6 (l6_client (fst s'))) \<and> ok6 (l6_client (fst s'))"
    using v6_handle_client_refines [of e m "fst s" "snd s" "fst s'" "snd s'"]
    by (auto simp: handle6_def pubs_def split_beta)
qed

section \<open>The tables\<close>

definition for4 :: "dhcp_info \<Rightarrow> DHCPC_LINK_OBJECT \<Rightarrow> bool" where
  "for4 m l \<longleftrightarrow> strncmp_eq 64 (c4_Interface (f4_Cfg (l4_client l))) (di_if_name m)"

definition for6 :: "dhcp_info \<Rightarrow> DHCPCV6_LINK_OBJECT \<Rightarrow> bool" where
  "for6 m l \<longleftrightarrow> strncmp_eq 64 (c6_Interface (f6_Cfg (l6_client l))) (di_if_name m)"

lemma handler4_first:
  "Process_DHCPv4_Handler e m n t w = Some (t', w') \<Longrightarrow>
   at_first (for4 m) (\<lambda>l l'. v4_handle_client e m l w = Some (l', w')) (w' = w) (take n t) (take n t') \<and> drop n t' = drop n t"
  by (induction e m n t w arbitrary: t' rule: Process_DHCPv4_Handler.induct) (auto simp: for4_def at_first_Cons split: if_splits)

lemma handler6_first:
  "Process_DHCPv6_Handler e m n t w = Some (t', w') \<Longrightarrow>
   at_first (for6 m) (\<lambda>l l'. v6_handle_client e m l w = Some (l', w')) (w' = w) (take n t) (take n t') \<and> drop n t' = drop n t"
  by (induction e m n t w arbitrary: t' rule: Process_DHCPv6_Handler.induct) (auto simp: for6_def at_first_Cons split: if_splits)

definition link4 :: DHCPC_LINK_OBJECT where
  "link4 = \<lparr>l4_client = client4, l4_req_opts = [], l4_sent_opts = [], l4_bNew = False, l4_InstanceNumber = 1,
     l4_maxInstanceOfSend = 0, l4_maxInstanceOfReq = 0, l4_AliasOfReq = [], l4_AliasOfSend = []\<rparr>"

definition link6 :: DHCPCV6_LINK_OBJECT where
  "link6 = \<lparr>l6_client = client6, l6_sent_opts = [], l6_bNew = False, l6_InstanceNumber = 1,
     l6_maxInstanceOfSent = 0, l6_AliasOfSent = []\<rparr>"

definition disable4 :: dhcp_info where
  "disable4 = \<lparr>di_if_name = ''erouter0'', di_ParamName = ''Enable'', di_bValue = False, di_dhcpType = DML_DHCPV4\<rparr>"

definition disable6 :: dhcp_info where
  "disable6 = disable4\<lparr>di_dhcpType := DML_DHCPV6\<rparr>"

section \<open>Stopping\<close>

text \<open>Stopping a client never faults, and leaves it without a lease.\<close>

lemma control_of_name:
  "control_of m = C_enable b \<Longrightarrow> di_ParamName m = ''Enable'' \<and> di_bValue m = b"
  "control_of m = C_release \<Longrightarrow> di_ParamName m = ''X_RDK_Release''"
  unfolding control_of_def by (metis control.distinct control.inject(1))+

lemma stop_messages:
  "control_of m = C_enable False \<Longrightarrow> v4_param e m c w = Some (False, set4 (c4_bEnabled_update (\<lambda>_. False)) c, w)"
  "control_of m = C_release \<Longrightarrow> v4_param e m c w = Some (True, c, w)"
  "control_of m = C_enable False \<Longrightarrow> v6_param e m d w = Some (False, set6 (c6_bEnabled_update (\<lambda>_. False)) d, w)"
  "control_of m = C_release \<Longrightarrow> v6_param e m d w = Some (True, d, w)"
  by (drule control_of_name, simp add: v4_param_def v6_param_def)+

lemma v4_stop_total: "\<exists>c' w'. v4_stop e rel c w = Some (c', w')"
  by (simp add: v4_stop_def Let_def)

lemma v6_stop_total: "\<exists>c' w'. v6_stop e rel c w = Some (c', w')"
  by (simp add: v6_stop_def Let_def)

lemma v4_stop_step:
  assumes "control_of m = C_enable False \<or> control_of m = C_release"
    and "i4_Status (f4_Info (l4_client l)) = COSA_DML_DHCP_STATUS_Enabled"
  shows "\<exists>rel c c' w'. v4_stop e rel c w = Some (c', w') \<and> v4_handle_client e m l w = Some (l\<lparr>l4_client := c'\<rparr>, w') \<and>
    f4_Info c = f4_Info (l4_client l) \<and> same4 (l4_client l) c \<and> (c4_bEnabled (f4_Cfg c) \<longrightarrow> rel)"
proof -
  define rel where "rel = (control_of m = C_release)"
  define c where "c = (if rel then l4_client l else set4 (c4_bEnabled_update (\<lambda>_. False)) (l4_client l))"
  obtain c' w' where st: "v4_stop e rel c w = Some (c', w')" using v4_stop_total by blast
  have "v4_param e m (l4_client l) w = Some (rel, c, w)" using assms(1) stop_messages(1,2) by (auto simp: rel_def c_def)
  then have "v4_handle_client e m l w = Some (l\<lparr>l4_client := c'\<rparr>, w')"
    using st assms(2) by (auto simp: v4_handle_client_def v4_control_def c_def Let_def)
  moreover have "f4_Info c = f4_Info (l4_client l)" "same4 (l4_client l) c" "c4_bEnabled (f4_Cfg c) \<longrightarrow> rel"
    by (simp_all add: c_def same4_def)
  ultimately show ?thesis using st by blast
qed

lemma v6_stop_step:
  assumes "control_of m = C_enable False \<or> control_of m = C_release"
    and "i6_Status (f6_Info (l6_client l)) = COSA_DML_DHCP_STATUS_Enabled"
  shows "\<exists>rel c c' w'. v6_stop e rel c w = Some (c', w') \<and> v6_handle_client e m l w = Some (l\<lparr>l6_client := c'\<rparr>, w') \<and>
    f6_Info c = f6_Info (l6_client l) \<and> same6 (l6_client l) c \<and> (c6_bEnabled (f6_Cfg c) \<longrightarrow> rel)"
proof -
  define rel where "rel = (control_of m = C_release)"
  define c where "c = (if rel then l6_client l else set6 (c6_bEnabled_update (\<lambda>_. False)) (l6_client l))"
  obtain c' w' where st: "v6_stop e rel c w = Some (c', w')" using v6_stop_total by blast
  have "v6_param e m (l6_client l) w = Some (rel, c, w)" using assms(1) stop_messages(3,4) by (auto simp: rel_def c_def)
  then have "v6_handle_client e m l w = Some (l\<lparr>l6_client := c'\<rparr>, w')"
    using st assms(2) by (auto simp: v6_handle_client_def v6_control_def c_def Let_def)
  moreover have "f6_Info c = f6_Info (l6_client l)" "same6 (l6_client l) c" "c6_bEnabled (f6_Cfg c) \<longrightarrow> rel"
    by (simp_all add: c_def same6_def)
  ultimately show ?thesis using st by blast
qed

section \<open>Properties\<close>

text \<open>
  Claim C1. A control message for DHCPv4 changes at most one client, the first of
  its interface among the first \<open>n\<close> of the table, where \<open>n\<close> is the number of clients in the
  persistent store, and there is one step of the client machine: the machine's moves
  are the only ones, and the events published are the ones of the step. No DHCPv6
  event goes out, the queues and the registry stay as they are, and the clients behind
  the first \<open>n\<close> are untouched. (The machine is the one of both protocols; its move
  that waits for a link-local address is taken by DHCPv6 only.)
\<close>

theorem v4_handler_refines:
  assumes "Process_DHCPv4_Handler e m n t w = Some (t', w')" "\<forall>l \<in> set (take n t). ok4 (l4_client l)"
  shows "drop n t' = drop n t \<and> at_first (for4 m)
    (\<lambda>l l'. ctl_step (control_of m) (view4 (l4_client l)) (map fst (events4 (new_actions w w'))) (view4 (l4_client l')) \<and>
       events6 (new_actions w w') = [] \<and> w_mqs w' = w_mqs w \<and> w_ifaces w' = w_ifaces w \<and>
       ok4 (l4_client l') \<and> same4 (l4_client l) (l4_client l'))
    (w' = w) (take n t) (take n t')"
proof (rule conjI [OF handler4_first [OF assms(1), THEN conjunct2]], rule at_first_mono [OF handler4_first [OF assms(1), THEN conjunct1]])
  fix l l'
  assume "l \<in> set (take n t)" "v4_handle_client e m l w = Some (l', w')"
  then show "ctl_step (control_of m) (view4 (l4_client l)) (map fst (events4 (new_actions w w'))) (view4 (l4_client l')) \<and>
       events6 (new_actions w w') = [] \<and> w_mqs w' = w_mqs w \<and> w_ifaces w' = w_ifaces w \<and>
       ok4 (l4_client l') \<and> same4 (l4_client l) (l4_client l')"
    using v4_handle_client_refines [of e m l w l' w'] assms(2) by (auto simp: pubs4_def pubs_def)
qed

theorem v4_handler_refines_witness:
  "\<exists>t' w'. Process_DHCPv4_Handler env0 disable4 1 [link4] world_init = Some (t', w') \<and>
     ctl_step (C_enable False) (view4 client4) (map fst (events4 (new_actions world_init w'))) (view4 (l4_client (hd t')))"
proof -
  have ok: "\<forall>l \<in> set (take 1 [link4]). ok4 (l4_client l)" "for4 disable4 link4" "control_of disable4 = C_enable False" "l4_client link4 = client4"
    "i4_Status (f4_Info (l4_client link4)) = COSA_DML_DHCP_STATUS_Enabled" by code_simp+
  then obtain t' w' where h: "Process_DHCPv4_Handler env0 disable4 1 [link4] world_init = Some (t', w')"
    using v4_stop_step [of disable4 link4 env0 world_init] by (auto simp: for4_def One_nat_def)
  have "\<exists>l'. t' = [l'] \<and> ctl_step (control_of disable4) (view4 (l4_client link4)) (map fst (events4 (new_actions world_init w')))
      (view4 (l4_client l'))"
    using v4_handler_refines [OF h ok(1)] ok(2) by (cases t') (auto simp: at_first_Cons)
  then show ?thesis using h ok(3,4) by auto
qed

text \<open>
  Claim C2. A control message for DHCPv6 likewise is one step of the machine on
  the first client of its interface among the first \<open>n\<close>, leaves the others alone, and keeps the invariant of every client: its
  status is Disabled or Enabled, and an enabled status goes with a process id.
\<close>

theorem v6_handler_refines:
  assumes "Process_DHCPv6_Handler e m n t w = Some (t', w')" "\<forall>l \<in> set t. ok6 (l6_client l)"
  shows "(\<forall>l \<in> set t'. ok6 (l6_client l)) \<and> drop n t' = drop n t \<and>
    at_first (for6 m)
      (\<lambda>l l'. ctl_step (control_of m) (view6 (l6_client l)) (map fst (events6 (new_actions w w'))) (view6 (l6_client l')) \<and>
         events4 (new_actions w w') = [] \<and> same6 (l6_client l) (l6_client l'))
      (w' = w) (take n t) (take n t')"
proof -
  note f = handler6_first [OF assms(1), THEN conjunct1] and d = handler6_first [OF assms(1), THEN conjunct2]
  have ok: "\<forall>l \<in> set (take n t). ok6 (l6_client l)" using assms(2) in_set_takeD by metis
  have r: "ctl_step (control_of m) (view6 (l6_client l)) (map fst (events6 (new_actions w w'))) (view6 (l6_client l')) \<and>
      events4 (new_actions w w') = [] \<and> same6 (l6_client l) (l6_client l') \<and> ok6 (l6_client l')"
    if "l \<in> set (take n t)" "v6_handle_client e m l w = Some (l', w')" for l l'
    using v6_handle_client_refines [of e m l w l' w'] that ok by (auto simp: pubs_def)
  have "\<forall>l \<in> set (take n t'). ok6 (l6_client l)" using r ok by (intro at_first_all [OF f]) blast+
  moreover have "\<forall>l \<in> set (drop n t'). ok6 (l6_client l)" unfolding d using assms(2) in_set_dropD by metis
  ultimately have "\<forall>l \<in> set t'. ok6 (l6_client l)" by (metis append_take_drop_id set_append Un_iff)
  moreover have "at_first (for6 m)
      (\<lambda>l l'. ctl_step (control_of m) (view6 (l6_client l)) (map fst (events6 (new_actions w w'))) (view6 (l6_client l')) \<and>
         events4 (new_actions w w') = [] \<and> same6 (l6_client l) (l6_client l')) (w' = w) (take n t) (take n t')"
    by (rule at_first_mono [OF f]) (use r in blast)
  ultimately show ?thesis using d by blast
qed

theorem v6_handler_refines_witness:
  "\<exists>t' w'. Process_DHCPv6_Handler env0 disable6 1 [link6] world_init = Some (t', w') \<and>
     (\<forall>l \<in> set t'. ok6 (l6_client l)) \<and> map fst (events6 (new_actions world_init w')) = [DHCP_LEASE_DEL, DHCP_CLIENT_STOPPED]"
proof -
  have ok: "\<forall>l \<in> set [link6]. ok6 (l6_client l)" "for6 disable6 link6" "control_of disable6 = C_enable False"
    "k_running (view6 (l6_client link6))" "i6_Status (f6_Info (l6_client link6)) = COSA_DML_DHCP_STATUS_Enabled" by code_simp+
  then obtain t' w' where h: "Process_DHCPv6_Handler env0 disable6 1 [link6] world_init = Some (t', w')"
    using v6_stop_step [of disable6 link6 env0 world_init] by (auto simp: for6_def)
  have "(\<forall>l \<in> set t'. ok6 (l6_client l)) \<and> (\<exists>l'. t' = [l'] \<and> ctl_step (control_of disable6) (view6 (l6_client link6))
      (map fst (events6 (new_actions world_init w'))) (view6 (l6_client l')))"
    using v6_handler_refines [OF h ok(1)] ok(2) by (cases t') (auto simp: at_first_Cons)
  then show ?thesis using h ok(3,4) step_stop by metis
qed

text \<open>
  Disabling or releasing a running client always goes through, whatever
  the system answers: afterwards the client is disabled and stopped, has no lease,
  current or waiting, and no address, and its lease file was removed; the events
  are the deletion of the lease and then the stop of the client.
\<close>

lemma v4_disable_effect:
  assumes "control_of m = C_enable False \<or> control_of m = C_release"
    and "i4_Status (f4_Info (l4_client l)) = COSA_DML_DHCP_STATUS_Enabled"
    and "n = c4_InstanceNumber (f4_Cfg (l4_client l))" "\<forall>tr. e_ret e (tr @ [A_remove (lease_path4 n)]) = 0"
  shows "\<exists>l' w'. v4_handle_client e m l w = Some (l', w') \<and>
    i4_Status (f4_Info (l4_client l')) = COSA_DML_DHCP_STATUS_Disabled \<and> \<not> c4_bEnabled (f4_Cfg (l4_client l')) \<and>
    f4_currentLease (l4_client l') = None \<and> f4_NewLeases (l4_client l') = [] \<and> i4_IPAddress (f4_Info (l4_client l')) = 0 \<and>
    w_files w' (lease_path4 n) = None \<and> map fst (events4 (new_actions w w')) = [DHCP_LEASE_DEL, DHCP_CLIENT_STOPPED]"
proof -
  obtain rel c c' w' where s: "v4_stop e rel c w = Some (c', w')" "v4_handle_client e m l w = Some (l\<lparr>l4_client := c'\<rparr>, w')"
      "same4 (l4_client l) c" "c4_bEnabled (f4_Cfg c) \<longrightarrow> rel"
    using v4_stop_step [OF assms(1,2)] by blast
  note r = v4_stop_result [OF s(1)]
  have "w_files w' (lease_path4 n) = None"
    using r(3) s(3) assms(3) remove_lease_file_gone [OF assms(4)] by (auto simp: same4_def)
  moreover have "i4_Status (f4_Info c') = COSA_DML_DHCP_STATUS_Disabled" "\<not> c4_bEnabled (f4_Cfg c')" "f4_currentLease c' = None"
    "f4_NewLeases c' = []" "i4_IPAddress (f4_Info c') = 0"
    using s(4) by (auto simp: r(1) DhcpMgr_clearDHCPv4Lease_def)
  moreover have "map fst (events4 (new_actions w w')) = [DHCP_LEASE_DEL, DHCP_CLIENT_STOPPED]"
    using r(2) by (simp add: pubs4_def pubs_def)
  ultimately show ?thesis using s(2) by (intro exI [of _ "l\<lparr>l4_client := c'\<rparr>"] exI [of _ w']) simp
qed

lemma v4_disable_effect_witness:
  "\<exists>l' w'. v4_handle_client env0 disable4 link4 world_init = Some (l', w') \<and>
     i4_Status (f4_Info (l4_client l')) = COSA_DML_DHCP_STATUS_Disabled"
proof -
  have "control_of disable4 = C_enable False" "i4_Status (f4_Info (l4_client link4)) = COSA_DML_DHCP_STATUS_Enabled"
    by code_simp+
  then show ?thesis
    using v4_disable_effect [of disable4 link4 "c4_InstanceNumber (f4_Cfg (l4_client link4))" env0 world_init]
    by (auto simp: env0_def)
qed

text \<open>
  Claim C3. A client that was disabled or released stays off: whatever messages
  follow, as long as none of them enables it, nothing is published after the two
  events of the stop, and the client is still off. This holds for both protocols.
\<close>

theorem disabled_client_stays_off:
  assumes "control_of m = C_enable False \<or> control_of m = C_release" "C_enable True \<notin> set (map control_of ms)"
    and "ok4 (l4_client l)" "k_running (view4 (l4_client l))" "handle_all (handle4 e) (m # ms) (l, w) = Some (ts, (l', w'))"
    and "ok6 (l6_client k)" "k_running (view6 (l6_client k))" "handle_all (handle6 e) (m # ms) (k, w) = Some (us, (k', w''))"
  shows "ts = [DHCP_LEASE_DEL, DHCP_CLIENT_STOPPED] \<and> ctl_off (view4 (l4_client l')) \<and>
         us = [DHCP_LEASE_DEL, DHCP_CLIENT_STOPPED] \<and> ctl_off (view6 (l6_client k'))"
  using c4.handled_stays_off [of "(l, w)" m ms e ts "(l', w')"] c6.handled_stays_off [of "(k, w)" m ms e us "(k', w'')"] assms
  by simp

lemma selfheal_off4:
  assumes "\<not> c4_bEnabled (f4_Cfg (l4_client l))" "i4_Status (f4_Info (l4_client l)) = COSA_DML_DHCP_STATUS_Disabled"
  shows "v4_handle_client e (selfheal_msg n t) l w = Some (l, w)"
  using assms by (simp add: v4_handle_client_def v4_param_def v4_control_def selfheal_msg_def)

lemma selfheal_off6:
  assumes "\<not> c6_bEnabled (f6_Cfg (l6_client l))" "i6_Status (f6_Info (l6_client l)) = COSA_DML_DHCP_STATUS_Disabled"
  shows "v6_handle_client e (selfheal_msg n t) l w = Some (l, w)"
  using assms by (simp add: v6_handle_client_def v6_param_def v6_control_def selfheal_msg_def)

theorem disabled_client_stays_off_witness:
  "\<exists>l' w' k' w''. handle_all (handle4 env0) [disable4, selfheal_msg ''erouter0'' DML_DHCPV4] (link4, world_init) =
       Some ([DHCP_LEASE_DEL, DHCP_CLIENT_STOPPED], (l', w')) \<and>
     handle_all (handle6 env0) [disable4, selfheal_msg ''erouter0'' DML_DHCPV4] (link6, world_init) =
       Some ([DHCP_LEASE_DEL, DHCP_CLIENT_STOPPED], (k', w''))"
proof -
  have ok: "control_of disable4 = C_enable False" "i4_Status (f4_Info (l4_client link4)) = COSA_DML_DHCP_STATUS_Enabled"
    "i6_Status (f6_Info (l6_client link6)) = COSA_DML_DHCP_STATUS_Enabled" "ok4 (l4_client link4)" "ok6 (l6_client link6)"
    "k_running (view4 (l4_client link4))" "k_running (view6 (l6_client link6))"
    "C_enable True \<notin> set (map control_of [selfheal_msg ''erouter0'' DML_DHCPV4])"
    by code_simp+
  obtain rel c c' w' where s4: "v4_stop env0 rel c world_init = Some (c', w')" "c4_bEnabled (f4_Cfg c) \<longrightarrow> rel"
      "v4_handle_client env0 disable4 link4 world_init = Some (link4\<lparr>l4_client := c'\<rparr>, w')"
    using v4_stop_step [of disable4 link4 env0 world_init] ok(1,2) by blast
  obtain rel6 d d' w6 where s6: "v6_stop env0 rel6 d world_init = Some (d', w6)" "c6_bEnabled (f6_Cfg d) \<longrightarrow> rel6"
      "v6_handle_client env0 disable4 link6 world_init = Some (link6\<lparr>l6_client := d'\<rparr>, w6)"
    using v6_stop_step [of disable4 link6 env0 world_init] ok(1,3) by blast
  obtain ts us where h: "handle_all (handle4 env0) [disable4, selfheal_msg ''erouter0'' DML_DHCPV4] (link4, world_init) =
        Some (ts, (link4\<lparr>l4_client := c'\<rparr>, w'))"
      "handle_all (handle6 env0) [disable4, selfheal_msg ''erouter0'' DML_DHCPV4] (link6, world_init) =
        Some (us, (link6\<lparr>l6_client := d'\<rparr>, w6))"
    using s4(2,3) s6(2,3) v4_stop_result(1) [OF s4(1)] v6_stop_result(1) [OF s6(1)]
    by (auto simp: handle4_def handle6_def selfheal_off4 selfheal_off6 DhcpMgr_clearDHCPv4Lease_def DhcpMgr_clearDHCPv6Lease_def)
  show ?thesis using disabled_client_stays_off [OF _ ok(8,4,6) h(1) ok(5,7) h(2)] h ok(1) by blast
qed

end
