(* ===== verification/Controller_Death.thy ===== *)
theory Controller_Death
  imports Controller_Props
begin

text \<open>
  What becomes of a client that dies, and of the messages of a controller: a dead
  client is marked and its controller told to restart it (\<open>processKilled\<close>); the
  loop of the controller works its queue off and ends; and the case where a lease
  that the dead client left behind keeps it from being restarted.
\<close>

section \<open>A dead client\<close>

lemma updateDML_enabled:
  assumes "DhcpMgr_updateDHCPv4DML e c = Some (r, c')" "f4_currentLease c = Some k" "v4_addressAssigned k"
  shows "i4_Status (f4_Info c') = COSA_DML_DHCP_STATUS_Enabled"
  using assms by (auto simp: DhcpMgr_updateDHCPv4DML_def Let_def add_dns_def dest!: set_routers_keeps split: option.splits)

lemma v4_apply_change_enabled:
  assumes "v4_apply_change e l c w = Some (c', w')" "\<not> v4_isExpired l" "v4_addressAssigned l"
  shows "i4_Status (f4_Info c') = COSA_DML_DHCP_STATUS_Enabled"
proof -
  let ?c1 = "c\<lparr>f4_currentLease := Some (mtu_default l)\<rparr>"
  obtain r where "DhcpMgr_updateDHCPv4DML e ?c1 = Some (r, c')"
    using assms(1,2) by (auto simp: v4_apply_change_def Let_def split: option.splits)
  then show ?thesis using updateDML_enabled assms(3) by (fastforce simp: mtu_default_def)
qed

text \<open>A single new lease with an address marks its client as enabled, whatever its status was.\<close>

lemma new_lease_enables:
  assumes "f4_NewLeases c = [l]" "lease_fits e l" "v4_changed (f4_currentLease c) l" "\<not> v4_isExpired l" "v4_addressAssigned l"
  shows "\<exists>c' w'. DhcpMgr_ProcessV4Lease e c w = Some (c', w') \<and> f4_Cfg c' = f4_Cfg c \<and>
    i4_Status (f4_Info c') = COSA_DML_DHCP_STATUS_Enabled \<and> i4_ClientProcessId (f4_Info c') = i4_ClientProcessId (f4_Info c)"
proof -
  obtain i w' where s: "v4_lease_step e False l [] c w =
      Some (True, c\<lparr>f4_Info := i, f4_currentLease := Some (v4_next True l), f4_NewLeases := []\<rparr>, w')"
    using v4_lease_step_spec [OF assms(2), of True False c "[]" w] assms(3) by auto
  let ?c' = "c\<lparr>f4_Info := i, f4_currentLease := Some (v4_next True l), f4_NewLeases := []\<rparr>"
  have p: "DhcpMgr_ProcessV4Lease e c w = Some (?c', w')"
    using s by (simp add: DhcpMgr_ProcessV4Lease_def assms(1))
  have ch: "f4_currentLease c = None \<or> v4_differs (the (f4_currentLease c)) l"
    using assms(3) by (auto simp: v4_changed_def split: option.splits)
  then obtain c1 w1 where "v4_apply_change e l c1 w1 = Some (?c', w')"
    using s by (auto simp: v4_lease_step_def Let_def split: option.splits)
  from v4_apply_change_enabled [OF this assms(4,5)] ProcessV4Lease_keeps [OF p] p show ?thesis
    by (intro exI [of _ ?c'] exI [of _ w']) (simp add: keeps4_def)
qed

text \<open>
  A lease that a client handed over before it died keeps it from being
  restarted: the death marks the client as not running, but working off the
  waiting lease marks it as enabled again, with the process id of the dead client,
  and the restart message that the death put into the queue then does nothing.
\<close>

lemma v4_late_lease_masks_death:
  assumes "reach4 g = [l]" "c = l4_client l" "i4_ClientProcessId (f4_Info c) = pid"
    and "c4_bEnabled (f4_Cfg c)" "\<not> c4_Renew (f4_Cfg c)" "\<not> c4_Restart (f4_Cfg c)"
    and "f4_NewLeases c = [lease]" "lease_fits e lease" "v4_changed (f4_currentLease c) lease"
    and "\<not> v4_isExpired lease" "v4_addressAssigned lease" "di_ParamName m = ''ProcessLease''"
  shows "\<exists>l1 w1. v4_handle_client e m (hd (g_v4 (processKilled e pid g))) w = Some (l1, w1) \<and>
    i4_Status (f4_Info (l4_client l1)) = COSA_DML_DHCP_STATUS_Enabled \<and> i4_ClientProcessId (f4_Info (l4_client l1)) = pid \<and>
    (\<forall>n w2. v4_handle_client e (selfheal_msg n DML_DHCPV4) l1 w2 = Some (l1, w2))"
proof -
  let ?l = "hd (g_v4 (processKilled e pid g))"
  let ?c = "l4_client ?l"
  have k: "f4_Cfg ?c = f4_Cfg c" "f4_NewLeases ?c = f4_NewLeases c"
    "f4_currentLease ?c = f4_currentLease c" "i4_ClientProcessId (f4_Info ?c) = pid"
    using assms(1-3) by (auto simp: processKilled_def update_upto_def Let_def)
  obtain c1 w1 where p: "DhcpMgr_ProcessV4Lease e ?c w = Some (c1, w1)" "f4_Cfg c1 = f4_Cfg c"
      "i4_Status (f4_Info c1) = COSA_DML_DHCP_STATUS_Enabled" "i4_ClientProcessId (f4_Info c1) = pid"
    using new_lease_enables [of ?c lease e w] assms(7-11) k by auto
  then have "v4_handle_client e m ?l w = Some (?l\<lparr>l4_client := c1\<rparr>, w1)"
    using assms(4-6,12) by (simp add: v4_handle_client_def v4_param_def v4_control_def)
  then show ?thesis
    using p assms(4-6) by (intro exI [of _ "?l\<lparr>l4_client := c1\<rparr>"] exI [of _ w1])
      (simp add: v4_handle_client_def v4_param_def v4_control_def selfheal_msg_def)
qed

theorem v4_late_lease_masks_death_witness:
  "\<exists>l1 w1. v4_handle_client env0 (disable4\<lparr>di_ParamName := ''ProcessLease''\<rparr>)
     (hd (g_v4 (processKilled env0 4711 (loaded [link4\<lparr>l4_client := client4\<lparr>f4_NewLeases := [lease4]\<rparr>\<rparr>] [] world_init)))) world_init = Some (l1, w1) \<and> i4_Status (f4_Info (l4_client l1)) = COSA_DML_DHCP_STATUS_Enabled"
proof -
  let ?l = "link4\<lparr>l4_client := client4\<lparr>f4_NewLeases := [lease4]\<rparr>\<rparr>"
  let ?g = "loaded [?l] [] world_init"
  have "i4_ClientProcessId (f4_Info (l4_client ?l)) = 4711" "c4_bEnabled (f4_Cfg (l4_client ?l))" "\<not> c4_Renew (f4_Cfg (l4_client ?l))"
    "\<not> c4_Restart (f4_Cfg (l4_client ?l))" "lease_fits env0 lease4" "v4_changed (f4_currentLease (l4_client ?l)) lease4"
    "\<not> v4_isExpired lease4" "v4_addressAssigned lease4" by code_simp+
  then show ?thesis
    using v4_late_lease_masks_death [of ?g ?l "l4_client ?l" 4711 lease4 env0 "disable4\<lparr>di_ParamName := ''ProcessLease''\<rparr>" world_init]
    by auto
qed

text \<open>
  Claim C19. A DHCPv4 client that dies while it is enabled is brought back: where
  the restart message is accepted, the client is marked as stopped, the message
  waits in the queue of the interface with a controller registered as running, and
  handling it starts the client again, with exactly one event: started where there
  is a process again, failed where there is none.
\<close>

theorem v4_dead_client_restarted:
  assumes "find (\<lambda>l. i4_ClientProcessId (f4_Info (l4_client l)) = pid) (reach4 g) = Some l" "c = l4_client l"
    and "c4_bEnabled (f4_Cfg c)" "i4_Status (f4_Info c) = COSA_DML_DHCP_STATUS_Enabled"
    and "length (c4_Interface (f4_Cfg c)) < MAX_STR_LEN"
    and "m = selfheal_msg (c4_Interface (f4_Cfg c)) DML_DHCPV4" "fst (DhcpMgr_OpenQueueEnsureThread e m (g_world g)) = 0"
    and "g' = processKilled e pid g" "k = l\<lparr>l4_client := status4 COSA_DML_DHCP_STATUS_Disabled c\<rparr>"
    and "v4_handle_client e m k w = Some (k', w')"
  shows "find (\<lambda>l. i4_ClientProcessId (f4_Info (l4_client l)) = pid) (reach4 g') = Some k \<and>
    last (pending (g_world g') (mq_name_of (c4_Interface (f4_Cfg c)))) = m \<and>
    (\<exists>i. find_interface (c4_Interface (f4_Cfg c)) (g_world g') = Some i \<and> ii_thread_running i) \<and>
    (if i4_Status (f4_Info (l4_client k')) = COSA_DML_DHCP_STATUS_Enabled
     then map fst (events4 (new_actions w w')) = [DHCP_CLIENT_STARTED] \<and> 0 < i4_ClientProcessId (f4_Info (l4_client k'))
     else map fst (events4 (new_actions w w')) = [DHCP_CLIENT_FAILED])"
proof -
  have n: "di_if_name m = c4_Interface (f4_Cfg c)" using assms(5,6) by (simp add: selfheal_msg_def c_trunc_id)
  have w1: "g_world g' = snd (DhcpMgr_OpenQueueEnsureThread e m (g_world g))"
    using assms(1,2,6,8) by (simp add: processKilled_def)
  then have o1: "DhcpMgr_OpenQueueEnsureThread e m (g_world g) = (0, g_world g')" using assms(7) by (simp add: prod_eq_iff)
  have "find (\<lambda>l. i4_ClientProcessId (f4_Info (l4_client l)) = pid) (reach4 g') = Some k"
    using assms(1,2,4,8,9) by (simp add: processKilled_def take_update_upto find_update_first Let_def)
  moreover have "last (pending (g_world g') (mq_name_of (c4_Interface (f4_Cfg c)))) = m"
    using open_queue_pending [of e m "g_world g" "mq_name_of (di_if_name m)"] o1 n by simp
  moreover have "\<exists>i. find_interface (c4_Interface (f4_Cfg c)) (g_world g') = Some i \<and> ii_thread_running i"
    using open_queue_running [OF _ o1] assms(5) n by simp
  moreover obtain c' where "v4_start e k w = Some (c', w')" "k' = k\<lparr>l4_client := c'\<rparr>"
    using assms(3,6,9,10) by (auto simp: v4_handle_client_def v4_param_def v4_control_def selfheal_msg_def)
  moreover from this have "pubs4 [if i4_Status (f4_Info c') = COSA_DML_DHCP_STATUS_Enabled then DHCP_CLIENT_STARTED
      else DHCP_CLIENT_FAILED] w w' \<and> (i4_Status (f4_Info c') = COSA_DML_DHCP_STATUS_Enabled \<longrightarrow> 0 < i4_ClientProcessId (f4_Info c'))"
    using v4_start_refines [of e k w c' w' "l4_client k"] assms(3,9) by simp
  ultimately show ?thesis by (simp add: pubs4_def pubs_def)
qed

text \<open>For the witness the interface is up and every call after that succeeds; the new process has the id 65.\<close>

definition env_up :: env where
  "env_up = env0\<lparr>e_ret := (\<lambda>tr. case last tr of A_ioctl _ _ _ \<Rightarrow> 65 | A_fork _ _ \<Rightarrow> 65 | _ \<Rightarrow> 0)\<rparr>"

theorem v4_dead_client_restarted_witness:
  "\<exists>k' w'. v4_handle_client env_up (selfheal_msg ''erouter0'' DML_DHCPV4)
      (link4\<lparr>l4_client := status4 COSA_DML_DHCP_STATUS_Disabled client4\<rparr>) world_init = Some (k', w') \<and>
     map fst (events4 (new_actions world_init w')) = [DHCP_CLIENT_STARTED]"
proof -
  let ?k = "link4\<lparr>l4_client := status4 COSA_DML_DHCP_STATUS_Disabled client4\<rparr>"
  let ?m = "selfheal_msg ''erouter0'' DML_DHCPV4"
  let ?g = "loaded [link4] [] world_init"
  let ?r = "v4_handle_client env_up ?m ?k world_init"
  have "map_option (\<lambda>(k', w'). i4_Status (f4_Info (l4_client k'))) ?r = Some COSA_DML_DHCP_STATUS_Enabled" by code_simp
  then obtain k' w' where r: "?r = Some (k', w')" "i4_Status (f4_Info (l4_client k')) = COSA_DML_DHCP_STATUS_Enabled" by auto
  have s: "find (\<lambda>l. i4_ClientProcessId (f4_Info (l4_client l)) = 4711) (reach4 ?g) = Some link4"
    "fst (DhcpMgr_OpenQueueEnsureThread env_up ?m (g_world ?g)) = 0"
    "c4_bEnabled (f4_Cfg client4)" "i4_Status (f4_Info client4) = COSA_DML_DHCP_STATUS_Enabled"
    "c4_Interface (f4_Cfg client4) = ''erouter0''" "l4_client link4 = client4"
    by code_simp+
  show ?thesis
    using v4_dead_client_restarted [OF s(1) _ _ _ _ _ s(2) refl _ r(1), of client4] r s(3-6) by (simp add: MAX_STR_LEN_def)
qed

section \<open>The loop\<close>

lemma pending_Some_Nil: "w_mqs w q = Some [] \<Longrightarrow> pending w q = []"
  by (simp add: pending_def)

lemma mark_stopped_facts:
  "pending (snd (mark_thread_stopped n w)) q = pending w q"
  "find_interface n (snd (mark_thread_stopped n w)) = Some i \<Longrightarrow> \<not> ii_thread_running i"
  "w_trace (snd (mark_thread_stopped n w)) = w_trace w"
  using find_update_first [of "\<lambda>i. ii_if_name i = n" "\<lambda>i. i\<lparr>ii_thread_running := False\<rparr>" "w_ifaces w"]
  by (auto simp: mark_thread_stopped_def find_interface_def split: if_splits)

definition receives_ok :: "env \<Rightarrow> string \<Rightarrow> bool" where
  "receives_ok e q \<longleftrightarrow> (\<forall>tr. 0 \<le> e_ret e (tr @ [A_mq_receive q]))"

lemma receive_empty:
  "receives_ok e q \<Longrightarrow> w_mqs w q = Some [] \<Longrightarrow> mq_receive e q w = (Mq_eagain, act (A_mq_receive q) w)"
  by (simp add: mq_receive_def case_prod_beta fst_call receives_ok_def not_less)

lemma receive_first:
  "receives_ok e q \<Longrightarrow> w_mqs w q = Some (m # ms) \<Longrightarrow>
   mq_receive e q w = (Mq_msg m, (act (A_mq_receive q) w)\<lparr>w_mqs := (w_mqs w)(q \<mapsto> ms)\<rparr>)"
  by (simp add: mq_receive_def case_prod_beta fst_call receives_ok_def not_less)

text \<open>With an empty queue the loop ends after at most 22 receives, and does nothing else.\<close>

lemma loop_empty:
  assumes "receives_ok e q" "w_mqs (g_world g) q = Some []" "22 \<le> fuel + retry" "retry \<le> 21"
  shows "\<exists>w'. controller_loop e q fuel retry g = Loop_exit (g\<lparr>g_world := w'\<rparr>) \<and> quiet (g_world g) w'"
  using assms(2-4)
proof (induction fuel arbitrary: retry g)
  case (Suc fuel)
  let ?w = "act (A_mq_receive q) (g_world g)"
  have q: "quiet (g_world g) ?w" by (simp add: quiet_act)
  show ?case
  proof (cases "retry = 21")
    case True
    then show ?thesis using Suc.prems(1) q by (auto simp: receive_empty [OF assms(1)] max_retries_def)
  next
    case False
    have "\<exists>w'. controller_loop e q fuel (Suc retry) (g\<lparr>g_world := ?w\<rparr>) = Loop_exit (g\<lparr>g_world := ?w, g_world := w'\<rparr>) \<and> quiet ?w w'"
      using Suc.prems False Suc.IH [of "g\<lparr>g_world := ?w\<rparr>" "Suc retry"] by simp
    then obtain w' where "controller_loop e q fuel (Suc retry) (g\<lparr>g_world := ?w\<rparr>) = Loop_exit (g\<lparr>g_world := w'\<rparr>)" "quiet ?w w'" by auto
    then show ?thesis using Suc.prems False quiet_trans [OF q] by (auto simp: receive_empty [OF assms(1)] max_retries_def)
  qed
qed simp

lemma dispatch_v4_frame:
  assumes "dispatch e m g = Some g'" "di_dhcpType m = DML_DHCPV4" "\<forall>l \<in> set (reach4 g). ok4 (l4_client l)"
  shows "w_mqs (g_world g') = w_mqs (g_world g) \<and> w_ifaces (g_world g') = w_ifaces (g_world g) \<and>
    (\<forall>l \<in> set (reach4 g'). ok4 (l4_client l))"
proof -
  obtain t' w' where h: "Process_DHCPv4_Handler e m (g_Dhcp4ClientNum g) (g_v4 g) (g_world g) = Some (t', w')"
      "g' = g\<lparr>g_v4 := t', g_world := w'\<rparr>"
    using assms(1,2) by (auto simp: dispatch_def)
  have "at_first (for4 m) (\<lambda>l l'. w_mqs w' = w_mqs (g_world g) \<and> w_ifaces w' = w_ifaces (g_world g) \<and> ok4 (l4_client l'))
      (w' = g_world g) (reach4 g) (reach4 g')"
    unfolding h(2) using handler4_first [OF h(1), THEN conjunct1]
  proof (simp, rule at_first_mono)
    fix l l'
    assume "l \<in> set (reach4 g)" "v4_handle_client e m l (g_world g) = Some (l', w')"
    then show "w_mqs w' = w_mqs (g_world g) \<and> w_ifaces w' = w_ifaces (g_world g) \<and> ok4 (l4_client l')"
      using v4_handle_client_refines [of e m l "g_world g" l' w'] assms(3) by (auto simp: pubs4_def)
  qed
  from at_first_all [OF this, of "\<lambda>l. ok4 (l4_client l)"] this assms(3) show ?thesis
    by (auto simp: h(2) elim: at_first.induct)
qed

text \<open>
  What the loop should do with the messages of a queue: receive and handle them one
  after the other, each with the queue of those behind it.
\<close>

definition take_message :: "string \<Rightarrow> dhcp_info list \<Rightarrow> manager \<Rightarrow> manager" where
  "take_message q ms g = g\<lparr>g_world := (act (A_mq_receive q) (g_world g))\<lparr>w_mqs := (w_mqs (g_world g))(q \<mapsto> ms)\<rparr>\<rparr>"

fun handle_queue :: "env \<Rightarrow> string \<Rightarrow> dhcp_info list \<Rightarrow> manager \<Rightarrow> manager option" where
  "handle_queue e q [] g = Some g"
| "handle_queue e q (m # ms) g = (case dispatch e m (take_message q ms g) of None \<Rightarrow> None | Some g' \<Rightarrow> handle_queue e q ms g')"

lemma loop_drain:
  assumes "receives_ok e q" "w_mqs (g_world g) q = Some ms" "\<forall>m \<in> set ms. di_dhcpType m = DML_DHCPV4"
    and "\<forall>l \<in> set (reach4 g). ok4 (l4_client l)" "length ms + 22 \<le> fuel" "retry \<le> 21"
  shows "case handle_queue e q ms g of
      None \<Rightarrow> controller_loop e q fuel retry g = Loop_fault
    | Some g1 \<Rightarrow> \<exists>w'. controller_loop e q fuel retry g = Loop_exit (g1\<lparr>g_world := w'\<rparr>) \<and> quiet (g_world g1) w' \<and> w_mqs w' q = Some []"
  using assms(2-6)
proof (induction ms arbitrary: fuel retry g)
  case Nil
  then show ?case using loop_empty [OF assms(1), of g fuel retry] by (auto simp: quiet_def)
next
  case (Cons m ms)
  obtain f where f: "fuel = Suc f" "length ms + 22 \<le> f" using Cons.prems(4) by (cases fuel) auto
  have step: "controller_loop e q fuel retry g = (case dispatch e m (take_message q ms g) of
      None \<Rightarrow> Loop_fault | Some g' \<Rightarrow> controller_loop e q f 0 g')"
    by (simp add: f(1) receive_first [OF assms(1) Cons.prems(1)] take_message_def)
  show ?case
  proof (cases "dispatch e m (take_message q ms g)")
    case None
    then show ?thesis by (simp add: step)
  next
    case (Some g1)
    have "w_mqs (g_world g1) q = Some ms \<and> (\<forall>l \<in> set (reach4 g1). ok4 (l4_client l))"
      using dispatch_v4_frame [OF Some] Cons.prems(2,3) by (simp add: take_message_def)
    moreover have "controller_loop e q fuel retry g = controller_loop e q f 0 g1" by (simp add: step Some)
    ultimately show ?thesis using Cons.IH [of g1 f 0] Cons.prems(2) f(2) Some by (simp split: option.splits)
  qed
qed

text \<open>
  Claim C18. The controller of an interface works a DHCPv4 queue off and ends. Where the
  queue exists, all its messages are for DHCPv4, nobody adds to it meanwhile and receiving is never refused, a
  number of receives of the messages and 22 more is enough. The controller handles each
  message once, in the order of the queue (\<open>handle_queue\<close>), and nothing else: the tables are those after
  the last message, and nothing is published after it. It then ends with an empty queue and is no
  longer registered as running, so that the next message starts a new one. It faults
  exactly where the handling of one of the messages faults. This does not hold of
  DHCPv6 messages: while there is no link-local address the DHCPv6 handler puts its
  message back into the queue, see \<open>v6_controller_waits\<close>.
\<close>

theorem controller_drains:
  assumes "receives_ok e (mq_name_of n)" "w_mqs (g_world g) (mq_name_of n) = Some ms"
    and "\<forall>m \<in> set ms. di_dhcpType m = DML_DHCPV4" "\<forall>l \<in> set (reach4 g). ok4 (l4_client l)"
    and "length ms + 22 \<le> fuel" "\<forall>tr. 0 \<le> e_ret e (tr @ [A_mq_open (mq_name_of n)])"
    and "length n < MAX_STR_LEN"
  shows "case handle_queue e (mq_name_of n) ms (g\<lparr>g_world := act (A_mq_open (mq_name_of n)) (g_world g)\<rparr>) of
      None \<Rightarrow> DhcpMgr_MainController e fuel n g = Loop_fault
    | Some g1 \<Rightarrow> \<exists>g'. DhcpMgr_MainController e fuel n g = Loop_exit g' \<and> g_v4 g' = g_v4 g1 \<and> g_v6 g' = g_v6 g1 \<and>
        pending (g_world g') (mq_name_of n) = [] \<and> (\<forall>i. find_interface n (g_world g') = Some i \<longrightarrow> \<not> ii_thread_running i) \<and>
        events4 (new_actions (g_world g1) (g_world g')) = [] \<and> events6 (new_actions (g_world g1) (g_world g')) = []"
proof -
  let ?q = "mq_name_of n" and ?g = "g\<lparr>g_world := act (A_mq_open (mq_name_of n)) (g_world g)\<rparr>"
  have start: "DhcpMgr_MainController e fuel n g = (case controller_loop e ?q fuel 0 ?g of
      Loop_exit g' \<Rightarrow> Loop_exit (g'\<lparr>g_world := act (A_mq_close ?q) (snd (mark_thread_stopped n (g_world g')))\<rparr>)
    | r \<Rightarrow> r)"
    using assms(2,6,7) by (simp add: DhcpMgr_MainController_def mq_open_def case_prod_beta fst_call c_trunc_id Let_def)
  note stopped = mark_stopped_facts [of n]
  have d: "case handle_queue e ?q ms ?g of
      None \<Rightarrow> controller_loop e ?q fuel 0 ?g = Loop_fault
    | Some g1 \<Rightarrow> \<exists>w'. controller_loop e ?q fuel 0 ?g = Loop_exit (g1\<lparr>g_world := w'\<rparr>) \<and> quiet (g_world g1) w' \<and> w_mqs w' ?q = Some []"
    using assms(2-5) by (intro loop_drain [OF assms(1)]) simp_all
  show ?thesis
  proof (cases "handle_queue e ?q ms ?g")
    case None
    with d show ?thesis by (simp add: start)
  next
    case (Some g1)
    with d obtain w' where w': "controller_loop e ?q fuel 0 ?g = Loop_exit (g1\<lparr>g_world := w'\<rparr>)" "quiet (g_world g1) w'" "w_mqs w' ?q = Some []"
      by auto
    let ?w = "act (A_mq_close ?q) (snd (mark_thread_stopped n w'))"
    have "w_trace ?w = w_trace (g_world g1) @ new_actions (g_world g1) w' @ [A_mq_close ?q]"
      using extends_trace [OF quiet_extends [OF w'(2)]] stopped(3) [of w'] by simp
    then have "events4 (new_actions (g_world g1) ?w) = []" "events6 (new_actions (g_world g1) ?w) = []"
      using w'(2) by (simp_all add: new_actionsI quiet_def)
    with Some w' stopped show ?thesis by (auto simp: start pending_Some_Nil)
  qed
qed

theorem controller_drains_witness:
  "\<exists>g'. DhcpMgr_MainController env0 25 ''erouter0''
      (loaded [link4] [] (snd (DhcpMgr_OpenQueueEnsureThread env0 disable4 world_init))) = Loop_exit g' \<and>
     pending (g_world g') ''/mq_if_erouter0'' = [] \<and> i4_Status (f4_Info (l4_client (hd (g_v4 g')))) = COSA_DML_DHCP_STATUS_Disabled"
proof -
  let ?w = "snd (DhcpMgr_OpenQueueEnsureThread env0 disable4 world_init)" and ?q = "mq_name_of ''erouter0''"
  let ?g = "loaded [link4] [] ?w"
  let ?h = "handle_queue env0 ?q [disable4] (?g\<lparr>g_world := act (A_mq_open ?q) (g_world ?g)\<rparr>)"
  have s: "w_mqs ?w ?q = Some [disable4]" "?q = ''/mq_if_erouter0''" "di_dhcpType disable4 = DML_DHCPV4" "ok4 (l4_client link4)"
    "for4 disable4 link4" "control_of disable4 = C_enable False" "i4_Status (f4_Info (l4_client link4)) = COSA_DML_DHCP_STATUS_Enabled"
    by code_simp+
  have r: "\<forall>tr. e_ret env0 (tr @ [A_remove (lease_path4 n)]) = 0" for n by (simp add: env0_def)
  obtain l' w' where l': "v4_handle_client env0 disable4 link4 (g_world (take_message ?q [] (?g\<lparr>g_world := act (A_mq_open ?q) (g_world ?g)\<rparr>))) = Some (l', w')"
      "i4_Status (f4_Info (l4_client l')) = COSA_DML_DHCP_STATUS_Disabled"
    using v4_disable_effect [OF disjI1 [OF s(6)] s(7) refl, of env0] r by blast
  obtain g1 where h: "?h = Some g1" "i4_Status (f4_Info (l4_client (hd (g_v4 g1)))) = COSA_DML_DHCP_STATUS_Disabled"
    using l' s(3,5) by (simp add: dispatch_def take_message_def for4_def)
  have "receives_ok env0 ?q" "\<forall>tr. 0 \<le> e_ret env0 (tr @ [A_mq_open ?q])"
    by (simp_all add: receives_ok_def env0_def)
  with controller_drains [of env0 "''erouter0''" ?g "[disable4]" 25] s(1,3,4) h(1)
  obtain g' where "DhcpMgr_MainController env0 25 ''erouter0'' ?g = Loop_exit g'" "g_v4 g' = g_v4 g1" "pending (g_world g') ?q = []"
    by (auto simp: MAX_STR_LEN_def)
  with h(2) s(2) show ?thesis by (intro exI [of _ g']) simp
qed

text \<open>
  A DHCPv6 client that has no link-local address: its start message goes back into
  the queue it came from, with the client unchanged.
\<close>

lemma v6_start_requeued:
  assumes "c6_bEnabled (f6_Cfg (l6_client l))" "i6_Status (f6_Info (l6_client l)) = COSA_DML_DHCP_STATUS_Disabled"
    and "n = c6_Interface (f6_Cfg (l6_client l))" "\<forall>w. fst (DhcpMgr_checkInterfaceStatus e n w)" "\<forall>w. \<not> fst (DhcpMgr_checkLinkLocalAddress e n w)"
  shows "\<exists>w2. quiet w w2 \<and> v6_handle_client e (selfheal_msg n DML_DHCPV6) l w =
    Some (l, snd (DhcpMgr_OpenQueueEnsureThread e (selfheal_msg n DML_DHCPV6) w2))"
proof -
  let ?w1 = "snd (DhcpMgr_checkInterfaceStatus e n w)"
  let ?w2 = "snd (DhcpMgr_checkLinkLocalAddress e n ?w1)"
  have "quiet w ?w2" using quiet_trans [OF checkInterfaceStatus_quiet checkLinkLocal_quiet] .
  moreover have "v6_handle_client e (selfheal_msg n DML_DHCPV6) l w = Some (l, snd (DhcpMgr_OpenQueueEnsureThread e (selfheal_msg n DML_DHCPV6) ?w2))"
    using assms(1,2,4,5) by (simp add: v6_handle_client_def v6_param_def v6_control_def v6_start_def selfheal_msg_def assms(3) [symmetric] case_prod_beta Let_def)
  ultimately show ?thesis by blast
qed

text \<open>
  Such a controller does not end: as long as there is no link-local address and the
  queue takes the message, the loop receives its own message again and again,
  whatever the number of receives. The source relies on the kernel for the address.
\<close>

lemma v6_controller_waits:
  assumes "receives_ok e (mq_name_of n)" "length n < MAX_STR_LEN" "m = selfheal_msg n DML_DHCPV6"
    and "c6_bEnabled (f6_Cfg (l6_client l))" "i6_Status (f6_Info (l6_client l)) = COSA_DML_DHCP_STATUS_Disabled"
    and "n = c6_Interface (f6_Cfg (l6_client l))" "\<forall>w. fst (DhcpMgr_checkInterfaceStatus e n w)" "\<forall>w. \<not> fst (DhcpMgr_checkLinkLocalAddress e n w)"
    and "\<forall>w. find_interface n w \<noteq> None \<longrightarrow> fst (DhcpMgr_OpenQueueEnsureThread e m w) = 0"
    and "g_v6 g = l # ls" "0 < g_Dhcp6ClientNum g" "w_mqs (g_world g) (mq_name_of n) = Some [m]" "find_interface n (g_world g) \<noteq> None"
  shows "controller_loop e (mq_name_of n) fuel retry g = Loop_fuel"
  using assms(10-)
proof (induction fuel arbitrary: g retry)
  case (Suc fuel)
  let ?q = "mq_name_of n" and ?w = "(act (A_mq_receive (mq_name_of n)) (g_world g))\<lparr>w_mqs := (w_mqs (g_world g))(mq_name_of n \<mapsto> [])\<rparr>"
  have mn: "di_if_name m = n" "di_dhcpType m = DML_DHCPV6" using assms(2,3) by (simp_all add: selfheal_msg_def c_trunc_id)
  obtain w2 where w2: "quiet ?w w2" "v6_handle_client e m l ?w = Some (l, snd (DhcpMgr_OpenQueueEnsureThread e m w2))"
    using v6_start_requeued [OF assms(4-8)] assms(3) by blast
  obtain w3 where w3: "DhcpMgr_OpenQueueEnsureThread e m w2 = (0, w3)"
    using assms(9) Suc.prems(4) w2(1) by (auto simp: quiet_def find_interface_def prod_eq_iff)
  have "pending w3 ?q = [m]" using open_queue_pending [of e m w2 ?q] w2(1) mn(1) w3 by (simp add: quiet_def pending_def)
  then have "w_mqs w3 ?q = Some [m]" by (simp add: pending_def split: option.splits)
  moreover have "find_interface n w3 \<noteq> None" using open_queue_running [OF _ w3] assms(2) mn(1) by auto
  moreover obtain k where k: "g_Dhcp6ClientNum g = Suc k" using Suc.prems(2) by (cases "g_Dhcp6ClientNum g") auto
  have "dispatch e m (g\<lparr>g_world := ?w\<rparr>) = Some (g\<lparr>g_v6 := l # ls, g_world := w3\<rparr>)"
    using Suc.prems(1) w2(2) w3 mn assms(6) by (simp add: dispatch_def k)
  moreover note Suc.IH [of "g\<lparr>g_v6 := l # ls, g_world := w3\<rparr>" 0]
  ultimately show ?case using Suc.prems k by (simp add: receive_first [OF assms(1) Suc.prems(3)])
qed simp

end
