(* ===== verification/Recovery_Spec.thy ===== *)
theory Recovery_Spec
  imports Recovery Controller_Death
begin

text \<open>
  What recovery after a restart does: a client that still runs is taken over as it
  was stored, one that does not run as its system event says is brought to do so,
  and the thread that watches the processes ends when they have ended. Two cases
  where it goes wrong: the system event cannot be read, and there are more clients
  than the array of process ids holds.
\<close>

section \<open>Reading back\<close>

definition proc_path :: "int \<Rightarrow> string" where
  "proc_path pid = c_trunc 64 (''/proc/'' @ show_int pid)"

text \<open>The lease file of a path can be found, opened and read.\<close>

definition readable :: "env \<Rightarrow> string \<Rightarrow> bool" where
  "readable e path \<longleftrightarrow> (\<forall>tr. e_ret e (tr @ [A_access path]) = 0 \<and> 0 \<le> e_ret e (tr @ [A_fopen path ''rb'']) \<and>
     e_ret e (tr @ [A_fread path]) = 1)"

definition proc_runs :: "env \<Rightarrow> int \<Rightarrow> bool \<Rightarrow> bool" where
  "proc_runs e pid b \<longleftrightarrow> (\<forall>tr. (e_ret e (tr @ [A_access (proc_path pid)]) = 0) = b)"

lemma readable_simps:
  assumes "readable e path"
  shows "w_files w path \<noteq> None \<Longrightarrow> file_exists e path w = (True, act (A_access path) w)"
    and "open_rb e path w = (True, act (A_fopen path ''rb'') w)"
    and "w_files w path = Some (File4 c l) \<Longrightarrow> read_client4 e path w = (Some c, act (A_fread path) w)"
    and "w_files w path = Some (File4 c l) \<Longrightarrow> read_lease4 e path w = (l, act (A_fread path) w)"
    and "w_files w path = Some (File6 d k) \<Longrightarrow> read_client6 e path w = (Some d, act (A_fread path) w)"
    and "w_files w path = Some (File6 d k) \<Longrightarrow> read_lease6 e path w = (k, act (A_fread path) w)"
  using assms
  by (auto simp: readable_def file_exists_def open_rb_def read_client4_def read_lease4_def read_client6_def read_lease6_def
      case_prod_beta fst_call)

lemma pid_running_simp: "proc_runs e pid b \<Longrightarrow> pid_running e pid w = (b, act (A_access (proc_path pid)) w)"
  by (simp add: proc_runs_def pid_running_def proc_path_def case_prod_beta fst_call)

lemma get_enable_files: "w_files (snd (Dhcp_get_Sysevent_InterfaceEnable e k n w)) = w_files w"
  by (auto simp: Dhcp_get_Sysevent_InterfaceEnable_def commonSyseventGet_def case_prod_beta split: option.split)

lemma get_enable_short: "fst (Dhcp_get_Sysevent_InterfaceEnable e k n w) = Some (i, b) \<Longrightarrow> length i < n"
  by (auto simp: Dhcp_get_Sysevent_InterfaceEnable_def case_prod_beta split: option.splits if_splits)

text \<open>The four cases that \<open>load_v4_client\<close> and \<open>load_v6_client\<close> tell apart once a file has been read.\<close>

lemma load_v4_cases:
  assumes "path = lease_path4 (c4_InstanceNumber (f4_Cfg c))" "readable e path" "w_files w path = Some (File4 stored l)"
    and "fst (Dhcp_get_Sysevent_InterfaceEnable e (enable_key False (c4_InstanceNumber (f4_Cfg c))) 64 w) = sysev"
    and "pid = i4_ClientProcessId (f4_Info stored)" "proc_runs e pid runs"
  shows "\<exists>w5. quiet w w5 \<and> w_files w5 = w_files w \<and>
    load_v4_client e c pids w =
      (case sysev of
         Some (_, b) \<Rightarrow>
           if \<not> b \<and> \<not> runs then Some (False, status4 COSA_DML_DHCP_STATUS_Disabled c, pids, w5)
           else if b \<noteq> runs
           then (case restart_client4 e sysev c w5 of (c', w') \<Rightarrow>
                   Some (False, c'\<lparr>f4_Info := (f4_Info c')\<lparr>i4_ClientProcessId := pid\<rparr>\<rparr>, pids, w'))
           else adopt_client4 e path stored c pids w5
       | None \<Rightarrow> adopt_client4 e path stored c pids w5)"
proof -
  let ?k = "enable_key False (c4_InstanceNumber (f4_Cfg c))"
  obtain w1 where g: "Dhcp_get_Sysevent_InterfaceEnable e ?k 64 w = (sysev, w1)" using assms(4) by (metis prod.collapse)
  have q: "quiet w w1" "w_files w1 = w_files w"
    using get_enable_quiet [of w e ?k 64] get_enable_files [of e ?k 64 w] g by simp_all
  let ?w5 = "act (A_access (proc_path pid)) (act (A_fread path) (act (A_fopen path ''rb'') (act (A_access path) w1)))"
  have "load_v4_client e c pids w =
      (case sysev of
         Some (_, b) \<Rightarrow>
           if \<not> b \<and> \<not> runs then Some (False, status4 COSA_DML_DHCP_STATUS_Disabled c, pids, ?w5)
           else if b \<noteq> runs
           then (case restart_client4 e sysev c ?w5 of (c', w') \<Rightarrow>
                   Some (False, c'\<lparr>f4_Info := (f4_Info c')\<lparr>i4_ClientProcessId := pid\<rparr>\<rparr>, pids, w'))
           else adopt_client4 e path stored c pids ?w5
       | None \<Rightarrow> adopt_client4 e path stored c pids ?w5)"
    using assms(3) q(2) g unfolding load_v4_client_def assms(1,5)
    by (cases sysev) (auto simp: Let_def readable_simps [OF assms(2) [unfolded assms(1)]]
        pid_running_simp [OF assms(6) [unfolded assms(5)]] split_def)
  moreover have "quiet w ?w5" using q(1) by (auto intro!: quiet_intros)
  ultimately show ?thesis using q(2) by (intro exI [of _ ?w5]) simp
qed

lemma load_v6_cases:
  assumes "path = lease_path6 (c6_InstanceNumber (f6_Cfg c))" "readable e path" "w_files w path = Some (File6 stored l)"
    and "fst (Dhcp_get_Sysevent_InterfaceEnable e (enable_key True (c6_InstanceNumber (f6_Cfg c))) 64 w) = sysev"
    and "pid = i6_ClientProcessId (f6_Info stored)" "proc_runs e pid runs"
  shows "\<exists>w5. quiet w w5 \<and> w_files w5 = w_files w \<and>
    load_v6_client e c pids w =
      (case sysev of
         Some (_, b) \<Rightarrow>
           if \<not> b \<and> \<not> runs then Some (False, status6 COSA_DML_DHCP_STATUS_Disabled c, pids, w5)
           else if b \<noteq> runs
           then (case restart_client6 e sysev c w5 of (c', w') \<Rightarrow>
                   Some (False, c'\<lparr>f6_Info := (f6_Info c')\<lparr>i6_ClientProcessId := pid\<rparr>\<rparr>, pids, w'))
           else adopt_client6 e path stored c pids w5
       | None \<Rightarrow> adopt_client6 e path stored c pids w5)"
proof -
  let ?k = "enable_key True (c6_InstanceNumber (f6_Cfg c))"
  obtain w1 where g: "Dhcp_get_Sysevent_InterfaceEnable e ?k 64 w = (sysev, w1)" using assms(4) by (metis prod.collapse)
  have q: "quiet w w1" "w_files w1 = w_files w"
    using get_enable_quiet [of w e ?k 64] get_enable_files [of e ?k 64 w] g by simp_all
  let ?w5 = "act (A_access (proc_path pid)) (act (A_fread path) (act (A_fopen path ''rb'') (act (A_access path) w1)))"
  have "load_v6_client e c pids w =
      (case sysev of
         Some (_, b) \<Rightarrow>
           if \<not> b \<and> \<not> runs then Some (False, status6 COSA_DML_DHCP_STATUS_Disabled c, pids, ?w5)
           else if b \<noteq> runs
           then (case restart_client6 e sysev c ?w5 of (c', w') \<Rightarrow>
                   Some (False, c'\<lparr>f6_Info := (f6_Info c')\<lparr>i6_ClientProcessId := pid\<rparr>\<rparr>, pids, w'))
           else adopt_client6 e path stored c pids ?w5
       | None \<Rightarrow> adopt_client6 e path stored c pids ?w5)"
    using assms(3) q(2) g unfolding load_v6_client_def assms(1,5)
    by (cases sysev) (auto simp: Let_def readable_simps [OF assms(2) [unfolded assms(1)]]
        pid_running_simp [OF assms(6) [unfolded assms(5)]] split_def)
  moreover have "quiet w ?w5" using q(1) by (auto intro!: quiet_intros)
  ultimately show ?thesis using q(2) by (intro exI [of _ ?w5]) simp
qed

section \<open>Taking over\<close>

lemma store4_file:
  assumes "DHCPMgr_storeDhcpv4Lease e c w = (EXIT_SUCCESS, w1)" "\<forall>tr p. e_ret e (tr @ [A_fwrite p]) = 1"
  shows "w_files w1 (lease_path4 (c4_InstanceNumber (f4_Cfg c))) = Some (File4 c (f4_currentLease c))"
proof -
  have "call e (A_fwrite p) v = (1, act (A_fwrite p) v)" for p v using assms(2) by (simp add: prod_eq_iff fst_call)
  then show ?thesis
    using assms(1) by (auto simp: DHCPMgr_storeDhcpv4Lease_def case_prod_beta Let_def EXIT_FAIL_def EXIT_SUCCESS_def
        split: if_splits option.splits)
qed

lemma store6_file:
  assumes "DHCPMgr_storeDhcpv6Lease e c w = (EXIT_SUCCESS, w1)"
  shows "w_files w1 (lease_path6 (c6_InstanceNumber (f6_Cfg c))) = Some (File6 c (f6_currentLease c))"
  using assms by (auto simp: DHCPMgr_storeDhcpv6Lease_def case_prod_beta fst_call Let_def EXIT_FAIL_def EXIT_SUCCESS_def
      split: if_splits option.splits)

lemma adopt4:
  assumes "readable e path" "w_files w path = Some (File4 stored l)" "length pids < MAX_PIDS" "\<forall>k. l = Some k \<longrightarrow> routers_fit k"
  shows "\<exists>c'. adopt_client4 e path stored c pids w =
      Some (True, c', pids @ [i4_ClientProcessId (f4_Info stored)], act (A_fread path) w) \<and>
    f4_Cfg c' = f4_Cfg stored \<and> f4_currentLease c' = l \<and> i4_Status (f4_Info c') = COSA_DML_DHCP_STATUS_Enabled \<and>
    i4_ClientProcessId (f4_Info c') = i4_ClientProcessId (f4_Info stored)"
proof -
  let ?c = "c\<lparr>f4_Cfg := f4_Cfg stored,
      f4_Info := (f4_Info c)\<lparr>i4_Status := COSA_DML_DHCP_STATUS_Enabled, i4_ClientProcessId := i4_ClientProcessId (f4_Info stored)\<rparr>,
      f4_currentLease := l\<rparr>"
  obtain r i where u: "DhcpMgr_updateDHCPv4DML e ?c = Some (r, ?c\<lparr>f4_Info := i\<rparr>)"
  proof (cases l)
    case None
    then show ?thesis using that [of STATUS_FAILURE "f4_Info ?c"] by (simp add: DhcpMgr_updateDHCPv4DML_def)
  next
    case (Some k)
    then show ?thesis using updateDML_Some [of ?c k e] assms(4) that by auto
  qed
  have "i4_Status i = COSA_DML_DHCP_STATUS_Enabled \<and> i4_ClientProcessId i = i4_ClientProcessId (f4_Info stored)"
    using updateDML_keeps [OF u] by (auto simp: keeps4_def)
  then show ?thesis
    using u assms(2,3) by (simp add: adopt_client4_def Let_def watch_pid_def readable_simps [OF assms(1)])
qed

text \<open>
  Claim C11. A restart of the manager does not lose a client that runs on: where its
  lease was stored, and after the restart the file can be read, its process is
  there and the system event does not say that it is disabled, the entry has the
  configuration, the lease and the process id that were stored and is enabled, the
  process is among those that are watched, and nothing is published. The lease
  is stored with every change, by \<open>DHCPMgr_storeDhcpv4Lease\<close>.
\<close>

theorem recovery_roundtrip:
  assumes "DHCPMgr_storeDhcpv4Lease e c w = (EXIT_SUCCESS, w1)" "\<forall>tr p. e_ret e (tr @ [A_fwrite p]) = 1"
    and "n = c4_InstanceNumber (f4_Cfg c)" "c4_InstanceNumber (f4_Cfg c0) = n" "w_files w2 = w_files w1"
    and "readable e' (lease_path4 n)" "proc_runs e' (i4_ClientProcessId (f4_Info c)) True"
    and "fst (Dhcp_get_Sysevent_InterfaceEnable e' (enable_key False n) 64 w2) = sysev" "\<forall>i. sysev \<noteq> Some (i, False)"
    and "length pids < MAX_PIDS" "\<forall>k. f4_currentLease c = Some k \<longrightarrow> routers_fit k"
  shows "\<exists>c' w'. load_v4_client e' c0 pids w2 = Some (True, c', pids @ [i4_ClientProcessId (f4_Info c)], w') \<and>
    f4_Cfg c' = f4_Cfg c \<and> f4_currentLease c' = f4_currentLease c \<and> i4_Status (f4_Info c') = COSA_DML_DHCP_STATUS_Enabled \<and>
    i4_ClientProcessId (f4_Info c') = i4_ClientProcessId (f4_Info c) \<and> quiet w2 w'"
proof -
  have f: "w_files w2 (lease_path4 n) = Some (File4 c (f4_currentLease c))" using store4_file [OF assms(1,2)] assms(3,5) by simp
  have p: "lease_path4 n = lease_path4 (c4_InstanceNumber (f4_Cfg c0))" by (simp add: assms(4))
  obtain w5 where w5: "quiet w2 w5" "w_files w5 = w_files w2"
    and load: "load_v4_client e' c0 pids w2 = adopt_client4 e' (lease_path4 n) c c0 pids w5"
    using load_v4_cases [OF p assms(6) f assms(8) [folded assms(4)] refl assms(7), of pids] assms(9)
    by (cases sysev) auto
  obtain c' where a: "adopt_client4 e' (lease_path4 n) c c0 pids w5 =
      Some (True, c', pids @ [i4_ClientProcessId (f4_Info c)], act (A_fread (lease_path4 n)) w5)"
    "f4_Cfg c' = f4_Cfg c" "f4_currentLease c' = f4_currentLease c" "i4_Status (f4_Info c') = COSA_DML_DHCP_STATUS_Enabled"
    "i4_ClientProcessId (f4_Info c') = i4_ClientProcessId (f4_Info c)"
    using adopt4 [OF assms(6) _ assms(10,11), of w5 c c0] f w5(2) by auto
  have "quiet w2 (act (A_fread (lease_path4 n)) w5)" using w5(1) by (auto intro!: quiet_intros)
  then show ?thesis unfolding load using a by (intro exI [of _ c'] exI [of _ "act (A_fread (lease_path4 n)) w5"]) simp
qed

text \<open>For the witness every call succeeds, reading and writing answer 1, and the system event has the interface and its flag.\<close>

definition env_files :: "string \<Rightarrow> env" where
  "env_files v = env0\<lparr>e_ret := (\<lambda>tr. case last tr of A_fwrite _ \<Rightarrow> 1 | A_fread _ \<Rightarrow> 1 | _ \<Rightarrow> 0), e_str := (\<lambda>_. v)\<rparr>"

lemma env_files_readable: "readable (env_files v) p" "\<forall>tr p. e_ret (env_files v) (tr @ [A_fwrite p]) = 1"
  "proc_runs (env_files v) pid True"
  by (simp_all add: readable_def env_files_def proc_runs_def)

theorem recovery_roundtrip_witness:
  "\<exists>c' w'. load_v4_client (env_files ''erouter0 1'') (status4 COSA_DML_DHCP_STATUS_Disabled client4) []
       (snd (DHCPMgr_storeDhcpv4Lease (env_files []) (client4\<lparr>f4_currentLease := Some lease4\<rparr>) world_init)) = Some (True, c', [4711], w') \<and>
     f4_currentLease c' = Some lease4"
proof -
  let ?c = "client4\<lparr>f4_currentLease := Some lease4\<rparr>" and ?old = "status4 COSA_DML_DHCP_STATUS_Disabled client4"
  let ?r = "DHCPMgr_storeDhcpv4Lease (env_files []) ?c world_init"
  have s: "fst ?r = EXIT_SUCCESS" "c4_InstanceNumber (f4_Cfg ?old) = c4_InstanceNumber (f4_Cfg ?c)"
    "i4_ClientProcessId (f4_Info ?c) = 4711" "routers_fit lease4" by code_simp+
  have g: "fst (Dhcp_get_Sysevent_InterfaceEnable (env_files ''erouter0 1'') (enable_key False (c4_InstanceNumber (f4_Cfg ?c))) 64 (snd ?r)) =
      Some (''erouter0'', True)"
    by code_simp
  have st: "?r = (EXIT_SUCCESS, snd ?r)" using s(1) by (metis prod.collapse)
  show ?thesis
    using recovery_roundtrip [OF st env_files_readable(2) refl s(2) refl env_files_readable(1,3) g, of "[]"] s(3,4) by (auto simp: MAX_PIDS_def)
qed

text \<open>The same for DHCPv6, where storing already reports that the lease could not be written.\<close>

lemma recovery_roundtrip6:
  assumes "DHCPMgr_storeDhcpv6Lease e c w = (EXIT_SUCCESS, w1)"
    and "n = c6_InstanceNumber (f6_Cfg c)" "c6_InstanceNumber (f6_Cfg c0) = n" "w_files w2 = w_files w1"
    and "readable e' (lease_path6 n)" "proc_runs e' (i6_ClientProcessId (f6_Info c)) True"
    and "fst (Dhcp_get_Sysevent_InterfaceEnable e' (enable_key True n) 64 w2) = sysev" "\<forall>i. sysev \<noteq> Some (i, False)"
    and "length pids < MAX_PIDS"
  shows "\<exists>c' w'. load_v6_client e' c0 pids w2 = Some (True, c', pids @ [i6_ClientProcessId (f6_Info c)], w') \<and>
    f6_Cfg c' = f6_Cfg c \<and> f6_currentLease c' = f6_currentLease c \<and> i6_Status (f6_Info c') = COSA_DML_DHCP_STATUS_Enabled \<and>
    i6_ClientProcessId (f6_Info c') = i6_ClientProcessId (f6_Info c)"
proof -
  have f: "w_files w2 (lease_path6 n) = Some (File6 c (f6_currentLease c))" using store6_file [OF assms(1)] assms(2,4) by simp
  have p: "lease_path6 n = lease_path6 (c6_InstanceNumber (f6_Cfg c0))" by (simp add: assms(3))
  obtain w5 where "w_files w5 = w_files w2" "load_v6_client e' c0 pids w2 = adopt_client6 e' (lease_path6 n) c c0 pids w5"
    using load_v6_cases [OF p assms(5) f assms(7) [folded assms(3)] refl assms(6), of pids] assms(8)
    by (cases sysev) auto
  then show ?thesis
    using f assms(9) by (simp add: adopt_client6_def watch_pid_def readable_simps [OF assms(5)] Let_def)
qed

section \<open>Bringing a client in line\<close>

text \<open>The queue of an interface takes a message whatever was called before.\<close>

definition queue_takes :: "env \<Rightarrow> dhcp_info \<Rightarrow> world \<Rightarrow> bool" where
  "queue_takes e m w \<longleftrightarrow>
     (\<forall>v. w_mqs v = w_mqs w \<longrightarrow> w_ifaces v = w_ifaces w \<longrightarrow> fst (DhcpMgr_OpenQueueEnsureThread e m v) = 0)"

lemma restart_client4_result:
  assumes "restart_client4 e (Some (n, b)) c w = (c', w')" "n \<noteq> []" "length n < 64"
  shows "c4_bEnabled (f4_Cfg c') = b" "c4_Interface (f4_Cfg c') = n" "c4_InstanceNumber (f4_Cfg c') = c4_InstanceNumber (f4_Cfg c)"
    "i4_Status (f4_Info c') = (if b then COSA_DML_DHCP_STATUS_Disabled else COSA_DML_DHCP_STATUS_Enabled)"
    "w' = snd (DhcpMgr_OpenQueueEnsureThread e (selfheal_msg n DML_DHCPV4) w)"
  using assms by (auto simp: restart_client4_def DhcpMgr_SetStatusAndEnqueueRestart_def write_back4_def
      DhcpMgr_EnqueueSelfhealRestart_def COSA_DML_ALIAS_NAME_LENGTH_def c_trunc_id)

lemma selfheal_starts:
  assumes "v4_handle_client e (selfheal_msg n DML_DHCPV4) l w = Some (l', w')" "c4_bEnabled (f4_Cfg (l4_client l))"
    and "i4_Status (f4_Info (l4_client l)) = COSA_DML_DHCP_STATUS_Disabled"
  shows "map fst (events4 (new_actions w w')) =
    [if i4_Status (f4_Info (l4_client l')) = COSA_DML_DHCP_STATUS_Enabled then DHCP_CLIENT_STARTED else DHCP_CLIENT_FAILED]"
proof -
  obtain c' where "v4_start e l w = Some (c', w')" "l' = l\<lparr>l4_client := c'\<rparr>"
    using assms by (auto simp: v4_handle_client_def v4_param_def v4_control_def selfheal_msg_def)
  with v4_start_refines [of e l w c' w' "l4_client l"] assms(2,3) show ?thesis by (simp add: pubs4_def pubs_def)
qed

lemma selfheal_stops:
  assumes "v4_handle_client e (selfheal_msg n DML_DHCPV4) l w = Some (l', w')" "\<not> c4_bEnabled (f4_Cfg (l4_client l))"
    and "i4_Status (f4_Info (l4_client l)) = COSA_DML_DHCP_STATUS_Enabled"
  shows "map fst (events4 (new_actions w w')) = [DHCP_LEASE_DEL, DHCP_CLIENT_STOPPED] \<and>
    i4_Status (f4_Info (l4_client l')) = COSA_DML_DHCP_STATUS_Disabled"
proof -
  obtain c' where st: "v4_stop e False (l4_client l) w = Some (c', w')" "l' = l\<lparr>l4_client := c'\<rparr>"
    using assms by (auto simp: v4_handle_client_def v4_param_def v4_control_def selfheal_msg_def)
  note r = v4_stop_result [OF st(1)]
  from r(2) have "map fst (events4 (new_actions w w')) = [DHCP_LEASE_DEL, DHCP_CLIENT_STOPPED]" by (simp add: pubs4_def pubs_def)
  with r(1) st(2) show ?thesis by (simp add: DhcpMgr_clearDHCPv4Lease_def)
qed

text \<open>
  Claim C12. A client that does not do what its system event says is brought in line:
  it is enabled and its process is gone, or it is disabled and its process runs on.
  Recovery then leaves the flag, the interface and the process id in the entry,
  puts one message into the queue of the interface with a controller registered as
  running, and handling that message starts the client, with exactly one event for
  the outcome, or stops it, with the deletion of the lease and the stop as events.
\<close>

theorem recovery_brings_in_line:
  assumes "w_files w (lease_path4 (c4_InstanceNumber (f4_Cfg c))) = Some (File4 stored k)"
    and "readable e (lease_path4 (c4_InstanceNumber (f4_Cfg c)))"
    and "fst (Dhcp_get_Sysevent_InterfaceEnable e (enable_key False (c4_InstanceNumber (f4_Cfg c))) 64 w) = Some (n, b)"
    and "proc_runs e (i4_ClientProcessId (f4_Info stored)) (\<not> b)" "n \<noteq> []"
    and "m = selfheal_msg n DML_DHCPV4" "queue_takes e m w"
  shows "\<exists>c' w'. load_v4_client e c pids w = Some (False, c', pids, w') \<and>
    c4_bEnabled (f4_Cfg c') = b \<and> c4_Interface (f4_Cfg c') = n \<and>
    i4_ClientProcessId (f4_Info c') = i4_ClientProcessId (f4_Info stored) \<and>
    pending w' (mq_name_of n) = pending w (mq_name_of n) @ [m] \<and>
    (\<exists>i. find_interface n w' = Some i \<and> ii_thread_running i) \<and>
    (\<forall>l v l' v'. l4_client l = c' \<longrightarrow> v4_handle_client e m l v = Some (l', v') \<longrightarrow>
       map fst (events4 (new_actions v v')) =
         (if b then [if i4_Status (f4_Info (l4_client l')) = COSA_DML_DHCP_STATUS_Enabled then DHCP_CLIENT_STARTED else DHCP_CLIENT_FAILED]
          else [DHCP_LEASE_DEL, DHCP_CLIENT_STOPPED]))"
proof -
  let ?pid = "i4_ClientProcessId (f4_Info stored)"
  have n: "length n < 64" "di_if_name m = n"
    using get_enable_short [OF assms(3)] assms(6) by (simp_all add: selfheal_msg_def c_trunc_id MAX_STR_LEN_def)
  obtain w5 where w5: "quiet w w5"
    and load: "load_v4_client e c pids w = (case restart_client4 e (Some (n, b)) c w5 of (c', w') \<Rightarrow>
        Some (False, c'\<lparr>f4_Info := (f4_Info c')\<lparr>i4_ClientProcessId := ?pid\<rparr>\<rparr>, pids, w'))"
    using load_v4_cases [OF refl assms(2,1,3) refl assms(4), of pids] by (cases b) auto
  obtain c1 w' where r: "restart_client4 e (Some (n, b)) c w5 = (c1, w')" by force
  note res = restart_client4_result [OF r assms(5) n(1)]
  let ?c = "c1\<lparr>f4_Info := (f4_Info c1)\<lparr>i4_ClientProcessId := ?pid\<rparr>\<rparr>"
  have eq: "w_mqs w5 = w_mqs w" "w_ifaces w5 = w_ifaces w" using w5 by (simp_all add: quiet_def)
  then have acc: "DhcpMgr_OpenQueueEnsureThread e m w5 = (0, w')"
    using assms(6,7) res(5) by (simp add: queue_takes_def prod_eq_iff)
  have "pending w' (mq_name_of n) = pending w (mq_name_of n) @ [m]"
    using open_queue_pending [of e m w5 "mq_name_of n"] acc n(2) eq(1) by (simp add: pending_def)
  moreover have "\<exists>i. find_interface n w' = Some i \<and> ii_thread_running i"
    using open_queue_running [OF _ acc] n by (simp add: MAX_STR_LEN_def)
  moreover have "map fst (events4 (new_actions v v')) =
      (if b then [if i4_Status (f4_Info (l4_client l')) = COSA_DML_DHCP_STATUS_Enabled then DHCP_CLIENT_STARTED else DHCP_CLIENT_FAILED]
       else [DHCP_LEASE_DEL, DHCP_CLIENT_STOPPED])"
    if "l4_client l = ?c" "v4_handle_client e m l v = Some (l', v')" for l v l' v'
    using selfheal_starts [of e n l v l' v'] selfheal_stops [of e n l v l' v'] that res(1,4) assms(6) by (cases b) simp_all
  ultimately show ?thesis
    using load r res(1,2) by (intro exI [of _ ?c] exI [of _ w']) auto
qed

theorem recovery_brings_in_line_witness:
  "\<exists>c' w'. load_v4_client (env_files ''erouter0 0'') client4 []
       (world_init\<lparr>w_files := [lease_path4 1 \<mapsto> File4 client4 None]\<rparr>) = Some (False, c', [], w') \<and> \<not> c4_bEnabled (f4_Cfg c') \<and>
     pending w' ''/mq_if_erouter0'' = [selfheal_msg ''erouter0'' DML_DHCPV4]"
proof -
  let ?e = "env_files ''erouter0 0''" and ?w = "world_init\<lparr>w_files := [lease_path4 1 \<mapsto> File4 client4 None]\<rparr>"
  have i: "c4_InstanceNumber (f4_Cfg client4) = 1" "mq_name_of ''erouter0'' = ''/mq_if_erouter0''" by code_simp+
  have g: "fst (Dhcp_get_Sysevent_InterfaceEnable ?e (enable_key False 1) 64 ?w) = Some (''erouter0'', False)" by code_simp
  have q: "queue_takes ?e (selfheal_msg ''erouter0'' DML_DHCPV4) ?w"
    by (simp add: queue_takes_def DhcpMgr_OpenQueueEnsureThread_def open_or_create_def create_message_queue_def mq_open_def
        ensure_thread_def find_or_create_interface_def find_interface_def create_interface_thread_def update_interface_info_def
        send_locked_def DhcpMgr_LockInterfaceQueueMutexByName_def mq_send_def case_prod_beta fst_call Let_def env_files_def env0_def
        world_init_def selfheal_msg_def c_trunc_def MAX_INTERFACES_def MAX_STR_LEN_def MQ_MAX_MESSAGES_def)
  show ?thesis
    using recovery_brings_in_line [of ?w client4 client4 None ?e "''erouter0''" False, OF _ _ _ _ _ refl q, of "[]"] g i env_files_readable
    by (auto simp: pending_def world_init_def)
qed

section \<open>Where recovery goes wrong\<close>

text \<open>
  Where the system event of a client cannot be read, a process that is gone counts
  as one that still runs: the entry is enabled with the dead process id, no message
  goes to the controller, and the restart message of a later event is ignored.
\<close>

lemma recovery_unknown_dead:
  assumes "w_files w (lease_path4 (c4_InstanceNumber (f4_Cfg c))) = Some (File4 stored k)"
    and "readable e (lease_path4 (c4_InstanceNumber (f4_Cfg c)))"
    and "fst (Dhcp_get_Sysevent_InterfaceEnable e (enable_key False (c4_InstanceNumber (f4_Cfg c))) 64 w) = None"
    and "proc_runs e (i4_ClientProcessId (f4_Info stored)) False" "length pids < MAX_PIDS" "\<forall>j. k = Some j \<longrightarrow> routers_fit j"
    and "c4_bEnabled (f4_Cfg stored)" "\<not> c4_Renew (f4_Cfg stored)" "\<not> c4_Restart (f4_Cfg stored)"
  shows "\<exists>c' w'. load_v4_client e c pids w = Some (True, c', pids @ [i4_ClientProcessId (f4_Info stored)], w') \<and>
    i4_Status (f4_Info c') = COSA_DML_DHCP_STATUS_Enabled \<and> w_mqs w' = w_mqs w \<and>
    (\<forall>l n v. l4_client l = c' \<longrightarrow> v4_handle_client e (selfheal_msg n DML_DHCPV4) l v = Some (l, v))"
proof -
  let ?p = "lease_path4 (c4_InstanceNumber (f4_Cfg c))"
  obtain w5 where w5: "quiet w w5" "w_files w5 = w_files w" "load_v4_client e c pids w = adopt_client4 e ?p stored c pids w5"
    using load_v4_cases [OF refl assms(2,1,3) refl assms(4), of pids] by auto
  obtain c' where "adopt_client4 e ?p stored c pids w5 =
      Some (True, c', pids @ [i4_ClientProcessId (f4_Info stored)], act (A_fread ?p) w5)"
    "f4_Cfg c' = f4_Cfg stored" "i4_Status (f4_Info c') = COSA_DML_DHCP_STATUS_Enabled"
    using adopt4 [OF assms(2) _ assms(5,6), of w5 stored c] assms(1) w5(2) by auto
  moreover from this have "v4_handle_client e (selfheal_msg n DML_DHCPV4) l v = Some (l, v)" if "l4_client l = c'" for l n v
    using that assms(7-9) by (auto simp: v4_handle_client_def v4_param_def v4_control_def selfheal_msg_def)
  ultimately show ?thesis using w5(1,3) by (intro exI [of _ c'] exI [of _ "act (A_fread ?p) w5"]) (simp add: quiet_def)
qed

text \<open>The 21st client that is taken over is written past the end of the array of process ids.\<close>

lemma recovery_pids_overflow:
  assumes "w_files w (lease_path6 (c6_InstanceNumber (f6_Cfg c))) = Some (File6 stored k)"
    and "readable e (lease_path6 (c6_InstanceNumber (f6_Cfg c)))"
    and "fst (Dhcp_get_Sysevent_InterfaceEnable e (enable_key True (c6_InstanceNumber (f6_Cfg c))) 64 w) = Some (n, True)"
    and "proc_runs e (i6_ClientProcessId (f6_Info stored)) True" "length pids = MAX_PIDS"
  shows "load_v6_client e c pids w = None"
  using load_v6_cases [OF refl assms(2,1,3) refl assms(4), of pids] assms(5) by (auto simp: adopt_client6_def watch_pid_def)

section \<open>The watched processes\<close>

fun exits :: "wait_report list \<Rightarrow> int list" where
  "exits [] = []"
| "exits (Wait_exit p # rs) = p # exits rs"
| "exits (_ # rs) = exits rs"

text \<open>What one report does to the manager.\<close>

fun mon_effect :: "env \<Rightarrow> int list \<Rightarrow> wait_report \<Rightarrow> manager \<Rightarrow> manager" where
  "mon_effect e pids (Wait_exit p) g = (if p \<in> set pids then processKilled e p g else g)"
| "mon_effect e pids (Wait_stopped p sig) g = g\<lparr>g_world := act (A_ptrace p) (g_world g)\<rparr>"
| "mon_effect e pids _ g = g"

lemma pid_exited_distinct:
  "distinct pids \<Longrightarrow> pid_exited e pids p (n, g) = (if p \<in> set pids then (n - 1, processKilled e p g) else (n, g))"
proof (induction pids arbitrary: n g)
  case (Cons q qs)
  then show ?case by (auto simp: pid_exited_def)
qed (simp add: pid_exited_def)

lemma pid_mon_loop_ends:
  assumes "distinct pids" "distinct (exits rs)" "P \<subseteq> set (exits rs)" "P \<subseteq> set pids" "set (exits rs) \<inter> (set pids - P) = {}"
  shows "\<exists>k. pid_mon_loop e pids rs (int (card P), g) = (0, fold (mon_effect e pids) (take k rs) g) \<and> P \<subseteq> set (exits (take k rs))"
  using assms(2-5)
proof (induction rs arbitrary: P g)
  case Nil
  then show ?case by simp
next
  case (Cons r rs)
  have fin: "finite P" using Cons.prems(3) finite_subset by blast
  show ?case
  proof (cases "P = {}")
    case True
    then show ?thesis by (intro exI [of _ 0]) simp
  next
    case False
    then have pos: "0 < card P" using fin by (simp add: card_gt_0_iff)
    show ?thesis
    proof (cases "\<exists>p. r = Wait_exit p \<and> p \<in> P")
      case True
      then obtain p where p: "r = Wait_exit p" "p \<in> P" by blast
      define Q where "Q = P - {p}"
      have c: "int (card P) - 1 = int (card Q)" using p(2) fin pos by (simp add: Q_def of_nat_diff)
      have "distinct (exits rs)" "Q \<subseteq> set (exits rs)" "Q \<subseteq> set pids" "set (exits rs) \<inter> (set pids - Q) = {}"
        using Cons.prems p by (auto simp: Q_def)
      from Cons.IH [OF this] obtain k where k: "pid_mon_loop e pids rs (int (card Q), processKilled e p g) =
          (0, fold (mon_effect e pids) (take k rs) (processKilled e p g))" "Q \<subseteq> set (exits (take k rs))"
        by blast
      have "p \<in> set pids" using p(2) Cons.prems(3) by blast
      then have "pid_mon_loop e pids (r # rs) (int (card P), g) = pid_mon_loop e pids rs (int (card Q), processKilled e p g)"
        using pos by (simp add: p(1) pid_exited_distinct [OF assms(1)] c)
      with k \<open>p \<in> set pids\<close> show ?thesis by (intro exI [of _ "Suc k"]) (auto simp: p(1) Q_def)
    next
      case other: False
      have ex: "P \<subseteq> set (exits rs)" "distinct (exits rs)" "set (exits rs) \<inter> (set pids - P) = {}"
        using Cons.prems other by (cases r; auto)+
      obtain k where "pid_mon_loop e pids rs (int (card P), mon_effect e pids r g) =
          (0, fold (mon_effect e pids) (take k rs) (mon_effect e pids r g))" "P \<subseteq> set (exits (take k rs))"
        using Cons.IH [of P "mon_effect e pids r g"] Cons.prems(3) ex by blast
      moreover have "pid_mon_loop e pids (r # rs) (int (card P), g) = pid_mon_loop e pids rs (int (card P), mon_effect e pids r g)"
        using pos other Cons.prems(4) by (cases r) (auto simp: pid_exited_distinct [OF assms(1)])
      ultimately show ?thesis by (intro exI [of _ "Suc k"]) (cases r; auto)
    qed
  qed
qed

text \<open>
  Claim C31. The thread that watches the processes of clients taken over ends: where
  the process ids differ and each process ends once, in any order and with any other
  reports in between, the count reaches 0, and by then every watched process that
  ended was handed to \<open>processKilled\<close>, in the order of the reports.
\<close>

theorem pid_mon_ends:
  assumes "distinct pids" "distinct (exits rs)" "set pids \<subseteq> set (exits rs)"
  shows "\<exists>k. dhcp_pid_mon e pids rs g =
      (0, fold (mon_effect e pids) (take k rs) (g\<lparr>g_world := fold (\<lambda>p w. act (A_ptrace p) w) pids (g_world g)\<rparr>)) \<and>
    set pids \<subseteq> set (exits (take k rs))"
  using pid_mon_loop_ends [OF assms subset_refl, of e] by (simp add: dhcp_pid_mon_def distinct_card [OF assms(1)])

theorem pid_mon_ends_witness:
  "fst (dhcp_pid_mon env0 [4711, 4712] [Wait_exit 4712, Wait_error, Wait_exit 99, Wait_exit 4711]
     (loaded [link4] [link6] world_init)) = 0"
  using pid_mon_ends [of "[4711, 4712]" "[Wait_exit 4712, Wait_error, Wait_exit 99, Wait_exit 4711]" env0
      "loaded [link4] [link6] world_init"] by (simp del: take_Cons_numeral) (metis fst_conv)

end
