(* ===== verification/Lease_Monitor.thy ===== *)
theory Lease_Monitor
  imports Recovery
begin

text \<open>
  The way a lease takes into the manager: \<open>DhcpMgr_StartMainController\<close>
  (\<open>dhcpmgr_controller.c\<close>) starts recovery where the marker of a restart is there
  and then the lease monitor (\<open>source/DHCPMgrUtils/dhcp_lease_monitor_thrd.c\<close>),
  which listens for the plugins of the clients, appends every lease to the list of
  its client and wakes the controller of the interface.
\<close>

section \<open>Starting\<close>

definition LEASE_MONITOR_BIND_MAX_RETRIES :: nat where "LEASE_MONITOR_BIND_MAX_RETRIES = 40"

definition DHCP_MANAGER_ADDR :: string where "DHCP_MANAGER_ADDR = ''tcp://127.0.0.1:50324''"

fun bind_loop :: "env \<Rightarrow> nat \<Rightarrow> world \<Rightarrow> bool \<times> world" where
  "bind_loop e 0 w = (False, w)"
| "bind_loop e (Suc n) w =
     (case call e (A_nn_bind DHCP_MANAGER_ADDR) w of (r, w') \<Rightarrow> if 0 \<le> r then (True, w') else bind_loop e n w')"

definition DhcpMgr_LeaseMonitor_Init :: "env \<Rightarrow> world \<Rightarrow> bool \<times> world" where
  "DhcpMgr_LeaseMonitor_Init e w =
     (case call e A_nn_socket w of (fd, w1) \<Rightarrow>
        if fd < 0 then (False, w1)
        else (case bind_loop e LEASE_MONITOR_BIND_MAX_RETRIES w1 of (ok, w2) \<Rightarrow>
                if ok then (True, w2) else (False, act A_nn_close w2)))"

definition DhcpMgr_LeaseMonitor_Start :: "env \<Rightarrow> world \<Rightarrow> int \<times> world" where
  "DhcpMgr_LeaseMonitor_Start e w =
     (case DhcpMgr_LeaseMonitor_Init e w of (ok, w1) \<Rightarrow>
        if \<not> ok then (- 1, w1)
        else (case call e (A_thread ''DhcpMgr_LeaseMonitor_Thrd'') w1 of (r, w2) \<Rightarrow> (if r \<noteq> 0 then - 1 else 0, w2)))"

definition DhcpMgr_StartMainController :: "env \<Rightarrow> manager \<Rightarrow> (int \<times> int list \<times> manager) option" where
  "DhcpMgr_StartMainController e g =
     (case call e (A_remove ''/tmp/dhcpmanager_restarted'') (g_world g) of (r, w) \<Rightarrow>
        (case (if r = 0 then map_option snd (DhcpMgr_Dhcp_Recovery_Start e (g\<lparr>g_world := w\<rparr>)) else Some ([], g\<lparr>g_world := w\<rparr>)) of
           None \<Rightarrow> None
         | Some (pids, g1) \<Rightarrow>
             (case DhcpMgr_LeaseMonitor_Start e (g_world g1) of (s, w') \<Rightarrow> Some (s, pids, g1\<lparr>g_world := w'\<rparr>))))"

section \<open>Receiving\<close>

text \<open>
  What \<open>nn_recv\<close> delivers: an error, a message of a size other than the one of
  \<open>PLUGIN_MSG\<close>, or a message.
\<close>

datatype nn_report = Nn_error | Nn_bad_size | Nn_msg string plugin_data

definition process_lease_msg :: "string \<Rightarrow> dhcp_type \<Rightarrow> dhcp_info" where
  "process_lease_msg n t =
     \<lparr>di_if_name = c_trunc MAX_STR_LEN n, di_ParamName = ''ProcessLease'', di_bValue = False, di_dhcpType = t\<rparr>"

definition monitor_step :: "env \<Rightarrow> nn_report \<Rightarrow> manager \<Rightarrow> manager option" where
  "monitor_step e r g =
     (case r of
        Nn_msg n (Plugin_v4 l) \<Rightarrow>
          Some (g\<lparr>g_v4 := DHCPMgr_AddDhcpv4Lease n l (g_Dhcp4ClientNum g) (g_v4 g),
                  g_world := snd (DhcpMgr_OpenQueueEnsureThread e (process_lease_msg n DML_DHCPV4) (g_world g))\<rparr>)
      | Nn_msg n (Plugin_v6 l) \<Rightarrow>
          map_option (\<lambda>t. g\<lparr>g_v6 := t,
                  g_world := snd (DhcpMgr_OpenQueueEnsureThread e (process_lease_msg n DML_DHCPV6) (g_world g))\<rparr>)
            (DHCPMgr_AddDhcpv6Lease n l (g_Dhcp6ClientNum g) (g_v6 g))
      | _ \<Rightarrow> Some g)"

text \<open>The thread never ends by itself; it is run on the messages that arrive.\<close>

fun DhcpMgr_LeaseMonitor_Thrd :: "env \<Rightarrow> nn_report list \<Rightarrow> manager \<Rightarrow> manager option" where
  "DhcpMgr_LeaseMonitor_Thrd e [] g = Some g"
| "DhcpMgr_LeaseMonitor_Thrd e (r # rs) g =
     (case monitor_step e r g of None \<Rightarrow> None | Some g' \<Rightarrow> DhcpMgr_LeaseMonitor_Thrd e rs g')"

section \<open>Lemmas\<close>

lemma bind_loop_trace:
  "\<exists>k \<le> n. w_trace (snd (bind_loop e n w)) = w_trace w @ replicate k (A_nn_bind DHCP_MANAGER_ADDR) \<and>
     (\<not> fst (bind_loop e n w) \<longrightarrow> k = n)"
proof (induction n arbitrary: w)
  case (Suc n)
  let ?a = "A_nn_bind DHCP_MANAGER_ADDR"
  from Suc [of "act ?a w"] obtain k where k: "k \<le> n"
    "w_trace (snd (bind_loop e n (act ?a w))) = w_trace w @ replicate (Suc k) ?a" "\<not> fst (bind_loop e n (act ?a w)) \<longrightarrow> k = n"
    by auto
  show ?case
  proof (cases "0 \<le> e_ret e (w_trace w @ [?a])")
    case True
    then show ?thesis by (intro exI [of _ 1]) (simp add: case_prod_beta fst_call)
  next
    case False
    then show ?thesis using k by (intro exI [of _ "Suc k"]) (simp add: case_prod_beta fst_call)
  qed
qed simp

text \<open>Binding is tried at most 40 times, and the socket is closed where that was in vain.\<close>

lemma lease_monitor_init_bounded:
  assumes "DhcpMgr_LeaseMonitor_Init e w = (ok, w')"
  shows "\<exists>k \<le> LEASE_MONITOR_BIND_MAX_RETRIES. new_actions w w' \<in>
    {[A_nn_socket], A_nn_socket # replicate k (A_nn_bind DHCP_MANAGER_ADDR),
     A_nn_socket # replicate k (A_nn_bind DHCP_MANAGER_ADDR) @ [A_nn_close]}"
  using assms bind_loop_trace [of LEASE_MONITOR_BIND_MAX_RETRIES e "act A_nn_socket w"]
  by (fastforce simp: DhcpMgr_LeaseMonitor_Init_def new_actions_def case_prod_beta split: if_splits)

end
