(* ===== verification/Plugins.thy ===== *)
theory Plugins
  imports Lease_Monitor
begin

text \<open>
  The plugins that the clients run at every event of theirs, each a program of its
  own: \<open>dhcpmgr_udhcpc.c\<close> for \<open>udhcpc\<close> and \<open>dhcpmgr_dibbler_plugin.c\<close> for \<open>dibbler\<close>
  (under \<open>source/DHCPClientUtils\<close>). A plugin reads the lease from its environment
  variables, a function \<open>g\<close> from names to values, and sends it to the socket of the
  lease monitor.

  \<open>strncpy(dst, s, sizeof dst)\<close> leaves an array without a terminating NUL where \<open>s\<close>
  has as many characters as the array; printing or copying such an array reads
  past its end. The model cuts such a run off as \<open>None\<close>, because C says nothing about what
  it does; a real plugin may go on and send the message. The arrays are printed to the log, which the model
  takes to be open.
\<close>

section \<open>The C library\<close>

type_synonym environ = "string \<Rightarrow> string option"

text \<open>The characters of a zeroed array of \<open>n\<close> after \<open>strncpy(dst, s, n)\<close>.\<close>

definition c_strncpy :: "nat \<Rightarrow> string \<Rightarrow> string" where
  "c_strncpy n s = take n s"

definition terminated :: "nat \<Rightarrow> string \<Rightarrow> bool" where
  "terminated n s \<longleftrightarrow> length s < n"

text \<open>
  \<open>strtol(s, NULL, 10)\<close> saturates at the bounds of \<open>long\<close>; \<open>atoi\<close> is its value as an
  \<open>int\<close>. Both are stored in 32 bits.
\<close>

definition c_strtol :: "env \<Rightarrow> string \<Rightarrow> int" where
  "c_strtol e s = max (- (2 ^ (e_LONG_BIT e - 1))) (min (2 ^ (e_LONG_BIT e - 1) - 1) (c_atoi s))"

definition strtol_u32 :: "env \<Rightarrow> string \<Rightarrow> u32" where
  "strtol_u32 e s = word_of_int (c_strtol e s)"

text \<open>An assignment under \<open>if ((env = getenv(name)) != NULL)\<close>.\<close>

definition on_env :: "environ \<Rightarrow> string \<Rightarrow> (string \<Rightarrow> 'a \<Rightarrow> 'a) \<Rightarrow> 'a \<Rightarrow> 'a" where
  "on_env g name f d = (case g name of None \<Rightarrow> d | Some v \<Rightarrow> f v d)"

lemma on_env_simps [simp]:
  "g name = None \<Longrightarrow> on_env g name f d = d" "g name = Some v \<Longrightarrow> on_env g name f d = f v d"
  by (simp_all add: on_env_def)

section \<open>Sending\<close>

definition MAX_SEND_THRESHOLD :: nat where "MAX_SEND_THRESHOLD = 5"

fun send_loop :: "env \<Rightarrow> nat \<Rightarrow> int \<Rightarrow> string \<Rightarrow> plugin_data \<Rightarrow> world \<Rightarrow> int \<times> world" where
  "send_loop e 0 bytes n d w = (bytes, w)"
| "send_loop e (Suc k) bytes n d w =
     (case call e (A_nn_send n d) w of (b, w') \<Rightarrow> if b < 0 then send_loop e k b n d w' else (b, w'))"

definition nn_push :: "env \<Rightarrow> string \<Rightarrow> plugin_data \<Rightarrow> world \<Rightarrow> int \<times> world" where
  "nn_push e n d w =
     (case call e A_nn_socket w of (sock, w1) \<Rightarrow>
        if sock < 0 then (- 1, w1)
        else (case call e (A_nn_connect DHCP_MANAGER_ADDR) w1 of (conn, w2) \<Rightarrow>
                if conn < 0 then (- 1, act A_nn_close w2)
                else (case send_loop e MAX_SEND_THRESHOLD (- 1) n d w2 of (bytes, w3) \<Rightarrow>
                        (if 0 < bytes then 0 else - 1, act A_nn_close w3))))"

section \<open>The plugin of udhcpc\<close>

fun hex2dec_loop :: "string \<Rightarrow> u32 \<Rightarrow> u32 \<Rightarrow> u32" where
  "hex2dec_loop [] decimal base = decimal"
| "hex2dec_loop (c # cs) decimal base =
     (let v = (of_char c :: nat)
      in if 48 \<le> v \<and> v \<le> 57 then hex2dec_loop cs (decimal + of_nat (v - 48) * base) (base * 16)
         else if 65 \<le> v \<and> v \<le> 70 then hex2dec_loop cs (decimal + of_nat (v - 55) * base) (base * 16)
         else if 97 \<le> v \<and> v \<le> 102 then hex2dec_loop cs (decimal + of_nat (v - 87) * base) (base * 16)
         else hex2dec_loop cs decimal base)"

definition hex2dec :: "string \<Rightarrow> u32" where
  "hex2dec hex = hex2dec_loop (rev hex) 0 1"

record udhcpc_env_t =
  ue_input_option :: string
  ue_dns :: "string option"
  ue_router :: "string option"

definition init_udhcpc_env :: "environ \<Rightarrow> string \<Rightarrow> udhcpc_env_t" where
  "init_udhcpc_env g option = \<lparr>ue_input_option = option, ue_dns = g ''dns'', ue_router = g ''router''\<rparr>"

definition v4_msg_zero :: DHCPv4_PLUGIN_MSG where
  "v4_msg_zero = \<lparr>v4_addressAssigned = False, v4_isExpired = False, v4_address = [], v4_netmask = [], v4_gateway = [],
     v4_dnsServer = [], v4_dnsServer1 = [], v4_ifname = [], v4_leaseTime = 0, v4_rebindingTime = 0, v4_renewalTime = 0,
     v4_timeOffset = 0, v4_isTimeOffsetAssigned = False, v4_timeZone = [], v4_upstreamCurrRate = 0, v4_downstreamCurrRate = 0,
     v4_dhcpServerId = [], v4_dhcpState = [], v4_mtuAssigned = False, v4_mtuSize = 0, v4_sipSrv = [], v4_staticRoutes = [],
     v4_mtaOption = \<lparr>Assigned122 = False, Assigned125 = False, option_122 = [], option_125 = [], cOption67 = []\<rparr>,
     v4_cTftpServer = [], v4_cHostName = [], v4_cDomainName = []\<rparr>"

text \<open>The fields that every event fills.\<close>

definition fill4_common :: "environ \<Rightarrow> udhcpc_env_t \<Rightarrow> DHCPv4_PLUGIN_MSG \<Rightarrow> DHCPv4_PLUGIN_MSG" where
  "fill4_common g p d0 =
     (let d1 = on_env g ''interface'' (\<lambda>v d. d\<lparr>v4_ifname := c_strncpy 32 v\<rparr>) d0;
          d2 = on_env g ''sipsrv'' (\<lambda>v d. d\<lparr>v4_sipSrv := c_strncpy 64 v\<rparr>) d1;
          d3 = on_env g ''staticroutes'' (\<lambda>v d. d\<lparr>v4_staticRoutes := c_strncpy 64 v\<rparr>) d2;
          d4 = on_env g ''serverid'' (\<lambda>v d. d\<lparr>v4_dhcpServerId := c_strncpy 64 v\<rparr>) d3
      in d4\<lparr>v4_dhcpState := c_strncpy 64 (ue_input_option p)\<rparr>)"

text \<open>The addresses of a lease: the first two words of \<open>dns\<close> are the name servers.\<close>

definition fill4_addresses :: "environ \<Rightarrow> udhcpc_env_t \<Rightarrow> DHCPv4_PLUGIN_MSG \<Rightarrow> DHCPv4_PLUGIN_MSG" where
  "fill4_addresses g p d0 =
     (let d1 = on_env g ''ip'' (\<lambda>v d. d\<lparr>v4_address := c_strncpy 32 v\<rparr>) d0;
          d2 = on_env g ''subnet'' (\<lambda>v d. d\<lparr>v4_netmask := c_strncpy 32 v\<rparr>) d1;
          d3 = (case ue_router p of None \<Rightarrow> d2 | Some v \<Rightarrow> d2\<lparr>v4_gateway := c_strncpy 32 v\<rparr>)
      in case ue_dns p of
           None \<Rightarrow> d3
         | Some v \<Rightarrow>
             (case strtok '' '' (c_trunc 256 v) of
                [] \<Rightarrow> d3
              | [a] \<Rightarrow> d3\<lparr>v4_dnsServer := c_strncpy 64 a\<rparr>
              | a # b # _ \<Rightarrow> d3\<lparr>v4_dnsServer := c_strncpy 64 a, v4_dnsServer1 := c_strncpy 64 b\<rparr>))"

definition fill4_times :: "env \<Rightarrow> environ \<Rightarrow> DHCPv4_PLUGIN_MSG \<Rightarrow> DHCPv4_PLUGIN_MSG" where
  "fill4_times e g d0 =
     (let d1 = on_env g ''lease'' (\<lambda>v d. d\<lparr>v4_leaseTime := strtol_u32 e v\<rparr>) d0;
          d2 = (case g ''renewaltime'' of
                  Some v \<Rightarrow> d1\<lparr>v4_renewalTime := strtol_u32 e v\<rparr>
                | None \<Rightarrow> on_env g ''opt58'' (\<lambda>v d. d\<lparr>v4_renewalTime := hex2dec v\<rparr>) d1);
          d3 = (case g ''rebindingtime'' of
                  Some v \<Rightarrow> d2\<lparr>v4_rebindingTime := strtol_u32 e v\<rparr>
                | None \<Rightarrow> on_env g ''opt59'' (\<lambda>v d. d\<lparr>v4_rebindingTime := hex2dec v\<rparr>) d2)
      in on_env g ''timezone'' (\<lambda>v d. d\<lparr>v4_timeOffset := sint (strtol_u32 e v), v4_isTimeOffsetAssigned := True\<rparr>) d3)"

definition fill4_options :: "env \<Rightarrow> environ \<Rightarrow> DHCPv4_PLUGIN_MSG \<Rightarrow> DHCPv4_PLUGIN_MSG" where
  "fill4_options e g d0 =
     (let d1 = on_env g ''opt122'' (\<lambda>v d. d\<lparr>v4_mtaOption := (v4_mtaOption d)\<lparr>option_122 := c_strncpy 256 v, Assigned122 := True\<rparr>\<rparr>) d0;
          d2 = on_env g ''opt125'' (\<lambda>v d. d\<lparr>v4_mtaOption := (v4_mtaOption d)\<lparr>option_125 := c_strncpy 256 v, Assigned125 := True\<rparr>\<rparr>) d1;
          d3 = on_env g ''bootfile'' (\<lambda>v d. d\<lparr>v4_mtaOption := (v4_mtaOption d)\<lparr>cOption67 := c_strncpy 64 v\<rparr>\<rparr>) d2;
          d4 = on_env g ''siaddr'' (\<lambda>v d. d\<lparr>v4_cTftpServer := c_strncpy 64 v\<rparr>) d3;
          d5 = on_env g ''hostname'' (\<lambda>v d. d\<lparr>v4_cHostName := c_strncpy 64 v\<rparr>) d4;
          d6 = on_env g ''domain'' (\<lambda>v d. d\<lparr>v4_cDomainName := c_strncpy 64 v\<rparr>) d5;
          d7 = on_env g ''upstreamrate'' (\<lambda>v d. d\<lparr>v4_upstreamCurrRate := strtol_u32 e v\<rparr>) d6
      in on_env g ''downstreamrate'' (\<lambda>v d. d\<lparr>v4_downstreamCurrRate := strtol_u32 e v\<rparr>) d7)"

definition get_and_fill_env_data :: "env \<Rightarrow> environ \<Rightarrow> udhcpc_env_t \<Rightarrow> DHCPv4_PLUGIN_MSG \<Rightarrow> DHCPv4_PLUGIN_MSG" where
  "get_and_fill_env_data e g p d =
     (let d1 = fill4_common g p d; opt = ue_input_option p
      in if opt = ''bound'' \<or> opt = ''renew''
         then fill4_options e g (fill4_times e g (fill4_addresses g p (d1\<lparr>v4_addressAssigned := True, v4_isExpired := False\<rparr>)))
         else if opt = ''leasefail'' then d1\<lparr>v4_isExpired := True, v4_addressAssigned := False\<rparr>
         else if opt = ''deconfig'' then d1\<lparr>v4_isExpired := True, v4_addressAssigned := False\<rparr>
         else d1)"

text \<open>The arrays that the plugin prints, with their sizes.\<close>

definition printed4 :: "DHCPv4_PLUGIN_MSG \<Rightarrow> (nat \<times> string) list" where
  "printed4 d = [(32, v4_address d), (32, v4_netmask d), (32, v4_gateway d), (64, v4_dnsServer d), (64, v4_dnsServer1 d),
     (32, v4_ifname d), (64, v4_timeZone d), (64, v4_dhcpServerId d), (64, v4_dhcpState d), (256, option_122 (v4_mtaOption d)),
     (256, option_125 (v4_mtaOption d)), (64, cOption67 (v4_mtaOption d)), (64, v4_cTftpServer d), (64, v4_cHostName d), (64, v4_cDomainName d)]"

definition send_dhcp4_data_to_leaseMonitor :: "env \<Rightarrow> DHCPv4_PLUGIN_MSG \<Rightarrow> world \<Rightarrow> (int \<times> world) option" where
  "send_dhcp4_data_to_leaseMonitor e d w =
     (if terminated 32 (v4_ifname d) then Some (nn_push e (v4_ifname d) (Plugin_v4 d) w) else None)"

text \<open>
  The data is printed where the event is not \<open>leasefail\<close> or not \<open>deconfig\<close>, so for
  every event.
\<close>

definition handle_events :: "env \<Rightarrow> environ \<Rightarrow> udhcpc_env_t \<Rightarrow> world \<Rightarrow> (int \<times> world) option" where
  "handle_events e g p w =
     (let d = get_and_fill_env_data e g p v4_msg_zero; opt = ue_input_option p
      in if (opt \<noteq> ''leasefail'' \<or> opt \<noteq> ''deconfig'') \<and> \<not> list_all (\<lambda>(n, s). terminated n s) (printed4 d) then None
         else map_option (\<lambda>(ret, w'). (if ret \<noteq> 0 then - 1 else ret, w')) (send_dhcp4_data_to_leaseMonitor e d w))"

definition udhcpc_plugin_main :: "env \<Rightarrow> environ \<Rightarrow> string list \<Rightarrow> world \<Rightarrow> (int \<times> world) option" where
  "udhcpc_plugin_main e g argv w =
     (case argv of
        prog # opt # _ \<Rightarrow>
          (let p = init_udhcpc_env g opt
           in if opt = ''bound'' \<or> opt = ''renew'' \<or> opt = ''leasefail'' \<or> opt = ''deconfig''
              then map_option (\<lambda>(ret, w'). (0, w')) (handle_events e g p w)
              else Some (0, w))
      | _ \<Rightarrow> Some (- 1, w))"

section \<open>The plugin of dibbler\<close>

text \<open>\<open>trim\<close>: white space at both ends is cut off, in place.\<close>

definition trim :: "string \<Rightarrow> string" where
  "trim s = (let start = dropWhile is_space s in if start = [] then [] else rev (dropWhile is_space (rev start)))"

definition v6_msg_zero :: DHCPv6_PLUGIN_MSG where
  "v6_msg_zero = \<lparr>v6_isExpired = False, v6_ifname = [],
     v6_ia_na = \<lparr>na_assigned = False, na_address = [], na_IA_ID = 0, na_PreferedLifeTime = 0, na_ValidLifeTime = 0, na_T1 = 0, na_T2 = 0\<rparr>,
     v6_ia_pd = \<lparr>pd_assigned = False, pd_Prefix = [], pd_PrefixLength = 0, pd_IA_ID = 0, pd_PreferedLifeTime = 0,
       pd_ValidLifeTime = 0, pd_T1 = 0, pd_T2 = 0\<rparr>,
     v6_dns = \<lparr>dns_assigned = False, dns_nameserver = [], dns_nameserver1 = []\<rparr>,
     v6_mapt = \<lparr>ct_Assigned = False, ct_Container = replicate 256 0\<rparr>, v6_mape = \<lparr>ct_Assigned = False, ct_Container = replicate 256 0\<rparr>,
     v6_vendor = \<lparr>vd_Assigned = False, vd_Data = [], vd_Length = 0\<rparr>, v6_domainName = [], v6_ntpserver = [], v6_aftr = [],
     v6_TimeOffset = 0\<rparr>"

definition fill6_ia_na :: "env \<Rightarrow> environ \<Rightarrow> v6_ia_na \<Rightarrow> v6_ia_na" where
  "fill6_ia_na e g a0 =
     (let a1 = on_env g ''ADDR1'' (\<lambda>v a. a\<lparr>na_address := c_trunc 48 v, na_assigned := True\<rparr>) a0;
          a2 = on_env g ''ADDR1IAID'' (\<lambda>v a. a\<lparr>na_IA_ID := strtol_u32 e v\<rparr>) a1;
          a3 = on_env g ''ADDR1PREF'' (\<lambda>v a. a\<lparr>na_PreferedLifeTime := strtol_u32 e v\<rparr>) a2;
          a4 = on_env g ''ADDR1VALID'' (\<lambda>v a. a\<lparr>na_ValidLifeTime := strtol_u32 e v\<rparr>) a3;
          a5 = on_env g ''ADDR1T1'' (\<lambda>v a. a\<lparr>na_T1 := strtol_u32 e v\<rparr>) a4
      in on_env g ''ADDR1T2'' (\<lambda>v a. a\<lparr>na_T2 := strtol_u32 e v\<rparr>) a5)"

definition fill6_ia_pd :: "env \<Rightarrow> environ \<Rightarrow> v6_ia_pd \<Rightarrow> v6_ia_pd" where
  "fill6_ia_pd e g a0 =
     (let a1 = on_env g ''PREFIX1'' (\<lambda>v a. a\<lparr>pd_Prefix := c_trunc 48 v, pd_assigned := True\<rparr>) a0;
          a2 = on_env g ''PREFIX1LEN'' (\<lambda>v a. a\<lparr>pd_PrefixLength := strtol_u32 e v\<rparr>) a1;
          a3 = on_env g ''PREFIX1IAID'' (\<lambda>v a. a\<lparr>pd_IA_ID := strtol_u32 e v\<rparr>) a2;
          a4 = on_env g ''PREFIX1PREF'' (\<lambda>v a. a\<lparr>pd_PreferedLifeTime := strtol_u32 e v\<rparr>) a3;
          a5 = on_env g ''PREFIX1VALID'' (\<lambda>v a. a\<lparr>pd_ValidLifeTime := strtol_u32 e v\<rparr>) a4;
          a6 = on_env g ''PREFIX1T1'' (\<lambda>v a. a\<lparr>pd_T1 := strtol_u32 e v\<rparr>) a5
      in on_env g ''PREFIX1T2'' (\<lambda>v a. a\<lparr>pd_T2 := strtol_u32 e v\<rparr>) a6)"

definition fill6_dns :: "environ \<Rightarrow> v6_dns \<Rightarrow> v6_dns" where
  "fill6_dns g = on_env g ''SRV_OPTION23'' (\<lambda>v a.
     (let a1 = (case strtok '' '' (c_trunc 256 v) of
                  [] \<Rightarrow> a
                | [x] \<Rightarrow> a\<lparr>dns_nameserver := c_trunc 128 x\<rparr>
                | x # y # _ \<Rightarrow> a\<lparr>dns_nameserver := c_trunc 128 x, dns_nameserver1 := c_trunc 128 y\<rparr>)
      in a1\<lparr>dns_assigned := True\<rparr>))"

text \<open>\<open>snprintf\<close> into an array of bytes: the text and one NUL; what follows is kept.\<close>

definition print_bytes :: "nat \<Rightarrow> string \<Rightarrow> u8 list \<Rightarrow> u8 list" where
  "print_bytes n s b = (let t = map of_char (c_trunc n s) @ [0] in t @ drop (length t) b)"

definition fill6_container :: "environ \<Rightarrow> string \<Rightarrow> v6_container \<Rightarrow> v6_container" where
  "fill6_container g name = on_env g name (\<lambda>v c. c\<lparr>ct_Container := print_bytes 256 v (ct_Container c), ct_Assigned := True\<rparr>)"

definition get_and_fill_env_data_dhcp6 :: "env \<Rightarrow> environ \<Rightarrow> string \<Rightarrow> DHCPv6_PLUGIN_MSG \<Rightarrow> DHCPv6_PLUGIN_MSG" where
  "get_and_fill_env_data_dhcp6 e g opt d0 =
     (let d1 = on_env g ''IFACE'' (\<lambda>v d. d\<lparr>v6_ifname := c_trunc 32 v\<rparr>) d0;
          d2 = (if opt = ''add'' \<or> opt = ''update'' then d1\<lparr>v6_isExpired := False\<rparr>
                else if opt = ''del'' \<or> opt = ''delete'' \<or> opt = ''expire'' then d1\<lparr>v6_isExpired := True\<rparr> else d1);
          d3 = d2\<lparr>v6_ia_na := fill6_ia_na e g (v6_ia_na d2), v6_ia_pd := fill6_ia_pd e g (v6_ia_pd d2), v6_dns := fill6_dns g (v6_dns d2)\<rparr>;
          d4 = on_env g ''SRV_OPTION24'' (\<lambda>v d. d\<lparr>v6_domainName := c_trunc 64 v\<rparr>) d3;
          d5 = on_env g ''SRV_OPTION31'' (\<lambda>v d. d\<lparr>v6_ntpserver := c_trunc 128 v\<rparr>) d4;
          d6 = on_env g ''SRV_OPTION64'' (\<lambda>v d. d\<lparr>v6_aftr := trim (c_trunc 256 v)\<rparr>) d5;
          d7 = d6\<lparr>v6_mapt := fill6_container g ''SRV_OPTION95'' (v6_mapt d6), v6_mape := fill6_container g ''SRV_OPTION94'' (v6_mape d6)\<rparr>
      in on_env g ''SRV_OPTION17'' (\<lambda>v d. d\<lparr>v6_vendor := \<lparr>vd_Assigned = True, vd_Data = c_trunc 256 v, vd_Length = of_nat (length v)\<rparr>\<rparr>) d7)"

definition send_dhcp6_data_to_leaseMonitor :: "env \<Rightarrow> DHCPv6_PLUGIN_MSG \<Rightarrow> world \<Rightarrow> int \<times> world" where
  "send_dhcp6_data_to_leaseMonitor e d w = nn_push e (v6_ifname d) (Plugin_v6 d) w"

text \<open>A prefix with both lifetimes 0 that is not reported as expired: dibbler announces the end of a replaced prefix so.\<close>

definition zero_lifetimes :: "DHCPv6_PLUGIN_MSG \<Rightarrow> bool" where
  "zero_lifetimes d \<longleftrightarrow> \<not> v6_isExpired d \<and> pd_assigned (v6_ia_pd d) \<and>
     pd_PreferedLifeTime (v6_ia_pd d) = 0 \<and> pd_ValidLifeTime (v6_ia_pd d) = 0"

definition handle_dibbler_event :: "env \<Rightarrow> environ \<Rightarrow> string \<Rightarrow> world \<Rightarrow> int \<times> world" where
  "handle_dibbler_event e g opt w =
     (let d = get_and_fill_env_data_dhcp6 e g opt v6_msg_zero
      in if zero_lifetimes d then (0, w)
         else (case send_dhcp6_data_to_leaseMonitor e d w of (ret, w') \<Rightarrow> (if ret \<noteq> 0 then - 1 else ret, w')))"

definition dibbler_plugin_main :: "env \<Rightarrow> environ \<Rightarrow> string list \<Rightarrow> world \<Rightarrow> int \<times> world" where
  "dibbler_plugin_main e g argv w =
     (case argv of
        prog # opt # _ \<Rightarrow>
          if opt = [] then (- 1, w)
          else if opt = ''add'' \<or> opt = ''del'' \<or> opt = ''update'' \<or> opt = ''delete'' \<or> opt = ''expire''
          then (0, snd (handle_dibbler_event e g opt w))
          else (0, w)
      | _ \<Rightarrow> (- 1, w))"

end
