(* ===== verification/Lease_Delivery.thy ===== *)
theory Lease_Delivery
  imports Lease_Monitor Controller_Death
begin

text \<open>
  The way of a lease from the socket of the plugins to the bus: the lease monitor
  appends it to the list of the client that takes it, the controller works the
  list off. The two choose the client in different ways, which matters where two
  clients have the same interface.
\<close>

section \<open>The clients that take the leases\<close>

definition takes4 :: "string \<Rightarrow> DHCPC_LINK_OBJECT \<Rightarrow> bool" where
  "takes4 n l \<longleftrightarrow> n = c4_Interface (f4_Cfg (l4_client l)) \<and> i4_Status (f4_Info (l4_client l)) = COSA_DML_DHCP_STATUS_Enabled"

definition add_new4 :: "DHCPv4_PLUGIN_MSG list \<Rightarrow> DHCPC_LINK_OBJECT \<Rightarrow> DHCPC_LINK_OBJECT" where
  "add_new4 ls l = l\<lparr>l4_client := (l4_client l)\<lparr>f4_NewLeases := f4_NewLeases (l4_client l) @ ls\<rparr>\<rparr>"

definition add_new6 :: "DHCPv6_PLUGIN_MSG list \<Rightarrow> DHCPCV6_LINK_OBJECT \<Rightarrow> DHCPCV6_LINK_OBJECT" where
  "add_new6 ls l = l\<lparr>l6_client := (l6_client l)\<lparr>f6_NewLeases := f6_NewLeases (l6_client l) @ ls\<rparr>\<rparr>"

fun lease_for4 :: "DHCPC_LINK_OBJECT list \<Rightarrow> nat \<Rightarrow> nn_report \<Rightarrow> DHCPv4_PLUGIN_MSG list" where
  "lease_for4 t i (Nn_msg n (Plugin_v4 l)) = (if first_idx (takes4 n) t = Some i then [l] else [])"
| "lease_for4 t i _ = []"

fun lease_for6 :: "DHCPCV6_LINK_OBJECT list \<Rightarrow> nat \<Rightarrow> nn_report \<Rightarrow> DHCPv6_PLUGIN_MSG list" where
  "lease_for6 t i (Nn_msg n (Plugin_v6 l)) = (if first_idx (v6_takes n) t = Some i then [l] else [])"
| "lease_for6 t i _ = []"

abbreviation leases_for4 :: "DHCPC_LINK_OBJECT list \<Rightarrow> nat \<Rightarrow> nn_report list \<Rightarrow> DHCPv4_PLUGIN_MSG list" where
  "leases_for4 t i rs \<equiv> concat (map (lease_for4 t i) rs)"

abbreviation leases_for6 :: "DHCPCV6_LINK_OBJECT list \<Rightarrow> nat \<Rightarrow> nn_report list \<Rightarrow> DHCPv6_PLUGIN_MSG list" where
  "leases_for6 t i rs \<equiv> concat (map (lease_for6 t i) rs)"

lemma add_new_simps [simp]:
  "add_new4 [] l = l" "add_new4 ys (add_new4 xs l) = add_new4 (xs @ ys) l" "takes4 n (add_new4 xs l) = takes4 n l"
  "add_new6 [] k = k" "add_new6 vs (add_new6 us k) = add_new6 (us @ vs) k" "v6_takes n (add_new6 us k) = v6_takes n k"
  by (simp_all add: add_new4_def add_new6_def takes4_def v6_takes_def)

text \<open>A table to which leases were added: the table, with the leases that each entry got.\<close>

definition grown4 :: "(nat \<Rightarrow> DHCPv4_PLUGIN_MSG list) \<Rightarrow> DHCPC_LINK_OBJECT list \<Rightarrow> DHCPC_LINK_OBJECT list \<Rightarrow> bool" where
  "grown4 f t t' \<longleftrightarrow> length t' = length t \<and> (\<forall>i < length t. t' ! i = add_new4 (f i) (t ! i))"

definition grown6 :: "(nat \<Rightarrow> DHCPv6_PLUGIN_MSG list) \<Rightarrow> DHCPCV6_LINK_OBJECT list \<Rightarrow> DHCPCV6_LINK_OBJECT list \<Rightarrow> bool" where
  "grown6 f t t' \<longleftrightarrow> length t' = length t \<and> (\<forall>i < length t. t' ! i = add_new6 (f i) (t ! i))"

lemma grown_first:
  "grown4 f t t' \<Longrightarrow> first_idx (takes4 n) (take m t') = first_idx (takes4 n) (take m t)"
  "grown6 h u u' \<Longrightarrow> first_idx (v6_takes n) (take m u') = first_idx (v6_takes n) (take m u)"
  by (rule first_idx_cong, auto simp: grown4_def grown6_def list_all2_conv_all_nth)+

lemma grown_lease_for:
  "grown4 f t t' \<Longrightarrow> lease_for4 (take m t') i r = lease_for4 (take m t) i r"
  "grown6 h u u' \<Longrightarrow> lease_for6 (take m u') i r = lease_for6 (take m u) i r"
  by (cases "(t, i, r)" rule: lease_for4.cases; simp add: grown_first)
     (cases "(u, i, r)" rule: lease_for6.cases; simp add: grown_first)

lemma grown_trans:
  "grown4 f t t' \<Longrightarrow> grown4 g t' t'' \<Longrightarrow> grown4 (\<lambda>i. f i @ g i) t t''"
  "grown6 h u u' \<Longrightarrow> grown6 k u' u'' \<Longrightarrow> grown6 (\<lambda>i. h i @ k i) u u''"
  by (auto simp: grown4_def grown6_def)

lemma add_lease_grown:
  "grown4 (\<lambda>i. lease_for4 (take m t) i (Nn_msg n (Plugin_v4 l))) t (DHCPMgr_AddDhcpv4Lease n l m t)"
  "DHCPMgr_AddDhcpv6Lease n k m u = Some u' \<Longrightarrow> grown6 (\<lambda>i. lease_for6 (take m u) i (Nn_msg n (Plugin_v6 k))) u u'"
  unfolding DHCPMgr_AddDhcpv4Lease_def takes4_def [symmetric] DHCPMgr_AddDhcpv6Lease_def
  by (auto simp: grown4_def grown6_def update_upto_idx add_new4_def add_new6_def nth_list_update
      split: option.split if_splits)

lemma monitor_step_grown:
  assumes "monitor_step e r g = Some g'"
  shows "grown4 (\<lambda>i. lease_for4 (reach4 g) i r) (g_v4 g) (g_v4 g') \<and> grown6 (\<lambda>i. lease_for6 (reach6 g) i r) (g_v6 g) (g_v6 g') \<and>
    g_Dhcp4ClientNum g' = g_Dhcp4ClientNum g \<and> g_Dhcp6ClientNum g' = g_Dhcp6ClientNum g"
  using assms add_lease_grown
  by (cases "(g_v4 g, 0 :: nat, r)" rule: lease_for4.cases)
     (auto simp: monitor_step_def grown4_def grown6_def split: plugin_data.splits)

lemma monitor_grown:
  assumes "DhcpMgr_LeaseMonitor_Thrd e rs g = Some g'"
  shows "grown4 (\<lambda>i. leases_for4 (reach4 g) i rs) (g_v4 g) (g_v4 g') \<and> grown6 (\<lambda>i. leases_for6 (reach6 g) i rs) (g_v6 g) (g_v6 g') \<and>
    g_Dhcp4ClientNum g' = g_Dhcp4ClientNum g \<and> g_Dhcp6ClientNum g' = g_Dhcp6ClientNum g"
  using assms
proof (induction rs arbitrary: g)
  case Nil
  then show ?case by (simp add: grown4_def grown6_def)
next
  case (Cons r rs)
  then obtain g1 where g1: "monitor_step e r g = Some g1" "DhcpMgr_LeaseMonitor_Thrd e rs g1 = Some g'"
    by (auto split: option.splits)
  from monitor_step_grown [OF g1(1)] Cons.IH [OF g1(2)] show ?case
    by (auto simp: grown_lease_for dest: grown_trans)
qed

text \<open>
  Claim C20. The lease monitor loses nothing and invents nothing: over any sequence
  of messages, errors and messages of other versions or sizes among them, every
  client gets the leases of the messages for which it is the first running client
  of the named interface, among the clients that are in the persistent store, in the order of arrival, behind those that already wait;
  nothing else of the two tables changes.
\<close>

theorem monitor_delivers:
  assumes "DhcpMgr_LeaseMonitor_Thrd e rs g = Some g'"
  shows "grown4 (\<lambda>i. leases_for4 (reach4 g) i rs) (g_v4 g) (g_v4 g') \<and> grown6 (\<lambda>i. leases_for6 (reach6 g) i rs) (g_v6 g) (g_v6 g')"
  using monitor_grown [OF assms] by blast

theorem monitor_delivers_witness:
  "\<exists>g'. DhcpMgr_LeaseMonitor_Thrd env0 [Nn_error, Nn_msg ''erouter0'' (Plugin_v4 lease4), Nn_msg ''wan1'' (Plugin_v4 lease4)]
      (loaded [link4] [] world_init) = Some g' \<and> f4_NewLeases (l4_client (g_v4 g' ! 0)) = [lease4]"
proof -
  let ?rs = "[Nn_error, Nn_msg ''erouter0'' (Plugin_v4 lease4), Nn_msg ''wan1'' (Plugin_v4 lease4)]"
  let ?g = "loaded [link4] [] world_init"
  obtain g' where g': "DhcpMgr_LeaseMonitor_Thrd env0 ?rs ?g = Some g'" by (simp add: monitor_step_def)
  have "leases_for4 (reach4 ?g) 0 ?rs = [lease4]" "f4_NewLeases (l4_client link4) = []" by code_simp+
  then show ?thesis
    using monitor_delivers [OF g'] g' by (auto simp: grown4_def add_new4_def)
qed

section \<open>The controller\<close>

lemma handler4_idx:
  "Process_DHCPv4_Handler e m n t w =
     (case first_idx (for4 m) (take n t) of
        None \<Rightarrow> Some (t, w)
      | Some k \<Rightarrow> map_option (\<lambda>(l', w'). (t[k := l'], w')) (v4_handle_client e m (t ! k) w))"
proof (induction e m n t w rule: Process_DHCPv4_Handler.induct)
  case (3 e m n l t w)
  have "Process_DHCPv4_Handler e m (Suc n) (l # t) w =
      (if for4 m l then map_option (\<lambda>(l', w'). (l' # t, w')) (v4_handle_client e m l w)
       else map_option (\<lambda>(t', w'). (l # t', w')) (Process_DHCPv4_Handler e m n t w))"
    by (simp add: for4_def)
  with 3 show ?case
    by (cases "first_idx (for4 m) (take n t)"; cases "for4 m l")
      (simp_all add: for4_def [symmetric] option.map_comp comp_def split_def del: Process_DHCPv4_Handler.simps)
qed simp_all

text \<open>A client that runs and has no request open is left alone once its leases are worked off.\<close>

lemma handle_process_lease:
  assumes "di_ParamName m = ''ProcessLease''" "\<forall>l \<in> set (f4_NewLeases (l4_client k)). lease_fits e l"
    and "c4_bEnabled (f4_Cfg (l4_client k))" "\<not> c4_Renew (f4_Cfg (l4_client k))" "\<not> c4_Restart (f4_Cfg (l4_client k))"
    and "i4_Status (f4_Info (l4_client k)) = COSA_DML_DHCP_STATUS_Enabled"
  shows "\<exists>k' w'. v4_handle_client e m k w = Some (k', w') \<and> f4_NewLeases (l4_client k') = [] \<and>
    events4 (new_actions w w') = as_msg e (v4_spec False (f4_currentLease (l4_client k)) (f4_NewLeases (l4_client k)))"
proof -
  let ?c = "l4_client k"
  obtain c' w' where p: "DhcpMgr_ProcessV4Lease e ?c w = Some (c', w')" "f4_NewLeases c' = []" "f4_Cfg c' = f4_Cfg ?c"
    "events4 (new_actions w w') = as_msg e (v4_spec False (f4_currentLease ?c) (f4_NewLeases ?c))"
    using v4_lease_loop_spec [OF assms(2) refl, of False w] by (auto simp: DhcpMgr_ProcessV4Lease_def)
  have "i4_Status (f4_Info c') \<noteq> COSA_DML_DHCP_STATUS_Disabled"
    using ProcessV4Lease_keeps [OF p(1)] assms(6) by (auto simp: keeps4_def)
  then have "v4_handle_client e m k w = Some (k\<lparr>l4_client := c'\<rparr>, w')"
    using p assms(1,3-5) by (simp add: v4_handle_client_def v4_param_def v4_control_def)
  then show ?thesis using p(2,4) by auto
qed

lemma grown_for4: "grown4 f t t' \<Longrightarrow> first_idx (for4 m) (take n t') = first_idx (for4 m) (take n t)"
  by (rule first_idx_cong) (auto simp: grown4_def for4_def add_new4_def list_all2_conv_all_nth)

lemma worked_off:
  assumes "DhcpMgr_LeaseMonitor_Thrd e rs g = Some g1" "m = process_lease_msg n DML_DHCPV4"
    and "first_idx (for4 m) (reach4 g) = Some k" "c = l4_client (g_v4 g ! k)" "leases = f4_NewLeases c @ leases_for4 (reach4 g) k rs"
    and "c4_bEnabled (f4_Cfg c)" "\<not> c4_Renew (f4_Cfg c)" "\<not> c4_Restart (f4_Cfg c)"
    and "i4_Status (f4_Info c) = COSA_DML_DHCP_STATUS_Enabled" "\<forall>l \<in> set leases. lease_fits e l"
  shows "\<exists>g2. dispatch e m g1 = Some g2 \<and> f4_NewLeases (l4_client (g_v4 g2 ! k)) = [] \<and>
    events4 (new_actions (g_world g1) (g_world g2)) = as_msg e (v4_spec False (f4_currentLease c) leases)"
proof -
  have gr: "grown4 (\<lambda>i. leases_for4 (reach4 g) i rs) (g_v4 g) (g_v4 g1)" "g_Dhcp4ClientNum g1 = g_Dhcp4ClientNum g"
    using monitor_grown [OF assms(1)] by simp_all
  then have k: "first_idx (for4 m) (reach4 g1) = Some k" "k < length (g_v4 g1)"
    "g_v4 g1 ! k = add_new4 (leases_for4 (reach4 g) k rs) (g_v4 g ! k)"
    using assms(3) first_idx_take [OF assms(3)] grown_for4 [OF gr(1)] by (auto simp: grown4_def)
  obtain l' w' where "v4_handle_client e m (g_v4 g1 ! k) (g_world g1) = Some (l', w')" "f4_NewLeases (l4_client l') = []"
    "events4 (new_actions (g_world g1) w') = as_msg e (v4_spec False (f4_currentLease c) leases)"
    using handle_process_lease [of m "g_v4 g1 ! k" e "g_world g1"] assms(2,4-10) k(3)
    by (auto simp: process_lease_msg_def add_new4_def)
  then show ?thesis using k assms(2) by (simp add: dispatch_def process_lease_msg_def handler4_idx)
qed

text \<open>
  Claim C6. From the socket to the bus: where the first client of an interface, of those in the store, runs
  and has no request open, the leases that arrive for the interface, whatever
  arrives in between for others, are all worked off by the next message for them,
  and the events that go out are those that the specification of the lease handler
  gives for the leases in the order of arrival. None of them waits afterwards.
\<close>

theorem leases_reach_the_bus:
  assumes "DhcpMgr_LeaseMonitor_Thrd e rs g = Some g1" "m = process_lease_msg n DML_DHCPV4"
    and "first_idx (for4 m) (reach4 g) = Some k" "c = l4_client (g_v4 g ! k)" "leases = f4_NewLeases c @ leases_for4 (reach4 g) k rs"
    and "c4_bEnabled (f4_Cfg c)" "\<not> c4_Renew (f4_Cfg c)" "\<not> c4_Restart (f4_Cfg c)"
    and "i4_Status (f4_Info c) = COSA_DML_DHCP_STATUS_Enabled" "\<forall>l \<in> set leases. lease_fits e l"
  shows "\<exists>g2. dispatch e m g1 = Some g2 \<and> f4_NewLeases (l4_client (g_v4 g2 ! k)) = [] \<and>
    events4 (new_actions (g_world g1) (g_world g2)) = as_msg e (v4_spec False (f4_currentLease c) leases)"
  by (rule worked_off [OF assms])

theorem leases_reach_the_bus_witness:
  "\<exists>g1 g2. DhcpMgr_LeaseMonitor_Thrd env0 [Nn_msg ''erouter0'' (Plugin_v4 lease4)] (loaded [link4] [] world_init) = Some g1 \<and>
     dispatch env0 (process_lease_msg ''erouter0'' DML_DHCPV4) g1 = Some g2 \<and>
     map fst (events4 (new_actions (g_world g1) (g_world g2))) = [DHCP_LEASE_UPDATE]"
proof -
  let ?rs = "[Nn_msg ''erouter0'' (Plugin_v4 lease4)]" and ?m = "process_lease_msg ''erouter0'' DML_DHCPV4"
  let ?g = "loaded [link4] [] world_init"
  obtain g1 where g1: "DhcpMgr_LeaseMonitor_Thrd env0 ?rs ?g = Some g1" by (simp add: monitor_step_def)
  have k: "first_idx (for4 ?m) (reach4 ?g) = Some 0" "f4_NewLeases (l4_client (g_v4 ?g ! 0)) @ leases_for4 (reach4 ?g) 0 ?rs = [lease4]"
    "c4_bEnabled (f4_Cfg (l4_client (g_v4 ?g ! 0)))" "\<not> c4_Renew (f4_Cfg (l4_client (g_v4 ?g ! 0)))"
    "\<not> c4_Restart (f4_Cfg (l4_client (g_v4 ?g ! 0)))" "i4_Status (f4_Info (l4_client (g_v4 ?g ! 0))) = COSA_DML_DHCP_STATUS_Enabled"
    "\<forall>l \<in> set [lease4]. lease_fits env0 l" "map fst (as_msg env0 (v4_spec False (f4_currentLease (l4_client (g_v4 ?g ! 0))) [lease4])) = [DHCP_LEASE_UPDATE]"
    by code_simp+
  from leases_reach_the_bus [OF g1 refl k(1) refl k(2) [symmetric] k(3-7)] k(8) g1 show ?thesis by metis
qed

text \<open>
  A lease can wait forever: where the first client of an interface is
  switched off and a later one of the same interface runs, the lease monitor gives
  the lease to the client that runs, but the message for it is handled on the first
  one, which does nothing. The lease stays in the list and nothing is published.
\<close>

lemma shared_interface_lease_waits:
  assumes "DhcpMgr_LeaseMonitor_Thrd e [Nn_msg n (Plugin_v4 lease)] g = Some g1" "m = process_lease_msg n DML_DHCPV4"
    and "first_idx (for4 m) (reach4 g) = Some j" "first_idx (takes4 n) (reach4 g) = Some k" "j \<noteq> k"
    and "\<not> c4_bEnabled (f4_Cfg (l4_client (g_v4 g ! j)))" "i4_Status (f4_Info (l4_client (g_v4 g ! j))) = COSA_DML_DHCP_STATUS_Disabled"
    and "f4_NewLeases (l4_client (g_v4 g ! j)) = []"
  shows "dispatch e m g1 = Some g1 \<and> lease \<in> set (f4_NewLeases (l4_client (g_v4 g1 ! k)))"
proof -
  let ?f = "\<lambda>i. leases_for4 (reach4 g) i [Nn_msg n (Plugin_v4 lease)]"
  have gr: "grown4 ?f (g_v4 g) (g_v4 g1)" "g_Dhcp4ClientNum g1 = g_Dhcp4ClientNum g" using monitor_grown [OF assms(1)] by simp_all
  then have j: "first_idx (for4 m) (reach4 g1) = Some j" "g_v4 g1 ! j = g_v4 g ! j"
    using assms(3-5) first_idx_take [OF assms(3)] grown_for4 [OF gr(1)] by (auto simp: grown4_def)
  have "v4_handle_client e m (g_v4 g ! j) (g_world g1) = Some (g_v4 g ! j, g_world g1)"
    using assms(2,6-8) by (simp add: v4_handle_client_def v4_param_def v4_control_def process_lease_msg_def DhcpMgr_ProcessV4Lease_def)
  then have "dispatch e m g1 = Some g1"
    using j assms(2) list_update_id [of "g_v4 g1" j] by (simp add: dispatch_def process_lease_msg_def handler4_idx)
  moreover have "lease \<in> set (f4_NewLeases (l4_client (g_v4 g1 ! k)))"
    using gr first_idx_take [OF assms(4)] assms(4) by (simp add: grown4_def add_new4_def)
  ultimately show ?thesis by simp
qed

definition link4_off :: DHCPC_LINK_OBJECT where
  "link4_off = link4\<lparr>l4_client := status4 COSA_DML_DHCP_STATUS_Disabled (set4 (c4_bEnabled_update (\<lambda>_. False)) client4)\<rparr>"

theorem shared_interface_lease_waits_witness:
  "\<exists>g1. DhcpMgr_LeaseMonitor_Thrd env0 [Nn_msg ''erouter0'' (Plugin_v4 lease4)]
      (loaded [link4_off, link4] [] world_init) = Some g1 \<and>
     dispatch env0 (process_lease_msg ''erouter0'' DML_DHCPV4) g1 = Some g1"
proof -
  let ?g = "loaded [link4_off, link4] [] world_init" and ?m = "process_lease_msg ''erouter0'' DML_DHCPV4"
  obtain g1 where g1: "DhcpMgr_LeaseMonitor_Thrd env0 [Nn_msg ''erouter0'' (Plugin_v4 lease4)] ?g = Some g1"
    by (simp add: monitor_step_def)
  have k: "first_idx (for4 ?m) (reach4 ?g) = Some 0" "first_idx (takes4 ''erouter0'') (reach4 ?g) = Some 1" "(0 :: nat) \<noteq> 1"
    "\<not> c4_bEnabled (f4_Cfg (l4_client (g_v4 ?g ! 0)))" "i4_Status (f4_Info (l4_client (g_v4 ?g ! 0))) = COSA_DML_DHCP_STATUS_Disabled"
    "f4_NewLeases (l4_client (g_v4 ?g ! 0)) = []"
    by code_simp+
  from shared_interface_lease_waits [OF g1 refl k] g1 show ?thesis by blast
qed

end
