(* ===== verification/Plugin_Spec.thy ===== *)
theory Plugin_Spec
  imports Plugins Lease_Delivery
begin

text \<open>
  What the plugins (\<open>Plugins\<close>) promise: a lease is delivered at most once, the
  DHCPv6 leases are well formed, the hexadecimal timers have their value, and, together
  with the lease monitor and the controller, the way of a lease from the environment
  of the plugin to the bus.
\<close>

section \<open>Delivery\<close>

text \<open>The messages that the socket took, in order: the sends that returned a positive number of bytes.\<close>

fun taken :: "env \<Rightarrow> action list \<Rightarrow> action list \<Rightarrow> (string \<times> plugin_data) list" where
  "taken e tr [] = []"
| "taken e tr (a # as) =
     (case a of A_nn_send n d \<Rightarrow> (if 0 < e_ret e (tr @ [a]) then [(n, d)] else []) | _ \<Rightarrow> []) @ taken e (tr @ [a]) as"

definition msg_delivered :: "env \<Rightarrow> world \<Rightarrow> world \<Rightarrow> (string \<times> plugin_data) list" where
  "msg_delivered e w w' = taken e (w_trace w) (new_actions w w')"

lemma taken_append: "taken e tr (as @ bs) = taken e tr as @ taken e (tr @ as) bs"
  by (induction as arbitrary: tr) auto

lemma delivered_trans:
  assumes "extends u v" "extends v w"
  shows "msg_delivered e u w = msg_delivered e u v @ msg_delivered e v w"
  using extends_trace [OF assms(1)] by (simp add: msg_delivered_def new_actions_trans [OF assms] taken_append)

lemma delivered_self [simp]: "msg_delivered e w w = []"
  by (simp add: msg_delivered_def)

definition sends :: "world \<Rightarrow> world \<Rightarrow> nat" where
  "sends w w' = length (filter (\<lambda>a. case a of A_nn_send n d \<Rightarrow> True | _ \<Rightarrow> False) (new_actions w w'))"

lemma sends_trans:
  assumes "extends u v" "extends v w"
  shows "sends u w = sends u v + sends v w"
  by (simp add: sends_def new_actions_trans [OF assms])

lemma send_loop_once:
  assumes "send_loop e k b n d w = (r, w')" "b < 0"
  shows "extends w w' \<and> sends w w' \<le> k \<and> msg_delivered e w w' = (if 0 < r then [(n, d)] else [])"
  using assms
proof (induction k arbitrary: b w)
  case 0
  then show ?case by (auto simp: sends_def)
next
  case (Suc k)
  let ?a = "A_nn_send n d"
  let ?b = "e_ret e (w_trace w @ [?a])"
  have one: "extends w (act ?a w)" "sends w (act ?a w) = 1" "msg_delivered e w (act ?a w) = (if 0 < ?b then [(n, d)] else [])"
    by (simp_all add: sends_def msg_delivered_def)
  show ?case
  proof (cases "?b < 0")
    case True
    then have "send_loop e k ?b n d (act ?a w) = (r, w')" using Suc.prems(1) by (simp add: case_prod_beta fst_call)
    from Suc.IH [OF this True] have ih: "extends (act ?a w) w'" "sends (act ?a w) w' \<le> k"
      "msg_delivered e (act ?a w) w' = (if 0 < r then [(n, d)] else [])" by auto
    show ?thesis
      using ih(2,3) one(2,3) True extends_trans [OF one(1) ih(1)] sends_trans [OF one(1) ih(1)] delivered_trans [OF one(1) ih(1)]
      by auto
  next
    case False
    then have "r = ?b" "w' = act ?a w" using Suc.prems(1) by (simp_all add: case_prod_beta fst_call)
    then show ?thesis using one by auto
  qed
qed

lemma nn_push_once:
  assumes "nn_push e n d w = (r, w')"
  shows "extends w w' \<and> sends w w' \<le> MAX_SEND_THRESHOLD \<and> r \<in> {0, - 1} \<and> msg_delivered e w w' = (if r = 0 then [(n, d)] else [])"
proof -
  let ?w1 = "act A_nn_socket w" and ?c = "A_nn_connect DHCP_MANAGER_ADDR"
  let ?w2 = "act ?c ?w1"
  obtain b w3 where s: "send_loop e MAX_SEND_THRESHOLD (- 1) n d ?w2 = (b, w3)" by fastforce
  have s': "extends ?w2 w3" "sends ?w2 w3 \<le> MAX_SEND_THRESHOLD" "msg_delivered e ?w2 w3 = (if 0 < b then [(n, d)] else [])"
    using send_loop_once [OF s] by auto
  have pre: "extends w ?w2" "sends w ?w2 = 0" "msg_delivered e w ?w2 = []"
    by (auto simp: extends_def sends_def new_actions_def msg_delivered_def)
  have post: "extends w3 (act A_nn_close w3)" "sends w3 (act A_nn_close w3) = 0" "msg_delivered e w3 (act A_nn_close w3) = []"
    by (simp_all add: sends_def msg_delivered_def)
  consider "e_ret e (w_trace ?w1) < 0" "(r, w') = (- 1, ?w1)"
    | "0 \<le> e_ret e (w_trace ?w1)" "e_ret e (w_trace ?w2) < 0" "(r, w') = (- 1, act A_nn_close ?w2)"
    | "(r, w') = (if 0 < b then 0 else - 1, act A_nn_close w3)"
    using assms s by (auto simp: nn_push_def call_def Let_def split: if_splits)
  then show ?thesis
  proof cases
    case 3
    have x: "extends w w3" using extends_trans [OF pre(1) s'(1)] .
    show ?thesis
      using 3 pre(2,3) s'(2,3) post sends_trans [OF pre(1) s'(1)] delivered_trans [OF pre(1) s'(1), of e]
        sends_trans [OF x post(1)] delivered_trans [OF x post(1), of e] extends_trans [OF x post(1)] by (auto split: if_splits)
  qed (auto simp: extends_def sends_def new_actions_def msg_delivered_def)
qed

section \<open>The lease of an environment\<close>

lemma case_option_same [simp]: "(case x of None \<Rightarrow> y | Some _ \<Rightarrow> y) = y"
  by (cases x) simp_all

lemma on_env_keep: "(\<And>v d. P (f v d) = P d) \<Longrightarrow> P (on_env g name f d) = P d"
  by (simp add: on_env_def split: option.split)

lemma on_env_set: "(\<And>v d. P (f v d) = h v) \<Longrightarrow> P (on_env g name f d) = (case g name of None \<Rightarrow> P d | Some v \<Rightarrow> h v)"
  by (simp add: on_env_def split: option.split)

lemmas on_env_keep4 =
  on_env_keep [where P = v4_addressAssigned] on_env_keep [where P = v4_isExpired] on_env_keep [where P = v4_address]
  on_env_keep [where P = v4_netmask] on_env_keep [where P = v4_gateway] on_env_keep [where P = v4_dnsServer]
  on_env_keep [where P = v4_dnsServer1] on_env_keep [where P = v4_ifname] on_env_keep [where P = v4_timeZone]
  on_env_keep [where P = v4_dhcpServerId] on_env_keep [where P = v4_dhcpState] on_env_keep [where P = v4_mtuAssigned]
  on_env_keep [where P = v4_sipSrv] on_env_keep [where P = v4_staticRoutes] on_env_keep [where P = v4_cTftpServer]
  on_env_keep [where P = v4_cHostName] on_env_keep [where P = v4_cDomainName] on_env_keep [where P = v4_mtaOption]
  on_env_keep [where P = "\<lambda>d. option_122 (v4_mtaOption d)"]
  on_env_keep [where P = "\<lambda>d. option_125 (v4_mtaOption d)"]
  on_env_keep [where P = "\<lambda>d. cOption67 (v4_mtaOption d)"]

lemmas on_env_set4 =
  on_env_set [where P = v4_ifname and f = "\<lambda>v d. d\<lparr>v4_ifname := h v\<rparr>" and h = h for h, simplified]
  on_env_set [where P = v4_sipSrv and f = "\<lambda>v d. d\<lparr>v4_sipSrv := h v\<rparr>" and h = h for h, simplified]
  on_env_set [where P = v4_staticRoutes and f = "\<lambda>v d. d\<lparr>v4_staticRoutes := h v\<rparr>" and h = h for h, simplified]
  on_env_set [where P = v4_dhcpServerId and f = "\<lambda>v d. d\<lparr>v4_dhcpServerId := h v\<rparr>" and h = h for h, simplified]
  on_env_set [where P = v4_address and f = "\<lambda>v d. d\<lparr>v4_address := h v\<rparr>" and h = h for h, simplified]
  on_env_set [where P = v4_netmask and f = "\<lambda>v d. d\<lparr>v4_netmask := h v\<rparr>" and h = h for h, simplified]
  on_env_set [where P = v4_cTftpServer and f = "\<lambda>v d. d\<lparr>v4_cTftpServer := h v\<rparr>" and h = h for h, simplified]
  on_env_set [where P = v4_cHostName and f = "\<lambda>v d. d\<lparr>v4_cHostName := h v\<rparr>" and h = h for h, simplified]
  on_env_set [where P = v4_cDomainName and f = "\<lambda>v d. d\<lparr>v4_cDomainName := h v\<rparr>" and h = h for h, simplified]
  on_env_set [where P = "\<lambda>d. option_122 (v4_mtaOption d)" and
    f = "\<lambda>v d. d\<lparr>v4_mtaOption := (v4_mtaOption d)\<lparr>option_122 := h v, Assigned122 := True\<rparr>\<rparr>" and h = h for h, simplified]
  on_env_set [where P = "\<lambda>d. option_125 (v4_mtaOption d)" and
    f = "\<lambda>v d. d\<lparr>v4_mtaOption := (v4_mtaOption d)\<lparr>option_125 := h v, Assigned125 := True\<rparr>\<rparr>" and h = h for h, simplified]
  on_env_set [where P = "\<lambda>d. cOption67 (v4_mtaOption d)" and
    f = "\<lambda>v d. d\<lparr>v4_mtaOption := (v4_mtaOption d)\<lparr>cOption67 := h v\<rparr>\<rparr>" and h = h for h, simplified]

definition env_text :: "environ \<Rightarrow> string \<Rightarrow> nat \<Rightarrow> string" where
  "env_text g name n = (case g name of None \<Rightarrow> [] | Some v \<Rightarrow> c_strncpy n v)"

definition dns_words :: "environ \<Rightarrow> string list" where
  "dns_words g = (case g ''dns'' of None \<Rightarrow> [] | Some v \<Rightarrow> take 2 (strtok '' '' (c_trunc 256 v)))"

definition nth_word :: "nat \<Rightarrow> string list \<Rightarrow> string" where
  "nth_word i ws = (if i < length ws then c_strncpy 64 (ws ! i) else [])"

abbreviation lease_of_env :: "env \<Rightarrow> environ \<Rightarrow> string \<Rightarrow> DHCPv4_PLUGIN_MSG" where
  "lease_of_env e g opt \<equiv> get_and_fill_env_data e g (init_udhcpc_env g opt) v4_msg_zero"

lemma fill4_common_fields:
  "v4_ifname (fill4_common g p v4_msg_zero) = env_text g ''interface'' 32"
  "v4_dhcpServerId (fill4_common g p v4_msg_zero) = env_text g ''serverid'' 64"
  "v4_dhcpState (fill4_common g p v4_msg_zero) = c_strncpy 64 (ue_input_option p)"
  "v4_sipSrv (fill4_common g p v4_msg_zero) = env_text g ''sipsrv'' 64"
  "v4_staticRoutes (fill4_common g p v4_msg_zero) = env_text g ''staticroutes'' 64"
  "v4_address (fill4_common g p v4_msg_zero) = []" "v4_netmask (fill4_common g p v4_msg_zero) = []"
  "v4_gateway (fill4_common g p v4_msg_zero) = []" "v4_dnsServer (fill4_common g p v4_msg_zero) = []"
  "v4_dnsServer1 (fill4_common g p v4_msg_zero) = []" "v4_timeZone (fill4_common g p v4_msg_zero) = []"
  "v4_cTftpServer (fill4_common g p v4_msg_zero) = []" "v4_cHostName (fill4_common g p v4_msg_zero) = []"
  "v4_cDomainName (fill4_common g p v4_msg_zero) = []" "\<not> v4_mtuAssigned (fill4_common g p v4_msg_zero)"
  "option_122 (v4_mtaOption (fill4_common g p v4_msg_zero)) = []" "option_125 (v4_mtaOption (fill4_common g p v4_msg_zero)) = []"
  "cOption67 (v4_mtaOption (fill4_common g p v4_msg_zero)) = []"
  by (simp_all add: fill4_common_def env_text_def Let_def on_env_keep4 on_env_set4 v4_msg_zero_def cong: option.case_cong)

lemma fill4_addresses_fields:
  "v4_address (fill4_addresses g (init_udhcpc_env g opt) d) = (case g ''ip'' of None \<Rightarrow> v4_address d | Some v \<Rightarrow> c_strncpy 32 v)"
  "v4_netmask (fill4_addresses g (init_udhcpc_env g opt) d) = (case g ''subnet'' of None \<Rightarrow> v4_netmask d | Some v \<Rightarrow> c_strncpy 32 v)"
  "v4_gateway (fill4_addresses g (init_udhcpc_env g opt) d) = (case g ''router'' of None \<Rightarrow> v4_gateway d | Some v \<Rightarrow> c_strncpy 32 v)"
  by (simp_all add: fill4_addresses_def init_udhcpc_env_def Let_def on_env_keep4 on_env_set4 split: option.split list.split cong: option.case_cong)

lemma fill4_addresses_dns:
  assumes "v4_dnsServer d = []" "v4_dnsServer1 d = []"
  shows "v4_dnsServer (fill4_addresses g (init_udhcpc_env g opt) d) = nth_word 0 (dns_words g)"
    "v4_dnsServer1 (fill4_addresses g (init_udhcpc_env g opt) d) = nth_word 1 (dns_words g)"
  using assms by (simp_all add: fill4_addresses_def init_udhcpc_env_def Let_def on_env_keep4 dns_words_def nth_word_def
      split: option.split list.split)

text \<open>The fields that a part of the filling leaves alone.\<close>

lemma fill4_addresses_keeps [simp]:
  "v4_ifname (fill4_addresses g p d) = v4_ifname d" "v4_timeZone (fill4_addresses g p d) = v4_timeZone d"
  "v4_dhcpServerId (fill4_addresses g p d) = v4_dhcpServerId d" "v4_dhcpState (fill4_addresses g p d) = v4_dhcpState d"
  "v4_mtaOption (fill4_addresses g p d) = v4_mtaOption d" "v4_cTftpServer (fill4_addresses g p d) = v4_cTftpServer d"
  "v4_cHostName (fill4_addresses g p d) = v4_cHostName d" "v4_cDomainName (fill4_addresses g p d) = v4_cDomainName d"
  "v4_sipSrv (fill4_addresses g p d) = v4_sipSrv d" "v4_staticRoutes (fill4_addresses g p d) = v4_staticRoutes d"
  "v4_addressAssigned (fill4_addresses g p d) = v4_addressAssigned d" "v4_isExpired (fill4_addresses g p d) = v4_isExpired d"
  "v4_mtuAssigned (fill4_addresses g p d) = v4_mtuAssigned d"
  by (simp_all add: fill4_addresses_def Let_def on_env_keep4 split: option.split list.split)

lemma fill4_times_keeps [simp]:
  "v4_ifname (fill4_times e g d) = v4_ifname d" "v4_timeZone (fill4_times e g d) = v4_timeZone d"
  "v4_dhcpServerId (fill4_times e g d) = v4_dhcpServerId d" "v4_dhcpState (fill4_times e g d) = v4_dhcpState d"
  "v4_mtaOption (fill4_times e g d) = v4_mtaOption d" "v4_cTftpServer (fill4_times e g d) = v4_cTftpServer d"
  "v4_cHostName (fill4_times e g d) = v4_cHostName d" "v4_cDomainName (fill4_times e g d) = v4_cDomainName d"
  "v4_sipSrv (fill4_times e g d) = v4_sipSrv d" "v4_staticRoutes (fill4_times e g d) = v4_staticRoutes d"
  "v4_addressAssigned (fill4_times e g d) = v4_addressAssigned d" "v4_isExpired (fill4_times e g d) = v4_isExpired d"
  "v4_mtuAssigned (fill4_times e g d) = v4_mtuAssigned d" "v4_address (fill4_times e g d) = v4_address d"
  "v4_netmask (fill4_times e g d) = v4_netmask d" "v4_gateway (fill4_times e g d) = v4_gateway d"
  "v4_dnsServer (fill4_times e g d) = v4_dnsServer d" "v4_dnsServer1 (fill4_times e g d) = v4_dnsServer1 d"
  by (simp_all add: fill4_times_def Let_def on_env_keep4 split: option.split)

lemma fill4_options_keeps [simp]:
  "v4_ifname (fill4_options e g d) = v4_ifname d" "v4_timeZone (fill4_options e g d) = v4_timeZone d"
  "v4_dhcpServerId (fill4_options e g d) = v4_dhcpServerId d" "v4_dhcpState (fill4_options e g d) = v4_dhcpState d"
  "v4_sipSrv (fill4_options e g d) = v4_sipSrv d" "v4_staticRoutes (fill4_options e g d) = v4_staticRoutes d"
  "v4_addressAssigned (fill4_options e g d) = v4_addressAssigned d" "v4_isExpired (fill4_options e g d) = v4_isExpired d"
  "v4_mtuAssigned (fill4_options e g d) = v4_mtuAssigned d" "v4_address (fill4_options e g d) = v4_address d"
  "v4_netmask (fill4_options e g d) = v4_netmask d" "v4_gateway (fill4_options e g d) = v4_gateway d"
  "v4_dnsServer (fill4_options e g d) = v4_dnsServer d" "v4_dnsServer1 (fill4_options e g d) = v4_dnsServer1 d"
  by (simp_all add: fill4_options_def Let_def on_env_keep4 on_env_set4 cong: option.case_cong)

lemma fill4_options_fields:
  "v4_cTftpServer (fill4_options e g d) = (case g ''siaddr'' of None \<Rightarrow> v4_cTftpServer d | Some v \<Rightarrow> c_strncpy 64 v)"
  "v4_cHostName (fill4_options e g d) = (case g ''hostname'' of None \<Rightarrow> v4_cHostName d | Some v \<Rightarrow> c_strncpy 64 v)"
  "v4_cDomainName (fill4_options e g d) = (case g ''domain'' of None \<Rightarrow> v4_cDomainName d | Some v \<Rightarrow> c_strncpy 64 v)"
  "option_122 (v4_mtaOption (fill4_options e g d)) = (case g ''opt122'' of None \<Rightarrow> option_122 (v4_mtaOption d) | Some v \<Rightarrow> c_strncpy 256 v)"
  "option_125 (v4_mtaOption (fill4_options e g d)) = (case g ''opt125'' of None \<Rightarrow> option_125 (v4_mtaOption d) | Some v \<Rightarrow> c_strncpy 256 v)"
  "cOption67 (v4_mtaOption (fill4_options e g d)) = (case g ''bootfile'' of None \<Rightarrow> cOption67 (v4_mtaOption d) | Some v \<Rightarrow> c_strncpy 64 v)"
  by (simp_all add: fill4_options_def Let_def on_env_keep4 on_env_set4 cong: option.case_cong)

lemma init_udhcpc_option: "ue_input_option (init_udhcpc_env g opt) = opt"
  by (simp add: init_udhcpc_env_def)

lemma lease_of_bound:
  assumes "opt = ''bound'' \<or> opt = ''renew''"
  shows "printed4 (lease_of_env e g opt) = [(32, env_text g ''ip'' 32), (32, env_text g ''subnet'' 32), (32, env_text g ''router'' 32),
      (64, nth_word 0 (dns_words g)), (64, nth_word 1 (dns_words g)), (32, env_text g ''interface'' 32), (64, []),
      (64, env_text g ''serverid'' 64), (64, c_strncpy 64 opt), (256, env_text g ''opt122'' 256), (256, env_text g ''opt125'' 256),
      (64, env_text g ''bootfile'' 64), (64, env_text g ''siaddr'' 64), (64, env_text g ''hostname'' 64), (64, env_text g ''domain'' 64)]"
    "v4_addressAssigned (lease_of_env e g opt)" "\<not> v4_isExpired (lease_of_env e g opt)"
proof -
  let ?p = "init_udhcpc_env g opt"
  let ?d = "fill4_common g ?p v4_msg_zero"
  have f: "lease_of_env e g opt = fill4_options e g (fill4_times e g (fill4_addresses g ?p (?d\<lparr>v4_addressAssigned := True, v4_isExpired := False\<rparr>)))"
    unfolding get_and_fill_env_data_def Let_def init_udhcpc_option if_P [OF assms] ..
  show "printed4 (lease_of_env e g opt) = [(32, env_text g ''ip'' 32), (32, env_text g ''subnet'' 32), (32, env_text g ''router'' 32),
      (64, nth_word 0 (dns_words g)), (64, nth_word 1 (dns_words g)), (32, env_text g ''interface'' 32), (64, []),
      (64, env_text g ''serverid'' 64), (64, c_strncpy 64 opt), (256, env_text g ''opt122'' 256), (256, env_text g ''opt125'' 256),
      (64, env_text g ''bootfile'' 64), (64, env_text g ''siaddr'' 64), (64, env_text g ''hostname'' 64), (64, env_text g ''domain'' 64)]"
    unfolding f by (simp add: printed4_def fill4_addresses_fields fill4_addresses_dns fill4_options_fields fill4_common_fields
        env_text_def init_udhcpc_option cong: option.case_cong)
  show "v4_addressAssigned (lease_of_env e g opt)" "\<not> v4_isExpired (lease_of_env e g opt)" unfolding f by simp_all
qed

lemma lease_of_expired:
  assumes "opt = ''leasefail'' \<or> opt = ''deconfig''"
  shows "printed4 (lease_of_env e g opt) = [(32, []), (32, []), (32, []), (64, []), (64, []), (32, env_text g ''interface'' 32), (64, []),
      (64, env_text g ''serverid'' 64), (64, c_strncpy 64 opt), (256, []), (256, []), (64, []), (64, []), (64, []), (64, [])]"
    "\<not> v4_addressAssigned (lease_of_env e g opt)" "v4_isExpired (lease_of_env e g opt)"
proof -
  have f: "lease_of_env e g opt = (fill4_common g (init_udhcpc_env g opt) v4_msg_zero)\<lparr>v4_isExpired := True, v4_addressAssigned := False\<rparr>"
    using assms by (elim disjE) (simp_all add: get_and_fill_env_data_def Let_def init_udhcpc_option)
  show "printed4 (lease_of_env e g opt) = [(32, []), (32, []), (32, []), (64, []), (64, []), (32, env_text g ''interface'' 32), (64, []),
      (64, env_text g ''serverid'' 64), (64, c_strncpy 64 opt), (256, []), (256, []), (64, []), (64, []), (64, []), (64, [])]"
    "\<not> v4_addressAssigned (lease_of_env e g opt)" "v4_isExpired (lease_of_env e g opt)"
    unfolding f by (simp_all add: printed4_def fill4_common_fields init_udhcpc_option)
qed

definition plugin4_event :: "string \<Rightarrow> bool" where
  "plugin4_event opt \<longleftrightarrow> opt = ''bound'' \<or> opt = ''renew'' \<or> opt = ''leasefail'' \<or> opt = ''deconfig''"

lemma udhcpc_plugin_event:
  assumes "plugin4_event opt"
  shows "udhcpc_plugin_main e g (prog # opt # rest) w =
    (if list_all (\<lambda>(n, s). terminated n s) (printed4 (lease_of_env e g opt))
     then Some (0, snd (nn_push e (v4_ifname (lease_of_env e g opt)) (Plugin_v4 (lease_of_env e g opt)) w)) else None)"
proof -
  let ?l = "lease_of_env e g opt"
  have t: "list_all (\<lambda>(n, s). terminated n s) (printed4 ?l) \<Longrightarrow> terminated 32 (v4_ifname ?l)" by (simp add: printed4_def)
  have "opt \<noteq> ''leasefail'' \<or> opt \<noteq> ''deconfig''" by auto
  then show ?thesis
    using assms t by (auto simp: init_udhcpc_option udhcpc_plugin_main_def handle_events_def send_dhcp4_data_to_leaseMonitor_def Let_def plugin4_event_def
        case_prod_beta)
qed

section \<open>Well-formed messages\<close>

definition container_ok :: "v6_container \<Rightarrow> bool" where
  "container_ok c \<longleftrightarrow> length (ct_Container c) = 256 \<and> 0 \<in> set (ct_Container c)"

definition v6_msg_ok :: "DHCPv6_PLUGIN_MSG \<Rightarrow> bool" where
  "v6_msg_ok l \<longleftrightarrow> length (v6_ifname l) < 32 \<and> length (na_address (v6_ia_na l)) < 48 \<and> length (pd_Prefix (v6_ia_pd l)) < 48 \<and>
     length (dns_nameserver (v6_dns l)) < 128 \<and> length (dns_nameserver1 (v6_dns l)) < 128 \<and> container_ok (v6_mapt l) \<and>
     container_ok (v6_mape l) \<and> length (vd_Data (v6_vendor l)) < 256 \<and> length (v6_domainName l) < 64 \<and>
     length (v6_ntpserver l) < 128 \<and> length (v6_aftr l) < 256 \<and> \<not> zero_lifetimes l"

lemma length_trim: "length (trim s) \<le> length s"
  using length_dropWhile_le [of is_space s] length_dropWhile_le [of is_space "rev (dropWhile is_space s)"]
  by (simp add: trim_def Let_def)

lemma print_bytes_ok: "length b = 256 \<Longrightarrow> length (print_bytes 256 s b) = 256 \<and> 0 \<in> set (print_bytes 256 s b)"
  using length_c_trunc [of 256 s] by (simp add: print_bytes_def Let_def le_diff_conv2)

lemma fill6_container_ok: "container_ok c \<Longrightarrow> container_ok (fill6_container g name c)"
  using print_bytes_ok by (simp add: fill6_container_def container_ok_def on_env_def split: option.split)

lemma zero_container_ok: "container_ok \<lparr>ct_Assigned = False, ct_Container = replicate 256 0\<rparr>"
  by (simp add: container_ok_def)

lemmas on_env_keep6 =
  on_env_keep [where P = v6_ifname] on_env_keep [where P = v6_isExpired] on_env_keep [where P = v6_ia_na]
  on_env_keep [where P = v6_ia_pd] on_env_keep [where P = v6_dns] on_env_keep [where P = v6_mapt] on_env_keep [where P = v6_mape]
  on_env_keep [where P = v6_vendor] on_env_keep [where P = v6_domainName] on_env_keep [where P = v6_ntpserver]
  on_env_keep [where P = v6_aftr]

lemmas on_env_set6 =
  on_env_set [where P = v6_ifname and f = "\<lambda>v d. d\<lparr>v6_ifname := h v\<rparr>" and h = h for h, simplified]
  on_env_set [where P = v6_vendor and f = "\<lambda>v d. d\<lparr>v6_vendor := h v\<rparr>" and h = h for h, simplified]
  on_env_set [where P = v6_domainName and f = "\<lambda>v d. d\<lparr>v6_domainName := h v\<rparr>" and h = h for h, simplified]
  on_env_set [where P = v6_ntpserver and f = "\<lambda>v d. d\<lparr>v6_ntpserver := h v\<rparr>" and h = h for h, simplified]
  on_env_set [where P = v6_aftr and f = "\<lambda>v d. d\<lparr>v6_aftr := h v\<rparr>" and h = h for h, simplified]

abbreviation lease6_of_env :: "env \<Rightarrow> environ \<Rightarrow> string \<Rightarrow> DHCPv6_PLUGIN_MSG" where
  "lease6_of_env e g opt \<equiv> get_and_fill_env_data_dhcp6 e g opt v6_msg_zero"

lemma lease6_fields:
  "v6_ifname (lease6_of_env e g opt) = (case g ''IFACE'' of None \<Rightarrow> [] | Some v \<Rightarrow> c_trunc 32 v)"
  "v6_isExpired (lease6_of_env e g opt) = (opt = ''del'' \<or> opt = ''delete'' \<or> opt = ''expire'')"
  "v6_ia_na (lease6_of_env e g opt) = fill6_ia_na e g (v6_ia_na v6_msg_zero)"
  "v6_ia_pd (lease6_of_env e g opt) = fill6_ia_pd e g (v6_ia_pd v6_msg_zero)"
  "v6_dns (lease6_of_env e g opt) = fill6_dns g (v6_dns v6_msg_zero)"
  "v6_mapt (lease6_of_env e g opt) = fill6_container g ''SRV_OPTION95'' (v6_mapt v6_msg_zero)"
  "v6_mape (lease6_of_env e g opt) = fill6_container g ''SRV_OPTION94'' (v6_mape v6_msg_zero)"
  "v6_vendor (lease6_of_env e g opt) = (case g ''SRV_OPTION17'' of None \<Rightarrow> v6_vendor v6_msg_zero
     | Some v \<Rightarrow> \<lparr>vd_Assigned = True, vd_Data = c_trunc 256 v, vd_Length = of_nat (length v)\<rparr>)"
  "v6_domainName (lease6_of_env e g opt) = (case g ''SRV_OPTION24'' of None \<Rightarrow> [] | Some v \<Rightarrow> c_trunc 64 v)"
  "v6_ntpserver (lease6_of_env e g opt) = (case g ''SRV_OPTION31'' of None \<Rightarrow> [] | Some v \<Rightarrow> c_trunc 128 v)"
  "v6_aftr (lease6_of_env e g opt) = (case g ''SRV_OPTION64'' of None \<Rightarrow> [] | Some v \<Rightarrow> trim (c_trunc 256 v))"
  by (simp_all add: get_and_fill_env_data_dhcp6_def Let_def on_env_keep6 on_env_set6 v6_msg_zero_def cong: option.case_cong)

lemma fill6_lengths:
  "length (na_address (fill6_ia_na e g (v6_ia_na v6_msg_zero))) < 48" "length (pd_Prefix (fill6_ia_pd e g (v6_ia_pd v6_msg_zero))) < 48"
  "length (dns_nameserver (fill6_dns g (v6_dns v6_msg_zero))) < 128" "length (dns_nameserver1 (fill6_dns g (v6_dns v6_msg_zero))) < 128"
  by (simp_all add: fill6_ia_na_def fill6_ia_pd_def fill6_dns_def Let_def v6_msg_zero_def length_c_trunc
      on_env_keep [where P = na_address] on_env_keep [where P = pd_Prefix] on_env_def [of g "''ADDR1''"] on_env_def [of g "''PREFIX1''"]
      on_env_def [of g "''SRV_OPTION23''"] split: option.split list.split)

lemma lease6_of_typed:
  assumes "\<not> zero_lifetimes (lease6_of_env e g opt)"
  shows "v6_msg_ok (lease6_of_env e g opt)"
proof -
  have "length (v6_aftr (lease6_of_env e g opt)) < 256"
    using le_less_trans [OF length_trim length_c_trunc [of 256]] by (simp add: lease6_fields split: option.split)
  moreover have "container_ok (v6_mapt v6_msg_zero)" "container_ok (v6_mape v6_msg_zero)"
    using zero_container_ok by (simp_all add: v6_msg_zero_def)
  moreover have "length (vd_Data (v6_vendor (lease6_of_env e g opt))) < 256"
    unfolding lease6_fields by (simp add: v6_msg_zero_def length_c_trunc split: option.split)
  ultimately show ?thesis
    using assms fill6_container_ok fill6_lengths
    by (simp add: v6_msg_ok_def lease6_fields(1,3-7,9,10) length_c_trunc split: option.split)
qed

definition plugin6_event :: "string \<Rightarrow> bool" where
  "plugin6_event opt \<longleftrightarrow> opt = ''add'' \<or> opt = ''del'' \<or> opt = ''update'' \<or> opt = ''delete'' \<or> opt = ''expire''"

lemma dibbler_plugin_event:
  assumes "plugin6_event opt"
  shows "dibbler_plugin_main e g (prog # opt # rest) w =
    (0, if zero_lifetimes (lease6_of_env e g opt) then w
        else snd (nn_push e (v6_ifname (lease6_of_env e g opt)) (Plugin_v6 (lease6_of_env e g opt)) w))"
proof -
  have "opt \<noteq> []" using assms by (auto simp: plugin6_event_def)
  then show ?thesis
    using assms by (simp add: dibbler_plugin_main_def plugin6_event_def handle_dibbler_event_def send_dhcp6_data_to_leaseMonitor_def
        Let_def case_prod_beta)
qed

lemma dibbler_plugin_typed:
  "(n, Plugin_v6 l) \<in> set (msg_delivered e w (snd (dibbler_plugin_main e g argv w))) \<Longrightarrow> v6_msg_ok l"
proof -
  assume d: "(n, Plugin_v6 l) \<in> set (msg_delivered e w (snd (dibbler_plugin_main e g argv w)))"
  have "\<exists>prog opt rest. argv = prog # opt # rest \<and> plugin6_event opt"
  proof (rule ccontr)
    assume "\<not> ?thesis"
    then have "snd (dibbler_plugin_main e g argv w) = w"
      by (auto simp: dibbler_plugin_main_def plugin6_event_def split: list.split)
    with d show False by simp
  qed
  then obtain prog opt rest where a: "argv = prog # opt # rest" "plugin6_event opt" by blast
  let ?l = "lease6_of_env e g opt"
  have z: "\<not> zero_lifetimes ?l" using d by (auto simp: a dibbler_plugin_event)
  then have "l = ?l" using d nn_push_once [where e = e and w = w, OF surjective_pairing] by (auto simp: a dibbler_plugin_event split: if_splits)
  with lease6_of_typed [OF z] show ?thesis by simp
qed

text \<open>
  What the socket of the lease monitor gets: failures of the socket, any message that
  is not a DHCPv6 lease, and the leases that a run of the plugin of dibbler delivered.
\<close>

inductive from_dibbler :: "nn_report \<Rightarrow> bool" where
  socket_error: "from_dibbler Nn_error"
| socket_size: "from_dibbler Nn_bad_size"
| other_v4: "from_dibbler (Nn_msg n (Plugin_v4 l))"
| other_version: "from_dibbler (Nn_msg n Plugin_other)"
| dibbler_run: "dibbler_plugin_main e g argv w = (r, w') \<Longrightarrow> (n, d) \<in> set (msg_delivered e w w') \<Longrightarrow> from_dibbler (Nn_msg n d)"

lemma from_dibbler_ok: "from_dibbler (Nn_msg n (Plugin_v6 l)) \<Longrightarrow> v6_msg_ok l"
  by (erule from_dibbler.cases) (simp_all, metis dibbler_plugin_typed snd_conv)

definition table6_typed :: "DHCPCV6_LINK_OBJECT list \<Rightarrow> bool" where
  "table6_typed t \<longleftrightarrow> (\<forall>k \<in> set t. list_all v6_msg_ok (f6_NewLeases (l6_client k)))"

lemma leases_for_typed: "\<forall>r \<in> set rs. from_dibbler r \<Longrightarrow> list_all v6_msg_ok (leases_for6 u i rs)"
proof (induction rs)
  case (Cons r rs)
  then have "list_all v6_msg_ok (lease_for6 u i r)" by (cases "(u, i, r)" rule: lease_for6.cases) (auto dest: from_dibbler_ok)
  with Cons show ?case by simp
qed simp

section \<open>Properties\<close>

text \<open>
  Claim C21. Types of the DHCPv6 leases: whatever the environment of the plugin of
  dibbler holds, however the socket behaves and whatever else arrives on it, every lease that waits at
  a DHCPv6 client is well formed. Each of its character arrays is terminated inside
  the array, so that every later read of it as a string stays inside, the raw MAP containers have their 256 bytes
  with a NUL among them, and a lease that assigns a prefix with both lifetimes zero is one that
  has expired. The DHCPv4 leases have no such property: the plugin of udhcpc copies with
  \<open>strncpy\<close> and can leave an array unterminated.
\<close>

theorem leases_well_typed:
  assumes "DhcpMgr_LeaseMonitor_Thrd e rs g = Some g'" "\<forall>r \<in> set rs. from_dibbler r" "table6_typed (g_v6 g)"
  shows "table6_typed (g_v6 g')"
proof -
  have gr: "grown6 (\<lambda>i. leases_for6 (reach6 g) i rs) (g_v6 g) (g_v6 g')"
    using monitor_grown [OF assms(1)] by simp
  have "list_all v6_msg_ok (f6_NewLeases (l6_client k))" if "k \<in> set (g_v6 g')" for k
    using that gr leases_for_typed [OF assms(2)] assms(3)
    by (auto simp: grown6_def in_set_conv_nth add_new6_def table6_typed_def all_set_conv_all_nth)
  then show ?thesis by (simp add: table6_typed_def)
qed

text \<open>A run of the plugin of udhcpc on a system whose every call returns 1.\<close>

definition env1 :: env where
  "env1 = env0\<lparr>e_ret := (\<lambda>_. 1)\<rparr>"

definition bound_env :: environ where
  "bound_env = map_of [(''interface'', ''erouter0''), (''ip'', ''192.0.2.10''), (''subnet'', ''255.255.255.0''),
     (''router'', ''192.0.2.1''), (''dns'', ''192.0.2.53 192.0.2.54''), (''lease'', ''3600''), (''opt58'', ''00000708'')]"

abbreviation bound_lease :: DHCPv4_PLUGIN_MSG where
  "bound_lease \<equiv> lease_of_env env1 bound_env ''bound''"

lemma nn_push_env1: "fst (nn_push env1 n d w) = 0"
  by (simp add: nn_push_def env1_def call_def Let_def MAX_SEND_THRESHOLD_def numeral_eq_Suc)

lemma bound_run:
  "\<exists>w'. udhcpc_plugin_main env1 bound_env [''plugin'', ''bound''] world_init = Some (0, w') \<and>
     msg_delivered env1 world_init w' = [(''erouter0'', Plugin_v4 bound_lease)]"
proof -
  have t: "list_all (\<lambda>(n, s). terminated n s) (printed4 bound_lease)" and n: "v4_ifname bound_lease = ''erouter0''" by code_simp+
  have e: "plugin4_event ''bound''" by (simp add: plugin4_event_def)
  show ?thesis
    using udhcpc_plugin_event [OF e, of env1 bound_env "''plugin''" "[]" world_init] t n
      nn_push_once [where e = env1 and n = "''erouter0''" and d = "Plugin_v4 bound_lease" and w = world_init, OF surjective_pairing] by (simp add: nn_push_env1)
qed

definition old_prefix_env :: environ where
  "old_prefix_env = map_of [(''IFACE'', ''erouter0''), (''PREFIX1'', ''2001:db8:300::''), (''PREFIX1LEN'', ''56''), (''PREFIX1VALID'', ''0'')]"

abbreviation old_prefix :: DHCPv6_PLUGIN_MSG where
  "old_prefix \<equiv> lease6_of_env env1 old_prefix_env ''del''"

lemma old_prefix_run:
  "msg_delivered env1 world_init (snd (dibbler_plugin_main env1 old_prefix_env [''plugin'', ''del''] world_init)) =
     [(''erouter0'', Plugin_v6 old_prefix)]"
proof -
  have e: "plugin6_event ''del''" by (simp add: plugin6_event_def)
  have n: "v6_ifname old_prefix = ''erouter0''" "\<not> zero_lifetimes old_prefix"
    by (simp add: lease6_fields old_prefix_env_def c_trunc_def, simp add: zero_lifetimes_def lease6_fields)
  show ?thesis
    using nn_push_once [where e = env1 and w = world_init and n = "''erouter0''" and d = "Plugin_v6 old_prefix", OF surjective_pairing] n
    by (simp add: dibbler_plugin_event [OF e] nn_push_env1)
qed

theorem leases_well_typed_witness:
  "\<exists>g'. DhcpMgr_LeaseMonitor_Thrd env0 [Nn_error, Nn_msg ''erouter0'' (Plugin_v6 old_prefix), Nn_msg ''erouter0'' (Plugin_v4 bound_lease)]
      (loaded [link4] [link6] world_init) = Some g' \<and> table6_typed (g_v6 g')"
proof -
  let ?rs = "[Nn_error, Nn_msg ''erouter0'' (Plugin_v6 old_prefix), Nn_msg ''erouter0'' (Plugin_v4 bound_lease)]"
  let ?g = "loaded [link4] [link6] world_init"
  obtain g' where g': "DhcpMgr_LeaseMonitor_Thrd env0 ?rs ?g = Some g'" by (auto simp: monitor_step_def DHCPMgr_AddDhcpv6Lease_def)
  have "from_dibbler (Nn_msg ''erouter0'' (Plugin_v6 old_prefix))"
    using from_dibbler.dibbler_run [OF surjective_pairing, of "''erouter0''" "Plugin_v6 old_prefix" env1 world_init old_prefix_env "[''plugin'', ''del'']"]
    by (simp add: old_prefix_run)
  then have rs: "\<forall>r \<in> set ?rs. from_dibbler r" by (simp add: from_dibbler.intros)
  have "table6_typed (g_v6 ?g)" by (simp add: table6_typed_def link6_def client6_def)
  from leases_well_typed [OF g' rs this] g' show ?thesis by blast
qed

text \<open>
  The variables that the plugin copies to the arrays it prints. \<open>sipsrv\<close> and \<open>staticroutes\<close> are
  not among them: a long value leaves their arrays unterminated too, but the arrays are
  sent as bytes and nothing reads them as strings.
\<close>

definition env_fits :: "environ \<Rightarrow> bool" where
  "env_fits g \<longleftrightarrow> list_all (\<lambda>(name, n). case g name of None \<Rightarrow> True | Some v \<Rightarrow> length v < n)
     [(''ip'', 32), (''subnet'', 32), (''router'', 32), (''interface'', 32), (''serverid'', 64), (''opt122'', 256), (''opt125'', 256),
      (''bootfile'', 64), (''siaddr'', 64), (''hostname'', 64), (''domain'', 64)] \<and>
     list_all (\<lambda>t. length t < 64) (dns_words g)"

lemma env_text_short: "length (env_text g name n) < n \<longleftrightarrow> 0 < n \<and> (case g name of None \<Rightarrow> True | Some v \<Rightarrow> length v < n)"
  by (auto simp: env_text_def c_strncpy_def split: option.split)

lemma nth_word_short: "length ws \<le> 2 \<Longrightarrow> length (nth_word 0 ws) < 64 \<and> length (nth_word 1 ws) < 64 \<longleftrightarrow> list_all (\<lambda>t. length t < 64) ws"
  by (cases ws rule: remdups_adj.cases) (auto simp: nth_word_def c_strncpy_def)

lemma dns_words_two: "length (dns_words g) \<le> 2"
  by (simp add: dns_words_def split: option.split)

text \<open>
  Claim C27. The plugin of udhcpc reads past the end of an array exactly where an
  environment variable is too long: for the events \<open>bound\<close> and \<open>renew\<close> a run is free of
  undefined behaviour if and only if every variable that goes to a printed array
  (\<open>env_fits\<close>) is shorter than the array and the
  first two name servers have fewer than 64 characters. A domain name of 64
  characters, which DHCP allows, is enough to break it.
\<close>

theorem udhcpc_plugin_overread:
  assumes "opt = ''bound'' \<or> opt = ''renew''"
  shows "udhcpc_plugin_main e g (prog # opt # rest) w = None \<longleftrightarrow> \<not> env_fits g"
proof -
  have o: "plugin4_event opt" "length opt < 64" using assms by (auto simp: plugin4_event_def)
  have "list_all (\<lambda>(n, s). terminated n s) (printed4 (lease_of_env e g opt)) \<longleftrightarrow> env_fits g"
    unfolding lease_of_bound(1) [OF assms] env_fits_def using nth_word_short [OF dns_words_two, of g] o(2)
    by (auto simp: terminated_def env_text_short c_strncpy_def)
  then show ?thesis by (simp add: udhcpc_plugin_event [OF o(1)])
qed

definition long_domain_env :: environ where
  "long_domain_env = bound_env(''domain'' \<mapsto> replicate 64 (CHR ''x''))"

theorem udhcpc_plugin_overread_witness:
  "udhcpc_plugin_main env1 long_domain_env [''plugin'', ''renew''] world_init = None \<and> env_fits bound_env"
proof -
  have "\<not> env_fits long_domain_env" and "env_fits bound_env" by (simp add: env_fits_def long_domain_env_def, code_simp)
  then show ?thesis using udhcpc_plugin_overread [of "''renew''" env1 long_domain_env "''plugin''" "[]" world_init] by simp
qed

text \<open>A run that delivers: the message is the lease of the environment, under the name of its interface.\<close>

lemma udhcpc_run_delivers:
  assumes "udhcpc_plugin_main e g (prog # opt # rest) w = Some (r, w')" "plugin4_event opt" "msg_delivered e w w' = [(n, d)]"
  shows "n = v4_ifname (lease_of_env e g opt) \<and> d = Plugin_v4 (lease_of_env e g opt) \<and>
    list_all (\<lambda>(n, s). terminated n s) (printed4 (lease_of_env e g opt))"
proof -
  let ?l = "lease_of_env e g opt"
  have t: "list_all (\<lambda>(n, s). terminated n s) (printed4 ?l)" "w' = snd (nn_push e (v4_ifname ?l) (Plugin_v4 ?l) w)"
    using assms(1,2) by (auto simp: udhcpc_plugin_event split: if_splits)
  show ?thesis
    using nn_push_once [where e = e and w = w, OF surjective_pairing] t assms(3) by (auto split: if_splits)
qed

lemma typed_routers_fit:
  assumes "length (v4_gateway l) < 32" "\<forall>t \<in> set (strtok '' '' (v4_gateway l)). 7 \<le> length t"
  shows "routers_fit l"
  using strtok_long_tokens [of "'' ''" "v4_gateway l" 7] assms
  by (simp add: routers_fit_def gateway_tokens_def c_trunc_id COSA_DML_DHCP_MAX_ENTRIES_def)

lemma bound_lease_texts:
  assumes "opt = ''bound'' \<or> opt = ''renew''"
  shows "v4_address (lease_of_env e g opt) = env_text g ''ip'' 32" "v4_netmask (lease_of_env e g opt) = env_text g ''subnet'' 32"
    "v4_gateway (lease_of_env e g opt) = env_text g ''router'' 32" "v4_ifname (lease_of_env e g opt) = env_text g ''interface'' 32"
  using lease_of_bound(1) [OF assms, of e g] by (simp_all add: printed4_def)

lemma env_text_value: "g name = Some v \<Longrightarrow> length (env_text g name n) < n \<Longrightarrow> env_text g name n = v"
  by (auto simp: env_text_def c_strncpy_def)

text \<open>
  Claim C9. From the client to the bus: udhcpc runs its plugin with a lease in the
  environment; where the socket takes the message and the client of the interface
  runs without a request open and without a lease, the next message of the controller
  publishes one update with the address, mask and gateway of the environment, for the
  interface of the environment. No array is overrun on the way when the routers of the
  environment are dotted addresses.
\<close>

theorem plugin_lease_to_bus:
  assumes "udhcpc_plugin_main pe env (prog # opt # rest) v = Some (r, v')" "opt = ''bound'' \<or> opt = ''renew''"
    and "msg_delivered pe v v' = [(n, d)]" "env ''ip'' = Some ip" "env ''subnet'' = Some nm" "env ''router'' = Some gw" "env ''interface'' = Some i"
    and "\<forall>t \<in> set (strtok '' '' gw). 7 \<le> length t" "\<not> e_EROUTER_DHCP_OPTION_MTA e"
    and "DhcpMgr_LeaseMonitor_Thrd e [Nn_msg n d] g = Some g1" "m = process_lease_msg n DML_DHCPV4"
    and "first_idx (for4 m) (reach4 g) = Some k" "first_idx (takes4 n) (reach4 g) = Some k" "c = l4_client (g_v4 g ! k)"
    and "c4_bEnabled (f4_Cfg c)" "\<not> c4_Renew (f4_Cfg c)" "\<not> c4_Restart (f4_Cfg c)" "f4_NewLeases c = []" "f4_currentLease c = None"
  shows "\<exists>g2 msg. dispatch e m g1 = Some g2 \<and> n = i \<and>
    events4 (new_actions (g_world g1) (g_world g2)) = [(DHCP_LEASE_UPDATE, Some msg)] \<and>
    m4_address msg = fld e ''v4.address'' ip \<and> m4_netmask msg = fld e ''v4.netmask'' nm \<and> m4_gateway msg = fld e ''v4.gateway'' gw"
proof -
  let ?l = "lease_of_env pe env opt"
  have ev: "plugin4_event opt" using assms(2) by (auto simp: plugin4_event_def)
  have d: "n = v4_ifname ?l" "d = Plugin_v4 ?l" "list_all (\<lambda>(n, s). terminated n s) (printed4 ?l)" using udhcpc_run_delivers [OF assms(1) ev assms(3)] by simp_all
  have short: "length (v4_address ?l) < 32" "length (v4_netmask ?l) < 32" "length (v4_gateway ?l) < 32" "length (v4_ifname ?l) < 32"
    using d(3) by (simp_all add: printed4_def terminated_def)
  note texts = bound_lease_texts [OF assms(2), of pe env]
  have vals: "v4_address ?l = ip" "v4_netmask ?l = nm" "v4_gateway ?l = gw" "v4_ifname ?l = i"
    using env_text_value assms(4-7) short unfolding texts by metis+
  have fits: "lease_fits e ?l" "\<not> v4_isExpired ?l"
    using typed_routers_fit [OF short(3)] vals(3) assms(8,9) lease_of_bound(3) [OF assms(2)] by (simp_all add: lease_fits_def mta_ok_def)
  have st: "i4_Status (f4_Info c) = COSA_DML_DHCP_STATUS_Enabled" using first_idx_take [OF assms(13)] assms(14) by (simp add: takes4_def)
  have ls: "[?l] = f4_NewLeases c @ leases_for4 (reach4 g) k [Nn_msg n d]" using assms(13,18) d(2) by simp
  obtain g2 where g2: "dispatch e m g1 = Some g2" "events4 (new_actions (g_world g1) (g_world g2)) = as_msg e (v4_spec False (f4_currentLease c) [?l])"
    using worked_off [OF assms(10,11,12,14) ls assms(15-17) st] fits(1) by auto
  have "as_msg e (v4_spec False (f4_currentLease c) [?l]) = [(DHCP_LEASE_UPDATE, Some (DhcpMgr_createLeaseInfoMsg e (mtu_default ?l)))]"
    using fits(2) assms(19) by (simp add: as_msg_def v4_step_events_def v4_changed_def)
  then show ?thesis using g2 vals d(1) by (auto simp: DhcpMgr_createLeaseInfoMsg_def mtu_default_def)
qed

theorem plugin_lease_to_bus_witness:
  "\<exists>v' g1 g2 msg. udhcpc_plugin_main env1 bound_env [''plugin'', ''bound''] world_init = Some (0, v') \<and>
     DhcpMgr_LeaseMonitor_Thrd env0 [Nn_msg ''erouter0'' (Plugin_v4 bound_lease)] (loaded [link4] [] world_init) = Some g1 \<and>
     dispatch env0 (process_lease_msg ''erouter0'' DML_DHCPV4) g1 = Some g2 \<and>
     events4 (new_actions (g_world g1) (g_world g2)) = [(DHCP_LEASE_UPDATE, Some msg)] \<and> m4_address msg = ''192.0.2.10''"
proof -
  let ?g = "loaded [link4] [] world_init" and ?m = "process_lease_msg ''erouter0'' DML_DHCPV4"
  let ?c = "l4_client (g_v4 ?g ! 0)"
  obtain g1 where g1: "DhcpMgr_LeaseMonitor_Thrd env0 [Nn_msg ''erouter0'' (Plugin_v4 bound_lease)] ?g = Some g1" by (simp add: monitor_step_def)
  obtain v' where v': "udhcpc_plugin_main env1 bound_env [''plugin'', ''bound''] world_init = Some (0, v')"
    "msg_delivered env1 world_init v' = [(''erouter0'', Plugin_v4 bound_lease)]" using bound_run by blast
  have b: "bound_env ''ip'' = Some ''192.0.2.10''" "bound_env ''subnet'' = Some ''255.255.255.0''" "bound_env ''router'' = Some ''192.0.2.1''"
    "bound_env ''interface'' = Some ''erouter0''" by code_simp+
  have r: "\<forall>t \<in> set (strtok '' '' ''192.0.2.1''). 7 \<le> length t" "\<not> e_EROUTER_DHCP_OPTION_MTA env0" by code_simp+
  have k: "first_idx (for4 ?m) (reach4 ?g) = Some 0" "first_idx (takes4 ''erouter0'') (reach4 ?g) = Some 0" by code_simp+
  have c: "c4_bEnabled (f4_Cfg ?c)" "\<not> c4_Renew (f4_Cfg ?c)" "\<not> c4_Restart (f4_Cfg ?c)" "f4_NewLeases ?c = []" by code_simp+
  have n: "f4_currentLease ?c = None" by (simp add: link4_def client4_def)
  have a: "fld env0 ''v4.address'' ''192.0.2.10'' = ''192.0.2.10''" by code_simp
  obtain g2 msg where "dispatch env0 ?m g1 = Some g2" "events4 (new_actions (g_world g1) (g_world g2)) = [(DHCP_LEASE_UPDATE, Some msg)]"
    "m4_address msg = fld env0 ''v4.address'' ''192.0.2.10''"
    using plugin_lease_to_bus [OF v'(1) disjI1 [OF refl] v'(2) b r g1 refl k refl c n] by blast
  then show ?thesis using v'(1) g1 a by (intro exI [of _ v'] exI [of _ g1] exI [of _ g2] exI [of _ msg]) simp
qed

lemma fill6_pd_fields:
  assumes "g ''PREFIX1'' = Some old"
  shows "pd_assigned (fill6_ia_pd e g a)" "pd_Prefix (fill6_ia_pd e g a) = c_trunc 48 old"
    "pd_PreferedLifeTime (fill6_ia_pd e g a) = (case g ''PREFIX1PREF'' of None \<Rightarrow> pd_PreferedLifeTime a | Some v \<Rightarrow> strtol_u32 e v)"
    "pd_ValidLifeTime (fill6_ia_pd e g a) = (case g ''PREFIX1VALID'' of None \<Rightarrow> pd_ValidLifeTime a | Some v \<Rightarrow> strtol_u32 e v)"
  using assms by (simp_all add: fill6_ia_pd_def Let_def on_env_def split: option.split)

lemma dibbler_run_delivers:
  assumes "plugin6_event opt" "msg_delivered e w (snd (dibbler_plugin_main e g (prog # opt # rest) w)) = [(n, d)]"
  shows "d = Plugin_v6 (lease6_of_env e g opt)"
  using assms nn_push_once [where e = e and w = w, OF surjective_pairing] by (auto simp: dibbler_plugin_event split: if_splits)

text \<open>
  Claim C25. A prefix that is replaced makes no noise: when dibbler reports the old
  prefix once more without lifetimes, the plugin sends nothing; and when it then
  reports the end of the old prefix while the new one is the current lease, the lease
  handler drops the message: the client keeps its lease and nothing is published,
  stored or configured.
\<close>

theorem prefix_replacement_quiet:
  assumes "env ''PREFIX1'' = Some old" "\<forall>x. env ''PREFIX1PREF'' = Some x \<longrightarrow> strtol_u32 pe x = 0"
    and "\<forall>x. env ''PREFIX1VALID'' = Some x \<longrightarrow> strtol_u32 pe x = 0" "opt \<in> {''add'', ''update''}" "del \<in> {''del'', ''delete'', ''expire''}"
    and "msg_delivered pe v (snd (dibbler_plugin_main pe env (prog # del # rest) v)) = [(n, Plugin_v6 l)]"
    and "f6_currentLease c = Some k" "\<not> v6_isExpired k" "pd_assigned (v6_ia_pd k)"
    and "\<not> strncmp_eq 48 (pd_Prefix (v6_ia_pd k)) (c_trunc 48 old)" "f6_NewLeases c = [l]"
  shows "dibbler_plugin_main pe env (prog # opt # rest) v = (0, v) \<and>
    DhcpMgr_ProcessV6Lease e c w = Some (c\<lparr>f6_NewLeases := []\<rparr>, w)"
proof
  have o: "plugin6_event opt" "plugin6_event del" "opt \<noteq> ''del'' \<and> opt \<noteq> ''delete'' \<and> opt \<noteq> ''expire''"
    using assms(4,5) by (auto simp: plugin6_event_def)
  note pd = fill6_pd_fields [where g = env and e = pe and a = "v6_ia_pd v6_msg_zero", OF assms(1)]
  have "zero_lifetimes (lease6_of_env pe env opt)"
    unfolding zero_lifetimes_def lease6_fields using pd assms(2,3) o(3) by (simp add: v6_msg_zero_def split: option.split)
  then show "dibbler_plugin_main pe env (prog # opt # rest) v = (0, v)" by (simp add: dibbler_plugin_event [OF o(1)])
  have l: "l = lease6_of_env pe env del" using dibbler_run_delivers [OF o(2) assms(6)] by simp
  have x: "v6_isExpired l" unfolding l lease6_fields using assms(5) by auto
  have "stale_del k l" unfolding stale_del_def l lease6_fields using pd(1,2) assms(9,10) by simp
  with x have s: "list_all (\<lambda>l. v6_isExpired l \<and> stale_del k l) [l]" by simp
  have c: "c\<lparr>f6_NewLeases := [l] @ []\<rparr> = c" by (simp add: assms(11) [symmetric])
  have "v6_lease_loop e ([l] @ []) c w = v6_lease_loop e [] (c\<lparr>f6_NewLeases := []\<rparr>) w"
    using stale_loop [OF assms(7,8) s, of e "[]" w] unfolding c .
  then show "DhcpMgr_ProcessV6Lease e c w = Some (c\<lparr>f6_NewLeases := []\<rparr>, w)"
    unfolding DhcpMgr_ProcessV6Lease_def assms(11) by (simp del: v6_lease_loop.simps(2))
qed

theorem prefix_replacement_quiet_witness:
  "\<exists>l. msg_delivered env1 world_init (snd (dibbler_plugin_main env1 old_prefix_env [''plugin'', ''del''] world_init)) = [(''erouter0'', Plugin_v6 l)] \<and>
     dibbler_plugin_main env1 old_prefix_env [''plugin'', ''add''] world_init = (0, world_init) \<and>
     DhcpMgr_ProcessV6Lease env0 (client6\<lparr>f6_currentLease := Some lease6, f6_NewLeases := [l]\<rparr>) world_init =
       Some (client6\<lparr>f6_currentLease := Some lease6, f6_NewLeases := []\<rparr>, world_init)"
proof -
  let ?l = old_prefix and ?env = old_prefix_env
  let ?c = "client6\<lparr>f6_currentLease := Some lease6, f6_NewLeases := [?l]\<rparr>"
  note d = old_prefix_run
  have p: "?env ''PREFIX1'' = Some ''2001:db8:300::''" "\<forall>x. ?env ''PREFIX1PREF'' = Some x \<longrightarrow> strtol_u32 env1 x = 0" by (simp_all add: old_prefix_env_def)
  have "strtol_u32 env1 ''0'' = 0" by code_simp
  then have v: "\<forall>x. ?env ''PREFIX1VALID'' = Some x \<longrightarrow> strtol_u32 env1 x = 0" by (simp add: old_prefix_env_def)
  have k: "\<not> v6_isExpired lease6" "pd_assigned (v6_ia_pd lease6)" "\<not> strncmp_eq 48 (pd_Prefix (v6_ia_pd lease6)) (c_trunc 48 ''2001:db8:300::'')"
    by code_simp+
  have q: "dibbler_plugin_main env1 ?env [''plugin'', ''add''] world_init = (0, world_init) \<and>
      DhcpMgr_ProcessV6Lease env0 ?c world_init = Some (?c\<lparr>f6_NewLeases := []\<rparr>, world_init)"
    using prefix_replacement_quiet [where env = ?env and opt = "''add''" and del = "''del''" and c = ?c, OF p v _ _ d _ k] by simp
  from d q show ?thesis by (intro exI [of _ ?l]) simp
qed

section \<open>Hexadecimal timers\<close>

lemma hex_loop_value:
  "hex2dec_loop cs dec base = dec + base * of_nat (read_hex 0 (filter is_hex (rev cs)))"
proof (induction cs arbitrary: dec base)
  case (Cons c cs)
  have app: "read_hex n (filter is_hex xs @ [d]) = (if is_hex d then 16 * read_hex n (filter is_hex xs) + hex_val d else read_hex n (filter is_hex xs))" for n xs d
    by (induction xs arbitrary: n) simp_all
  have "hex2dec_loop (c # cs) dec base = (if is_hex c then hex2dec_loop cs (dec + of_nat (hex_val c) * base) (base * 16) else hex2dec_loop cs dec base)"
    by (simp add: Let_def is_hex_def is_digit_def hex_val_def)
  then show ?case using app [of 0 "rev cs" c] by (simp add: Cons.IH algebra_simps)
qed simp

text \<open>\<open>hex2dec\<close> reads the hexadecimal digits of the option, whatever stands between them, modulo \<open>2 ^ 32\<close>.\<close>

lemma hex2dec_value: "hex2dec s = of_nat (read_hex 0 (filter is_hex s))"
  by (simp add: hex2dec_def hex_loop_value)

end
