(* ===== verification/Dml_Lib.thy ===== *)
theory Dml_Lib
  imports Plugin_Spec
begin

text \<open>
  What the objects of the TR-181 data model (\<open>source/TR-181\<close>) share: the functions of
  the framework that they call (\<open>dm_lib\<close>), the tables ordered by instance number
  (\<open>cosa_apis_util.c\<close>), the copy of a string value to the caller, instance numbers,
  reading the persistent store, and \<open>pid_of\<close>.

  The framework is not part of the repository; what the objects rely on is
  \<open>dm_lib_ok\<close>: \<open>STRCPY_S_NOCLOBBER\<close> copies a string that fits and leaves the target alone
  otherwise, \<open>AnscSListPushEntryAtBack\<close> appends an entry to a list, and
  \<open>AnscSListPushEntryByIndex\<close> puts it before the entry at an index. A handle of an
  entry is its position in the list.
\<close>

section \<open>The framework\<close>

record 'a slist_lib =
  AnscSListPushEntryAtBack :: "'a list \<Rightarrow> 'a \<Rightarrow> 'a list"
  AnscSListPushEntryByIndex :: "'a list \<Rightarrow> 'a \<Rightarrow> nat \<Rightarrow> 'a list"

record dm_lib =
  lib_copy :: "nat \<Rightarrow> string \<Rightarrow> string \<Rightarrow> bool \<times> string"
  lib_list4 :: "DHCPC_LINK_OBJECT slist_lib"
  lib_list6 :: "DHCPCV6_LINK_OBJECT slist_lib"
  lib_list_sent :: "COSA_DML_DHCP_OPT slist_lib"
  lib_list_req :: "COSA_DML_DHCPC_REQ_OPT slist_lib"

definition copies_or_keeps :: "dm_lib \<Rightarrow> bool" where
  "copies_or_keeps L \<longleftrightarrow> (\<forall>n s d. lib_copy L n s d = (if length s < n then (True, s) else (False, d)))"

definition slist_ok :: "'a slist_lib \<Rightarrow> bool" where
  "slist_ok S \<longleftrightarrow> (\<forall>xs x. AnscSListPushEntryAtBack S xs x = xs @ [x]) \<and>
     (\<forall>xs x i. i < length xs \<longrightarrow> AnscSListPushEntryByIndex S xs x i = take i xs @ x # drop i xs)"

definition dm_lib_ok :: "dm_lib \<Rightarrow> bool" where
  "dm_lib_ok L \<longleftrightarrow> copies_or_keeps L \<and> slist_ok (lib_list4 L) \<and> slist_ok (lib_list6 L) \<and> slist_ok (lib_list_sent L) \<and> slist_ok (lib_list_req L)"

lemma lib_copy_simp:
  "dm_lib_ok L \<Longrightarrow> lib_copy L n s d = (if length s < n then (True, s) else (False, d))"
  by (simp add: dm_lib_ok_def copies_or_keeps_def)

lemma dm_lib_lists:
  "dm_lib_ok L \<Longrightarrow> slist_ok (lib_list4 L)" "dm_lib_ok L \<Longrightarrow> slist_ok (lib_list6 L)"
  "dm_lib_ok L \<Longrightarrow> slist_ok (lib_list_sent L)" "dm_lib_ok L \<Longrightarrow> slist_ok (lib_list_req L)"
  by (simp_all add: dm_lib_ok_def)

text \<open>A framework.\<close>

definition slist0 :: "'a slist_lib" where
  "slist0 = \<lparr>AnscSListPushEntryAtBack = (\<lambda>xs x. xs @ [x]), AnscSListPushEntryByIndex = (\<lambda>xs x i. take i xs @ x # drop i xs)\<rparr>"

definition lib0 :: dm_lib where
  "lib0 = \<lparr>lib_copy = (\<lambda>n s d. if length s < n then (True, s) else (False, d)),
     lib_list4 = slist0, lib_list6 = slist0, lib_list_sent = slist0, lib_list_req = slist0\<rparr>"

lemma slist0_ok: "slist_ok slist0"
  by (simp add: slist_ok_def slist0_def)

lemma lib0_ok: "dm_lib_ok lib0"
  by (simp add: dm_lib_ok_def copies_or_keeps_def lib0_def slist0_ok)

section \<open>Tables ordered by instance number\<close>

text \<open>
  The loop of \<open>CosaSListPushEntryByInsNum\<close>: \<open>i\<close> is \<open>ulIndex\<close>, the last argument the entries
  from \<open>pSLinkEntry\<close> on. The entry goes before the first one with a larger number, else to
  the back. The function always reports success; \<open>num\<close> reads the instance number of an entry.
\<close>

primrec push_by_ins_num :: "'a slist_lib \<Rightarrow> ('a \<Rightarrow> nat) \<Rightarrow> 'a list \<Rightarrow> 'a \<Rightarrow> nat \<Rightarrow> 'a list \<Rightarrow> 'a list" where
  "push_by_ins_num S num xs x i [] = AnscSListPushEntryAtBack S xs x"
| "push_by_ins_num S num xs x i (y # ys) =
     (if num x < num y then AnscSListPushEntryByIndex S xs x i else push_by_ins_num S num xs x (Suc i) ys)"

definition CosaSListPushEntryByInsNum :: "'a slist_lib \<Rightarrow> ('a \<Rightarrow> nat) \<Rightarrow> 'a list \<Rightarrow> 'a \<Rightarrow> 'a list" where
  "CosaSListPushEntryByInsNum S num xs x = (if length xs = 0 then AnscSListPushEntryAtBack S xs x else push_by_ins_num S num xs x 0 xs)"

primrec CosaSListGetEntryByInsNum :: "('a \<Rightarrow> nat) \<Rightarrow> 'a list \<Rightarrow> nat \<Rightarrow> 'a option" where
  "CosaSListGetEntryByInsNum num [] n = None"
| "CosaSListGetEntryByInsNum num (x # xs) n = (if num x = n then Some x else CosaSListGetEntryByInsNum num xs n)"

text \<open>One entry is inserted: behind entries with numbers up to its own, before one with a larger number.\<close>

definition inserted :: "('a \<Rightarrow> nat) \<Rightarrow> 'a list \<Rightarrow> 'a \<Rightarrow> 'a list \<Rightarrow> bool" where
  "inserted num xs x xs' \<longleftrightarrow> (\<exists>ys zs. xs = ys @ zs \<and> xs' = ys @ x # zs \<and> (\<forall>y \<in> set ys. num y \<le> num x) \<and>
     (zs \<noteq> [] \<longrightarrow> num x < num (hd zs)))"

lemma push_loop_inserts:
  assumes "slist_ok S" "xs = ys @ zs" "\<forall>y \<in> set ys. num y \<le> num x"
  shows "inserted num xs x (push_by_ins_num S num xs x (length ys) zs)"
  using assms(2,3)
proof (induction zs arbitrary: ys)
  case Nil
  with assms(1) show ?case by (auto simp: inserted_def slist_ok_def)
next
  case (Cons z zs)
  show ?case
  proof (cases "num x < num z")
    case True
    with assms(1) Cons.prems have "push_by_ins_num S num xs x (length ys) (z # zs) = ys @ x # z # zs" by (simp add: slist_ok_def)
    with True Cons.prems show ?thesis unfolding inserted_def by (intro exI [of _ ys] exI [of _ "z # zs"]) simp
  next
    case False
    with Cons.IH [of "ys @ [z]"] Cons.prems show ?thesis by (auto simp: not_less)
  qed
qed

lemma push_inserts: "slist_ok S \<Longrightarrow> inserted num xs x (CosaSListPushEntryByInsNum S num xs x)"
  using push_loop_inserts [of S xs "[]" xs num x]
  by (auto simp: CosaSListPushEntryByInsNum_def inserted_def slist_ok_def)

lemma inserted_set: "inserted num xs x xs' \<Longrightarrow> set xs' = insert x (set xs)"
  by (auto simp: inserted_def)

lemma inserted_map: "inserted num xs x xs' \<Longrightarrow> inserted id (map num xs) (num x) (map num xs')"
  unfolding inserted_def by (elim exE, rule_tac x = "map num ys" in exI, rule_tac x = "map num zs" in exI) (auto simp: hd_map)

lemma inserted_sorted: "inserted num xs x xs' \<Longrightarrow> sorted (map num xs) \<Longrightarrow> sorted (map num xs')"
proof -
  assume i: "inserted num xs x xs'" and s: "sorted (map num xs)"
  from i obtain ys zs where "xs = ys @ zs" "xs' = ys @ x # zs" "\<forall>y \<in> set ys. num y \<le> num x" "zs \<noteq> [] \<longrightarrow> num x < num (hd zs)"
    by (auto simp: inserted_def)
  then show ?thesis using s by (cases zs) (auto simp: sorted_append intro: less_imp_le order.strict_trans1 order.strict_trans2)
qed

text \<open>An entry with a number above all others goes to the back, and is found by its number.\<close>

lemma inserted_last: "inserted num xs x xs' \<Longrightarrow> \<forall>y \<in> set xs. num y < num x \<Longrightarrow> xs' = xs @ [x]"
proof -
  assume "inserted num xs x xs'" and a: "\<forall>y \<in> set xs. num y < num x"
  then obtain ys zs where i: "xs = ys @ zs" "xs' = ys @ x # zs" "zs \<noteq> [] \<longrightarrow> num x < num (hd zs)" by (auto simp: inserted_def)
  with a have "zs = []" by (cases zs) auto
  with i show ?thesis by simp
qed

lemma find_append: "CosaSListGetEntryByInsNum num (xs @ ys) n =
    (case CosaSListGetEntryByInsNum num xs n of None \<Rightarrow> CosaSListGetEntryByInsNum num ys n | Some x \<Rightarrow> Some x)"
  by (induction xs) simp_all

lemma find_none: "CosaSListGetEntryByInsNum num xs n = None \<longleftrightarrow> n \<notin> num ` set xs"
  by (induction xs) auto

lemma push_then_get:
  assumes "slist_ok S" "num x \<notin> num ` set xs"
  shows "CosaSListGetEntryByInsNum num (CosaSListPushEntryByInsNum S num xs x) n =
    (if n = num x then Some x else CosaSListGetEntryByInsNum num xs n)"
proof -
  obtain ys zs where i: "xs = ys @ zs" "CosaSListPushEntryByInsNum S num xs x = ys @ x # zs"
    using push_inserts [OF assms(1), of num xs x] by (auto simp: inserted_def)
  then have "CosaSListGetEntryByInsNum num ys (num x) = None" using assms(2) by (auto simp: find_none)
  with i show ?thesis by (simp add: find_append split: option.split)
qed

section \<open>Values and instance numbers\<close>

text \<open>
  The value and the return code: 0 with the string where the buffer of the caller
  has room for it and its NUL, else 1 with the size it would need.
\<close>

definition update_pValue :: "nat \<Rightarrow> string \<Rightarrow> int \<times> string option \<times> nat" where
  "update_pValue ulSize str = (let len = length str in if len < ulSize then (0, Some str, ulSize) else (1, None, len + 1))"

lemma update_pValue_retry:
  "update_pValue n s = (1, None, m) \<Longrightarrow> update_pValue m s = (0, Some s, m)"
  by (auto simp: update_pValue_def Let_def split: if_splits)

definition next_instance :: "env \<Rightarrow> nat \<Rightarrow> nat" where
  "next_instance e n = (let m = (n + 1) mod 2 ^ e_LONG_BIT e in if m = 0 then 1 else m)"

lemma next_instance_fresh: "n + 1 < 2 ^ e_LONG_BIT e \<Longrightarrow> next_instance e n = n + 1"
  by (simp add: next_instance_def)

text \<open>\<open>AnscAllocateMemory\<close>: whether the memory is there.\<close>

definition allocate :: "env \<Rightarrow> string \<Rightarrow> world \<Rightarrow> bool \<times> world" where
  "allocate e what w = (case call e (A_custom ''AnscAllocateMemory'' what) w of (r, w') \<Rightarrow> (r \<noteq> 0, w'))"

section \<open>The persistent store\<close>

definition CCSP_SUCCESS :: int where "CCSP_SUCCESS = 100"

definition psm_read :: "env \<Rightarrow> string \<Rightarrow> world \<Rightarrow> string option \<times> world" where
  "psm_read e key w = (case call e (A_psm_get key) w of (r, w') \<Rightarrow> (if r = CCSP_SUCCESS then Some (e_str e (w_trace w')) else None, w'))"

definition psm_client :: "nat \<Rightarrow> string \<Rightarrow> string" where
  "psm_client n what = ''dmsb.dhcpmanager.Client.'' @ show_nat n @ ''.'' @ what"

definition psm_option :: "nat \<Rightarrow> string \<Rightarrow> nat \<Rightarrow> string \<Rightarrow> string" where
  "psm_option n table i what = psm_client n (table @ ''.'' @ show_nat i @ ''.'' @ what)"

section \<open>The process of a client\<close>

text \<open>\<open>strstr(line, keyword) != NULL\<close>.\<close>

fun contains :: "string \<Rightarrow> string \<Rightarrow> bool" where
  "contains [] k \<longleftrightarrow> k = []"
| "contains (c # s) k \<longleftrightarrow> take (length k) (c # s) = k \<or> contains s k"

text \<open>The first line of \<open>comm\<close> without its newline, as \<open>fgets\<close> reads it; an empty file gives nothing.\<close>

definition first_line :: "nat \<Rightarrow> string \<Rightarrow> string option" where
  "first_line n s = (if s = [] then None else Some (takeWhile (\<lambda>c. c \<noteq> CHR 0x0A) (take (n - 1) s)))"

definition nul_to_space :: "string \<Rightarrow> string" where
  "nul_to_space s = map (\<lambda>c. if c = CHR 0x00 then CHR '' '' else c) s"

definition pid_matches :: "string \<Rightarrow> string \<Rightarrow> proc_entry \<Rightarrow> bool" where
  "pid_matches name keyword d \<longleftrightarrow> 0 < c_atoi (pe_name d) \<and>
     (case pe_comm d of None \<Rightarrow> False | Some s \<Rightarrow> first_line 1024 s = Some name) \<and>
     (case pe_cmdline d of None \<Rightarrow> False | Some s \<Rightarrow> s \<noteq> [] \<and> contains (nul_to_space (take 1023 s)) keyword)"

definition pid_of :: "env \<Rightarrow> string \<Rightarrow> string \<Rightarrow> world \<Rightarrow> int \<times> world" where
  "pid_of e name keyword w =
     (case call e (A_proc_lookup name keyword) w of (r, w') \<Rightarrow>
        if r < 0 then (- 1, w')
        else (case find (pid_matches name keyword) (e_proc e (w_trace w')) of
                None \<Rightarrow> (- 1, w')
              | Some d \<Rightarrow> (c_atoi (pe_name d), w')))"

lemma pid_of_world: "snd (pid_of e name keyword w) = act (A_proc_lookup name keyword) w"
  by (simp add: pid_of_def case_prod_beta split: option.split)

lemma pid_of_sign: "fst (pid_of e name keyword w) \<noteq> 0"
  by (auto simp: pid_of_def case_prod_beta pid_matches_def find_Some_iff split: option.split)

end
