(* ===== verification/Client_Dml.thy ===== *)
theory Client_Dml
  imports Dml_Lib
begin

text \<open>
  The object \<open>Device.DHCPv4.Client.{i}.\<close> of the data model: the functions
  \<open>Client_*\<close> of \<open>source/TR-181/middle_layer_src/cosa_dhcpv4_dml.c\<close> and what they call of
  the platform layer, \<open>source/TR-181/board_sbapi/cosa_dhcpv4_apis.c\<close>.

  A function of one entry has the entry as an argument and returns it where it
  changes it: some of the functions that read parameters do. \<open>ANSC_STATUS\<close> is
  \<open>RETURN_STATUS\<close>. \<open>CosaDhcpv4RegSetDhcpv4Info\<close>, which writes the table to the registry of
  the framework, is the action \<open>A_reg_set\<close>.
\<close>

section \<open>The platform layer\<close>

definition CosaDmlDhcpcGetNumberOfEntries :: "env \<Rightarrow> nat \<Rightarrow> world \<Rightarrow> nat \<times> nat \<times> world" where
  "CosaDmlDhcpcGetNumberOfEntries e num w =
     (if 0 < num then (num, num, w)
      else (case psm_read e ''dmsb.dhcpmanager.ClientNoOfEntries'' w of
              (None, w') \<Rightarrow> (0, num, w')
            | (Some v, w') \<Rightarrow> (let n = nat (sint (strtol_u32 e v) mod 2 ^ e_LONG_BIT e) in (n, n, w'))))"

text \<open>The test of the name is inverted in the source: the interface is empty afterwards in both branches.\<close>

definition CosaDmlDhcpcGetCfg :: "env \<Rightarrow> dm_lib \<Rightarrow> COSA_DML_DHCPC_CFG \<Rightarrow> world \<Rightarrow> COSA_DML_DHCPC_CFG \<times> world" where
  "CosaDmlDhcpcGetCfg e L cfg w =
     (case commonSyseventGet e ''current_wan_ifname'' 32 w of (r, ifname, w1) \<Rightarrow>
        (let cfg1 = cfg\<lparr>c4_bEnabled := False, c4_Interface := (if 0 < length ifname then [] else ifname)\<rparr>
         in case psm_read e (psm_client (c4_InstanceNumber cfg) ''Alias'') w1 of (v, w2) \<Rightarrow>
              (let cfg2 = (case v of None \<Rightarrow> cfg1 | Some a \<Rightarrow> cfg1\<lparr>c4_Alias := snd (lib_copy L 64 a (c4_Alias cfg1))\<rparr>)
               in (cfg2\<lparr>c4_PassthroughEnable := True, c4_PassthroughDHCPPool := []\<rparr>, w2))))"

text \<open>
  \<open>CosaDmlDhcpcGetInfo\<close> writes the status of the client where it is given the
  client: from whether the client is enabled, whether its process is found, and
  whether the WAN is started. The other callers pass NULL, which changes nothing.
\<close>

definition udhcpc_bin :: "env \<Rightarrow> world \<Rightarrow> string \<times> world" where
  "udhcpc_bin e w = (if e_INTEL_PUMA7 e
     then (case ask e (A_syscfg_get ''UDHCPEnable'') w of (v, w') \<Rightarrow> (if c_trunc 16 v \<noteq> ''true'' then ''ti_udhcpc'' else ''udhcpc'', w'))
     else (''udhcpc'', w))"

definition CosaDmlDhcpcGetInfo :: "env \<Rightarrow> COSA_DML_DHCPC_FULL option \<Rightarrow> COSA_DML_DHCPC_INFO \<Rightarrow> world \<Rightarrow> COSA_DML_DHCPC_INFO \<times> world" where
  "CosaDmlDhcpcGetInfo e pDhcpc info w =
     (case pDhcpc of
        None \<Rightarrow> (info, w)
      | Some c \<Rightarrow>
          (case udhcpc_bin e w of (bin, w1) \<Rightarrow>
             (case pid_of e bin (c4_Interface (f4_Cfg c)) w1 of (pid, w2) \<Rightarrow>
                (case commonSyseventGet e ''wan-status'' 16 w2 of (r, st, w3) \<Rightarrow>
                   (info\<lparr>i4_Status :=
                      (if c4_bEnabled (f4_Cfg c) \<and> 0 < pid then COSA_DML_DHCP_STATUS_Enabled
                       else if c4_bEnabled (f4_Cfg c) \<and> pid < 0 \<and> st = ''started'' then COSA_DML_DHCP_STATUS_Error_Misconfigured
                       else COSA_DML_DHCP_STATUS_Disabled)\<rparr>, w3)))))"

definition CosaDmlDhcpcGetEntry :: "env \<Rightarrow> dm_lib \<Rightarrow> nat \<Rightarrow> COSA_DML_DHCPC_FULL \<Rightarrow> world \<Rightarrow> COSA_DML_DHCPC_FULL \<times> world" where
  "CosaDmlDhcpcGetEntry e L ulIndex c w =
     (case CosaDmlDhcpcGetCfg e L ((f4_Cfg c)\<lparr>c4_InstanceNumber := ulIndex\<rparr>) w of (cfg, w1) \<Rightarrow>
        (case CosaDmlDhcpcGetInfo e None (f4_Info c) w1 of (i, w2) \<Rightarrow> (c\<lparr>f4_Cfg := cfg, f4_Info := i\<rparr>, w2)))"

definition CosaDmlDhcpcAddEntry :: "COSA_DML_DHCPC_FULL \<Rightarrow> RETURN_STATUS" where
  "CosaDmlDhcpcAddEntry pEntry = STATUS_FAILURE"

definition CosaDmlDhcpcDelEntry :: "nat \<Rightarrow> RETURN_STATUS" where
  "CosaDmlDhcpcDelEntry ulInstanceNumber = STATUS_FAILURE"

definition CosaDmlDhcpcSetCfg :: "COSA_DML_DHCPC_CFG \<Rightarrow> RETURN_STATUS" where
  "CosaDmlDhcpcSetCfg pCfg = STATUS_SUCCESS"

text \<open>The remaining lease time: all quantities are 32 bit unsigned, the result is stored as an \<open>int\<close>.\<close>

definition lease_remaining :: "u32 \<Rightarrow> u32 \<Rightarrow> u32 \<Rightarrow> int" where
  "lease_remaining leaseTime startTime upTime =
     (let elapsed = (if startTime \<le> upTime then upTime - startTime else 0)
      in if elapsed < leaseTime then sint (leaseTime - elapsed) else 0)"

definition CosaDmlDhcpcGetLeaseTimeRemaining :: "env \<Rightarrow> COSA_DML_DHCPC_INFO \<Rightarrow> string \<Rightarrow> world \<Rightarrow> RETURN_STATUS \<times> COSA_DML_DHCPC_INFO \<times> world" where
  "CosaDmlDhcpcGetLeaseTimeRemaining e info ifname w =
     (if ifname = [] then (STATUS_FAILURE, info, w)
      else (case commonSyseventGet e (c_trunc 128 (''ipv4_'' @ ifname @ ''_lease_time'')) 32 w of (r1, lt, w1) \<Rightarrow>
        if r1 \<noteq> 0 \<or> lt = [] then (STATUS_FAILURE, info, w1)
        else (case commonSyseventGet e (c_trunc 128 (''ipv4_'' @ ifname @ ''_start_time'')) 32 w1 of (r2, st, w2) \<Rightarrow>
          if r2 \<noteq> 0 \<or> st = [] then (STATUS_FAILURE, info, w2)
          else (case call e A_uptime w2 of (up, w3) \<Rightarrow>
            if up < 0 then (STATUS_FAILURE, info, w3)
            else (STATUS_SUCCESS, info\<lparr>i4_LeaseTimeRemaining :=
                    lease_remaining (strtol_u32 e lt) (strtol_u32 e st) (word_of_int up)\<rparr>, w3)))))"

section \<open>The table\<close>

definition DHCPV4_CLIENT_SET_DEFAULTVALUE :: "COSA_DML_DHCPC_FULL \<Rightarrow> COSA_DML_DHCPC_FULL" where
  "DHCPV4_CLIENT_SET_DEFAULTVALUE c =
     c\<lparr>f4_Cfg := (f4_Cfg c)\<lparr>c4_bEnabled := False, c4_Renew := False, c4_Restart := False, c4_Interface := []\<rparr>,
       f4_Info := (f4_Info c)\<lparr>i4_Status := COSA_DML_DHCP_STATUS_Disabled, i4_DHCPStatus := COSA_DML_DHCPC_STATUS_Init, i4_ClientProcessId := - 1\<rparr>,
       f4_currentLease := None, f4_NewLeases := []\<rparr>"

text \<open>What \<open>AnscAllocateMemory\<close> returns is zeroed; the enumerations have no constructor for 0 and are set right after.\<close>

definition client4_zero :: COSA_DML_DHCPC_FULL where
  "client4_zero = \<lparr>f4_Cfg = \<lparr>c4_InstanceNumber = 0, c4_Alias = [], c4_bEnabled = False, c4_Renew = False, c4_Restart = False,
       c4_Interface = [], c4_PassthroughEnable = False, c4_PassthroughDHCPPool = [], c4_BootFileName = []\<rparr>,
     f4_Info = \<lparr>i4_Status = COSA_DML_DHCP_STATUS_Disabled, i4_DHCPStatus = COSA_DML_DHCPC_STATUS_Init, i4_ClientProcessId = 0,
       i4_IPAddress = 0, i4_SubnetMask = 0, i4_NumIPRouters = 0, i4_IPRouters = replicate COSA_DML_DHCP_MAX_ENTRIES 0, i4_NumDnsServers = 0,
       i4_DNSServers = replicate COSA_DML_DHCP_MAX_ENTRIES 0, i4_LeaseTimeRemaining = 0, i4_DHCPServer = 0\<rparr>,
     f4_currentLease = None, f4_NewLeases = []\<rparr>"

record dm4 =
  dm_ClientList :: "DHCPC_LINK_OBJECT list"
  dm_maxInstanceOfClient :: nat

definition Client_GetEntryCount :: "dm4 \<Rightarrow> nat" where
  "Client_GetEntryCount d = length (dm_ClientList d)"

definition Client_GetEntry :: "dm4 \<Rightarrow> nat \<Rightarrow> (nat \<times> nat) option" where
  "Client_GetEntry d nIndex =
     (if nIndex < length (dm_ClientList d) then Some (nIndex, l4_InstanceNumber (dm_ClientList d ! nIndex)) else None)"

definition client4_link :: "nat \<Rightarrow> string \<Rightarrow> DHCPC_LINK_OBJECT" where
  "client4_link n alias =
     \<lparr>l4_client = (let c = DHCPV4_CLIENT_SET_DEFAULTVALUE client4_zero in c\<lparr>f4_Cfg := (f4_Cfg c)\<lparr>c4_InstanceNumber := n, c4_Alias := alias\<rparr>\<rparr>),
      l4_req_opts = [], l4_sent_opts = [], l4_bNew = True, l4_InstanceNumber = n, l4_maxInstanceOfSend = 0, l4_maxInstanceOfReq = 0,
      l4_AliasOfReq = [], l4_AliasOfSend = []\<rparr>"

definition Client_AddEntry :: "env \<Rightarrow> dm_lib \<Rightarrow> dm4 \<Rightarrow> world \<Rightarrow> nat option \<times> dm4 \<times> world" where
  "Client_AddEntry e L d w =
     (case allocate e ''COSA_DML_DHCPC_FULL'' w of (ok1, w1) \<Rightarrow>
        if \<not> ok1 then (None, d, w1)
        else (case allocate e ''COSA_CONTEXT_DHCPC_LINK_OBJECT'' w1 of (ok2, w2) \<Rightarrow>
          if \<not> ok2 then (None, d, w2)
          else (let n = next_instance e (dm_maxInstanceOfClient d); d1 = d\<lparr>dm_maxInstanceOfClient := n\<rparr>;
                    alias = ''Client'' @ show_nat n
                in if 64 \<le> length alias then (None, d1, w2)
                   else (Some n, d1\<lparr>dm_ClientList := CosaSListPushEntryByInsNum (lib_list4 L) l4_InstanceNumber (dm_ClientList d1) (client4_link n alias)\<rparr>,
                         act (A_reg_set ''Dhcpv4'') w2))))"

definition remove_at :: "nat \<Rightarrow> 'a list \<Rightarrow> 'a list" where
  "remove_at i xs = take i xs @ drop (Suc i) xs"

definition Client_DelEntry :: "nat \<Rightarrow> dm4 \<Rightarrow> world \<Rightarrow> RETURN_STATUS \<times> dm4 \<times> world" where
  "Client_DelEntry i d w =
     (let l = dm_ClientList d ! i;
          r = (if \<not> l4_bNew l then CosaDmlDhcpcDelEntry (c4_InstanceNumber (f4_Cfg (l4_client l))) else STATUS_SUCCESS)
      in if r \<noteq> STATUS_SUCCESS then (r, d, w)
         else (r, d\<lparr>dm_ClientList := remove_at i (dm_ClientList d)\<rparr>, act (A_reg_set ''Dhcpv4'') w))"

section \<open>Reading parameters\<close>

definition Client_GetParamBoolValue :: "DHCPC_LINK_OBJECT \<Rightarrow> string \<Rightarrow> bool option" where
  "Client_GetParamBoolValue l ParamName =
     (let cfg = f4_Cfg (l4_client l)
      in if ParamName = ''Enable'' then Some (c4_bEnabled cfg)
         else if ParamName = ''Renew'' then Some False
         else if ParamName = ''X_RDK_Restart'' then Some (c4_Restart cfg)
         else if ParamName = ''X_RDK_Release'' then Some False
         else None)"

definition Client_GetParamIntValue :: "env \<Rightarrow> DHCPC_LINK_OBJECT \<Rightarrow> string \<Rightarrow> world \<Rightarrow> int option \<times> DHCPC_LINK_OBJECT \<times> world" where
  "Client_GetParamIntValue e l ParamName w =
     (if ParamName = ''LeaseTimeRemaining''
      then (case CosaDmlDhcpcGetInfo e None (f4_Info (l4_client l)) w of (i1, w1) \<Rightarrow>
              (case CosaDmlDhcpcGetLeaseTimeRemaining e i1 (c4_Interface (f4_Cfg (l4_client l))) w1 of (r, i2, w2) \<Rightarrow>
                 (Some (i4_LeaseTimeRemaining i2), l\<lparr>l4_client := (l4_client l)\<lparr>f4_Info := i2\<rparr>\<rparr>, w2)))
      else (None, l, w))"

fun status_num :: "COSA_DML_DHCP_STATUS \<Rightarrow> nat" where
  "status_num COSA_DML_DHCP_STATUS_Disabled = 1"
| "status_num COSA_DML_DHCP_STATUS_Enabled = 2"
| "status_num COSA_DML_DHCP_STATUS_Error_Misconfigured = 3"
| "status_num COSA_DML_DHCP_STATUS_Error = 4"

fun dhcpc_status_num :: "COSA_DML_DHCPC_STATUS \<Rightarrow> nat" where
  "dhcpc_status_num COSA_DML_DHCPC_STATUS_Init = 1"
| "dhcpc_status_num COSA_DML_DHCPC_STATUS_Selecting = 2"
| "dhcpc_status_num COSA_DML_DHCPC_STATUS_Requesting = 3"
| "dhcpc_status_num COSA_DML_DHCPC_STATUS_Rebinding = 4"
| "dhcpc_status_num COSA_DML_DHCPC_STATUS_Bound = 5"
| "dhcpc_status_num COSA_DML_DHCPC_STATUS_Renewing = 6"

definition Client_GetParamUlongValue :: "env \<Rightarrow> DHCPC_LINK_OBJECT \<Rightarrow> string \<Rightarrow> world \<Rightarrow> nat option \<times> DHCPC_LINK_OBJECT \<times> world" where
  "Client_GetParamUlongValue e l ParamName w =
     (let c = l4_client l; i = f4_Info c;
          bound = (i4_DHCPStatus i = COSA_DML_DHCPC_STATUS_Bound)
      in if ParamName = ''Status''
         then (case CosaDmlDhcpcGetInfo e (Some c) i w of (i', w') \<Rightarrow>
                 (Some (status_num (i4_Status i')), l\<lparr>l4_client := c\<lparr>f4_Info := i'\<rparr>\<rparr>, w'))
         else if ParamName = ''DHCPStatus'' then (Some (dhcpc_status_num (i4_DHCPStatus i)), l, w)
         else if ParamName = ''IPAddress'' then (Some (if bound then unat (i4_IPAddress i) else 0), l, w)
         else if ParamName = ''SubnetMask'' then (Some (if bound then unat (i4_SubnetMask i) else 0), l, w)
         else if ParamName = ''DHCPServer'' then (Some (unat (i4_DHCPServer i)), l, w)
         else (None, l, w))"

text \<open>
  The addresses of a list, separated by commas, in \<open>tmpBuff[128]\<close>; \<open>None\<close> where a
  comma would take the place of the last NUL.
\<close>

fun addr_list :: "env \<Rightarrow> bool \<Rightarrow> u32 list \<Rightarrow> string \<Rightarrow> string option" where
  "addr_list e first [] buf = Some buf"
| "addr_list e first (a # as) buf =
     (if \<not> first \<and> 127 \<le> length buf then None
      else (let b = (if first then buf else buf @ '',''); s = e_inet_ntoa e a
            in addr_list e False as (if length s < 128 - length b then b @ s else b)))"

definition addresses :: "env \<Rightarrow> nat \<Rightarrow> u32 list \<Rightarrow> string option" where
  "addresses e n as = addr_list e True (take (min n COSA_DML_DHCP_MAX_ENTRIES) as) []"

definition Client_GetParamStringValue :: "env \<Rightarrow> DHCPC_LINK_OBJECT \<Rightarrow> string \<Rightarrow> nat \<Rightarrow> (int \<times> string option \<times> nat) option" where
  "Client_GetParamStringValue e l ParamName ulSize =
     (let c = l4_client l; cfg = f4_Cfg c; i = f4_Info c; bound = (i4_DHCPStatus i = COSA_DML_DHCPC_STATUS_Bound)
      in if ParamName = ''Alias'' then Some (update_pValue ulSize (c4_Alias cfg))
         else if ParamName = ''X_RDK_LinuxInterface'' then Some (update_pValue ulSize (c4_Interface cfg))
         else if ParamName = ''X_CISCO_COM_BootFileName'' then Some (update_pValue ulSize (c4_BootFileName cfg))
         else if ParamName = ''Interface'' then Some (update_pValue ulSize (c4_Interface cfg))
         else if ParamName = ''IPRouters''
         then (if bound then map_option (update_pValue ulSize) (addresses e (i4_NumIPRouters i) (i4_IPRouters i)) else Some (0, Some [], ulSize))
         else if ParamName = ''DNSServers''
         then (if bound then map_option (update_pValue ulSize) (addresses e (i4_NumDnsServers i) (i4_DNSServers i)) else Some (0, Some [], ulSize))
         else Some (- 1, None, ulSize))"

section \<open>Setting parameters\<close>

definition set_msg :: "string \<Rightarrow> string \<Rightarrow> bool \<Rightarrow> dhcp_type \<Rightarrow> dhcp_info" where
  "set_msg ifName ParamName b t =
     \<lparr>di_if_name = c_trunc MAX_STR_LEN ifName, di_ParamName = c_trunc MAX_STR_LEN ParamName, di_bValue = b, di_dhcpType = t\<rparr>"

text \<open>
  The result, and whether a message has to be sent: \<open>Enable\<close> writes the system event
  first; \<open>Renew\<close> needs an enabled client and a true value, and refuses otherwise;
  \<open>X_RDK_Restart\<close> and \<open>X_RDK_Release\<close> report success where there is nothing to do.
\<close>

datatype set_result = Ret bool | Send

definition set4_check :: "env \<Rightarrow> COSA_DML_DHCPC_CFG \<Rightarrow> string \<Rightarrow> bool \<Rightarrow> world \<Rightarrow> set_result \<times> world" where
  "set4_check e cfg ParamName bValue w =
     (if ParamName = ''Enable''
      then (if c4_Interface cfg = [] then (Ret False, w)
            else (Send, snd (Dhcp_set_Sysevent_InterfaceEnable e (enable_key False (c4_InstanceNumber cfg)) (c4_Interface cfg) bValue w)))
      else if ParamName = ''Renew'' then (if bValue \<and> c4_bEnabled cfg then Send else Ret False, w)
      else if ParamName = ''X_RDK_Restart'' then (if c4_bEnabled cfg \<and> bValue then Send else Ret True, w)
      else if ParamName = ''X_RDK_Release'' then (if c4_bEnabled cfg \<and> bValue then Send else Ret True, w)
      else (Ret False, w))"

definition Client_SetParamBoolValue :: "env \<Rightarrow> DHCPC_LINK_OBJECT \<Rightarrow> string \<Rightarrow> bool \<Rightarrow> world \<Rightarrow> bool \<times> world" where
  "Client_SetParamBoolValue e l ParamName bValue w =
     (let cfg = f4_Cfg (l4_client l)
      in case set4_check e cfg ParamName bValue w of
           (Ret b, w1) \<Rightarrow> (b, w1)
         | (Send, w1) \<Rightarrow>
             if c4_Interface cfg = [] then (False, w1)
             else (case DhcpMgr_OpenQueueEnsureThread e (set_msg (c4_Interface cfg) ParamName bValue DML_DHCPV4) w1 of (r, w2) \<Rightarrow> (r = 0, w2)))"

definition Client_SetParamIntValue :: "DHCPC_LINK_OBJECT \<Rightarrow> string \<Rightarrow> int \<Rightarrow> bool \<times> DHCPC_LINK_OBJECT" where
  "Client_SetParamIntValue l ParamName iValue = (False, l)"

definition Client_SetParamUlongValue :: "DHCPC_LINK_OBJECT \<Rightarrow> string \<Rightarrow> nat \<Rightarrow> bool \<times> DHCPC_LINK_OBJECT" where
  "Client_SetParamUlongValue l ParamName uValue = (False, l)"

abbreviation on_cfg4 :: "(COSA_DML_DHCPC_CFG \<Rightarrow> COSA_DML_DHCPC_CFG) \<Rightarrow> DHCPC_LINK_OBJECT \<Rightarrow> DHCPC_LINK_OBJECT" where
  "on_cfg4 f l \<equiv> l\<lparr>l4_client := (l4_client l)\<lparr>f4_Cfg := f (f4_Cfg (l4_client l))\<rparr>\<rparr>"

definition Client_SetParamStringValue :: "dm_lib \<Rightarrow> DHCPC_LINK_OBJECT \<Rightarrow> string \<Rightarrow> string \<Rightarrow> bool \<times> DHCPC_LINK_OBJECT" where
  "Client_SetParamStringValue L l ParamName pString =
     (let cfg = f4_Cfg (l4_client l)
      in if ParamName = ''X_CISCO_COM_BootFileName''
         then (case lib_copy L 256 pString (c4_BootFileName cfg) of (ok, s) \<Rightarrow> (ok, on_cfg4 (c4_BootFileName_update (\<lambda>_. s)) l))
         else if ParamName = ''Interface''
         then (case lib_copy L 64 pString (c4_Interface cfg) of (ok, s) \<Rightarrow> (ok, on_cfg4 (c4_Interface_update (\<lambda>_. s)) l))
         else if ParamName = ''Alias''
         then (case lib_copy L 64 pString (c4_Alias cfg) of (ok, s) \<Rightarrow> (ok, on_cfg4 (c4_Alias_update (\<lambda>_. s)) l))
         else (False, l))"

section \<open>Transactions\<close>

definition Client_Validate :: "DHCPC_LINK_OBJECT \<Rightarrow> bool" where
  "Client_Validate l = True"

definition Client_Commit :: "env \<Rightarrow> dm_lib \<Rightarrow> DHCPC_LINK_OBJECT \<Rightarrow> world \<Rightarrow> RETURN_STATUS \<times> DHCPC_LINK_OBJECT \<times> world" where
  "Client_Commit e L l w =
     (if l4_bNew l
      then (let r = CosaDmlDhcpcAddEntry (l4_client l)
            in if r = STATUS_SUCCESS then (r, l\<lparr>l4_bNew := False\<rparr>, act (A_reg_set ''Dhcpv4'') w)
               else (r, l\<lparr>l4_client := DHCPV4_CLIENT_SET_DEFAULTVALUE (l4_client l)\<rparr>, w))
      else (let r = CosaDmlDhcpcSetCfg (f4_Cfg (l4_client l))
            in if r \<noteq> STATUS_SUCCESS
               then (case CosaDmlDhcpcGetCfg e L (f4_Cfg (l4_client l)) w of (cfg, w') \<Rightarrow> (r, on_cfg4 (\<lambda>_. cfg) l, w'))
               else (r, l, w)))"

definition Client_Rollback :: "env \<Rightarrow> dm_lib \<Rightarrow> DHCPC_LINK_OBJECT \<Rightarrow> world \<Rightarrow> RETURN_STATUS \<times> DHCPC_LINK_OBJECT \<times> world" where
  "Client_Rollback e L l w =
     (if \<not> l4_bNew l
      then (case CosaDmlDhcpcGetCfg e L (f4_Cfg (l4_client l)) w of (cfg, w') \<Rightarrow> (STATUS_SUCCESS, on_cfg4 (\<lambda>_. cfg) l, w'))
      else (STATUS_SUCCESS, l\<lparr>l4_client := DHCPV4_CLIENT_SET_DEFAULTVALUE (l4_client l)\<rparr>, w))"

end
