(* ===== verification/Option_Dml.thy ===== *)
theory Option_Dml
  imports Client_Dml
begin

text \<open>
  The option tables of a DHCPv4 client in the data model, \<open>SentOption.{i}.\<close> and
  \<open>ReqOption.{i}.\<close>: the functions \<open>SentOption_*\<close> and \<open>ReqOption_*\<close> of \<open>cosa_dhcpv4_dml.c\<close> and
  what they call of the platform layer (\<open>cosa_dhcpv4_apis.c\<close>).

  An option is named by its client, a \<open>DHCPC_LINK_OBJECT\<close>, and its position in the
  table. Before an alias is set the old one is kept in \<open>AliasOfSend\<close> or \<open>AliasOfReq\<close>
  of the client, one place for all options of the table.
\<close>

section \<open>The platform layer\<close>

definition CosaDmlDhcpcGetNumberOfSentOption :: "env \<Rightarrow> nat \<Rightarrow> world \<Rightarrow> int \<times> world" where
  "CosaDmlDhcpcGetNumberOfSentOption e n w =
     (case psm_read e (psm_client n ''SendOptionNoOfEntries'') w of (v, w') \<Rightarrow> (case v of None \<Rightarrow> 0 | Some s \<Rightarrow> sint (strtol_u32 e s), w'))"

definition CosaDmlDhcpcGetNumberOfReqOption :: "env \<Rightarrow> nat \<Rightarrow> world \<Rightarrow> int \<times> world" where
  "CosaDmlDhcpcGetNumberOfReqOption e n w =
     (case psm_read e (psm_client n ''ReqOptionNoOfEntries'') w of (v, w') \<Rightarrow> (case v of None \<Rightarrow> 0 | Some s \<Rightarrow> sint (strtol_u32 e s), w'))"

text \<open>A tag is an unsigned character.\<close>

definition uchar :: "int \<Rightarrow> nat" where
  "uchar i = nat (i mod 256)"

definition CosaDmlDhcpcGetSentOption :: "env \<Rightarrow> dm_lib \<Rightarrow> nat \<Rightarrow> nat \<Rightarrow> COSA_DML_DHCP_OPT \<Rightarrow> world \<Rightarrow> COSA_DML_DHCP_OPT \<times> world" where
  "CosaDmlDhcpcGetSentOption e L n ulIndex o1 w =
     (let o2 = o1\<lparr>so_InstanceNumber := ulIndex, so_bEnabled := True\<rparr>
      in case psm_read e (psm_option n ''SendOption'' ulIndex ''Alias'') w of (a, w1) \<Rightarrow>
           (let o3 = (case a of None \<Rightarrow> o2 | Some s \<Rightarrow> o2\<lparr>so_Alias := snd (lib_copy L 512 s (so_Alias o2))\<rparr>)
            in case psm_read e (psm_option n ''SendOption'' ulIndex ''Tag'') w1 of (t, w2) \<Rightarrow>
                 (let o4 = (case t of None \<Rightarrow> o3 | Some s \<Rightarrow> o3\<lparr>so_Tag := uchar (sint (strtol_u32 e s))\<rparr>)
                  in case psm_read e (psm_option n ''SendOption'' ulIndex ''Value'') w2 of (v, w3) \<Rightarrow>
                       (case v of None \<Rightarrow> o4 | Some s \<Rightarrow> o4\<lparr>so_Value := snd (lib_copy L 255 s (so_Value o4))\<rparr>, w3))))"

definition CosaDmlDhcpcGetReqOption :: "env \<Rightarrow> dm_lib \<Rightarrow> nat \<Rightarrow> nat \<Rightarrow> COSA_DML_DHCPC_REQ_OPT \<Rightarrow> world \<Rightarrow> COSA_DML_DHCPC_REQ_OPT \<times> world" where
  "CosaDmlDhcpcGetReqOption e L n ulIndex o1 w =
     (let o2 = o1\<lparr>ro_InstanceNumber := ulIndex, ro_bEnabled := True\<rparr>
      in case psm_read e (psm_option n ''ReqOption'' ulIndex ''Alias'') w of (a, w1) \<Rightarrow>
           (let o3 = (case a of None \<Rightarrow> o2 | Some s \<Rightarrow> o2\<lparr>ro_Alias := snd (lib_copy L 64 s (ro_Alias o2))\<rparr>)
            in case psm_read e (psm_option n ''ReqOption'' ulIndex ''Tag'') w1 of (t, w2) \<Rightarrow>
                 (let o4 = (case t of None \<Rightarrow> o3 | Some s \<Rightarrow> o3\<lparr>ro_Tag := uchar (sint (strtol_u32 e s))\<rparr>)
                  in case psm_read e (psm_option n ''ReqOption'' ulIndex ''Order'') w2 of (v, w3) \<Rightarrow>
                       (case v of None \<Rightarrow> o4 | Some s \<Rightarrow> o4\<lparr>ro_Order := nat (sint (strtol_u32 e s) mod 2 ^ e_LONG_BIT e)\<rparr>, w3))))"

text \<open>
  The copies of the options in the platform layer: of each client its instance
  number, the number of its sent options, and the options. A loop that runs past
  the arrays is \<open>None\<close>.
\<close>

type_synonym sent_store = "(nat \<times> nat \<times> COSA_DML_DHCP_OPT list) list"

fun sent_lookup :: "nat \<Rightarrow> sent_store \<Rightarrow> nat \<Rightarrow> COSA_DML_DHCP_OPT \<Rightarrow> (RETURN_STATUS \<times> COSA_DML_DHCP_OPT) option" where
  "sent_lookup 0 rows n o1 = Some (STATUS_FAILURE, o1)"
| "sent_lookup (Suc k) [] n o1 = None"
| "sent_lookup (Suc k) ((ins, cnt, row) # rows) n o1 =
     (if ins = n
      then (case find (\<lambda>s. so_InstanceNumber s = so_InstanceNumber o1) (take cnt row) of
              Some s \<Rightarrow> Some (STATUS_SUCCESS, s\<lparr>so_bNew := so_bNew o1\<rparr>)
            | None \<Rightarrow> if length row < cnt then None else sent_lookup k rows n o1)
      else sent_lookup k rows n o1)"

definition CosaDmlDhcpcGetSentOptionbyInsNum ::
  "nat \<Rightarrow> sent_store \<Rightarrow> nat \<Rightarrow> COSA_DML_DHCP_OPT \<Rightarrow> (RETURN_STATUS \<times> COSA_DML_DHCP_OPT) option" where
  "CosaDmlDhcpcGetSentOptionbyInsNum num store n o1 = sent_lookup num store n o1"

definition CosaDmlDhcpcAddSentOption :: "nat \<Rightarrow> COSA_DML_DHCP_OPT \<Rightarrow> RETURN_STATUS" where
  "CosaDmlDhcpcAddSentOption n o1 = STATUS_FAILURE"

definition CosaDmlDhcpcDelSentOption :: "nat \<Rightarrow> nat \<Rightarrow> RETURN_STATUS" where
  "CosaDmlDhcpcDelSentOption n i = STATUS_FAILURE"

definition CosaDmlDhcpcSetSentOption :: "nat \<Rightarrow> COSA_DML_DHCP_OPT \<Rightarrow> RETURN_STATUS" where
  "CosaDmlDhcpcSetSentOption n o1 = STATUS_FAILURE"

definition CosaDmlDhcpcGetReqOptionbyInsNum :: "nat \<Rightarrow> COSA_DML_DHCPC_REQ_OPT \<Rightarrow> RETURN_STATUS" where
  "CosaDmlDhcpcGetReqOptionbyInsNum n o1 = STATUS_FAILURE"

definition CosaDmlDhcpcAddReqOption :: "nat \<Rightarrow> COSA_DML_DHCPC_REQ_OPT \<Rightarrow> RETURN_STATUS" where
  "CosaDmlDhcpcAddReqOption n o1 = STATUS_FAILURE"

definition CosaDmlDhcpcDelReqOption :: "nat \<Rightarrow> nat \<Rightarrow> RETURN_STATUS" where
  "CosaDmlDhcpcDelReqOption n i = STATUS_FAILURE"

definition CosaDmlDhcpcSetReqOption :: "nat \<Rightarrow> COSA_DML_DHCPC_REQ_OPT \<Rightarrow> RETURN_STATUS" where
  "CosaDmlDhcpcSetReqOption n o1 = STATUS_FAILURE"

section \<open>Sent options\<close>

abbreviation ins4 :: "DHCPC_LINK_OBJECT \<Rightarrow> nat" where
  "ins4 l \<equiv> c4_InstanceNumber (f4_Cfg (l4_client l))"

definition DHCPV4_SENDOPTION_SET_DEFAULTVALUE :: "COSA_DML_DHCP_OPT \<Rightarrow> COSA_DML_DHCP_OPT" where
  "DHCPV4_SENDOPTION_SET_DEFAULTVALUE o1 = o1\<lparr>so_bEnabled := False, so_Tag := 0, so_Value := []\<rparr>"

definition SentOption_GetEntryCount :: "DHCPC_LINK_OBJECT \<Rightarrow> nat" where
  "SentOption_GetEntryCount l = length (l4_sent_opts l)"

definition SentOption_GetEntryStatus :: "DHCPC_LINK_OBJECT \<Rightarrow> string \<Rightarrow> bool" where
  "SentOption_GetEntryStatus l StatusName = (if StatusName = ''Committed'' then \<not> l4_bNew l else True)"

definition SentOption_GetEntry :: "DHCPC_LINK_OBJECT \<Rightarrow> nat \<Rightarrow> (nat \<times> nat) option" where
  "SentOption_GetEntry l nIndex =
     (if nIndex < length (l4_sent_opts l) then Some (nIndex, so_InstanceNumber (l4_sent_opts l ! nIndex)) else None)"

definition SentOption_AddEntry :: "env \<Rightarrow> dm_lib \<Rightarrow> DHCPC_LINK_OBJECT \<Rightarrow> world \<Rightarrow> nat option \<times> DHCPC_LINK_OBJECT \<times> world" where
  "SentOption_AddEntry e L l w =
     (case allocate e ''COSA_DML_DHCP_OPT'' w of (ok1, w1) \<Rightarrow>
        if \<not> ok1 then (None, l, w1)
        else (case allocate e ''COSA_CONTEXT_LINK_OBJECT'' w1 of (ok2, w2) \<Rightarrow>
          if \<not> ok2 then (None, l, w2)
          else (let n = next_instance e (l4_maxInstanceOfSend l); l1 = l\<lparr>l4_maxInstanceOfSend := n\<rparr>; alias = ''SentOption'' @ show_nat n
                in if 512 \<le> length alias then (None, l1, w2)
                   else (Some n, l1\<lparr>l4_sent_opts := CosaSListPushEntryByInsNum (lib_list_sent L) so_InstanceNumber (l4_sent_opts l1)
                           \<lparr>so_bNew = True, so_InstanceNumber = n, so_Alias = alias, so_bEnabled = False, so_Tag = 0, so_Value = []\<rparr>\<rparr>,
                         act (A_reg_set ''Dhcpv4'') w2))))"

definition SentOption_DelEntry :: "nat \<Rightarrow> DHCPC_LINK_OBJECT \<Rightarrow> world \<Rightarrow> RETURN_STATUS \<times> DHCPC_LINK_OBJECT \<times> world" where
  "SentOption_DelEntry i l w =
     (let o1 = l4_sent_opts l ! i;
          r = (if \<not> so_bNew o1 then CosaDmlDhcpcDelSentOption (ins4 l) (so_InstanceNumber o1) else STATUS_SUCCESS)
      in if r \<noteq> STATUS_SUCCESS then (r, l, w)
         else (r, l\<lparr>l4_sent_opts := remove_at i (l4_sent_opts l)\<rparr>, act (A_reg_set ''Dhcpv4'') w))"

definition SentOption_GetParamBoolValue :: "COSA_DML_DHCP_OPT \<Rightarrow> string \<Rightarrow> bool option" where
  "SentOption_GetParamBoolValue o1 ParamName = (if ParamName = ''Enable'' then Some (so_bEnabled o1) else None)"

definition SentOption_GetParamIntValue :: "COSA_DML_DHCP_OPT \<Rightarrow> string \<Rightarrow> int option" where
  "SentOption_GetParamIntValue o1 ParamName = None"

definition SentOption_GetParamUlongValue :: "COSA_DML_DHCP_OPT \<Rightarrow> string \<Rightarrow> nat option" where
  "SentOption_GetParamUlongValue o1 ParamName = (if ParamName = ''Tag'' then Some (so_Tag o1) else None)"

definition SentOption_GetParamStringValue :: "COSA_DML_DHCP_OPT \<Rightarrow> string \<Rightarrow> nat \<Rightarrow> int \<times> string option \<times> nat" where
  "SentOption_GetParamStringValue o1 ParamName ulSize =
     (if ParamName = ''Alias'' then update_pValue ulSize (so_Alias o1)
      else if ParamName = ''Value'' then update_pValue ulSize (so_Value o1)
      else (- 1, None, ulSize))"

definition SentOption_SetParamBoolValue :: "COSA_DML_DHCP_OPT \<Rightarrow> string \<Rightarrow> bool \<Rightarrow> bool \<times> COSA_DML_DHCP_OPT" where
  "SentOption_SetParamBoolValue o1 ParamName bValue =
     (if ParamName = ''Enable'' then (True, o1\<lparr>so_bEnabled := bValue\<rparr>) else (False, o1))"

definition SentOption_SetParamIntValue :: "COSA_DML_DHCP_OPT \<Rightarrow> string \<Rightarrow> int \<Rightarrow> bool \<times> COSA_DML_DHCP_OPT" where
  "SentOption_SetParamIntValue o1 ParamName iValue = (False, o1)"

definition SentOption_SetParamUlongValue :: "COSA_DML_DHCP_OPT \<Rightarrow> string \<Rightarrow> nat \<Rightarrow> bool \<times> COSA_DML_DHCP_OPT" where
  "SentOption_SetParamUlongValue o1 ParamName uValue =
     (if ParamName = ''Tag'' then (True, o1\<lparr>so_Tag := uchar (int uValue)\<rparr>) else (False, o1))"

abbreviation set_sent :: "nat \<Rightarrow> COSA_DML_DHCP_OPT \<Rightarrow> DHCPC_LINK_OBJECT \<Rightarrow> DHCPC_LINK_OBJECT" where
  "set_sent i o1 l \<equiv> l\<lparr>l4_sent_opts := (l4_sent_opts l)[i := o1]\<rparr>"

definition SentOption_SetParamStringValue :: "dm_lib \<Rightarrow> nat \<Rightarrow> DHCPC_LINK_OBJECT \<Rightarrow> string \<Rightarrow> string \<Rightarrow> bool \<times> DHCPC_LINK_OBJECT" where
  "SentOption_SetParamStringValue L i l ParamName pString =
     (let o1 = l4_sent_opts l ! i
      in if ParamName = ''Alias''
         then (case lib_copy L 64 (so_Alias o1) (l4_AliasOfSend l) of (ok1, old) \<Rightarrow>
                 (let l1 = l\<lparr>l4_AliasOfSend := old\<rparr>
                  in if \<not> ok1 then (False, l1)
                     else (case lib_copy L 512 pString (so_Alias o1) of (ok2, s) \<Rightarrow> (ok2, set_sent i (o1\<lparr>so_Alias := s\<rparr>) l1))))
         else if ParamName = ''Value''
         then (case lib_copy L 255 pString (so_Value o1) of (ok, s) \<Rightarrow> (ok, set_sent i (o1\<lparr>so_Value := s\<rparr>) l))
         else (False, l))"

text \<open>An option may be set only below a committed client, and a new alias must not be that of another option.\<close>

definition SentOption_Validate :: "nat \<Rightarrow> DHCPC_LINK_OBJECT \<Rightarrow> bool" where
  "SentOption_Validate i l \<longleftrightarrow> \<not> l4_bNew l \<and>
     (l4_AliasOfSend l = [] \<or>
      \<not> list_ex (\<lambda>j. j \<noteq> i \<and> so_Alias (l4_sent_opts l ! i) = so_Alias (l4_sent_opts l ! j)) [0..<length (l4_sent_opts l)])"

definition restore_alias :: "dm_lib \<Rightarrow> DHCPC_LINK_OBJECT \<Rightarrow> COSA_DML_DHCP_OPT \<Rightarrow> COSA_DML_DHCP_OPT" where
  "restore_alias L l o1 = (if l4_AliasOfSend l \<noteq> [] then o1\<lparr>so_Alias := snd (lib_copy L 512 (l4_AliasOfSend l) (so_Alias o1))\<rparr> else o1)"

definition SentOption_Commit ::
  "dm_lib \<Rightarrow> nat \<Rightarrow> sent_store \<Rightarrow> nat \<Rightarrow> DHCPC_LINK_OBJECT \<Rightarrow> world \<Rightarrow> (RETURN_STATUS \<times> DHCPC_LINK_OBJECT \<times> world) option" where
  "SentOption_Commit L num store i l w =
     (let o1 = l4_sent_opts l ! i
      in if so_bNew o1
         then (let r = CosaDmlDhcpcAddSentOption (ins4 l) o1
               in if r = STATUS_SUCCESS then Some (r, (set_sent i (o1\<lparr>so_bNew := False\<rparr>) l)\<lparr>l4_AliasOfSend := []\<rparr>, act (A_reg_set ''Dhcpv4'') w)
                  else Some (r, (set_sent i (restore_alias L l (DHCPV4_SENDOPTION_SET_DEFAULTVALUE o1)) l)\<lparr>l4_AliasOfSend := []\<rparr>, w))
         else (let r = CosaDmlDhcpcSetSentOption (ins4 l) o1
               in if r \<noteq> STATUS_SUCCESS
                  then map_option (\<lambda>(s, o2). (r, (set_sent i o2 l)\<lparr>l4_AliasOfSend := []\<rparr>, w)) (CosaDmlDhcpcGetSentOptionbyInsNum num store (ins4 l) o1)
                  else Some (r, l\<lparr>l4_AliasOfSend := []\<rparr>, w)))"

definition SentOption_Rollback :: "dm_lib \<Rightarrow> nat \<Rightarrow> sent_store \<Rightarrow> nat \<Rightarrow> DHCPC_LINK_OBJECT \<Rightarrow> (RETURN_STATUS \<times> DHCPC_LINK_OBJECT) option" where
  "SentOption_Rollback L num store i l =
     (let o1 = restore_alias L l (l4_sent_opts l ! i)
      in if \<not> so_bNew o1
         then map_option (\<lambda>(s, o2). (STATUS_SUCCESS, (set_sent i o2 l)\<lparr>l4_AliasOfSend := []\<rparr>)) (CosaDmlDhcpcGetSentOptionbyInsNum num store (ins4 l) o1)
         else Some (STATUS_SUCCESS, (set_sent i (DHCPV4_SENDOPTION_SET_DEFAULTVALUE o1) l)\<lparr>l4_AliasOfSend := []\<rparr>))"

section \<open>Requested options\<close>

definition DHCPV4_REQOPTION_SET_DEFAULTVALUE :: "COSA_DML_DHCPC_REQ_OPT \<Rightarrow> COSA_DML_DHCPC_REQ_OPT" where
  "DHCPV4_REQOPTION_SET_DEFAULTVALUE o1 = o1\<lparr>ro_bEnabled := False, ro_Order := 0, ro_Tag := 0, ro_Value := []\<rparr>"

definition ReqOption_GetEntryCount :: "DHCPC_LINK_OBJECT \<Rightarrow> nat" where
  "ReqOption_GetEntryCount l = length (l4_req_opts l)"

definition ReqOption_GetEntry :: "DHCPC_LINK_OBJECT \<Rightarrow> nat \<Rightarrow> (nat \<times> nat) option" where
  "ReqOption_GetEntry l nIndex =
     (if nIndex < length (l4_req_opts l) then Some (nIndex, ro_InstanceNumber (l4_req_opts l ! nIndex)) else None)"

definition ReqOption_AddEntry :: "env \<Rightarrow> dm_lib \<Rightarrow> DHCPC_LINK_OBJECT \<Rightarrow> world \<Rightarrow> nat option \<times> DHCPC_LINK_OBJECT \<times> world" where
  "ReqOption_AddEntry e L l w =
     (case allocate e ''COSA_DML_DHCPC_REQ_OPT'' w of (ok1, w1) \<Rightarrow>
        if \<not> ok1 then (None, l, w1)
        else (case allocate e ''COSA_CONTEXT_LINK_OBJECT'' w1 of (ok2, w2) \<Rightarrow>
          if \<not> ok2 then (None, l, w2)
          else (let n = next_instance e (l4_maxInstanceOfReq l); l1 = l\<lparr>l4_maxInstanceOfReq := n\<rparr>; alias = ''ReqOption'' @ show_nat n
                in if 64 \<le> length alias then (None, l1, w2)
                   else (Some n, l1\<lparr>l4_req_opts := CosaSListPushEntryByInsNum (lib_list_req L) ro_InstanceNumber (l4_req_opts l1)
                           \<lparr>ro_bNew = True, ro_InstanceNumber = n, ro_Alias = alias, ro_bEnabled = False, ro_Order = 0, ro_Tag = 0,
                             ro_Value = []\<rparr>\<rparr>,
                         act (A_reg_set ''Dhcpv4'') w2))))"

definition ReqOption_DelEntry :: "nat \<Rightarrow> DHCPC_LINK_OBJECT \<Rightarrow> world \<Rightarrow> RETURN_STATUS \<times> DHCPC_LINK_OBJECT \<times> world" where
  "ReqOption_DelEntry i l w =
     (let o1 = l4_req_opts l ! i;
          r = (if \<not> ro_bNew o1 then CosaDmlDhcpcDelReqOption (ins4 l) (ro_InstanceNumber o1) else STATUS_SUCCESS)
      in if r \<noteq> STATUS_SUCCESS then (r, l, w)
         else (r, l\<lparr>l4_req_opts := remove_at i (l4_req_opts l)\<rparr>, act (A_reg_set ''Dhcpv4'') w))"

definition ReqOption_GetParamBoolValue :: "COSA_DML_DHCPC_REQ_OPT \<Rightarrow> string \<Rightarrow> bool option" where
  "ReqOption_GetParamBoolValue o1 ParamName = (if ParamName = ''Enable'' then Some (ro_bEnabled o1) else None)"

definition ReqOption_GetParamIntValue :: "COSA_DML_DHCPC_REQ_OPT \<Rightarrow> string \<Rightarrow> int option" where
  "ReqOption_GetParamIntValue o1 ParamName = None"

definition ReqOption_GetParamUlongValue :: "COSA_DML_DHCPC_REQ_OPT \<Rightarrow> string \<Rightarrow> nat option" where
  "ReqOption_GetParamUlongValue o1 ParamName =
     (if ParamName = ''Order'' then Some (ro_Order o1) else if ParamName = ''Tag'' then Some (ro_Tag o1) else None)"

definition ReqOption_GetParamStringValue :: "COSA_DML_DHCPC_REQ_OPT \<Rightarrow> string \<Rightarrow> nat \<Rightarrow> int \<times> string option \<times> nat" where
  "ReqOption_GetParamStringValue o1 ParamName ulSize =
     (if ParamName = ''Alias'' then update_pValue ulSize (ro_Alias o1)
      else if ParamName = ''Value'' then update_pValue ulSize (ro_Value o1)
      else (- 1, None, ulSize))"

definition ReqOption_SetParamBoolValue :: "COSA_DML_DHCPC_REQ_OPT \<Rightarrow> string \<Rightarrow> bool \<Rightarrow> bool \<times> COSA_DML_DHCPC_REQ_OPT" where
  "ReqOption_SetParamBoolValue o1 ParamName bValue =
     (if ParamName = ''Enable'' then (True, o1\<lparr>ro_bEnabled := bValue\<rparr>) else (False, o1))"

definition ReqOption_SetParamIntValue :: "COSA_DML_DHCPC_REQ_OPT \<Rightarrow> string \<Rightarrow> int \<Rightarrow> bool \<times> COSA_DML_DHCPC_REQ_OPT" where
  "ReqOption_SetParamIntValue o1 ParamName iValue = (False, o1)"

definition ReqOption_SetParamUlongValue :: "COSA_DML_DHCPC_REQ_OPT \<Rightarrow> string \<Rightarrow> nat \<Rightarrow> bool \<times> COSA_DML_DHCPC_REQ_OPT" where
  "ReqOption_SetParamUlongValue o1 ParamName uValue =
     (if ParamName = ''Order'' then (True, o1\<lparr>ro_Order := uValue\<rparr>)
      else if ParamName = ''Tag'' then (True, o1\<lparr>ro_Tag := uchar (int uValue)\<rparr>) else (False, o1))"

abbreviation set_req :: "nat \<Rightarrow> COSA_DML_DHCPC_REQ_OPT \<Rightarrow> DHCPC_LINK_OBJECT \<Rightarrow> DHCPC_LINK_OBJECT" where
  "set_req i o1 l \<equiv> l\<lparr>l4_req_opts := (l4_req_opts l)[i := o1]\<rparr>"

definition ReqOption_SetParamStringValue :: "dm_lib \<Rightarrow> nat \<Rightarrow> DHCPC_LINK_OBJECT \<Rightarrow> string \<Rightarrow> string \<Rightarrow> bool \<times> DHCPC_LINK_OBJECT" where
  "ReqOption_SetParamStringValue L i l ParamName pString =
     (let o1 = l4_req_opts l ! i
      in if ParamName = ''Alias''
         then (case lib_copy L 64 (ro_Alias o1) (l4_AliasOfReq l) of (ok1, old) \<Rightarrow>
                 (let l1 = l\<lparr>l4_AliasOfReq := old\<rparr>
                  in if \<not> ok1 then (False, l1)
                     else (case lib_copy L 64 pString (ro_Alias o1) of (ok2, s) \<Rightarrow> (ok2, set_req i (o1\<lparr>ro_Alias := s\<rparr>) l1))))
         else (False, l))"

definition ReqOption_Validate :: "nat \<Rightarrow> DHCPC_LINK_OBJECT \<Rightarrow> bool" where
  "ReqOption_Validate i l \<longleftrightarrow> \<not> l4_bNew l \<and>
     (l4_AliasOfReq l = [] \<or>
      \<not> list_ex (\<lambda>j. j \<noteq> i \<and> ro_Alias (l4_req_opts l ! i) = ro_Alias (l4_req_opts l ! j)) [0..<length (l4_req_opts l)])"

definition restore_req_alias :: "dm_lib \<Rightarrow> DHCPC_LINK_OBJECT \<Rightarrow> COSA_DML_DHCPC_REQ_OPT \<Rightarrow> COSA_DML_DHCPC_REQ_OPT" where
  "restore_req_alias L l o1 = (if l4_AliasOfReq l \<noteq> [] then o1\<lparr>ro_Alias := snd (lib_copy L 64 (l4_AliasOfReq l) (ro_Alias o1))\<rparr> else o1)"

text \<open>The platform layer has no copy of a requested option: reading it back changes nothing.\<close>

definition ReqOption_Commit :: "dm_lib \<Rightarrow> nat \<Rightarrow> DHCPC_LINK_OBJECT \<Rightarrow> world \<Rightarrow> RETURN_STATUS \<times> DHCPC_LINK_OBJECT \<times> world" where
  "ReqOption_Commit L i l w =
     (let o1 = l4_req_opts l ! i
      in if ro_bNew o1
         then (let r = CosaDmlDhcpcAddReqOption (ins4 l) o1
               in if r = STATUS_SUCCESS then (r, (set_req i (o1\<lparr>ro_bNew := False\<rparr>) l)\<lparr>l4_AliasOfReq := []\<rparr>, act (A_reg_set ''Dhcpv4'') w)
                  else (r, (set_req i (restore_req_alias L l (DHCPV4_REQOPTION_SET_DEFAULTVALUE o1)) l)\<lparr>l4_AliasOfReq := []\<rparr>, w))
         else (CosaDmlDhcpcSetReqOption (ins4 l) o1, l\<lparr>l4_AliasOfReq := []\<rparr>, w))"

definition ReqOption_Rollback :: "dm_lib \<Rightarrow> nat \<Rightarrow> DHCPC_LINK_OBJECT \<Rightarrow> RETURN_STATUS \<times> DHCPC_LINK_OBJECT" where
  "ReqOption_Rollback L i l =
     (let o1 = restore_req_alias L l (l4_req_opts l ! i)
      in (STATUS_SUCCESS, (set_req i (if \<not> ro_bNew o1 then o1 else DHCPV4_REQOPTION_SET_DEFAULTVALUE o1) l)\<lparr>l4_AliasOfReq := []\<rparr>))"

end
