(* ===== verification/Client3_Dml.thy ===== *)
theory Client3_Dml
  imports Option_Dml
begin

text \<open>
  The object \<open>Device.DHCPv6.Client.{i}.\<close> of the data model: the functions \<open>Client3_*\<close> of
  \<open>source/TR-181/middle_layer_src/cosa_dhcpv6_dml.c\<close> and what they call of the platform
  layer, \<open>source/TR-181/board_sbapi/cosa_dhcpv6_apis.c\<close>, in a build with
  \<open>DHCPV6C_PSM_ENABLE\<close>. The platform layer keeps one copy of a client,
  \<open>g_dhcpv6_client\<close>, for all clients; it is an argument of the functions that use it.
\<close>

section \<open>The platform layer\<close>

definition PsmReadParameter :: "env \<Rightarrow> string \<Rightarrow> nat \<Rightarrow> world \<Rightarrow> string option \<times> world" where
  "PsmReadParameter e key n w = (case psm_read e key w of (v, w') \<Rightarrow> (map_option (c_trunc n) v, w'))"

definition psm6 :: "nat \<Rightarrow> string \<Rightarrow> string" where
  "psm6 n what = ''dmsb.dhcpmanager.dhcpv6.Client.'' @ show_nat n @ ''.'' @ what"

text \<open>Read one parameter and, where that succeeds, put it into the entry.\<close>

definition psm6_set :: "env \<Rightarrow> nat \<Rightarrow> string \<Rightarrow> (string \<Rightarrow> 'a \<Rightarrow> 'a) \<Rightarrow> 'a \<times> world \<Rightarrow> 'a \<times> world" where
  "psm6_set e n what f s =
     (case PsmReadParameter e (psm6 n what) 256 (snd s) of (v, w') \<Rightarrow> (case v of None \<Rightarrow> fst s | Some x \<Rightarrow> f x (fst s), w'))"

abbreviation cfg6_set :: "(COSA_DML_DHCPCV6_CFG \<Rightarrow> COSA_DML_DHCPCV6_CFG) \<Rightarrow> COSA_DML_DHCPCV6_FULL \<Rightarrow> COSA_DML_DHCPCV6_FULL" where
  "cfg6_set f c \<equiv> c\<lparr>f6_Cfg := f (f6_Cfg c)\<rparr>"

definition get_entry6_psm :: "env \<Rightarrow> dm_lib \<Rightarrow> nat \<Rightarrow> COSA_DML_DHCPCV6_FULL \<Rightarrow> world \<Rightarrow> COSA_DML_DHCPCV6_FULL \<times> world" where
  "get_entry6_psm e L n c w =
     (let s0 = (cfg6_set (c6_InstanceNumber_update (\<lambda>_. n)) c, w);
          s1 = psm6_set e n ''Alias'' (\<lambda>v c. cfg6_set (\<lambda>k. k\<lparr>c6_Alias := snd (lib_copy L 64 v (c6_Alias k))\<rparr>) c) s0;
          s2 = psm6_set e n ''ReqAddr'' (\<lambda>v. cfg6_set (c6_RequestAddresses_update (\<lambda>_. v = ''TRUE''))) s1;
          s3 = psm6_set e n ''ReqPrefix'' (\<lambda>v. cfg6_set (c6_RequestPrefixes_update (\<lambda>_. v = ''TRUE''))) s2;
          s4 = psm6_set e n ''RapidCommit'' (\<lambda>v. cfg6_set (c6_RapidCommit_update (\<lambda>_. v = ''TRUE''))) s3;
          s5 = psm6_set e n ''T1'' (\<lambda>v. cfg6_set (c6_SuggestedT1_update (\<lambda>_. sint (strtol_u32 e v)))) s4;
          s6 = psm6_set e n ''T2'' (\<lambda>v. cfg6_set (c6_SuggestedT2_update (\<lambda>_. sint (strtol_u32 e v)))) s5;
          s7 = psm6_set e n ''RequestedOptions'' (\<lambda>v c. cfg6_set (\<lambda>k. k\<lparr>c6_RequestedOptions := snd (lib_copy L 512 v (c6_RequestedOptions k))\<rparr>) c) s6
      in psm6_set e n ''SupportedOptions''
           (\<lambda>v c. c\<lparr>f6_Info := (f6_Info c)\<lparr>i6_SupportedOptions := snd (lib_copy L 512 v (i6_SupportedOptions (f6_Info c)))\<rparr>\<rparr>) s7)"

text \<open>The first line of the file without colons, at most \<open>len\<close> characters; the rest of the target is kept, it was zero.\<close>

definition get_client_duid :: "env \<Rightarrow> string \<Rightarrow> world \<Rightarrow> string \<times> world" where
  "get_client_duid e out w =
     (case call e (A_fopen ''/var/lib/dibbler/client-duid'' ''r+'') w of (r, w1) \<Rightarrow>
        if r < 0 then (out, w1)
        else (case ask e (A_fread ''/var/lib/dibbler/client-duid'') w1 of (s, w2) \<Rightarrow>
                (let line = take 255 s in (if line = [] then out else take 131 (filter (\<lambda>c. c \<noteq> CHR '':'') line), w2))))"

text \<open>The entry is copied to \<open>g_dhcpv6_client\<close>, whatever its instance number.\<close>

definition CosaDmlDhcpv6cGetEntry ::
  "env \<Rightarrow> dm_lib \<Rightarrow> nat \<Rightarrow> COSA_DML_DHCPCV6_FULL \<Rightarrow> COSA_DML_DHCPCV6_FULL \<Rightarrow> world \<Rightarrow>
     COSA_DML_DHCPCV6_FULL \<times> COSA_DML_DHCPCV6_FULL \<times> world" where
  "CosaDmlDhcpv6cGetEntry e L n g_dhcpv6_client c w =
     (case get_entry6_psm e L n c w of (c1, w1) \<Rightarrow>
        (let st = (if c6_bEnabled (f6_Cfg c1) then COSA_DML_DHCP_STATUS_Enabled else COSA_DML_DHCP_STATUS_Disabled)
         in case get_client_duid e (i6_DUID (f6_Info c1)) w1 of (duid, w2) \<Rightarrow>
              (let c2 = c1\<lparr>f6_Info := (f6_Info c1)\<lparr>i6_Status := st, i6_DUID := duid\<rparr>\<rparr> in (c2, c2, w2))))"

definition CosaDmlDhcpv6cAddEntry :: "COSA_DML_DHCPCV6_FULL \<Rightarrow> RETURN_STATUS" where
  "CosaDmlDhcpv6cAddEntry pEntry = STATUS_SUCCESS"

definition CosaDmlDhcpv6cDelEntry :: "nat \<Rightarrow> RETURN_STATUS" where
  "CosaDmlDhcpv6cDelEntry ulInstanceNumber = STATUS_SUCCESS"

definition CosaDmlDhcpv6cGetCfg :: "COSA_DML_DHCPCV6_FULL \<Rightarrow> COSA_DML_DHCPCV6_CFG \<Rightarrow> RETURN_STATUS \<times> COSA_DML_DHCPCV6_CFG" where
  "CosaDmlDhcpv6cGetCfg g_dhcpv6_client cfg =
     (if c6_InstanceNumber cfg \<noteq> 1 then (STATUS_FAILURE, cfg) else (STATUS_SUCCESS, f6_Cfg g_dhcpv6_client))"

text \<open>
  With \<open>DHCPV6C_COMS\<close>: the parameters that differ from the copy are written to
  \<open>syscfg\<close>, and the configuration becomes the copy.
\<close>

definition raw_set :: "bool \<Rightarrow> string \<Rightarrow> string \<Rightarrow> world \<Rightarrow> world" where
  "raw_set ch key v w = (if ch then act (A_custom (''tr_dhcpv6c'' @ key) v) w else w)"

definition flag :: "bool \<Rightarrow> string" where
  "flag b = (if b then ''1'' else ''0'')"

definition CosaDmlDhcpv6cSetCfg ::
  "env \<Rightarrow> COSA_DML_DHCPCV6_FULL \<Rightarrow> COSA_DML_DHCPCV6_CFG \<Rightarrow> world \<Rightarrow> RETURN_STATUS \<times> COSA_DML_DHCPCV6_FULL \<times> world" where
  "CosaDmlDhcpv6cSetCfg e g cfg w =
     (if c6_InstanceNumber cfg \<noteq> 1 then (STATUS_FAILURE, g, w)
      else (case call e (A_custom ''Utopia_Init'' []) w of (r, w0) \<Rightarrow>
        if r = 0 then (STATUS_FAILURE, g, w0)
        else (let k = f6_Cfg g;
                  w1 = raw_set (c6_Alias cfg \<noteq> c6_Alias k) ''_alias'' (c6_Alias cfg) w0;
                  w2 = raw_set (c6_SuggestedT1 cfg \<noteq> c6_SuggestedT1 k) ''_t1'' (show_nat (nat (c6_SuggestedT1 cfg mod 2 ^ e_LONG_BIT e))) w1;
                  w3 = raw_set (c6_SuggestedT2 cfg \<noteq> c6_SuggestedT2 k) ''_t2'' (show_nat (nat (c6_SuggestedT2 cfg mod 2 ^ e_LONG_BIT e))) w2;
                  w4 = raw_set (c6_RequestedOptions cfg \<noteq> c6_RequestedOptions k) ''_requested_options'' (c6_RequestedOptions cfg) w3;
                  w5 = raw_set (c6_RequestAddresses cfg \<noteq> c6_RequestAddresses k) ''_iana_enabled'' (flag (c6_RequestAddresses cfg)) w4;
                  w6 = raw_set (c6_RequestPrefixes cfg \<noteq> c6_RequestPrefixes k) ''_iapd_enabled'' (flag (c6_RequestPrefixes cfg)) w5;
                  w7 = raw_set (c6_RapidCommit cfg \<noteq> c6_RapidCommit k) ''_rapidcommit_enabled'' (flag (c6_RapidCommit cfg)) w6
              in (STATUS_SUCCESS, g\<lparr>f6_Cfg := cfg\<rparr>, w7))))"

section \<open>The table\<close>

definition DHCPV6_CLIENT_SET_DEFAULTVALUE :: "COSA_DML_DHCPCV6_FULL \<Rightarrow> COSA_DML_DHCPCV6_FULL" where
  "DHCPV6_CLIENT_SET_DEFAULTVALUE c =
     c\<lparr>f6_Cfg := (f6_Cfg c)\<lparr>c6_bEnabled := False, c6_Renew := False, c6_Restart := False, c6_SuggestedT1 := - 1, c6_SuggestedT2 := - 1,
         c6_Interface := []\<rparr>,
       f6_Info := (f6_Info c)\<lparr>i6_Status := COSA_DML_DHCP_STATUS_Disabled, i6_ClientProcessId := - 1\<rparr>,
       f6_currentLease := None, f6_NewLeases := []\<rparr>"

definition client6_zero :: COSA_DML_DHCPCV6_FULL where
  "client6_zero = \<lparr>f6_Cfg = \<lparr>c6_InstanceNumber = 0, c6_Alias = [], c6_SuggestedT1 = 0, c6_SuggestedT2 = 0, c6_Interface = [],
       c6_RequestedOptions = [], c6_bEnabled = False, c6_RequestAddresses = False, c6_RequestPrefixes = False, c6_RapidCommit = False,
       c6_Renew = False, c6_Restart = False\<rparr>,
     f6_Info = \<lparr>i6_Status = COSA_DML_DHCP_STATUS_Disabled, i6_SupportedOptions = [], i6_DUID = [], i6_ClientProcessId = 0, i6_MapInfo = map_info_zero\<rparr>,
     f6_currentLease = None, f6_NewLeases = []\<rparr>"

record dm6 =
  dm6_ClientList :: "DHCPCV6_LINK_OBJECT list"
  dm6_maxInstanceOfClient :: nat

definition Client3_GetEntryCount :: "dm6 \<Rightarrow> nat" where
  "Client3_GetEntryCount d = length (dm6_ClientList d)"

definition Client3_GetEntry :: "dm6 \<Rightarrow> nat \<Rightarrow> (nat \<times> nat) option" where
  "Client3_GetEntry d nIndex =
     (if nIndex < length (dm6_ClientList d) then Some (nIndex, l6_InstanceNumber (dm6_ClientList d ! nIndex)) else None)"

definition client6_link :: "nat \<Rightarrow> string \<Rightarrow> DHCPCV6_LINK_OBJECT" where
  "client6_link n alias =
     \<lparr>l6_client = cfg6_set (\<lambda>k. k\<lparr>c6_InstanceNumber := n, c6_Alias := alias\<rparr>) (DHCPV6_CLIENT_SET_DEFAULTVALUE client6_zero),
      l6_sent_opts = [], l6_bNew = True, l6_InstanceNumber = n, l6_maxInstanceOfSent = 0, l6_AliasOfSent = []\<rparr>"

definition Client3_AddEntry :: "env \<Rightarrow> dm_lib \<Rightarrow> dm6 \<Rightarrow> world \<Rightarrow> nat option \<times> dm6 \<times> world" where
  "Client3_AddEntry e L d w =
     (case allocate e ''COSA_DML_DHCPCV6_FULL'' w of (ok1, w1) \<Rightarrow>
        if \<not> ok1 then (None, d, w1)
        else (case allocate e ''COSA_CONTEXT_DHCPCV6_LINK_OBJECT'' w1 of (ok2, w2) \<Rightarrow>
          if \<not> ok2 then (None, d, w2)
          else (let n = next_instance e (dm6_maxInstanceOfClient d); d1 = d\<lparr>dm6_maxInstanceOfClient := n\<rparr>; alias = ''Client'' @ show_nat n
                in if 64 \<le> length alias then (None, d1, w2)
                   else (Some n, d1\<lparr>dm6_ClientList := CosaSListPushEntryByInsNum (lib_list6 L) l6_InstanceNumber (dm6_ClientList d1) (client6_link n alias)\<rparr>,
                         act (A_reg_set ''Dhcpv6'') w2))))"

definition Client3_DelEntry :: "nat \<Rightarrow> dm6 \<Rightarrow> world \<Rightarrow> RETURN_STATUS \<times> dm6 \<times> world" where
  "Client3_DelEntry i d w =
     (let l = dm6_ClientList d ! i;
          r = (if \<not> l6_bNew l then CosaDmlDhcpv6cDelEntry (c6_InstanceNumber (f6_Cfg (l6_client l))) else STATUS_SUCCESS)
      in if r \<noteq> STATUS_SUCCESS then (r, d, w)
         else (r, d\<lparr>dm6_ClientList := remove_at i (dm6_ClientList d)\<rparr>, act (A_reg_set ''Dhcpv6'') w))"

section \<open>Parameters\<close>

definition Client3_GetParamBoolValue :: "DHCPCV6_LINK_OBJECT \<Rightarrow> string \<Rightarrow> bool option" where
  "Client3_GetParamBoolValue l ParamName =
     (let cfg = f6_Cfg (l6_client l)
      in if ParamName = ''Enable'' then Some (c6_bEnabled cfg)
         else if ParamName = ''RequestAddresses'' then Some (c6_RequestAddresses cfg)
         else if ParamName = ''RequestPrefixes'' then Some (c6_RequestPrefixes cfg)
         else if ParamName = ''RapidCommit'' then Some (c6_RapidCommit cfg)
         else if ParamName = ''Renew'' then Some False
         else if ParamName = ''X_RDK_Restart'' then Some (c6_Restart cfg)
         else if ParamName = ''X_RDK_Release'' then Some False
         else None)"

definition Client3_GetParamIntValue :: "DHCPCV6_LINK_OBJECT \<Rightarrow> string \<Rightarrow> int option" where
  "Client3_GetParamIntValue l ParamName =
     (if ParamName = ''SuggestedT1'' then Some (c6_SuggestedT1 (f6_Cfg (l6_client l)))
      else if ParamName = ''SuggestedT2'' then Some (c6_SuggestedT2 (f6_Cfg (l6_client l)))
      else None)"

definition Client3_GetParamUlongValue :: "DHCPCV6_LINK_OBJECT \<Rightarrow> string \<Rightarrow> nat option" where
  "Client3_GetParamUlongValue l ParamName = (if ParamName = ''Status'' then Some (status_num (i6_Status (f6_Info (l6_client l)))) else None)"

definition Client3_GetParamStringValue :: "env \<Rightarrow> DHCPCV6_LINK_OBJECT \<Rightarrow> string \<Rightarrow> nat \<Rightarrow> world \<Rightarrow> (int \<times> string option \<times> nat) \<times> world" where
  "Client3_GetParamStringValue e l ParamName ulSize w =
     (let c = l6_client l; cfg = f6_Cfg c
      in if ParamName = ''Alias'' then (update_pValue ulSize (c6_Alias cfg), w)
         else if ParamName = ''X_RDK_LinuxInterface'' then (update_pValue ulSize (c6_Interface cfg), w)
         else if ParamName = ''Interface''
         then (if e_DHCPV6C_COMS e
               then (case call e (A_custom ''CosaUtilGetFullPathNameByKeyword'' (c6_Interface cfg)) w of (r, w') \<Rightarrow>
                       if r = 0 then ((0, None, ulSize), w') else (update_pValue ulSize (e_str e (w_trace w')), w'))
               else (update_pValue ulSize (c6_Interface cfg), w))
         else if ParamName = ''DUID'' then (update_pValue ulSize (i6_DUID (f6_Info c)), w)
         else if ParamName = ''SupportedOptions'' then (update_pValue ulSize (i6_SupportedOptions (f6_Info c)), w)
         else if ParamName = ''RequestedOptions'' then (update_pValue ulSize (c6_RequestedOptions cfg), w)
         else ((- 1, None, ulSize), w))"

text \<open>Unlike the DHCPv4 object, \<open>Renew\<close> sends its message for a false value too.\<close>

definition set6_check :: "env \<Rightarrow> DHCPCV6_LINK_OBJECT \<Rightarrow> string \<Rightarrow> bool \<Rightarrow> world \<Rightarrow> set_result \<times> DHCPCV6_LINK_OBJECT \<times> world" where
  "set6_check e l ParamName bValue w =
     (let cfg = f6_Cfg (l6_client l); upd = (\<lambda>f. l\<lparr>l6_client := cfg6_set f (l6_client l)\<rparr>)
      in if ParamName = ''Enable''
         then (if c6_Interface cfg = [] then (Ret False, l, w)
               else (Send, l, snd (Dhcp_set_Sysevent_InterfaceEnable e (enable_key True (c6_InstanceNumber cfg)) (c6_Interface cfg) bValue w)))
         else if ParamName = ''RequestAddresses'' then (Ret True, upd (c6_RequestAddresses_update (\<lambda>_. bValue)), w)
         else if ParamName = ''RequestPrefixes'' then (Ret True, upd (c6_RequestPrefixes_update (\<lambda>_. bValue)), w)
         else if ParamName = ''RapidCommit'' then (Ret True, upd (c6_RapidCommit_update (\<lambda>_. bValue)), w)
         else if ParamName = ''Renew'' then (if c6_bEnabled cfg then Send else Ret False, l, w)
         else if ParamName = ''X_RDK_Restart'' then (if c6_bEnabled cfg \<and> bValue then Send else Ret True, l, w)
         else if ParamName = ''X_RDK_Release'' then (if c6_bEnabled cfg \<and> bValue then Send else Ret True, l, w)
         else (Ret False, l, w))"

definition Client3_SetParamBoolValue :: "env \<Rightarrow> DHCPCV6_LINK_OBJECT \<Rightarrow> string \<Rightarrow> bool \<Rightarrow> world \<Rightarrow> bool \<times> DHCPCV6_LINK_OBJECT \<times> world" where
  "Client3_SetParamBoolValue e l ParamName bValue w =
     (case set6_check e l ParamName bValue w of
        (Ret b, l', w1) \<Rightarrow> (b, l', w1)
      | (Send, l', w1) \<Rightarrow>
          (case DhcpMgr_OpenQueueEnsureThread e (set_msg (c6_Interface (f6_Cfg (l6_client l))) ParamName bValue DML_DHCPV6) w1 of
             (r, w2) \<Rightarrow> (r = 0, l', w2)))"

definition Client3_SetParamIntValue :: "DHCPCV6_LINK_OBJECT \<Rightarrow> string \<Rightarrow> int \<Rightarrow> bool \<times> DHCPCV6_LINK_OBJECT" where
  "Client3_SetParamIntValue l ParamName iValue =
     (if ParamName = ''SuggestedT1'' then (True, l\<lparr>l6_client := cfg6_set (c6_SuggestedT1_update (\<lambda>_. iValue)) (l6_client l)\<rparr>)
      else if ParamName = ''SuggestedT2'' then (True, l\<lparr>l6_client := cfg6_set (c6_SuggestedT2_update (\<lambda>_. iValue)) (l6_client l)\<rparr>)
      else (False, l))"

definition Client3_SetParamUlongValue :: "DHCPCV6_LINK_OBJECT \<Rightarrow> string \<Rightarrow> nat \<Rightarrow> bool \<times> DHCPCV6_LINK_OBJECT" where
  "Client3_SetParamUlongValue l ParamName uValue = (False, l)"

definition Client3_SetParamStringValue :: "dm_lib \<Rightarrow> DHCPCV6_LINK_OBJECT \<Rightarrow> string \<Rightarrow> string \<Rightarrow> bool \<times> DHCPCV6_LINK_OBJECT" where
  "Client3_SetParamStringValue L l ParamName pString =
     (let cfg = f6_Cfg (l6_client l)
      in if ParamName = ''RequestedOptions''
         then (case lib_copy L 512 pString (c6_RequestedOptions cfg) of (ok, s) \<Rightarrow>
                 (ok, l\<lparr>l6_client := cfg6_set (c6_RequestedOptions_update (\<lambda>_. s)) (l6_client l)\<rparr>))
         else if ParamName = ''Interface''
         then (case lib_copy L 64 pString (c6_Interface cfg) of (ok, s) \<Rightarrow>
                 (ok, l\<lparr>l6_client := cfg6_set (c6_Interface_update (\<lambda>_. s)) (l6_client l)\<rparr>))
         else (False, l))"

section \<open>Transactions\<close>

definition Client3_Validate :: "DHCPCV6_LINK_OBJECT \<Rightarrow> bool" where
  "Client3_Validate l =
     (let cfg = f6_Cfg (l6_client l) in \<not> (c6_bEnabled cfg \<and> c6_SuggestedT1 cfg > c6_SuggestedT2 cfg))"

definition Client3_Commit ::
  "env \<Rightarrow> COSA_DML_DHCPCV6_FULL \<Rightarrow> DHCPCV6_LINK_OBJECT \<Rightarrow> world \<Rightarrow> RETURN_STATUS \<times> COSA_DML_DHCPCV6_FULL \<times> DHCPCV6_LINK_OBJECT \<times> world" where
  "Client3_Commit e g l w =
     (let c = l6_client l
      in if l6_bNew l
         then (let r = CosaDmlDhcpv6cAddEntry c
               in if r = STATUS_SUCCESS then (r, g, l\<lparr>l6_bNew := False\<rparr>, act (A_reg_set ''Dhcpv6'') w)
                  else (r, g, l\<lparr>l6_client := DHCPV6_CLIENT_SET_DEFAULTVALUE c\<rparr>, w))
         else if e_DHCPV6C_COMS e
         then (case CosaDmlDhcpv6cSetCfg e g (f6_Cfg c) w of (r, g', w') \<Rightarrow>
                 if r \<noteq> STATUS_SUCCESS then (r, g', l\<lparr>l6_client := c\<lparr>f6_Cfg := snd (CosaDmlDhcpv6cGetCfg g' (f6_Cfg c))\<rparr>\<rparr>, w')
                 else (r, g', l, w'))
         else (STATUS_SUCCESS, g, l, w))"

definition Client3_Rollback :: "COSA_DML_DHCPCV6_FULL \<Rightarrow> DHCPCV6_LINK_OBJECT \<Rightarrow> RETURN_STATUS \<times> DHCPCV6_LINK_OBJECT" where
  "Client3_Rollback g l =
     (let c = l6_client l
      in if \<not> l6_bNew l then (STATUS_SUCCESS, l\<lparr>l6_client := c\<lparr>f6_Cfg := snd (CosaDmlDhcpv6cGetCfg g (f6_Cfg c))\<rparr>\<rparr>)
         else (STATUS_SUCCESS, l\<lparr>l6_client := DHCPV6_CLIENT_SET_DEFAULTVALUE c\<rparr>))"

end
