(* ===== verification/Dml_Tables.thy ===== *)
theory Dml_Tables
  imports Client3_Dml
begin

text \<open>
  The tables of the data model. The locale \<open>dm_table\<close> is what the operations that add
  and delete entries promise about instance numbers; it is interpreted on the tables
  of the DHCPv4 clients, of their sent and requested options, and of the DHCPv6
  clients. \<open>dm4_step\<close> has every operation of the DHCPv4 object on a table of
  clients; the reachable tables keep their numbers and the sizes of their strings.
\<close>

section \<open>Instance numbers\<close>

definition table_ok :: "nat list \<Rightarrow> nat \<Rightarrow> bool" where
  "table_ok ns m \<longleftrightarrow> sorted_wrt (<) ns \<and> (\<forall>n \<in> set ns. n \<le> m)"

datatype table_op = T_add | T_del nat

fun table_run ::
  "('s \<Rightarrow> world \<Rightarrow> nat option \<times> 's \<times> world) \<Rightarrow> (nat \<Rightarrow> 's \<Rightarrow> world \<Rightarrow> RETURN_STATUS \<times> 's \<times> world) \<Rightarrow>
     table_op list \<Rightarrow> 's \<Rightarrow> world \<Rightarrow> nat list \<times> 's \<times> world" where
  "table_run add del [] s w = ([], s, w)"
| "table_run add del (T_add # ops) s w =
     (case add s w of (r, s1, w1) \<Rightarrow>
        (case table_run add del ops s1 w1 of (xs, s2, w2) \<Rightarrow> (case r of None \<Rightarrow> xs | Some n \<Rightarrow> n # xs, s2, w2)))"
| "table_run add del (T_del i # ops) s w = (case del i s w of (r, s1, w1) \<Rightarrow> table_run add del ops s1 w1)"

text \<open>The numbers given out grow, the entries at the end are in their order, and are old or have one of them.\<close>

definition numbers_grow :: "('s \<Rightarrow> nat list) \<Rightarrow> ('s \<Rightarrow> nat) \<Rightarrow> 's \<Rightarrow> nat list \<times> 's \<times> world \<Rightarrow> bool" where
  "numbers_grow ns mx s r \<longleftrightarrow> (case r of (xs, s', w') \<Rightarrow>
     sorted_wrt (<) xs \<and> (\<forall>x \<in> set xs. mx s < x \<and> x \<le> mx s') \<and> sorted_wrt (<) (ns s') \<and> set (ns s') \<subseteq> set (ns s) \<union> set xs)"

lemma sorted_remove_at: "sorted_wrt (<) ns \<Longrightarrow> sorted_wrt (<) (remove_at i (ns :: nat list))"
proof -
  assume s: "sorted_wrt (<) ns"
  then have "sorted_wrt (<) (take i ns @ drop i ns)" by simp
  then have "\<forall>x \<in> set (take i ns). \<forall>y \<in> set (drop i ns). x < y" unfolding sorted_wrt_append by blast
  moreover have "set (drop (Suc i) ns) \<subseteq> set (drop i ns)" by (simp add: set_drop_subset_set_drop)
  ultimately show ?thesis using s by (auto simp: remove_at_def sorted_wrt_append sorted_wrt_take sorted_wrt_drop)
qed

locale dm_table =
  fixes add :: "env \<Rightarrow> dm_lib \<Rightarrow> 's \<Rightarrow> world \<Rightarrow> nat option \<times> 's \<times> world"
    and del :: "nat \<Rightarrow> 's \<Rightarrow> world \<Rightarrow> RETURN_STATUS \<times> 's \<times> world"
    and ns :: "'s \<Rightarrow> nat list" and mx :: "'s \<Rightarrow> nat"
  assumes add_law: "dm_lib_ok L \<Longrightarrow> add e L s w = (r, s', w') \<Longrightarrow>
      r = None \<and> ns s' = ns s \<and> (mx s' = mx s \<or> mx s' = next_instance e (mx s)) \<or>
      r = Some (next_instance e (mx s)) \<and> mx s' = next_instance e (mx s) \<and>
        inserted id (ns s) (next_instance e (mx s)) (ns s')"
    and del_law: "del i s w = (st, s', w') \<Longrightarrow> mx s' = mx s \<and> (ns s' = ns s \<or> ns s' = remove_at i (ns s))"
begin

lemma add_numbers:
  assumes "dm_lib_ok L" "Suc (mx s) < 2 ^ e_LONG_BIT e" "table_ok (ns s) (mx s)" "add e L s w = (r, s', w')"
  shows "table_ok (ns s') (mx s') \<and> mx s \<le> mx s' \<and> mx s' \<le> Suc (mx s) \<and>
    (case r of None \<Rightarrow> ns s' = ns s | Some n \<Rightarrow> n = Suc (mx s) \<and> mx s' = n \<and> set (ns s') = insert n (set (ns s)))"
proof -
  have [simp]: "next_instance e (mx s) = Suc (mx s)" using assms(2) by (simp add: next_instance_fresh)
  show ?thesis
  proof (cases r)
    case None
    with add_law [OF assms(1,4)] assms(3) show ?thesis by (auto simp: table_ok_def)
  next
    case (Some n)
    with add_law [OF assms(1,4)] have n: "n = Suc (mx s)" "mx s' = n" "inserted id (ns s) n (ns s')" by auto
    with assms(3) have "ns s' = ns s @ [n]" by (intro inserted_last [of id]) (auto simp: table_ok_def less_Suc_eq_le)
    with n assms(3) Some show ?thesis by (auto simp: table_ok_def sorted_wrt_append less_Suc_eq_le)
  qed
qed

lemma del_numbers:
  assumes "table_ok (ns s) (mx s)" "del i s w = (r, s', w')"
  shows "table_ok (ns s') (mx s') \<and> mx s' = mx s \<and> set (ns s') \<subseteq> set (ns s)"
proof -
  have "set (remove_at i (ns s)) \<subseteq> set (ns s)" "sorted_wrt (<) (ns s) \<Longrightarrow> sorted_wrt (<) (remove_at i (ns s))"
    by (auto simp: sorted_remove_at) (auto simp: remove_at_def dest: in_set_takeD in_set_dropD)
  with del_law [OF assms(2)] assms(1) show ?thesis by (auto simp: table_ok_def)
qed

lemma add_keeps:
  "dm_lib_ok L \<Longrightarrow> Suc (mx s) < 2 ^ e_LONG_BIT e \<Longrightarrow> table_ok (ns s) (mx s) \<Longrightarrow>
     table_ok (ns (fst (snd (add e L s w)))) (mx (fst (snd (add e L s w))))"
  using add_numbers [of L s e w "fst (add e L s w)" "fst (snd (add e L s w))" "snd (snd (add e L s w))"] by auto

lemma del_keeps:
  "table_ok (ns s) (mx s) \<Longrightarrow> table_ok (ns (fst (snd (del i s w)))) (mx (fst (snd (del i s w))))"
  using del_numbers [of s i w "fst (del i s w)" "fst (snd (del i s w))" "snd (snd (del i s w))"] by auto

lemma run_numbers:
  assumes "dm_lib_ok L" "table_ok (ns s) (mx s)" "mx s + length ops < 2 ^ e_LONG_BIT e"
    and "table_run (add e L) del ops s w = (xs, s', w')"
  shows "sorted_wrt (<) xs \<and> (\<forall>x \<in> set xs. mx s < x \<and> x \<le> mx s') \<and> table_ok (ns s') (mx s') \<and>
    mx s \<le> mx s' \<and> set (ns s') \<subseteq> set (ns s) \<union> set xs"
  using assms(2-)
proof (induction ops arbitrary: s w xs)
  case (Cons op ops)
  show ?case
  proof (cases op)
    case T_add
    obtain r s1 w1 where a: "add e L s w = (r, s1, w1)" by (metis prod_cases3)
    obtain ys where t: "table_run (add e L) del ops s1 w1 = (ys, s', w')" "xs = (case r of None \<Rightarrow> ys | Some n \<Rightarrow> n # ys)"
      using Cons.prems(3) a T_add by (auto split: prod.splits)
    have n: "table_ok (ns s1) (mx s1) \<and> mx s \<le> mx s1 \<and> mx s1 \<le> Suc (mx s) \<and>
        (case r of None \<Rightarrow> ns s1 = ns s | Some n \<Rightarrow> n = Suc (mx s) \<and> mx s1 = n \<and> set (ns s1) = insert n (set (ns s)))"
      using add_numbers [OF assms(1) _ Cons.prems(1) a] Cons.prems(2) by simp
    moreover have "mx s1 + length ops < 2 ^ e_LONG_BIT e" using n Cons.prems(2) by simp
    ultimately show ?thesis using Cons.IH [OF _ _ t(1)] t(2) by (fastforce split: option.splits)
  next
    case (T_del i)
    obtain r s1 w1 where d: "del i s w = (r, s1, w1)" by (metis prod_cases3)
    then have "table_run (add e L) del ops s1 w1 = (xs, s', w')" using Cons.prems(3) T_del by simp
    moreover have n: "table_ok (ns s1) (mx s1)" "mx s1 = mx s" "set (ns s1) \<subseteq> set (ns s)"
      using del_numbers [OF Cons.prems(1) d] by blast+
    ultimately show ?thesis using Cons.IH [of s1 w1 xs] Cons.prems(2) by auto
  qed
qed simp

lemma run_grow:
  assumes "dm_lib_ok L" "table_ok (ns s) (mx s)" "mx s + length ops < 2 ^ e_LONG_BIT e"
  shows "numbers_grow ns mx s (table_run (add e L) del ops s w)"
proof -
  obtain xs s' w' where r: "table_run (add e L) del ops s w = (xs, s', w')" by (metis prod_cases3)
  from run_numbers [OF assms r] show ?thesis by (simp add: numbers_grow_def table_ok_def r)
qed

end

lemma remove_at_map: "remove_at i (map f xs) = map f (remove_at i xs)"
  by (simp add: remove_at_def take_map drop_map)

lemma pushed_numbers:
  "slist_ok S \<Longrightarrow> num x = n \<Longrightarrow> inserted id (map num xs) n (map num (CosaSListPushEntryByInsNum S num xs x))"
  using inserted_map [OF push_inserts [of S num xs x]] by simp

interpretation clients4: dm_table Client_AddEntry Client_DelEntry "\<lambda>d. map l4_InstanceNumber (dm_ClientList d)" dm_maxInstanceOfClient
  by unfold_locales (auto simp: Client_AddEntry_def Client_DelEntry_def allocate_def case_prod_beta Let_def client4_link_def
      remove_at_map intro!: pushed_numbers dm_lib_lists split: if_splits)

interpretation clients6: dm_table Client3_AddEntry Client3_DelEntry "\<lambda>d. map l6_InstanceNumber (dm6_ClientList d)" dm6_maxInstanceOfClient
  by unfold_locales (auto simp: Client3_AddEntry_def Client3_DelEntry_def allocate_def case_prod_beta Let_def client6_link_def
      remove_at_map intro!: pushed_numbers dm_lib_lists split: if_splits)

interpretation sent_options: dm_table SentOption_AddEntry SentOption_DelEntry "\<lambda>l. map so_InstanceNumber (l4_sent_opts l)" l4_maxInstanceOfSend
  by unfold_locales (auto simp: SentOption_AddEntry_def SentOption_DelEntry_def allocate_def case_prod_beta Let_def
      remove_at_map intro!: pushed_numbers dm_lib_lists split: if_splits)

interpretation req_options: dm_table ReqOption_AddEntry ReqOption_DelEntry "\<lambda>l. map ro_InstanceNumber (l4_req_opts l)" l4_maxInstanceOfReq
  by unfold_locales (auto simp: ReqOption_AddEntry_def ReqOption_DelEntry_def allocate_def case_prod_beta Let_def
      remove_at_map intro!: pushed_numbers dm_lib_lists split: if_splits)

section \<open>The DHCPv4 object\<close>

text \<open>The sizes of the character arrays, and the instance number that an entry has twice.\<close>

definition sent_fits :: "COSA_DML_DHCP_OPT \<Rightarrow> bool" where
  "sent_fits o1 \<longleftrightarrow> length (so_Alias o1) < 512 \<and> length (so_Value o1) < 255 \<and> so_Tag o1 < 256"

definition req_opt_fits :: "COSA_DML_DHCPC_REQ_OPT \<Rightarrow> bool" where
  "req_opt_fits o1 \<longleftrightarrow> length (ro_Alias o1) < 64 \<and> ro_Tag o1 < 256"

definition cfg4_fits :: "COSA_DML_DHCPC_CFG \<Rightarrow> bool" where
  "cfg4_fits c \<longleftrightarrow> length (c4_Alias c) < 64 \<and> length (c4_Interface c) < 64 \<and> length (c4_BootFileName c) < 256"

definition sent_table_ok :: "DHCPC_LINK_OBJECT \<Rightarrow> bool" where
  "sent_table_ok l \<longleftrightarrow> table_ok (map so_InstanceNumber (l4_sent_opts l)) (l4_maxInstanceOfSend l) \<and>
     list_all sent_fits (l4_sent_opts l) \<and> length (l4_AliasOfSend l) < 64"

definition req_table_ok :: "DHCPC_LINK_OBJECT \<Rightarrow> bool" where
  "req_table_ok l \<longleftrightarrow> table_ok (map ro_InstanceNumber (l4_req_opts l)) (l4_maxInstanceOfReq l) \<and>
     list_all req_opt_fits (l4_req_opts l) \<and> length (l4_AliasOfReq l) < 64"

definition link4_ok :: "DHCPC_LINK_OBJECT \<Rightarrow> bool" where
  "link4_ok l \<longleftrightarrow> l4_InstanceNumber l = ins4 l \<and> cfg4_fits (f4_Cfg (l4_client l)) \<and> sent_table_ok l \<and> req_table_ok l"

definition dm4_ok :: "dm4 \<Rightarrow> bool" where
  "dm4_ok d \<longleftrightarrow> table_ok (map l4_InstanceNumber (dm_ClientList d)) (dm_maxInstanceOfClient d) \<and> list_all link4_ok (dm_ClientList d)"

definition store_fits :: "sent_store \<Rightarrow> bool" where
  "store_fits store \<longleftrightarrow> list_all (\<lambda>(n, cnt, row). list_all sent_fits row) store"

text \<open>
  What the framework and the controller do to one client. Instance numbers do not
  wrap around: an entry is added only while there is a next number.
\<close>

inductive link4_step :: "env \<Rightarrow> dm_lib \<Rightarrow> nat \<Rightarrow> sent_store \<Rightarrow> DHCPC_LINK_OBJECT \<Rightarrow> DHCPC_LINK_OBJECT \<Rightarrow> bool"
  for e L num store where
  get_int: "link4_step e L num store l (fst (snd (Client_GetParamIntValue e l p w)))"
| get_ulong: "link4_step e L num store l (fst (snd (Client_GetParamUlongValue e l p w)))"
| set_string: "link4_step e L num store l (snd (Client_SetParamStringValue L l p v))"
| commit: "link4_step e L num store l (fst (snd (Client_Commit e L l w)))"
| rollback: "link4_step e L num store l (fst (snd (Client_Rollback e L l w)))"
| control: "v4_handle_client e m l w = Some (l', w') \<Longrightarrow> link4_step e L num store l l'"
| sent_add: "Suc (l4_maxInstanceOfSend l) < 2 ^ e_LONG_BIT e \<Longrightarrow> link4_step e L num store l (fst (snd (SentOption_AddEntry e L l w)))"
| sent_del: "i < length (l4_sent_opts l) \<Longrightarrow> link4_step e L num store l (fst (snd (SentOption_DelEntry i l w)))"
| sent_bool: "i < length (l4_sent_opts l) \<Longrightarrow>
    link4_step e L num store l (set_sent i (snd (SentOption_SetParamBoolValue (l4_sent_opts l ! i) p b)) l)"
| sent_ulong: "i < length (l4_sent_opts l) \<Longrightarrow>
    link4_step e L num store l (set_sent i (snd (SentOption_SetParamUlongValue (l4_sent_opts l ! i) p n)) l)"
| sent_string: "i < length (l4_sent_opts l) \<Longrightarrow> link4_step e L num store l (snd (SentOption_SetParamStringValue L i l p v))"
| sent_commit: "i < length (l4_sent_opts l) \<Longrightarrow> SentOption_Commit L num store i l w = Some (r, l', w') \<Longrightarrow> link4_step e L num store l l'"
| sent_rollback: "i < length (l4_sent_opts l) \<Longrightarrow> SentOption_Rollback L num store i l = Some (r, l') \<Longrightarrow> link4_step e L num store l l'"
| req_add: "Suc (l4_maxInstanceOfReq l) < 2 ^ e_LONG_BIT e \<Longrightarrow> link4_step e L num store l (fst (snd (ReqOption_AddEntry e L l w)))"
| req_del: "i < length (l4_req_opts l) \<Longrightarrow> link4_step e L num store l (fst (snd (ReqOption_DelEntry i l w)))"
| req_bool: "i < length (l4_req_opts l) \<Longrightarrow>
    link4_step e L num store l (set_req i (snd (ReqOption_SetParamBoolValue (l4_req_opts l ! i) p b)) l)"
| req_ulong: "i < length (l4_req_opts l) \<Longrightarrow>
    link4_step e L num store l (set_req i (snd (ReqOption_SetParamUlongValue (l4_req_opts l ! i) p n)) l)"
| req_string: "i < length (l4_req_opts l) \<Longrightarrow> link4_step e L num store l (snd (ReqOption_SetParamStringValue L i l p v))"
| req_commit: "i < length (l4_req_opts l) \<Longrightarrow> link4_step e L num store l (fst (snd (ReqOption_Commit L i l w)))"
| req_rollback: "i < length (l4_req_opts l) \<Longrightarrow> link4_step e L num store l (snd (ReqOption_Rollback L i l))"

inductive dm4_step :: "env \<Rightarrow> dm_lib \<Rightarrow> nat \<Rightarrow> sent_store \<Rightarrow> dm4 \<Rightarrow> dm4 \<Rightarrow> bool" for e L num store where
  add: "Suc (dm_maxInstanceOfClient d) < 2 ^ e_LONG_BIT e \<Longrightarrow> dm4_step e L num store d (fst (snd (Client_AddEntry e L d w)))"
| del: "i < length (dm_ClientList d) \<Longrightarrow> dm4_step e L num store d (fst (snd (Client_DelEntry i d w)))"
| entry: "i < length (dm_ClientList d) \<Longrightarrow> link4_step e L num store (dm_ClientList d ! i) l' \<Longrightarrow>
    dm4_step e L num store d (d\<lparr>dm_ClientList := (dm_ClientList d)[i := l']\<rparr>)"

section \<open>The invariant\<close>

text \<open>What the controller and the reading of parameters leave alone.\<close>

definition fixed4 :: "COSA_DML_DHCPC_FULL \<Rightarrow> COSA_DML_DHCPC_FULL \<Rightarrow> bool" where
  "fixed4 c c' \<longleftrightarrow> c4_InstanceNumber (f4_Cfg c') = c4_InstanceNumber (f4_Cfg c) \<and> c4_Alias (f4_Cfg c') = c4_Alias (f4_Cfg c) \<and>
     c4_Interface (f4_Cfg c') = c4_Interface (f4_Cfg c) \<and> c4_BootFileName (f4_Cfg c') = c4_BootFileName (f4_Cfg c)"

lemma fixed4_link: "fixed4 (l4_client l) c' \<Longrightarrow> link4_ok l \<Longrightarrow> link4_ok (l\<lparr>l4_client := c'\<rparr>)"
  by (simp add: fixed4_def link4_ok_def cfg4_fits_def sent_table_ok_def req_table_ok_def)

lemma fixed4_trans: "fixed4 a b \<Longrightarrow> fixed4 b c \<Longrightarrow> fixed4 a c"
  by (simp add: fixed4_def)

lemma v4_param_fixed: "v4_param e m c w = Some (rel, c', w') \<Longrightarrow> fixed4 c c'"
  by (auto simp: v4_param_def fixed4_def dest!: ProcessV4Lease_keeps split: if_splits) (simp_all add: keeps4_def)

lemma v4_control_fixed: "v4_control e rel l w = Some (c', w') \<Longrightarrow> fixed4 (l4_client l) c'"
  by (auto simp: v4_control_def v4_start_def v4_restart_def v4_stop_def DhcpMgr_clearDHCPv4Lease_def fixed4_def Let_def
      split: if_splits prod.splits option.splits)

lemma handle_keeps_link4:
  assumes "v4_handle_client e m l w = Some (l', w')" "link4_ok l"
  shows "link4_ok l'"
proof -
  obtain rel c1 w1 c' where s: "v4_param e m (l4_client l) w = Some (rel, c1, w1)"
      "v4_control e rel (l\<lparr>l4_client := c1\<rparr>) w1 = Some (c', w')" "l' = l\<lparr>l4_client := c'\<rparr>"
    using assms(1) by (auto simp: v4_handle_client_def split: option.splits)
  then have "fixed4 (l4_client l) c'" using v4_param_fixed fixed4_trans v4_control_fixed [OF s(2)] by force
  then show ?thesis using fixed4_link assms(2) s(3) by simp
qed

text \<open>The parameters of the client.\<close>

lemma info_keeps_link4: "link4_ok l \<Longrightarrow> link4_ok (l\<lparr>l4_client := (l4_client l)\<lparr>f4_Info := i\<rparr>\<rparr>)"
  by (rule fixed4_link) (simp_all add: fixed4_def)

lemma get_keeps_link4:
  "link4_ok l \<Longrightarrow> link4_ok (fst (snd (Client_GetParamIntValue e l p w)))"
  "link4_ok l \<Longrightarrow> link4_ok (fst (snd (Client_GetParamUlongValue e l p w)))"
  by (simp_all add: Client_GetParamIntValue_def Client_GetParamUlongValue_def case_prod_beta Let_def info_keeps_link4)

lemma copied_length: "dm_lib_ok L \<Longrightarrow> length d < n \<Longrightarrow> length (snd (lib_copy L n s d)) < n"
  by (simp add: lib_copy_simp)

lemma GetCfg_fits:
  assumes "dm_lib_ok L" "cfg4_fits c"
  shows "cfg4_fits (fst (CosaDmlDhcpcGetCfg e L c w)) \<and> c4_InstanceNumber (fst (CosaDmlDhcpcGetCfg e L c w)) = c4_InstanceNumber c"
  using assms copied_length [OF assms(1), of "c4_Alias c" 64]
  by (auto simp: CosaDmlDhcpcGetCfg_def commonSyseventGet_def cfg4_fits_def case_prod_beta Let_def split: option.splits)

lemma default_keeps_link4: "link4_ok l \<Longrightarrow> link4_ok (l\<lparr>l4_client := DHCPV4_CLIENT_SET_DEFAULTVALUE (l4_client l)\<rparr>)"
  by (simp add: link4_ok_def cfg4_fits_def sent_table_ok_def req_table_ok_def DHCPV4_CLIENT_SET_DEFAULTVALUE_def)

lemma cfg_keeps_link4:
  "link4_ok l \<Longrightarrow> cfg4_fits c \<Longrightarrow> c4_InstanceNumber c = ins4 l \<Longrightarrow> link4_ok (on_cfg4 (\<lambda>_. c) l)"
  by (simp add: link4_ok_def sent_table_ok_def req_table_ok_def)

lemma field_keeps_link4:
  "link4_ok l \<Longrightarrow> length s < 64 \<Longrightarrow> link4_ok (on_cfg4 (c4_Alias_update (\<lambda>_. s)) l)"
  "link4_ok l \<Longrightarrow> length s < 64 \<Longrightarrow> link4_ok (on_cfg4 (c4_Interface_update (\<lambda>_. s)) l)"
  "link4_ok l \<Longrightarrow> length s < 256 \<Longrightarrow> link4_ok (on_cfg4 (c4_BootFileName_update (\<lambda>_. s)) l)"
  by (simp_all add: link4_ok_def cfg4_fits_def sent_table_ok_def req_table_ok_def)

lemma set_keeps_link4:
  assumes "dm_lib_ok L" "link4_ok l"
  shows "link4_ok (snd (Client_SetParamStringValue L l p v))" "link4_ok (fst (snd (Client_Commit e L l w)))"
    "link4_ok (fst (snd (Client_Rollback e L l w)))"
proof -
  have f: "cfg4_fits (f4_Cfg (l4_client l))" using assms(2) by (simp add: link4_ok_def)
  show "link4_ok (snd (Client_SetParamStringValue L l p v))"
    unfolding Client_SetParamStringValue_def Let_def case_prod_beta
    using assms f field_keeps_link4 [OF assms(2)] copied_length [OF assms(1)] by (simp add: cfg4_fits_def)
  show "link4_ok (fst (snd (Client_Rollback e L l w)))"
    using default_keeps_link4 [OF assms(2)] cfg_keeps_link4 [OF assms(2)] GetCfg_fits [OF assms(1) f]
    by (simp add: Client_Rollback_def case_prod_beta)
  show "link4_ok (fst (snd (Client_Commit e L l w)))"
    using default_keeps_link4 [OF assms(2)] assms(2)
    by (simp add: Client_Commit_def CosaDmlDhcpcAddEntry_def CosaDmlDhcpcSetCfg_def Let_def)
qed

text \<open>The options.\<close>

lemma link4_sent: "link4_ok l \<Longrightarrow> sent_table_ok l' \<Longrightarrow> l4_InstanceNumber l' = l4_InstanceNumber l \<Longrightarrow> l4_client l' = l4_client l \<Longrightarrow>
    l4_req_opts l' = l4_req_opts l \<Longrightarrow> l4_maxInstanceOfReq l' = l4_maxInstanceOfReq l \<Longrightarrow> l4_AliasOfReq l' = l4_AliasOfReq l \<Longrightarrow> link4_ok l'"
  by (simp add: link4_ok_def req_table_ok_def)

lemma link4_req: "link4_ok l \<Longrightarrow> req_table_ok l' \<Longrightarrow> l4_InstanceNumber l' = l4_InstanceNumber l \<Longrightarrow> l4_client l' = l4_client l \<Longrightarrow>
    l4_sent_opts l' = l4_sent_opts l \<Longrightarrow> l4_maxInstanceOfSend l' = l4_maxInstanceOfSend l \<Longrightarrow> l4_AliasOfSend l' = l4_AliasOfSend l \<Longrightarrow> link4_ok l'"
  by (simp add: link4_ok_def sent_table_ok_def)

lemma sent_opt_ok: "link4_ok l \<Longrightarrow> i < length (l4_sent_opts l) \<Longrightarrow> sent_fits (l4_sent_opts l ! i)"
  by (simp add: link4_ok_def sent_table_ok_def list_all_length)

lemma req_opt_ok: "link4_ok l \<Longrightarrow> i < length (l4_req_opts l) \<Longrightarrow> req_opt_fits (l4_req_opts l ! i)"
  by (simp add: link4_ok_def req_table_ok_def list_all_length)

lemma map_update_same: "i < length xs \<Longrightarrow> f y = f (xs ! i) \<Longrightarrow> map f (xs[i := y]) = map f xs"
  by (simp add: map_update list_update_same_conv)

lemma list_all_update: "list_all P xs \<Longrightarrow> P y \<Longrightarrow> list_all P (xs[i := y])"
  by (auto simp: list_all_iff dest!: set_update_subset_insert [THEN subsetD])

lemma alias_update_commute:
  "l\<lparr>l4_AliasOfSend := t, l4_sent_opts := x\<rparr> = l\<lparr>l4_sent_opts := x, l4_AliasOfSend := t\<rparr>"
  "l\<lparr>l4_AliasOfReq := t, l4_req_opts := y\<rparr> = l\<lparr>l4_req_opts := y, l4_AliasOfReq := t\<rparr>"
  by simp_all

lemma set_sent_keeps:
  assumes "link4_ok l" "i < length (l4_sent_opts l)" "sent_fits o2" "so_InstanceNumber o2 = so_InstanceNumber (l4_sent_opts l ! i)"
    and "length a < 64"
  shows "link4_ok ((set_sent i o2 l)\<lparr>l4_AliasOfSend := a\<rparr>)"
  using assms map_update_same [OF assms(2), of so_InstanceNumber o2]
  by (intro link4_sent [OF assms(1)]) (simp_all add: link4_ok_def sent_table_ok_def list_all_update)

lemma set_req_keeps:
  assumes "link4_ok l" "i < length (l4_req_opts l)" "req_opt_fits o2" "ro_InstanceNumber o2 = ro_InstanceNumber (l4_req_opts l ! i)"
    and "length a < 64"
  shows "link4_ok ((set_req i o2 l)\<lparr>l4_AliasOfReq := a\<rparr>)"
  using assms map_update_same [OF assms(2), of ro_InstanceNumber o2]
  by (intro link4_req [OF assms(1)]) (simp_all add: link4_ok_def req_table_ok_def list_all_update)

lemma set_sent_keeps': "link4_ok l \<Longrightarrow> i < length (l4_sent_opts l) \<Longrightarrow> sent_fits o2 \<Longrightarrow>
    so_InstanceNumber o2 = so_InstanceNumber (l4_sent_opts l ! i) \<Longrightarrow> link4_ok (set_sent i o2 l)"
  using set_sent_keeps [of l i o2 "l4_AliasOfSend l"] by (simp add: link4_ok_def sent_table_ok_def)

lemma set_req_keeps': "link4_ok l \<Longrightarrow> i < length (l4_req_opts l) \<Longrightarrow> req_opt_fits o2 \<Longrightarrow>
    ro_InstanceNumber o2 = ro_InstanceNumber (l4_req_opts l ! i) \<Longrightarrow> link4_ok (set_req i o2 l)"
  using set_req_keeps [of l i o2 "l4_AliasOfReq l"] by (simp add: link4_ok_def req_table_ok_def)

lemma uchar_bound: "uchar i < 256"
  by (simp add: uchar_def nat_less_iff)

lemma restored_alias_fits:
  "dm_lib_ok L \<Longrightarrow> sent_fits o1 \<Longrightarrow> sent_fits (restore_alias L l o1) \<and> so_InstanceNumber (restore_alias L l o1) = so_InstanceNumber o1"
  "dm_lib_ok L \<Longrightarrow> req_opt_fits o2 \<Longrightarrow> req_opt_fits (restore_req_alias L l o2) \<and> ro_InstanceNumber (restore_req_alias L l o2) = ro_InstanceNumber o2"
  by (simp_all add: restore_alias_def restore_req_alias_def sent_fits_def req_opt_fits_def copied_length)

lemma default_option_fits:
  "sent_fits o1 \<Longrightarrow> sent_fits (DHCPV4_SENDOPTION_SET_DEFAULTVALUE o1) \<and>
     so_InstanceNumber (DHCPV4_SENDOPTION_SET_DEFAULTVALUE o1) = so_InstanceNumber o1"
  "req_opt_fits o2 \<Longrightarrow> req_opt_fits (DHCPV4_REQOPTION_SET_DEFAULTVALUE o2) \<and>
     ro_InstanceNumber (DHCPV4_REQOPTION_SET_DEFAULTVALUE o2) = ro_InstanceNumber o2"
  by (simp_all add: DHCPV4_SENDOPTION_SET_DEFAULTVALUE_def DHCPV4_REQOPTION_SET_DEFAULTVALUE_def sent_fits_def req_opt_fits_def)

lemma lookup_fits:
  "sent_lookup k store n o1 = Some (r, o2) \<Longrightarrow> store_fits store \<Longrightarrow> sent_fits o1 \<Longrightarrow>
     sent_fits o2 \<and> so_InstanceNumber o2 = so_InstanceNumber o1"
proof (induction k store n o1 rule: sent_lookup.induct)
  case (3 k ins cnt row rows n o1)
  show ?case
  proof (cases "ins = n \<and> (\<exists>s. find (\<lambda>s. so_InstanceNumber s = so_InstanceNumber o1) (take cnt row) = Some s)")
    case True
    then obtain s where f: "find (\<lambda>s. so_InstanceNumber s = so_InstanceNumber o1) (take cnt row) = Some s" "ins = n" by blast
    from f(1) have "s \<in> set row" "so_InstanceNumber s = so_InstanceNumber o1"
      by (auto simp: find_Some_iff)
    with f 3 show ?thesis by (auto simp: store_fits_def list_all_iff sent_fits_def)
  next
    case False
    with 3 show ?thesis by (auto simp: store_fits_def split: if_splits option.splits)
  qed
qed simp_all

lemma sent_keeps_link4:
  assumes "dm_lib_ok L" "store_fits store" "link4_ok l" "i < length (l4_sent_opts l)"
  shows "link4_ok (set_sent i (snd (SentOption_SetParamBoolValue (l4_sent_opts l ! i) p b)) l)"
    "link4_ok (set_sent i (snd (SentOption_SetParamUlongValue (l4_sent_opts l ! i) p n)) l)"
    "link4_ok (snd (SentOption_SetParamStringValue L i l p v))"
    "SentOption_Commit L num store i l w = Some (r, l', w') \<Longrightarrow> link4_ok l'"
    "SentOption_Rollback L num store i l = Some (st, l') \<Longrightarrow> link4_ok l'"
proof -
  note f = sent_opt_ok [OF assms(3,4)] and k = set_sent_keeps [OF assms(3,4)] set_sent_keeps' [OF assms(3,4)]
  have a: "length (l4_AliasOfSend l) < 64" using assms(3) by (simp add: link4_ok_def sent_table_ok_def)
  show "link4_ok (set_sent i (snd (SentOption_SetParamBoolValue (l4_sent_opts l ! i) p b)) l)"
    "link4_ok (set_sent i (snd (SentOption_SetParamUlongValue (l4_sent_opts l ! i) p n)) l)"
    using f by (intro k(2); simp add: SentOption_SetParamBoolValue_def SentOption_SetParamUlongValue_def sent_fits_def uchar_bound)+
  have c: "length (snd (lib_copy L 64 (so_Alias (l4_sent_opts l ! i)) (l4_AliasOfSend l))) < 64"
    using copied_length [OF assms(1) a] .
  have "link4_ok (l\<lparr>l4_AliasOfSend := s\<rparr>)" if "length s < 64" for s
    using k(1) [OF f refl that] by simp
  moreover have "link4_ok ((set_sent i ((l4_sent_opts l ! i)\<lparr>so_Alias := s\<rparr>) l)\<lparr>l4_AliasOfSend := t\<rparr>)"
    if "length s < 512" "length t < 64" for s t using f that by (intro k(1)) (simp_all add: sent_fits_def)
  moreover have "link4_ok (set_sent i ((l4_sent_opts l ! i)\<lparr>so_Value := s\<rparr>) l)" if "length s < 255" for s
    using f that by (intro k(2)) (simp_all add: sent_fits_def)
  ultimately show "link4_ok (snd (SentOption_SetParamStringValue L i l p v))"
    unfolding SentOption_SetParamStringValue_def Let_def case_prod_beta
    using assms(3) c f copied_length [OF assms(1)] by (simp add: sent_fits_def alias_update_commute)
  show "link4_ok l'" if "SentOption_Commit L num store i l w = Some (r, l', w')"
    using that k(1) default_option_fits(1) [OF f] restored_alias_fits(1) [OF assms(1), of _ l] lookup_fits [OF _ assms(2) f] assms(3)
    by (auto simp: SentOption_Commit_def CosaDmlDhcpcAddSentOption_def CosaDmlDhcpcSetSentOption_def
        CosaDmlDhcpcGetSentOptionbyInsNum_def Let_def split: if_splits)
  show "link4_ok l'" if "SentOption_Rollback L num store i l = Some (st, l')"
    using that k(1) default_option_fits(1) restored_alias_fits(1) [OF assms(1) f, of l] lookup_fits [OF _ assms(2)]
    by (fastforce simp: SentOption_Rollback_def CosaDmlDhcpcGetSentOptionbyInsNum_def Let_def split: if_splits)
qed

lemma req_keeps_link4:
  assumes "dm_lib_ok L" "link4_ok l" "i < length (l4_req_opts l)"
  shows "link4_ok (set_req i (snd (ReqOption_SetParamBoolValue (l4_req_opts l ! i) p b)) l)"
    "link4_ok (set_req i (snd (ReqOption_SetParamUlongValue (l4_req_opts l ! i) p n)) l)"
    "link4_ok (snd (ReqOption_SetParamStringValue L i l p v))"
    "link4_ok (fst (snd (ReqOption_Commit L i l w)))" "link4_ok (snd (ReqOption_Rollback L i l))"
proof -
  note f = req_opt_ok [OF assms(2,3)] and k = set_req_keeps [OF assms(2,3)] set_req_keeps' [OF assms(2,3)]
  have a: "length (l4_AliasOfReq l) < 64" using assms(2) by (simp add: link4_ok_def req_table_ok_def)
  show "link4_ok (set_req i (snd (ReqOption_SetParamBoolValue (l4_req_opts l ! i) p b)) l)"
    "link4_ok (set_req i (snd (ReqOption_SetParamUlongValue (l4_req_opts l ! i) p n)) l)"
    using f by (intro k(2); simp add: ReqOption_SetParamBoolValue_def ReqOption_SetParamUlongValue_def req_opt_fits_def uchar_bound)+
  have al: "link4_ok (l\<lparr>l4_AliasOfReq := s\<rparr>)" if "length s < 64" for s
    using k(1) [OF f refl that] by simp
  moreover have "link4_ok ((set_req i ((l4_req_opts l ! i)\<lparr>ro_Alias := s\<rparr>) l)\<lparr>l4_AliasOfReq := t\<rparr>)"
    if "length s < 64" "length t < 64" for s t using f that by (intro k(1)) (simp_all add: req_opt_fits_def)
  ultimately show "link4_ok (snd (ReqOption_SetParamStringValue L i l p v))"
    unfolding ReqOption_SetParamStringValue_def Let_def case_prod_beta
    using assms(2) f copied_length [OF assms(1)] a by (simp add: req_opt_fits_def alias_update_commute)
  show "link4_ok (fst (snd (ReqOption_Commit L i l w)))"
    using k(1) al [of "[]"] default_option_fits(2) [OF f] restored_alias_fits(2) [OF assms(1), of _ l]
    by (simp add: ReqOption_Commit_def CosaDmlDhcpcAddReqOption_def Let_def)
  show "link4_ok (snd (ReqOption_Rollback L i l))"
    using k(1) default_option_fits(2) restored_alias_fits(2) [OF assms(1) f, of l] by (simp add: ReqOption_Rollback_def Let_def)
qed

text \<open>Adding and deleting: the numbers by the locale, the sizes by the check of the alias.\<close>

lemma pushed_all: "slist_ok S \<Longrightarrow> list_all P xs \<Longrightarrow> P x \<Longrightarrow> list_all P (CosaSListPushEntryByInsNum S num xs x)"
  by (simp add: list_all_iff inserted_set [OF push_inserts])

lemma removes_all: "list_all P xs \<Longrightarrow> list_all P (remove_at i xs)"
  by (auto simp: list_all_iff remove_at_def dest: in_set_takeD in_set_dropD)

lemma sent_add_keeps:
  assumes "dm_lib_ok L" "link4_ok l" "Suc (l4_maxInstanceOfSend l) < 2 ^ e_LONG_BIT e"
  shows "link4_ok (fst (snd (SentOption_AddEntry e L l w)))"
proof (rule link4_sent [OF assms(2)])
  let ?l = "fst (snd (SentOption_AddEntry e L l w))"
  have "table_ok (map so_InstanceNumber (l4_sent_opts ?l)) (l4_maxInstanceOfSend ?l)"
    using sent_options.add_keeps [OF assms(1,3)] assms(2) by (simp add: link4_ok_def sent_table_ok_def)
  moreover have "list_all sent_fits (l4_sent_opts ?l)" "length (l4_AliasOfSend ?l) < 64"
    using assms(2) pushed_all [OF dm_lib_lists(3) [OF assms(1)], of sent_fits]
    by (simp_all add: SentOption_AddEntry_def allocate_def case_prod_beta Let_def link4_ok_def sent_table_ok_def sent_fits_def)
  ultimately show "sent_table_ok ?l" by (simp add: sent_table_ok_def)
qed (simp_all add: SentOption_AddEntry_def allocate_def case_prod_beta Let_def)

lemma req_add_keeps:
  assumes "dm_lib_ok L" "link4_ok l" "Suc (l4_maxInstanceOfReq l) < 2 ^ e_LONG_BIT e"
  shows "link4_ok (fst (snd (ReqOption_AddEntry e L l w)))"
proof (rule link4_req [OF assms(2)])
  let ?l = "fst (snd (ReqOption_AddEntry e L l w))"
  have "table_ok (map ro_InstanceNumber (l4_req_opts ?l)) (l4_maxInstanceOfReq ?l)"
    using req_options.add_keeps [OF assms(1,3)] assms(2) by (simp add: link4_ok_def req_table_ok_def)
  moreover have "list_all req_opt_fits (l4_req_opts ?l)" "length (l4_AliasOfReq ?l) < 64"
    using assms(2) pushed_all [OF dm_lib_lists(4) [OF assms(1)], of req_opt_fits]
    by (simp_all add: ReqOption_AddEntry_def allocate_def case_prod_beta Let_def link4_ok_def req_table_ok_def req_opt_fits_def)
  ultimately show "req_table_ok ?l" by (simp add: req_table_ok_def)
qed (simp_all add: ReqOption_AddEntry_def allocate_def case_prod_beta Let_def)

lemma del_keeps_link4:
  assumes "link4_ok l"
  shows "link4_ok (fst (snd (SentOption_DelEntry i l w)))" "link4_ok (fst (snd (ReqOption_DelEntry i l w)))"
proof -
  let ?s = "fst (snd (SentOption_DelEntry i l w))" and ?r = "fst (snd (ReqOption_DelEntry i l w))"
  have t: "table_ok (map so_InstanceNumber (l4_sent_opts ?s)) (l4_maxInstanceOfSend ?s)"
    "table_ok (map ro_InstanceNumber (l4_req_opts ?r)) (l4_maxInstanceOfReq ?r)"
    using sent_options.del_keeps [of l i w] req_options.del_keeps [of l i w] assms
    by (simp_all add: link4_ok_def sent_table_ok_def req_table_ok_def)
  show "link4_ok ?s"
    by (rule link4_sent [OF assms])
      (use t(1) assms in \<open>simp_all add: SentOption_DelEntry_def Let_def link4_ok_def sent_table_ok_def removes_all\<close>)
  show "link4_ok ?r"
    by (rule link4_req [OF assms])
      (use t(2) assms in \<open>simp_all add: ReqOption_DelEntry_def Let_def link4_ok_def req_table_ok_def removes_all\<close>)
qed

lemma link4_step_number: "link4_step e L num store l l' \<Longrightarrow> l4_InstanceNumber l' = l4_InstanceNumber l"
proof (induction rule: link4_step.induct)
  case (control m l w l' w')
  then show ?case by (auto simp: v4_handle_client_def split: option.splits)
next
  case (sent_commit i l w r l' w')
  then show ?case by (auto simp: SentOption_Commit_def Let_def split: if_splits)
next
  case (sent_rollback i l r l')
  then show ?case by (auto simp: SentOption_Rollback_def Let_def split: if_splits)
qed (simp_all add: Client_GetParamIntValue_def Client_GetParamUlongValue_def Client_SetParamStringValue_def Client_Commit_def
    Client_Rollback_def SentOption_AddEntry_def SentOption_DelEntry_def SentOption_SetParamStringValue_def ReqOption_AddEntry_def
    ReqOption_DelEntry_def ReqOption_SetParamStringValue_def ReqOption_Commit_def ReqOption_Rollback_def case_prod_beta Let_def)

lemma link4_step_keeps:
  assumes "link4_step e L num store l l'" "dm_lib_ok L" "store_fits store" "link4_ok l"
  shows "link4_ok l'"
  using assms
proof (induction rule: link4_step.induct)
  case (control m l w l' w')
  then show ?case by (blast intro: handle_keeps_link4)
next
  case (sent_commit i l w r l' w')
  then show ?case by (blast intro: sent_keeps_link4(4))
next
  case (sent_rollback i l r l')
  then show ?case by (blast intro: sent_keeps_link4(5))
qed (simp_all add: get_keeps_link4 set_keeps_link4 sent_keeps_link4(1-3) req_keeps_link4 sent_add_keeps req_add_keeps del_keeps_link4)

lemma client4_link_ok: "length a < 64 \<Longrightarrow> link4_ok (client4_link n a)"
  by (simp add: client4_link_def DHCPV4_CLIENT_SET_DEFAULTVALUE_def client4_zero_def link4_ok_def cfg4_fits_def
      sent_table_ok_def req_table_ok_def table_ok_def Let_def)

lemma client_add_keeps:
  assumes "dm_lib_ok L" "dm4_ok d" "Suc (dm_maxInstanceOfClient d) < 2 ^ e_LONG_BIT e"
  shows "dm4_ok (fst (snd (Client_AddEntry e L d w)))"
proof -
  let ?d = "fst (snd (Client_AddEntry e L d w))"
  have "list_all link4_ok (dm_ClientList ?d)"
    using assms(2) pushed_all [OF dm_lib_lists(1) [OF assms(1)], of link4_ok]
    by (simp add: client4_link_ok Client_AddEntry_def allocate_def case_prod_beta Let_def dm4_ok_def)
  with clients4.add_keeps [OF assms(1,3)] assms(2) show ?thesis by (simp add: dm4_ok_def)
qed

lemma client_del_keeps: "dm4_ok d \<Longrightarrow> dm4_ok (fst (snd (Client_DelEntry i d w)))"
  using clients4.del_keeps [of d i w] by (auto simp: dm4_ok_def Client_DelEntry_def Let_def removes_all)

lemma dm4_step_keeps:
  assumes "dm4_step e L num store d d'" "dm_lib_ok L" "store_fits store" "dm4_ok d"
  shows "dm4_ok d'"
  using assms
proof (induction rule: dm4_step.induct)
  case (entry i d l')
  then have "link4_ok l'" "l4_InstanceNumber l' = l4_InstanceNumber (dm_ClientList d ! i)"
    using link4_step_keeps [OF entry(2)] link4_step_number [OF entry(2)] by (simp_all add: dm4_ok_def list_all_length)
  then show ?case using entry(1,5) by (simp add: dm4_ok_def map_update_same list_all_update)
qed (simp_all add: client_add_keeps client_del_keeps)

text \<open>
  Claim C7. The DHCPv4 tables of the data model stay well formed. Over any sequence
  of additions, deletions, reads and writes of parameters, commits, rollbacks and
  control messages, as long as the instance numbers do not wrap around, the clients of
  the table are in strictly increasing order of their instance numbers, none of which
  exceeds the last one given out,
  the two copies of the number of a client agree, every string fits the array that
  holds it, and the same is true of the sent and the requested options of each client.
\<close>

theorem data_model_well_formed:
  assumes "dm_lib_ok L" "store_fits store" "dm4_ok d" "(dm4_step e L num store)\<^sup>*\<^sup>* d d'"
  shows "dm4_ok d'"
  using assms(4,3) by (induction rule: rtranclp_induct) (auto intro: dm4_step_keeps [OF _ assms(1,2)])

text \<open>A client with one sent option, from the empty table.\<close>

definition dm4_empty :: dm4 where
  "dm4_empty = \<lparr>dm_ClientList = [], dm_maxInstanceOfClient = 0\<rparr>"

definition env_mem :: env where
  "env_mem = env0\<lparr>e_ret := (\<lambda>_. 1)\<rparr>"

lemma length_show_digit: "n < 10 \<Longrightarrow> length (show_nat n) = 1"
  by (simp add: show_nat.simps)

lemmas add_defs = Client_AddEntry_def SentOption_AddEntry_def allocate_def case_prod_beta fst_call Let_def next_instance_def
  client4_link_def dm4_empty_def lib0_def env_mem_def env0_def
  length_show_digit CosaSListPushEntryByInsNum_def slist0_def

theorem data_model_well_formed_witness:
  "let d1 = fst (snd (Client_AddEntry env_mem lib0 dm4_empty world_init));
       l = fst (snd (SentOption_AddEntry env_mem lib0 (hd (dm_ClientList d1)) world_init))
   in dm4_ok (d1\<lparr>dm_ClientList := [l]\<rparr>) \<and> map so_InstanceNumber (l4_sent_opts l) = [1]"
proof -
  let ?d1 = "fst (snd (Client_AddEntry env_mem lib0 dm4_empty world_init))"
  let ?l = "fst (snd (SentOption_AddEntry env_mem lib0 (hd (dm_ClientList ?d1)) world_init))"
  have n: "length (dm_ClientList ?d1) = 1" "l4_maxInstanceOfSend (hd (dm_ClientList ?d1)) = 0"
    "map so_InstanceNumber (l4_sent_opts ?l) = [1]" "Suc 0 < 2 ^ e_LONG_BIT env_mem" "dm_maxInstanceOfClient dm4_empty = 0"
    by (simp_all add: add_defs)
  then obtain x where x: "dm_ClientList ?d1 = [x]" by (auto simp: length_Suc_conv)
  have "dm4_step env_mem lib0 0 [] dm4_empty ?d1" by (rule dm4_step.add) (use n in simp)
  moreover have "dm4_step env_mem lib0 0 [] ?d1 (?d1\<lparr>dm_ClientList := (dm_ClientList ?d1)[0 := ?l]\<rparr>)"
    by (rule dm4_step.entry) (use n x link4_step.sent_add [of x env_mem lib0 0 "[]" world_init] in simp_all)
  ultimately have "(dm4_step env_mem lib0 0 [])\<^sup>*\<^sup>* dm4_empty (?d1\<lparr>dm_ClientList := [?l]\<rparr>)" using x by simp
  from data_model_well_formed [OF lib0_ok _ _ this] n(3) show ?thesis
    by (simp add: store_fits_def dm4_ok_def dm4_empty_def table_ok_def Let_def)
qed

text \<open>
  Claim C26. An instance number is never given out twice. Over any sequence of
  additions and deletions, as long as the numbers do not wrap around, the numbers that
  \<open>AddEntry\<close> returns grow strictly, each of them is above the last number before the
  sequence, the table is in strictly increasing order of the numbers, and every entry of the table at the end was there at the start or has one
  of the returned numbers; so the number of a deleted entry never names another one.
  This is true of the DHCPv4 clients, of the DHCPv6 clients, and of the sent and the
  requested options of a client.
\<close>

theorem instance_numbers_never_reused:
  assumes "dm_lib_ok L" "\<forall>n \<in> {dm_maxInstanceOfClient d, dm6_maxInstanceOfClient d6, l4_maxInstanceOfSend l, l4_maxInstanceOfReq l}.
      n + length ops < 2 ^ e_LONG_BIT e"
    and "dm4_ok d" "table_ok (map l6_InstanceNumber (dm6_ClientList d6)) (dm6_maxInstanceOfClient d6)" "link4_ok l"
  shows "numbers_grow (\<lambda>d. map l4_InstanceNumber (dm_ClientList d)) dm_maxInstanceOfClient d
        (table_run (Client_AddEntry e L) Client_DelEntry ops d w) \<and>
      numbers_grow (\<lambda>d. map l6_InstanceNumber (dm6_ClientList d)) dm6_maxInstanceOfClient d6
        (table_run (Client3_AddEntry e L) Client3_DelEntry ops d6 w) \<and>
      numbers_grow (\<lambda>l. map so_InstanceNumber (l4_sent_opts l)) l4_maxInstanceOfSend l
        (table_run (SentOption_AddEntry e L) SentOption_DelEntry ops l w) \<and>
      numbers_grow (\<lambda>l. map ro_InstanceNumber (l4_req_opts l)) l4_maxInstanceOfReq l
        (table_run (ReqOption_AddEntry e L) ReqOption_DelEntry ops l w)"
  using assms(2-)
  by (intro conjI clients4.run_grow clients6.run_grow sent_options.run_grow req_options.run_grow assms(1))
    (simp_all add: dm4_ok_def link4_ok_def sent_table_ok_def req_table_ok_def)

text \<open>The second client is deleted and another one is added: it has the number 3.\<close>

lemma client4_link_number: "l4_InstanceNumber (client4_link n a) = n"
  by (simp add: client4_link_def)

lemma client_add_mem:
  "n < 9 \<Longrightarrow> \<forall>l \<in> set ls. l4_InstanceNumber l \<le> n \<Longrightarrow> \<exists>w'. Client_AddEntry env_mem lib0 \<lparr>dm_ClientList = ls, dm_maxInstanceOfClient = n\<rparr> w =
     (Some (Suc n), \<lparr>dm_ClientList = ls @ [client4_link (Suc n) (''Client'' @ show_nat (Suc n))], dm_maxInstanceOfClient = Suc n\<rparr>, w')"
  using inserted_last [OF push_inserts [OF slist0_ok, of l4_InstanceNumber ls "client4_link (Suc n) (''Client'' @ show_nat (Suc n))"]]
  by (simp add: Client_AddEntry_def allocate_def call_def Let_def next_instance_def length_show_digit env_mem_def env0_def lib0_def
      client4_link_number less_Suc_eq_le)

lemma new_client_removed:
  "\<exists>w'. Client_DelEntry 1 \<lparr>dm_ClientList = [client4_link 1 a, client4_link 2 b], dm_maxInstanceOfClient = n\<rparr> w =
     (STATUS_SUCCESS, \<lparr>dm_ClientList = [client4_link 1 a], dm_maxInstanceOfClient = n\<rparr>, w')"
  by (simp add: Client_DelEntry_def client4_link_def remove_at_def Let_def)

theorem instance_numbers_never_reused_witness:
  "sorted_wrt (<) (fst (table_run (Client_AddEntry env_mem lib0) Client_DelEntry [T_add, T_add, T_del 1, T_add] dm4_empty world_init)) \<and>
   fst (table_run (Client_AddEntry env_mem lib0) Client_DelEntry [T_add, T_add, T_del 1, T_add] dm4_empty world_init) = [1, 2, 3]"
proof -
  let ?r = "table_run (Client_AddEntry env_mem lib0) Client_DelEntry [T_add, T_add, T_del 1, T_add] dm4_empty world_init"
  have "numbers_grow (\<lambda>d. map l4_InstanceNumber (dm_ClientList d)) dm_maxInstanceOfClient dm4_empty ?r"
    by (rule instance_numbers_never_reused [where l = "client4_link 1 []" and
          ?d6.0 = "\<lparr>dm6_ClientList = [], dm6_maxInstanceOfClient = 0\<rparr>", OF lib0_ok, THEN conjunct1])
      (use client4_link_ok [of "[]" 1] in \<open>simp_all add: dm4_empty_def dm4_ok_def table_ok_def env_mem_def env0_def client4_link_def\<close>)
  moreover have "fst ?r = [1, 2, 3]"
  proof -
    let ?add = "Client_AddEntry env_mem lib0" and ?c = "\<lambda>n. client4_link n (''Client'' @ show_nat n)"
    obtain w1 where "?add dm4_empty world_init = (Some 1, \<lparr>dm_ClientList = [?c 1], dm_maxInstanceOfClient = 1\<rparr>, w1)"
      using client_add_mem [of 0 "[]" world_init] by (auto simp: dm4_empty_def)
    moreover obtain w2 where "?add \<lparr>dm_ClientList = [?c 1], dm_maxInstanceOfClient = 1\<rparr> w1 =
        (Some 2, \<lparr>dm_ClientList = [?c 1, ?c 2], dm_maxInstanceOfClient = 2\<rparr>, w2)"
      using client_add_mem [of 1 "[?c 1]" w1] by (auto simp: numeral_2_eq_2 client4_link_number)
    moreover obtain w3 where "Client_DelEntry 1 \<lparr>dm_ClientList = [?c 1, ?c 2], dm_maxInstanceOfClient = 2\<rparr> w2 =
        (STATUS_SUCCESS, \<lparr>dm_ClientList = [?c 1], dm_maxInstanceOfClient = 2\<rparr>, w3)"
      using new_client_removed [of "''Client'' @ show_nat 1" "''Client'' @ show_nat 2" 2 w2] by blast
    moreover obtain w4 d4 where "?add \<lparr>dm_ClientList = [?c 1], dm_maxInstanceOfClient = 2\<rparr> w3 = (Some 3, d4, w4)"
      using client_add_mem [of 2 "[?c 1]" w3] by (auto simp: numeral_3_eq_3 client4_link_number)
    ultimately show ?thesis by simp
  qed
  ultimately show ?thesis by (auto simp: numbers_grow_def case_prod_beta)
qed

end
