(* ===== verification/Dml_Spec.thy ===== *)
theory Dml_Spec
  imports Dml_Tables Controller_Death
begin

text \<open>
  What the parameters of the data model do to the clients, together with the
  controller and the lease handler: an \<open>Enable\<close> reaches the client; string parameters
  are read back; the remaining lease time counts down from what the lease handler
  wrote. And where this fails: reading \<open>Status\<close> can undo the restart of a dead client,
  a rollback and a failed commit take the interface from a DHCPv4 client, and a
  rollback of the first DHCPv6 client gives it the configuration of another.
\<close>

section \<open>Enabling a client\<close>

lemma set_enable_frame:
  "w_mqs (snd (Dhcp_set_Sysevent_InterfaceEnable e k n b w)) = w_mqs w"
  by (simp add: Dhcp_set_Sysevent_InterfaceEnable_def commonSyseventSet_def case_prod_beta)

lemma pending_same_mqs: "w_mqs w' = w_mqs w \<Longrightarrow> pending w' q = pending w q"
  by (simp add: pending_def)

lemma set_enable_written:
  assumes "key \<noteq> []" "n \<noteq> []" "length n < 64"
  shows "snd (Dhcp_set_Sysevent_InterfaceEnable e key n b w) = act (A_set_event key (enable_value n b)) w"
proof -
  have "length (enable_value n b) < 128" using assms(3) by (simp add: enable_value_def)
  then show ?thesis using assms(1,2) by (simp add: Dhcp_set_Sysevent_InterfaceEnable_def commonSyseventSet_def case_prod_beta)
qed

lemma enable_key_not_Nil: "enable_key v6 n \<noteq> []"
  by (simp add: enable_key_def c_trunc_def)

lemma enable_step:
  assumes "ctl_step (C_enable b) k ts k'"
  shows "k_enabled k' = b \<or> b \<and> ts = [DHCP_CLIENT_FAILED]" "\<not> b \<Longrightarrow> \<not> k_running k'"
  using assms by (auto simp: ctl_step_def elim!: ctl_param.cases ctl_move.cases)

text \<open>
  Claim C8. A client is switched on and off through the data model. Where setting
  \<open>Enable\<close> reports success, the new state is written to the system event of the client
  first, the message waits in the queue of the interface behind all others, and a
  controller is registered as running for it. Handling that message is one step of the
  client machine; afterwards the parameter reads back the value that was set, except
  where the client could not be started, which is published; and a client that was
  switched off no longer runs.
\<close>

theorem enable_through_data_model:
  assumes "Client_SetParamBoolValue e l ''Enable'' b w = (True, w')" "n = c4_Interface (f4_Cfg (l4_client l))" "length n < MAX_STR_LEN"
    and "m = set_msg n ''Enable'' b DML_DHCPV4" "ok4 (l4_client l1)" "v4_handle_client e m l1 w1 = Some (l2, w2)"
  shows "A_set_event (enable_key False (c4_InstanceNumber (f4_Cfg (l4_client l)))) (enable_value n b) = hd (new_actions w w') \<and>
    pending w' (mq_name_of n) = pending w (mq_name_of n) @ [m] \<and>
    (\<exists>i. find_interface n w' = Some i \<and> ii_thread_running i) \<and>
    ctl_step (C_enable b) (view4 (l4_client l1)) (map fst (events4 (new_actions w1 w2))) (view4 (l4_client l2)) \<and>
    (Client_GetParamBoolValue l2 ''Enable'' = Some b \<or> b \<and> map fst (events4 (new_actions w1 w2)) = [DHCP_CLIENT_FAILED]) \<and>
    (\<not> b \<longrightarrow> i4_Status (f4_Info (l4_client l2)) \<noteq> COSA_DML_DHCP_STATUS_Enabled)"
proof -
  let ?k = "enable_key False (c4_InstanceNumber (f4_Cfg (l4_client l)))"
  let ?w1 = "act (A_set_event ?k (enable_value n b)) w"
  have n: "n \<noteq> []" using assms(1,2) by (auto simp: Client_SetParamBoolValue_def set4_check_def)
  have w1: "snd (Dhcp_set_Sysevent_InterfaceEnable e ?k n b w) = ?w1"
    using set_enable_written [OF enable_key_not_Nil n] assms(3) by (simp add: MAX_STR_LEN_def)
  have o: "DhcpMgr_OpenQueueEnsureThread e m ?w1 = (0, w')"
    using assms(1,2,4) n w1 by (auto simp: Client_SetParamBoolValue_def set4_check_def Let_def split: prod.splits)
  have d: "di_if_name m = n" "control_of m = C_enable b"
    using assms(3,4) by (simp_all add: set_msg_def c_trunc_id control_of_def MAX_STR_LEN_def)
  have "extends ?w1 w'" using pubs_open_queue [OF quiet_pubs [OF quiet_refl [of ?w1]], of e m] o by (simp add: pubs_def)
  then have "A_set_event ?k (enable_value n b) = hd (new_actions w w')"
    using new_actions_trans [OF extends_act [of w "A_set_event ?k (enable_value n b)"]] by simp
  moreover have "pending w' (mq_name_of n) = pending w (mq_name_of n) @ [m]"
    using open_queue_pending [of e m ?w1 "mq_name_of n"] o d pending_same_mqs [of ?w1 w] by simp
  moreover have "\<exists>i. find_interface n w' = Some i \<and> ii_thread_running i"
    using open_queue_running [OF _ o] assms(3) d by simp
  moreover obtain ts where ts: "ctl_step (C_enable b) (view4 (l4_client l1)) ts (view4 (l4_client l2))" "pubs4 ts w1 w2"
    using v4_handle_client_refines [OF assms(6,5)] d by auto
  moreover have "map fst (events4 (new_actions w1 w2)) = ts" using ts(2) by (simp add: pubs4_def pubs_def)
  ultimately show ?thesis
    using enable_step [OF ts(1)] by (auto simp: Client_GetParamBoolValue_def view4_def)
qed

theorem enable_through_data_model_witness:
  "pending (snd (Client_SetParamBoolValue env0 link4 ''Enable'' False world_init)) ''/mq_if_erouter0'' = [disable4] \<and>
   map_option (\<lambda>(l, w). Client_GetParamBoolValue l ''Enable'') (v4_handle_client env0 disable4 link4 world_init) = Some (Some False)"
proof -
  let ?s = "Client_SetParamBoolValue env0 link4 ''Enable'' False world_init"
  have s: "fst ?s" "c4_Interface (f4_Cfg (l4_client link4)) = ''erouter0''" "mq_name_of ''erouter0'' = ''/mq_if_erouter0''"
    "pending world_init ''/mq_if_erouter0'' = []" "ok4 (l4_client link4)" "for4 disable4 link4"
    "control_of disable4 = C_enable False" "i4_Status (f4_Info (l4_client link4)) = COSA_DML_DHCP_STATUS_Enabled"
    by code_simp+
  have m: "disable4 = set_msg ''erouter0'' ''Enable'' False DML_DHCPV4"
    by (simp add: disable4_def set_msg_def c_trunc_def MAX_STR_LEN_def)
  obtain l2 w2 where h: "v4_handle_client env0 disable4 link4 world_init = Some (l2, w2)"
    using v4_stop_step [of disable4 link4 env0 world_init] s by auto
  have "?s = (True, snd ?s)" using s(1) by (simp add: prod_eq_iff)
  from enable_through_data_model [OF this s(2) [symmetric] _ m s(5) h] s h show ?thesis by (simp add: MAX_STR_LEN_def)
qed

section \<open>A read that loses a restart\<close>

lemma status_read_misconfigured:
  assumes "c = l4_client l" "c4_bEnabled (f4_Cfg c)" "\<not> e_INTEL_PUMA7 e"
    and "find (pid_matches ''udhcpc'' (c4_Interface (f4_Cfg c))) (e_proc e (w_trace w @ [A_proc_lookup ''udhcpc'' (c4_Interface (f4_Cfg c))])) = None"
    and "e_str e (w_trace w @ [A_proc_lookup ''udhcpc'' (c4_Interface (f4_Cfg c)), A_get_event ''wan-status'']) = ''started''"
  shows "\<exists>w'. Client_GetParamUlongValue e l ''Status'' w =
    (Some 3, l\<lparr>l4_client := status4 COSA_DML_DHCP_STATUS_Error_Misconfigured c\<rparr>, w')"
  using assms
  by (simp add: Client_GetParamUlongValue_def CosaDmlDhcpcGetInfo_def udhcpc_bin_def pid_of_def commonSyseventGet_def
      case_prod_beta Let_def c_trunc_id fst_call)

text \<open>
  Claim C22. Reading \<open>Status\<close> can keep a dead client down. A DHCPv4 client that dies
  while it is enabled is marked as stopped and its controller is told to start it
  again. Where \<open>Status\<close> is read before the controller handles that message, while no
  process is found and the WAN is started, the read itself sets the status of the
  client to \<open>Error_Misconfigured\<close>; the restart message then does nothing, neither does
  setting \<open>Enable\<close> to true again, and setting it to false only changes the flag. Without
  the read the restart message runs \<open>v4_start\<close>.
\<close>

theorem status_read_loses_restart:
  assumes "reach4 g = [l]" "i4_ClientProcessId (f4_Info (l4_client l)) = pid" "i4_Status (f4_Info (l4_client l)) = COSA_DML_DHCP_STATUS_Enabled"
    and "c4_bEnabled (f4_Cfg (l4_client l))" "\<not> c4_Renew (f4_Cfg (l4_client l))" "\<not> c4_Restart (f4_Cfg (l4_client l))"
    and "n = c4_Interface (f4_Cfg (l4_client l))" "\<not> e_INTEL_PUMA7 e"
    and "find (pid_matches ''udhcpc'' n) (e_proc e (w_trace w @ [A_proc_lookup ''udhcpc'' n])) = None"
    and "e_str e (w_trace w @ [A_proc_lookup ''udhcpc'' n, A_get_event ''wan-status'']) = ''started''"
    and "k = hd (g_v4 (processKilled e pid g))" "restart = selfheal_msg n DML_DHCPV4"
  shows "(\<forall>u. v4_handle_client e restart k u = map_option (\<lambda>(c', u'). (k\<lparr>l4_client := c'\<rparr>, u')) (v4_start e k u)) \<and>
    (\<exists>k' w'. Client_GetParamUlongValue e k ''Status'' w = (Some 3, k', w') \<and>
       (\<forall>u. v4_handle_client e restart k' u = Some (k', u)) \<and>
       (\<forall>u. v4_handle_client e (set_msg n ''Enable'' True DML_DHCPV4) k' u = Some (k', u)) \<and>
       (\<forall>u. v4_handle_client e (set_msg n ''Enable'' False DML_DHCPV4) k' u = Some (on_cfg4 (c4_bEnabled_update (\<lambda>_. False)) k', u)))"
proof -
  have k: "k = l\<lparr>l4_client := status4 COSA_DML_DHCP_STATUS_Disabled (l4_client l)\<rparr>"
    using assms(1-3,11) by (simp add: processKilled_def update_upto_def Let_def)
  let ?k = "k\<lparr>l4_client := status4 COSA_DML_DHCP_STATUS_Error_Misconfigured (l4_client k)\<rparr>"
  obtain w' where "Client_GetParamUlongValue e k ''Status'' w = (Some 3, ?k, w')"
    using status_read_misconfigured [of "l4_client k" k e w] assms(4,7-10) by (auto simp: k)
  moreover have "c4_bEnabled_update (\<lambda>_. True) (f4_Cfg (l4_client l)) = f4_Cfg (l4_client l)" using assms(4) by simp
  ultimately show ?thesis
    using assms(4-6,12)
    by (auto simp: k v4_handle_client_def v4_param_def v4_control_def selfheal_msg_def set_msg_def c_trunc_id MAX_STR_LEN_def)
qed

theorem status_read_loses_restart_witness:
  "let e = env0\<lparr>e_str := (\<lambda>_. ''started'')\<rparr>; g = loaded [link4] [] world_init;
       k = hd (g_v4 (processKilled e 4711 g))
   in \<exists>k' w'. Client_GetParamUlongValue e k ''Status'' world_init = (Some 3, k', w') \<and>
        v4_handle_client e (selfheal_msg ''erouter0'' DML_DHCPV4) k' w' = Some (k', w')"
proof -
  let ?e = "env0\<lparr>e_str := (\<lambda>_. ''started'')\<rparr>" and ?g = "loaded [link4] [] world_init"
  have "i4_ClientProcessId (f4_Info (l4_client link4)) = 4711" "i4_Status (f4_Info (l4_client link4)) = COSA_DML_DHCP_STATUS_Enabled"
    "c4_bEnabled (f4_Cfg (l4_client link4))" "\<not> c4_Renew (f4_Cfg (l4_client link4))" "\<not> c4_Restart (f4_Cfg (l4_client link4))"
    "''erouter0'' = c4_Interface (f4_Cfg (l4_client link4))" by code_simp+
  then show ?thesis
    using status_read_loses_restart [of ?g link4 4711 "''erouter0''" ?e world_init _ "selfheal_msg ''erouter0'' DML_DHCPV4", OF _ _ _ _ _ _ _ _ _ _ refl refl]
    by (auto simp: env0_def Let_def)
qed

section \<open>Clients added at run time\<close>

lemma handler4_none: "\<forall>l \<in> set (take n t). \<not> for4 m l \<Longrightarrow> Process_DHCPv4_Handler e m n t w = Some (t, w)"
  by (induction e m n t w rule: Process_DHCPv4_Handler.induct) (auto simp: for4_def)

text \<open>
  A client that is added at run time is out of reach. The loops of the controller run
  to the number of clients that was read from the persistent store, \<open>n\<close>, and adding
  an entry does not change it (\<open>CosaDmlDhcpcGetNumberOfEntries\<close> keeps a number above 0). So a message for
  the interface of the new client, \<open>l'\<close> being the new entry after any change of its parameters, does nothing.
\<close>

lemma added_client_unreached:
  assumes "dm_lib_ok L" "dm4_ok d" "Suc (dm_maxInstanceOfClient d) < 2 ^ e_LONG_BIT e" "Client_AddEntry e L d w = (Some k, d', w')"
    and "0 < n" "n \<le> length (dm_ClientList d)" "\<forall>l \<in> set (dm_ClientList d). \<not> for4 m l"
    and "t = (dm_ClientList d')[length (dm_ClientList d) := l']"
  shows "CosaDmlDhcpcGetNumberOfEntries e' n v = (n, n, v) \<and> Process_DHCPv4_Handler e' m n t v = Some (t, v)"
proof -
  let ?x = "client4_link k (''Client'' @ show_nat k)"
  have k: "k = Suc (dm_maxInstanceOfClient d)"
    and p: "dm_ClientList d' = CosaSListPushEntryByInsNum (lib_list4 L) l4_InstanceNumber (dm_ClientList d) ?x"
    using assms(3,4) by (auto simp: Client_AddEntry_def allocate_def case_prod_beta Let_def next_instance_fresh split: if_splits)
  have "\<forall>y \<in> set (dm_ClientList d). l4_InstanceNumber y < l4_InstanceNumber ?x"
    using assms(2) by (auto simp: dm4_ok_def table_ok_def k client4_link_number less_Suc_eq_le)
  then have "dm_ClientList d' = dm_ClientList d @ [?x]"
    unfolding p by (rule inserted_last [OF push_inserts [OF dm_lib_lists(1) [OF assms(1)]]])
  then have "take n t = take n (dm_ClientList d)" using assms(6,8) by (simp add: list_update_append)
  then show ?thesis using assms(5,7) handler4_none [of n t m e' v] by (auto simp: CosaDmlDhcpcGetNumberOfEntries_def dest: in_set_takeD)
qed

section \<open>Clients without an interface\<close>

text \<open>
  A client that the controller no longer finds: its interface is empty, \<open>Enable\<close> is
  refused for it, and no message with an interface reaches it.
\<close>

definition detached4 :: "env \<Rightarrow> DHCPC_LINK_OBJECT \<Rightarrow> bool" where
  "detached4 e l \<longleftrightarrow> c4_Interface (f4_Cfg (l4_client l)) = [] \<and>
     (\<forall>b w. Client_SetParamBoolValue e l ''Enable'' b w = (False, w)) \<and>
     (\<forall>m n t w. di_if_name m \<noteq> [] \<longrightarrow> Process_DHCPv4_Handler e m (Suc n) (l # t) w =
        map_option (\<lambda>(t', w'). (l # t', w')) (Process_DHCPv4_Handler e m n t w))"

lemma detached4I: "c4_Interface (f4_Cfg (l4_client l)) = [] \<Longrightarrow> detached4 e l"
  by (auto simp: detached4_def Client_SetParamBoolValue_def set4_check_def strncmp_eq_def)

text \<open>
  Claim C23. Transactions of the data model take DHCPv4 clients away from the
  controller. Rolling back an existing client reports success, but reads the
  configuration back with an inverted test of the interface name: the interface is
  empty and the client is disabled whatever they were, while its status and its
  process id stay as they are, so a client that runs can no longer be stopped,
  renewed or given a lease until its interface is set again. Committing a new client always fails and clears the
  interface that was set for it; the entry stays in the table as a new one and cannot
  be enabled while it has no interface. Committing an existing client changes nothing.
\<close>

theorem transactions_detach_client:
  "(let (r, l', w') = Client_Rollback e L l w in
      r = STATUS_SUCCESS \<and> detached4 e l' \<and> \<not> c4_bEnabled (f4_Cfg (l4_client l')) \<and>
      (\<not> l4_bNew l \<longrightarrow> f4_Info (l4_client l') = f4_Info (l4_client l))) \<and>
   (let (r, l', w') = Client_Commit e L l w in
      if l4_bNew l then r = STATUS_FAILURE \<and> l4_bNew l' \<and> detached4 e l' else r = STATUS_SUCCESS \<and> l' = l \<and> w' = w)"
  by (auto simp: Client_Rollback_def Client_Commit_def CosaDmlDhcpcGetCfg_def CosaDmlDhcpcAddEntry_def CosaDmlDhcpcSetCfg_def
      DHCPV4_CLIENT_SET_DEFAULTVALUE_def case_prod_beta Let_def intro!: detached4I split: option.splits)

theorem transactions_detach_client_witness:
  "c4_Interface (f4_Cfg (l4_client (fst (snd (Client_Rollback env0 lib0 link4 world_init))))) = [] \<and>
   f4_Info (l4_client (fst (snd (Client_Rollback env0 lib0 link4 world_init)))) = f4_Info client4"
proof -
  have "\<not> l4_bNew link4" "l4_client link4 = client4" by (simp_all add: link4_def)
  then show ?thesis
    using transactions_detach_client [of env0 lib0 link4 world_init] by (simp add: case_prod_beta detached4_def Let_def)
qed

section \<open>String parameters\<close>

definition string_size :: "string \<Rightarrow> nat" where
  "string_size p = (if p = ''X_CISCO_COM_BootFileName'' then 256 else 64)"

text \<open>
  String parameters of a DHCPv4 client are read back. Setting the alias, the
  interface or the boot file name succeeds exactly when the value fits its array,
  and leaves the client as it is otherwise. After a success a read with a buffer that
  has room returns the value; a read with a smaller buffer returns the size that is
  needed, and a second read with that size returns the value.
\<close>

lemma string_parameters_roundtrip:
  assumes "dm_lib_ok L" "p \<in> {''Alias'', ''Interface'', ''X_CISCO_COM_BootFileName''}"
    and "Client_SetParamStringValue L l p v = (ok, l')"
  shows "ok = (length v < string_size p) \<and>
    (if ok then (\<forall>n. Client_GetParamStringValue e l' p n = Some (if length v < n then (0, Some v, n) else (1, None, length v + 1))) \<and>
                Client_GetParamStringValue e l' p (length v + 1) = Some (0, Some v, length v + 1)
     else l' = l)"
proof -
  from assms(2) consider "p = ''Alias''" | "p = ''Interface''" | "p = ''X_CISCO_COM_BootFileName''" by blast
  then show ?thesis
    using assms(1,3)
    by cases (auto simp: Client_SetParamStringValue_def Client_GetParamStringValue_def string_size_def lib_copy_simp update_pValue_def
        Let_def split: if_splits)
qed

lemma string_parameters_roundtrip_witness:
  "Client_GetParamStringValue env0 (snd (Client_SetParamStringValue lib0 link4 ''Alias'' ''wan'')) ''Alias'' 64 = Some (0, Some ''wan'', 64) \<and>
   Client_GetParamStringValue env0 (snd (Client_SetParamStringValue lib0 link4 ''Alias'' ''wan'')) ''Alias'' 2 = Some (1, None, 4)"
proof -
  let ?r = "Client_SetParamStringValue lib0 link4 ''Alias'' ''wan''"
  have "?r = (True, snd ?r)" by (simp add: Client_SetParamStringValue_def lib0_def)
  from string_parameters_roundtrip [OF lib0_ok _ this, of env0] show ?thesis by simp
qed

section \<open>One copy for many\<close>

definition place6 :: "COSA_DML_DHCPCV6_FULL \<Rightarrow> nat \<times> string" where
  "place6 c = (c6_InstanceNumber (f6_Cfg c), c6_Interface (f6_Cfg c))"

lemma psm6_set_place: "(\<And>v c. place6 (f v c) = place6 c) \<Longrightarrow> place6 (fst (psm6_set e n k f s)) = place6 (fst s)"
  by (simp add: psm6_set_def case_prod_beta split: option.split)

lemma loaded_place6: "place6 (fst (get_entry6_psm e L n c w)) = (n, c6_Interface (f6_Cfg c))"
  unfolding get_entry6_psm_def Let_def
  by (subst psm6_set_place, simp add: place6_def)+ (simp add: place6_def)

lemma loaded_entry6:
  assumes "CosaDmlDhcpv6cGetEntry e L n g c w = (c', g', w')"
  shows "g' = c'" "c6_InstanceNumber (f6_Cfg c') = n" "c6_Interface (f6_Cfg c') = c6_Interface (f6_Cfg c)"
  using assms loaded_place6 [of e L n c w]
  by (auto simp: CosaDmlDhcpv6cGetEntry_def case_prod_beta Let_def place6_def)

text \<open>
  A rollback of the first DHCPv6 client makes it a copy of the last one.
  The platform layer keeps one copy of a client, that of the entry it loaded last,
  and restores client 1 from it: after two clients have been loaded, a rollback of
  client 1 reports success and gives it the whole configuration of client 2, with the
  instance number 2 in an entry that the table lists under its own number, and with the
  empty interface that the entry had when it was loaded, so that the controller no
  longer finds it. A rollback of client 2 changes nothing at all. The framework rolls
  back a client, for instance, when it is enabled and its T1 is larger than its T2.
\<close>

lemma v6_rollback_clones_last:
  assumes "CosaDmlDhcpv6cGetEntry e L 1 g0 (DHCPV6_CLIENT_SET_DEFAULTVALUE client6_zero) w = (c1, g1, w1)"
    and "CosaDmlDhcpv6cGetEntry e L 2 g1 (DHCPV6_CLIENT_SET_DEFAULTVALUE client6_zero) w1 = (c2, g2, w2)"
    and "\<not> l6_bNew l1" "\<not> l6_bNew l2" "c6_InstanceNumber (f6_Cfg (l6_client l1)) = 1" "c6_InstanceNumber (f6_Cfg (l6_client l2)) = 2"
  shows "\<exists>l'. Client3_Rollback g2 l1 = (STATUS_SUCCESS, l') \<and> f6_Cfg (l6_client l') = f6_Cfg c2 \<and>
      c6_InstanceNumber (f6_Cfg (l6_client l')) = 2 \<and> l6_InstanceNumber l' = l6_InstanceNumber l1 \<and>
      (\<forall>m. di_if_name m \<noteq> [] \<longrightarrow> \<not> for6 m l') \<and> Client3_Rollback g2 l2 = (STATUS_SUCCESS, l2)"
proof -
  note c2 = loaded_entry6 [OF assms(2)]
  have "c6_Interface (f6_Cfg c2) = []" using c2(3) by (simp add: DHCPV6_CLIENT_SET_DEFAULTVALUE_def)
  then have "\<not> for6 m l'" if "f6_Cfg (l6_client l') = f6_Cfg c2" "di_if_name m \<noteq> []" for m l'
    using that by (simp add: for6_def strncmp_eq_def)
  then show ?thesis using assms(3-6) c2 by (auto simp: Client3_Rollback_def CosaDmlDhcpv6cGetCfg_def Let_def)
qed

theorem v6_rollback_clones_last_witness:
  "let (c1, g1, w1) = CosaDmlDhcpv6cGetEntry env0 lib0 1 client6 (DHCPV6_CLIENT_SET_DEFAULTVALUE client6_zero) world_init;
       (c2, g2, w2) = CosaDmlDhcpv6cGetEntry env0 lib0 2 g1 (DHCPV6_CLIENT_SET_DEFAULTVALUE client6_zero) w1
   in c6_InstanceNumber (f6_Cfg (l6_client (snd (Client3_Rollback g2 link6)))) = 2"
proof -
  let ?d = "DHCPV6_CLIENT_SET_DEFAULTVALUE client6_zero"
  obtain c1 g1 w1 where 1: "CosaDmlDhcpv6cGetEntry env0 lib0 1 client6 ?d world_init = (c1, g1, w1)" by (metis prod_cases3)
  obtain c2 g2 w2 where 2: "CosaDmlDhcpv6cGetEntry env0 lib0 2 g1 ?d w1 = (c2, g2, w2)" by (metis prod_cases3)
  let ?l2 = "link6\<lparr>l6_client := client6\<lparr>f6_Cfg := cfg6\<lparr>c6_InstanceNumber := 2\<rparr>\<rparr>\<rparr>"
  have "\<not> l6_bNew link6" "\<not> l6_bNew ?l2" "c6_InstanceNumber (f6_Cfg (l6_client link6)) = 1" "c6_InstanceNumber (f6_Cfg (l6_client ?l2)) = 2"
    by code_simp+
  from v6_rollback_clones_last [OF 1 2 this] show ?thesis unfolding 1 prod.case Let_def 2 by auto
qed

text \<open>
  The aliases of options get mixed up. The data model keeps the old alias
  of an option in one place per table. When two new sent options of a client are
  renamed and then both rolled back, the first one gets the old alias of the second and
  the second one keeps its new alias. And an alias of 64 characters or more, which is
  accepted, can never be changed again: the place for the old alias is too small.
\<close>

lemma option_aliases_mixed:
  assumes "dm_lib_ok L" "i < length (l4_sent_opts l)" "j < length (l4_sent_opts l)" "i \<noteq> j"
    and "so_bNew (l4_sent_opts l ! i)" "so_bNew (l4_sent_opts l ! j)" "length (so_Alias (l4_sent_opts l ! i)) < 64"
    and "so_Alias (l4_sent_opts l ! j) = old" "old \<noteq> []" "length old < 64" "length a < 512" "length b < 512"
    and "l1 = snd (SentOption_SetParamStringValue L i l ''Alias'' a)" "l2 = snd (SentOption_SetParamStringValue L j l1 ''Alias'' b)"
  shows "(\<exists>l3 l4. SentOption_Rollback L num store i l2 = Some (STATUS_SUCCESS, l3) \<and>
      SentOption_Rollback L num store j l3 = Some (STATUS_SUCCESS, l4) \<and>
      so_Alias (l4_sent_opts l4 ! i) = old \<and> so_Alias (l4_sent_opts l4 ! j) = b) \<and>
    (64 \<le> length a \<longrightarrow> (\<forall>v. SentOption_SetParamStringValue L i l1 ''Alias'' v = (False, l1)))"
proof -
  have l1: "l1 = (set_sent i ((l4_sent_opts l ! i)\<lparr>so_Alias := a\<rparr>) l)\<lparr>l4_AliasOfSend := so_Alias (l4_sent_opts l ! i)\<rparr>"
    using assms(1,2,7,11,13) by (simp add: SentOption_SetParamStringValue_def lib_copy_simp Let_def)
  have l2: "l2 = (set_sent j ((l4_sent_opts l1 ! j)\<lparr>so_Alias := b\<rparr>) l1)\<lparr>l4_AliasOfSend := old\<rparr>"
    using assms(1,3,4,8,10,12,14) by (simp add: l1 SentOption_SetParamStringValue_def lib_copy_simp Let_def)
  have "\<forall>v. SentOption_SetParamStringValue L i l1 ''Alias'' v = (False, l1)" if "64 \<le> length a"
    using that assms(1,2) by (simp add: l1 SentOption_SetParamStringValue_def lib_copy_simp Let_def)
  then show ?thesis
    using assms(1-6,9,10)
    by (simp add: l2 l1 SentOption_Rollback_def restore_alias_def lib_copy_simp DHCPV4_SENDOPTION_SET_DEFAULTVALUE_def Let_def)
qed

definition link_two :: DHCPC_LINK_OBJECT where
  "link_two = link4\<lparr>l4_sent_opts := map (\<lambda>n. \<lparr>so_bNew = True, so_InstanceNumber = n, so_Alias = ''SentOption'' @ show_nat n,
     so_bEnabled = False, so_Tag = 0, so_Value = []\<rparr>) [1, 2]\<rparr>"

lemma option_aliases_mixed_witness:
  "let l1 = snd (SentOption_SetParamStringValue lib0 0 link_two ''Alias'' ''first'');
       l2 = snd (SentOption_SetParamStringValue lib0 1 l1 ''Alias'' ''second'')
   in \<exists>l3 l4. SentOption_Rollback lib0 0 [] 0 l2 = Some (STATUS_SUCCESS, l3) \<and> SentOption_Rollback lib0 0 [] 1 l3 = Some (STATUS_SUCCESS, l4) \<and>
        so_Alias (l4_sent_opts l4 ! 0) = ''SentOption2'' \<and> so_Alias (l4_sent_opts l4 ! 1) = ''second''"
proof -
  have o: "length (l4_sent_opts link_two) = 2" "so_bNew (l4_sent_opts link_two ! 0)" "so_bNew (l4_sent_opts link_two ! 1)"
    "so_Alias (l4_sent_opts link_two ! 0) = ''SentOption1''" "so_Alias (l4_sent_opts link_two ! 1) = ''SentOption2''" by code_simp+
  show ?thesis
    using option_aliases_mixed [OF lib0_ok, of 0 link_two 1 "''SentOption2''" "''first''" "''second''", OF _ _ _ _ _ _ _ _ _ _ _ refl refl, of 0 "[]"] o
    by (simp add: Let_def)
qed

end
