(* ===== verification/Lease_Time.thy ===== *)
theory Lease_Time
  imports Dml_Tables Udhcpc_Spec
begin

text \<open>
  The parameter \<open>LeaseTimeRemaining\<close>: the lease handler writes the lease time and the
  time at which the lease arrived to system events (\<open>set_inf_sysevents\<close>), the data model
  reads them back and subtracts (\<open>CosaDmlDhcpcGetLeaseTimeRemaining\<close>).
\<close>

section \<open>Numbers as text and as words\<close>

lemma c_atoi_show_int: "c_atoi (show_int i) = i"
proof (cases "i < 0")
  case True
  then show ?thesis by (simp add: c_atoi_def show_int_def is_space_def read_digits_show_nat)
next
  case False
  then show ?thesis by (simp add: show_int_def c_atoi_show_nat)
qed

lemma strtol_show_int:
  assumes "32 \<le> e_LONG_BIT e" "- (2 ^ 31) \<le> i" "i < 2 ^ 31"
  shows "strtol_u32 e (show_int i) = word_of_int i"
proof -
  have "(2::int) ^ 31 \<le> 2 ^ (e_LONG_BIT e - 1)" using assms(1) by (intro power_increasing) simp_all
  then have "c_strtol e (show_int i) = i" using assms(2,3) by (auto simp: c_strtol_def c_atoi_show_int max_def min_def)
  then show ?thesis by (simp add: strtol_u32_def)
qed

lemma show_int_short: "- (2 ^ 31) \<le> i \<Longrightarrow> i < 2 ^ 31 \<Longrightarrow> length (show_int i) < 32"
  using show_nat_len [of "nat i" 10] show_nat_len [of "nat (- i)" 10] by (auto simp: show_int_def nat_less_iff)

lemma uint_u32: "0 \<le> x \<Longrightarrow> x < 2 ^ 32 \<Longrightarrow> uint (word_of_int x :: u32) = x"
  by (simp add: uint_word_of_int)

lemma sint_u32: "- (2 ^ 31) \<le> x \<Longrightarrow> x < 2 ^ 31 \<Longrightarrow> sint (word_of_int x :: u32) = x"
  by (simp add: sint_sbintrunc' signed_take_bit_int_eq_self)

lemma lease_remaining_int:
  assumes "0 \<le> t0" "t0 \<le> up" "up < 2 ^ 31"
  shows "lease_remaining L (word_of_int t0) (word_of_int up) = (if up - t0 < uint L then sint (L - word_of_int (up - t0)) else 0)"
proof -
  have u: "uint (word_of_int t0 :: u32) = t0" "uint (word_of_int up :: u32) = up" "uint (word_of_int (up - t0) :: u32) = up - t0"
    using assms by (intro uint_u32; simp)+
  then have "(word_of_int t0 :: u32) \<le> word_of_int up" using assms(2) by (simp add: word_le_def)
  moreover have "(word_of_int up :: u32) - word_of_int t0 = word_of_int (up - t0)" by simp
  moreover have "word_of_int (up - t0) < L \<longleftrightarrow> up - t0 < uint L" by (simp only: word_less_def u(3))
  ultimately show ?thesis by (simp only: lease_remaining_def Let_def if_True)
qed

lemma lease_remaining_short:
  assumes "0 \<le> d" "d < uint (L :: u32)" "uint L < 2 ^ 31"
  shows "sint (L - word_of_int d) = uint L - d"
proof -
  have "L - word_of_int d = word_of_int (uint L - d)" by simp
  then show ?thesis using assms by (simp only: sint_u32)
qed

lemma uint_infinite: "uint (- 1 :: u32) = 2 ^ 32 - 1"
  by (simp add: unsigned_minus_1_eq_mask mask_eq_exp_minus_1)

lemma lease_remaining_infinite:
  assumes "0 \<le> d" "d < 2 ^ 31"
  shows "sint ((- 1 :: u32) - word_of_int d) = - 1 - d"
proof -
  have "(- 1 :: u32) - word_of_int d = word_of_int (- 1 - d)" by simp
  then show ?thesis using assms by (simp only: sint_u32)
qed

section \<open>From the lease to the parameter\<close>

text \<open>The values that a system event was given, in order.\<close>

definition event_values :: "string \<Rightarrow> action list \<Rightarrow> string list" where
  "event_values k as = concat (map (\<lambda>a. case a of A_set_event k' v \<Rightarrow> if k' = k then [v] else [] | _ \<Rightarrow> []) as)"

lemma event_values_append: "event_values k (as @ bs) = event_values k as @ event_values k bs"
  by (simp add: event_values_def)

lemma event_values_simps:
  "event_values k [] = []" "event_values k (A_set_event k' v # as) = (if k' = k then v # event_values k as else event_values k as)"
  "event_values k (A_uptime # as) = event_values k as"
  by (simp_all add: event_values_def)

lemma lease_events_written:
  assumes "w1 = set_inf_sysevents e cur lease n w" "cur = None \<or> v4_leaseTime (the cur) \<noteq> v4_leaseTime lease" "length n < 64"
    and "t0 = e_ret e (butlast (w_trace w1))" "0 \<le> t0" "t0 < 2 ^ 31"
  shows "last (event_values (''ipv4_'' @ n @ ''_lease_time'') (w_trace w1)) = show_int (sint (v4_leaseTime lease))"
    "last (event_values (''ipv4_'' @ n @ ''_start_time'') (w_trace w1)) = show_int t0"
proof -
  let ?key = "\<lambda>s. c_trunc 128 (''ipv4_'' @ n @ s)"
  have k: "?key s = ''ipv4_'' @ n @ s" if "length s < 20" for s using that assms(3) by (simp add: c_trunc_def)
  have "c_trunc 64 (show_int (sint (v4_leaseTime lease))) = show_int (sint (v4_leaseTime lease))"
    using show_int_short [of "sint (v4_leaseTime lease)"] sint_ge [of "v4_leaseTime lease"] sint_lt [of "v4_leaseTime lease"]
    by (intro c_trunc_id) simp
  moreover have "show_nat (nat t0) = show_int t0" "c_trunc 64 (show_int t0) = show_int t0"
    using assms(5,6) show_int_short [of t0] by (simp_all add: show_int_def c_trunc_id)
  moreover have "last (w_trace w1) = A_set_event (?key ''_start_time'') (c_trunc 64 (show_nat (nat t0)))"
    using assms(1,4) by (simp add: set_inf_sysevents_def Let_def case_prod_beta fst_call butlast_append)
  ultimately show "last (event_values (''ipv4_'' @ n @ ''_lease_time'') (w_trace w1)) = show_int (sint (v4_leaseTime lease))"
    "last (event_values (''ipv4_'' @ n @ ''_start_time'') (w_trace w1)) = show_int t0"
    using assms(1,2) k
    by (auto simp: set_inf_sysevents_def Let_def case_prod_beta event_values_append event_values_simps)
qed

text \<open>
  Claim C24. The remaining lease time counts down from the lease that was worked off
  last. When a lease has arrived at the uptime \<open>t0\<close> with a lease time that the handler
  wrote, and the system events are read back as they were written, reading the
  parameter at the uptime \<open>up\<close> returns the lease time less the time that has passed, and
  0 from the end of the lease on, for every lease time below \<open>2\<^sup>3\<^sup>1\<close> seconds. For an infinite
  lease (\<open>0xffffffff\<close>) the parameter is negative.
\<close>

theorem lease_time_counts_down:
  assumes "w1 = set_inf_sysevents e cur lease n w" "cur = None \<or> v4_leaseTime (the cur) \<noteq> v4_leaseTime lease"
    and "t0 = e_ret e (butlast (w_trace w1))" "0 \<le> t0" "t0 \<le> up" "up < 2 ^ 31"
    and "n = c4_Interface (f4_Cfg (l4_client l))" "n \<noteq> []" "length n < 64" "32 \<le> e_LONG_BIT e2"
    and "kl = ''ipv4_'' @ n @ ''_lease_time''" "ks = ''ipv4_'' @ n @ ''_start_time''"
    and "h1 = w_trace w2 @ [A_get_event kl]" "h2 = h1 @ [A_get_event ks]"
    and "e_ret e2 h1 = 0" "e_str e2 h1 = last (event_values kl (w_trace w1))"
    and "e_ret e2 h2 = 0" "e_str e2 h2 = last (event_values ks (w_trace w1))" "e_ret e2 (h2 @ [A_uptime]) = up"
  shows "\<exists>r l' w3. Client_GetParamIntValue e2 l ''LeaseTimeRemaining'' w2 = (Some r, l', w3) \<and>
    (uint (v4_leaseTime lease) < 2 ^ 31 \<longrightarrow> r = max 0 (uint (v4_leaseTime lease) - (up - t0))) \<and>
    (v4_leaseTime lease = - 1 \<longrightarrow> r = - 1 - (up - t0))"
proof -
  let ?L = "v4_leaseTime lease"
  have s: "- (2 ^ 31) \<le> sint ?L" "sint ?L < 2 ^ 31" using sint_ge [of ?L] sint_lt [of ?L] by simp_all
  have e: "e_str e2 h1 = show_int (sint ?L)" "e_str e2 h2 = show_int t0"
    using lease_events_written [OF assms(1,2,9,3,4)] assms(5,6,11,12,16,18) by simp_all
  have v: "c_trunc 32 (e_str e2 h1) = show_int (sint ?L)" "c_trunc 32 (e_str e2 h2) = show_int t0"
    "strtol_u32 e2 (show_int (sint ?L)) = ?L" "strtol_u32 e2 (show_int t0) = word_of_int t0"
    using s assms(4-6,10) e show_int_short [of "sint ?L"] show_int_short [of t0]
      strtol_show_int [of e2 "sint ?L"] strtol_show_int [of e2 t0] by (simp_all add: c_trunc_id)
  have nn: "show_int i \<noteq> []" for i by (simp add: show_int_def)
  have k: "c_trunc 128 kl = kl" "c_trunc 128 ks = ks" using assms(9,11,12) by (simp_all add: c_trunc_id)
  have r: "\<exists>l' w3. Client_GetParamIntValue e2 l ''LeaseTimeRemaining'' w2 =
      (Some (lease_remaining ?L (word_of_int t0) (word_of_int up)), l', w3)"
    using assms(4-8,13-15,17,19) v k nn unfolding assms(11,12)
    by (simp add: Client_GetParamIntValue_def CosaDmlDhcpcGetInfo_def CosaDmlDhcpcGetLeaseTimeRemaining_def
        commonSyseventGet_def case_prod_beta fst_call)
  have "lease_remaining ?L (word_of_int t0) (word_of_int up) = max 0 (uint ?L - (up - t0))" if "uint ?L < 2 ^ 31"
    using lease_remaining_int [OF assms(4-6), of ?L] lease_remaining_short [of "up - t0" ?L] that assms(5) by (auto simp: max_def)
  moreover have "lease_remaining (- 1) (word_of_int t0) (word_of_int up) = - 1 - (up - t0)"
    using lease_remaining_int [OF assms(4-6), of "- 1"] lease_remaining_infinite [of "up - t0"] assms(4-6)
    by (simp add: uint_infinite)
  ultimately show ?thesis using r by auto
qed

text \<open>A lease of an hour that arrived at 100 seconds, read at 160 seconds.\<close>

definition env_read :: env where
  "env_read = env0\<lparr>e_ret := (\<lambda>t. if last t = A_uptime then 160 else 0),
     e_str := (\<lambda>t. if last t = A_get_event ''ipv4_erouter0_lease_time'' then ''3600'' else ''100'')\<rparr>"

theorem lease_time_counts_down_witness:
  "fst (Client_GetParamIntValue env_read link4 ''LeaseTimeRemaining'' world_init) = Some 3540"
proof -
  let ?e = "env0\<lparr>e_ret := (\<lambda>_. 100)\<rparr>"
  let ?w1 = "set_inf_sysevents ?e None lease4 ''erouter0'' world_init"
  let ?kl = "''ipv4_'' @ ''erouter0'' @ ''_lease_time''" and ?ks = "''ipv4_'' @ ''erouter0'' @ ''_start_time''"
  have n: "''erouter0'' = c4_Interface (f4_Cfg (l4_client link4))" "uint (v4_leaseTime lease4) = 3600"
    "last (event_values ?kl (w_trace ?w1)) = ''3600''" "last (event_values ?ks (w_trace ?w1)) = ''100''" by code_simp+
  have u: "e_ret ?e (butlast (w_trace ?w1)) = 100" by simp
  have "\<exists>r l' w3. Client_GetParamIntValue env_read link4 ''LeaseTimeRemaining'' world_init = (Some r, l', w3) \<and>
      (uint (v4_leaseTime lease4) < 2 ^ 31 \<longrightarrow> r = max 0 (uint (v4_leaseTime lease4) - (160 - 100))) \<and>
      (v4_leaseTime lease4 = - 1 \<longrightarrow> r = - 1 - (160 - 100))"
    by (rule lease_time_counts_down [OF refl _ u [symmetric] _ _ _ n(1) _ _ _ refl refl refl refl])
      (use n(3,4) in \<open>simp_all add: env_read_def env0_def\<close>)
  then show ?thesis using n(2) by auto
qed

end
