(* ===== verification/Event_Layer.thy ===== *)
theory Event_Layer
  imports Ring_Queue Dhcp_Samples
begin

text \<open>
  The event layer, \<open>source/DHCPMgrInterface/ifl.c\<close> and \<open>ifl_thread.c\<close>: handlers of system
  events are registered by event name and caller context, every context has a queue
  (\<open>Ring_Queue\<close>), and every thread that reads or writes system events has an entry with
  its connection in the table of task resources. The manager thread and the task
  threads of a context are in \<open>Event_Race\<close>.

  The static variables are one record. A function pointer is a number, NULL is 0; a
  pointer argument that the code compares with NULL is an option. Operations under
  \<open>trtLock\<close> are one step; the thread that calls is an argument, the thread id that
  \<open>gettid\<close> returns. Changing the priority of a thread has no effect on the state.
\<close>

section \<open>Data\<close>

definition IFL_MAX_CONTEXT :: nat where "IFL_MAX_CONTEXT = 4"
definition IFL_MAX_EVENT_HANDLER_MAP :: nat where "IFL_MAX_EVENT_HANDLER_MAP = 24"
definition IFL_MAX_TASK_RESOURCE :: nat where "IFL_MAX_TASK_RESOURCE = 24"

type_synonym fptr_t = nat

datatype ifl_event_type = IFL_EVENT_VALUE | IFL_EVENT_NOTIFY
datatype ifl_ctx_type = IFL_CTX_STATIC | IFL_CTX_DYNAMIC | IFL_CTX_invalid

record q_data_t =
  qd_cb :: fptr_t
  qd_eValue :: string

record handler_t =
  hd_cb :: fptr_t
  hd_ctxID :: nat
  hd_eType :: ifl_event_type

text \<open>\<open>handlerCount\<close> is the length of the list of handlers.\<close>

record event_handler_map_t =
  em_event :: string
  em_handler :: "handler_t list"

record q_context_idx_map_t =
  qc_qCtx :: string
  qc_qObj :: "q_data_t ifl_qInstance option"

record task_resource_table_t =
  tr_tID :: int
  tr_tCtx :: string
  tr_tResrc :: "int option"

text \<open>
  The used rows of \<open>evtToHdlMap\<close> and \<open>ctxToIdxMap\<close> (their number is \<open>nextEvtHdlIdx\<close> and
  \<open>nextCtxIdx\<close>), all rows of \<open>tskResrcTbl\<close>, and the counters. Of a task resource the
  descriptor is kept.
\<close>

record ifl_state =
  evtToHdlMap :: "event_handler_map_t list"
  ctxToIdxMap :: "q_context_idx_map_t list"
  qInstIdx :: nat
  tskResrcTbl :: "task_resource_table_t list"
  tskResrcTblCnt :: nat
  ifl_default_ctx_enabled :: bool

definition strcpy_s :: "nat \<Rightarrow> string \<Rightarrow> string" where
  "strcpy_s n s = (if length s < n then s else [])"

section \<open>Contexts and events\<close>

text \<open>The memory for a new queue is an argument, \<open>None\<close> where \<open>malloc\<close> returns NULL; see \<open>createQ\<close>.\<close>

definition ctx_index :: "string \<Rightarrow> q_context_idx_map_t list \<Rightarrow> nat" where
  "ctx_index ctx cs = (case first_idx (\<lambda>c. strncmp_eq 16 (qc_qCtx c) ctx) cs of Some i \<Rightarrow> i | None \<Rightarrow> length cs)"

definition get_ctx_id :: "q_data_t list option \<Rightarrow> string \<Rightarrow> ifl_state \<Rightarrow> (nat \<times> ifl_state) option" where
  "get_ctx_id mem ctx s =
     (let cs = ctxToIdxMap s; idx = ctx_index ctx cs
      in if idx = length cs
         then (if length cs < IFL_MAX_CONTEXT
               then (case createQ mem None (qInstIdx s) of
                       None \<Rightarrow> None
                     | Some (r, q, n) \<Rightarrow>
                         if r = IFL_SUCCESS
                         then Some (idx, s\<lparr>ctxToIdxMap := cs @ [\<lparr>qc_qCtx = strcpy_s 16 ctx, qc_qObj = q\<rparr>], qInstIdx := n\<rparr>)
                         else Some (idx, s))
               else Some (IFL_MAX_CONTEXT, s))
         else Some (idx, s))"

text \<open>A full table returns its size for every event, registered or not.\<close>

definition evt_index :: "string \<Rightarrow> event_handler_map_t list \<Rightarrow> nat" where
  "evt_index event es = (case first_idx (\<lambda>m. strncmp_eq 64 (em_event m) event) es of Some i \<Rightarrow> i | None \<Rightarrow> length es)"

definition get_evt_id :: "string \<Rightarrow> bool \<Rightarrow> ifl_state \<Rightarrow> nat \<times> ifl_state" where
  "get_evt_id event addEvent s =
     (let es = evtToHdlMap s
      in if length es < IFL_MAX_EVENT_HANDLER_MAP
         then (let idx = evt_index event es
               in (idx, if addEvent \<and> idx = length es
                        then s\<lparr>evtToHdlMap := es @ [\<lparr>em_event = strcpy_s 64 event, em_handler = []\<rparr>]\<rparr> else s))
         else (length es, s))"

definition ifl_register_event_handler ::
  "q_data_t list option \<Rightarrow> string option \<Rightarrow> ifl_event_type \<Rightarrow> string option \<Rightarrow> fptr_t \<Rightarrow> ifl_state \<Rightarrow> world \<Rightarrow> (ifl_ret \<times> ifl_state \<times> world) option" where
  "ifl_register_event_handler mem event eType callerCtx cb s w =
     (case (event, callerCtx) of
        (Some ev, Some ctx) \<Rightarrow>
          if cb = 0 then Some (IFL_ERROR, s, w)
          else (case get_ctx_id mem ctx s of
            None \<Rightarrow> None
          | Some (ctxID, s1) \<Rightarrow>
              if ctxID = IFL_MAX_CONTEXT then Some (IFL_ERROR, s1, w)
              else (case get_evt_id ev True s1 of (evtID, s2) \<Rightarrow>
                if evtID = IFL_MAX_EVENT_HANDLER_MAP then Some (IFL_ERROR, s2, w)
                else (let m = evtToHdlMap s2 ! evtID
                      in if length (em_handler m) < IFL_MAX_CONTEXT
                         then (let w1 = (if eType = IFL_EVENT_NOTIFY then act (A_custom ''sysevent_set_options'' (em_event m)) w else w)
                               in Some (IFL_SUCCESS,
                                    s2\<lparr>evtToHdlMap := (evtToHdlMap s2)[evtID :=
                                         m\<lparr>em_handler := em_handler m @ [\<lparr>hd_cb = cb, hd_ctxID = ctxID, hd_eType = eType\<rparr>]\<rparr>]\<rparr>,
                                    act (A_custom ''sysevent_setnotification'' (em_event m)) w1))
                         else Some (IFL_ERROR, s2, w))))
      | _ \<Rightarrow> Some (IFL_ERROR, s, w))"

text \<open>
  What the manager does with a notification: for each handler of the event, in the
  order of registration, the context and what goes into its queue. The row behind the
  used ones has no handlers.
\<close>

definition notified :: "string \<Rightarrow> string \<Rightarrow> ifl_state \<Rightarrow> (nat \<times> q_data_t) list" where
  "notified event eValue s =
     (let evtID = fst (get_evt_id event False s)
      in if evtID = IFL_MAX_EVENT_HANDLER_MAP \<or> length (evtToHdlMap s) \<le> evtID then []
         else map (\<lambda>h. (hd_ctxID h, \<lparr>qd_cb = hd_cb h, qd_eValue = strcpy_s 64 eValue\<rparr>)) (em_handler (evtToHdlMap s ! evtID)))"

section \<open>Task resources\<close>

definition upd_row :: "nat \<Rightarrow> (task_resource_table_t \<Rightarrow> task_resource_table_t) \<Rightarrow> ifl_state \<Rightarrow> ifl_state" where
  "upd_row i f s = s\<lparr>tskResrcTbl := (tskResrcTbl s)[i := f (tskResrcTbl s ! i)]\<rparr>"

definition alloc_task_resource :: "env \<Rightarrow> nat \<Rightarrow> ifl_state \<Rightarrow> world \<Rightarrow> bool \<times> ifl_state \<times> world" where
  "alloc_task_resource e i s w =
     (case tr_tResrc (tskResrcTbl s ! i) of
        None \<Rightarrow> (False, s, w)
      | Some fd0 \<Rightarrow>
          (case call e (A_custom ''sysevent_open'' (tr_tCtx (tskResrcTbl s ! i))) w of (fd, w') \<Rightarrow>
             (fd \<noteq> 0, upd_row i (tr_tResrc_update (\<lambda>_. Some fd)) s, w')))"

definition dealloc_task_resource :: "int option \<Rightarrow> world \<Rightarrow> int option \<times> world" where
  "dealloc_task_resource r w =
     (case r of None \<Rightarrow> (None, w) | Some fd \<Rightarrow> if fd \<noteq> 0 then (Some 0, act (A_custom ''sysevent_close'' (show_int fd)) w) else (r, w))"

definition row_of :: "string \<Rightarrow> ifl_state \<Rightarrow> nat option" where
  "row_of ctx s = first_idx (\<lambda>t. strncmp_eq 16 ctx (tr_tCtx t)) (take (tskResrcTblCnt s) (tskResrcTbl s))"

definition add_entry_to_task_resource_table :: "string \<Rightarrow> bool \<Rightarrow> ifl_state \<Rightarrow> nat option \<times> ifl_state" where
  "add_entry_to_task_resource_table ctx flag s =
     (case row_of ctx s of
        Some i \<Rightarrow> (Some i, s)
      | None \<Rightarrow>
          if flag \<and> tskResrcTblCnt s < IFL_MAX_TASK_RESOURCE
          then (let i = tskResrcTblCnt s
                in (Some i, (upd_row i (\<lambda>t. t\<lparr>tr_tCtx := strcpy_s 16 ctx, tr_tResrc := Some 0\<rparr>) s)\<lparr>tskResrcTblCnt := Suc i\<rparr>))
          else (None, s))"

definition lookup_task_resource_table :: "int \<Rightarrow> ifl_state \<Rightarrow> int option" where
  "lookup_task_resource_table tID s =
     (if tID = 0 then None
      else (let r = (case find (\<lambda>t. tr_tID t = tID) (take (tskResrcTblCnt s) (tskResrcTbl s)) of None \<Rightarrow> None | Some t \<Rightarrow> tr_tResrc t)
            in if r = None \<and> ifl_default_ctx_enabled s then tr_tResrc (tskResrcTbl s ! 0) else r))"

definition init_task_resource :: "env \<Rightarrow> int \<Rightarrow> string \<Rightarrow> ifl_state \<Rightarrow> world \<Rightarrow> nat option \<times> ifl_state \<times> world" where
  "init_task_resource e tid ctx s w =
     (case add_entry_to_task_resource_table ctx False s of
        (None, s1) \<Rightarrow> (None, s1, w)
      | (Some i, s1) \<Rightarrow>
          (case alloc_task_resource e i s1 w of (ok, s2, w2) \<Rightarrow>
             (Some i, if ok then upd_row i (tr_tID_update (\<lambda>_. tid)) s2 else s2, w2)))"

definition deinit_task_resource :: "nat option \<Rightarrow> ifl_state \<Rightarrow> world \<Rightarrow> ifl_state \<times> world" where
  "deinit_task_resource row s w =
     (case row of
        None \<Rightarrow> (s, w)
      | Some i \<Rightarrow> (case dealloc_task_resource (tr_tResrc (tskResrcTbl s ! i)) w of (r, w') \<Rightarrow>
                     (upd_row i (\<lambda>t. t\<lparr>tr_tID := 0, tr_tResrc := r\<rparr>) s, w')))"

text \<open>A row whose connection cannot be opened is freed, and the table is shortened by one, whichever row it is.\<close>

definition drop_row :: "nat \<Rightarrow> ifl_state \<Rightarrow> ifl_state" where
  "drop_row i s = (upd_row i (tr_tResrc_update (\<lambda>_. None)) s)\<lparr>tskResrcTblCnt := tskResrcTblCnt s - 1\<rparr>"

definition init_default_ctx :: "env \<Rightarrow> ifl_state \<Rightarrow> world \<Rightarrow> ifl_state \<times> world" where
  "init_default_ctx e s w =
     (case add_entry_to_task_resource_table ''ifl-dflt-ctx'' True s of
        (None, s1) \<Rightarrow> (s1, w)
      | (Some i, s1) \<Rightarrow>
          (case alloc_task_resource e i s1 w of (ok, s2, w2) \<Rightarrow>
             (if ok then (upd_row i (tr_tID_update (\<lambda>_. 0)) s2)\<lparr>ifl_default_ctx_enabled := True\<rparr> else drop_row i s2, w2)))"

definition ifl_init :: "env \<Rightarrow> string \<Rightarrow> ifl_state \<Rightarrow> world \<Rightarrow> ifl_ret \<times> ifl_state \<times> world" where
  "ifl_init e mainCtx s w =
     (let s0 = s\<lparr>evtToHdlMap := map (\<lambda>_. \<lparr>em_event = [], em_handler = []\<rparr>) (evtToHdlMap s),
                 ctxToIdxMap := map (\<lambda>_. \<lparr>qc_qCtx = [], qc_qObj = None\<rparr>) (ctxToIdxMap s)\<rparr>
      in case init_default_ctx e s0 w of (s1, w1) \<Rightarrow>
           (case call e (A_custom ''sysevent_open'' mainCtx) w1 of (fd, w2) \<Rightarrow>
              (case call e (A_thread ''_task_manager_thrd'') w2 of (r, w3) \<Rightarrow>
                 (if r \<noteq> 0 then IFL_THRD_CREATE_ERROR else IFL_SUCCESS, s1, w3))))"

definition ifl_init_ctx :: "env \<Rightarrow> int \<Rightarrow> string option \<Rightarrow> ifl_ctx_type \<Rightarrow> ifl_state \<Rightarrow> world \<Rightarrow> ifl_ret \<times> ifl_state \<times> world" where
  "ifl_init_ctx e tid ctx cType s w =
     (case ctx of
        None \<Rightarrow> (IFL_ERROR, s, w)
      | Some c \<Rightarrow>
          if cType = IFL_CTX_invalid then (IFL_ERROR, s, w)
          else (case add_entry_to_task_resource_table c True s of
            (None, s1) \<Rightarrow> (IFL_ERROR, s1, w)
          | (Some i, s1) \<Rightarrow>
              if cType = IFL_CTX_DYNAMIC then (IFL_SUCCESS, s1, w)
              else if tr_tID (tskResrcTbl s1 ! i) \<noteq> 0 then (IFL_ERROR, s1, w)
              else (case alloc_task_resource e i s1 w of (ok, s2, w2) \<Rightarrow>
                      if ok then (IFL_SUCCESS, upd_row i (tr_tID_update (\<lambda>_. tid)) s2, w2)
                      else (IFL_ERROR, drop_row i s2, w2))))"

definition row_zero :: task_resource_table_t where
  "row_zero = \<lparr>tr_tID = 0, tr_tCtx = [], tr_tResrc = None\<rparr>"

definition ifl_deinit_ctx :: "string option \<Rightarrow> ifl_state \<Rightarrow> world \<Rightarrow> ifl_ret \<times> ifl_state \<times> world" where
  "ifl_deinit_ctx ctx s w =
     (case ctx of
        None \<Rightarrow> (IFL_SUCCESS, s, w)
      | Some c \<Rightarrow>
          (case row_of c s of
             None \<Rightarrow> (IFL_SUCCESS, s, w)
           | Some i \<Rightarrow>
               (let w1 = snd (dealloc_task_resource (tr_tResrc (tskResrcTbl s ! i)) w); n = tskResrcTblCnt s - 1
                in (IFL_SUCCESS, s\<lparr>tskResrcTbl := (tskResrcTbl s)[i := tskResrcTbl s ! n, n := row_zero], tskResrcTblCnt := n\<rparr>, w1))))"

definition ifl_deinit :: "ifl_state \<Rightarrow> world \<Rightarrow> ifl_ret \<times> ifl_state \<times> world" where
  "ifl_deinit s w = (IFL_SUCCESS, snd (ifl_deinit_ctx (Some ''ifl-dflt-ctx'') s w))"

definition ifl_get_event :: "env \<Rightarrow> int \<Rightarrow> string \<Rightarrow> nat \<Rightarrow> ifl_state \<Rightarrow> world \<Rightarrow> ifl_ret \<times> string \<times> world" where
  "ifl_get_event e tid event valueLength s w =
     (case lookup_task_resource_table tid s of
        None \<Rightarrow> (IFL_ERROR, [], w)
      | Some fd \<Rightarrow>
          (case call e (A_sysevent_get event) w of (r, w') \<Rightarrow>
             (if r \<noteq> 0 then IFL_SYSEVENT_ERROR else IFL_SUCCESS, c_trunc valueLength (e_str e (w_trace w')), w')))"

definition ifl_set_event :: "env \<Rightarrow> int \<Rightarrow> string \<Rightarrow> string \<Rightarrow> ifl_state \<Rightarrow> world \<Rightarrow> ifl_ret \<times> world" where
  "ifl_set_event e tid event eValue s w =
     (case lookup_task_resource_table tid s of
        None \<Rightarrow> (IFL_ERROR, w)
      | Some fd \<Rightarrow>
          (case call e (A_sysevent_set event eValue) w of (r, w') \<Rightarrow> (if r \<noteq> 0 then IFL_SYSEVENT_ERROR else IFL_SUCCESS, w')))"

section \<open>Locks\<close>

text \<open>
  The loop around the locks of \<open>ifl_thread.c\<close>. What \<open>pthread\<close> answers to each attempt is a
  list; \<open>None\<close> is a loop that still waits at its end. The result comes with whether the
  caller holds the lock: after \<open>EOWNERDEAD\<close> it does, and after a lock that is not
  recoverable where it could be set up again and locked.
\<close>

datatype lock_type = IFL_LOCK_TYPE_MUTEX | IFL_LOCK_TYPE_MUTEX_WAIT | IFL_LOCK_TYPE_MUTEX_NO_WAIT
  | IFL_LOCK_TYPE_SPIN | IFL_LOCK_TYPE_SPIN_WAIT | IFL_LOCK_TYPE_SPIN_NO_WAIT

datatype lock_rc = RC_ok | RC_EOWNERDEAD | RC_ENOTRECOVERABLE bool | RC_EBUSY | RC_error

fun lock_loop :: "lock_type \<Rightarrow> ifl_ret \<Rightarrow> lock_rc list \<Rightarrow> (ifl_ret \<times> bool) option" where
  "lock_loop lType ret [] = None"
| "lock_loop lType ret (rc # rcs) =
     (case rc of
        RC_ok \<Rightarrow> Some (IFL_SUCCESS, True)
      | RC_EOWNERDEAD \<Rightarrow> Some (ret, True)
      | RC_ENOTRECOVERABLE relocked \<Rightarrow> Some (ret, relocked)
      | RC_EBUSY \<Rightarrow>
          if lType = IFL_LOCK_TYPE_MUTEX_NO_WAIT \<or> lType = IFL_LOCK_TYPE_SPIN_NO_WAIT then Some (IFL_LOCK_BUSY, False)
          else lock_loop lType IFL_LOCK_BUSY rcs
      | RC_error \<Rightarrow> Some (ret, False))"

definition ifl_thread_lock :: "lock_type \<Rightarrow> lock_rc list \<Rightarrow> (ifl_ret \<times> bool) option" where
  "ifl_thread_lock lType rcs = lock_loop lType IFL_LOCK_ERROR rcs"

definition ifl_lock :: "bool \<Rightarrow> lock_type \<Rightarrow> lock_rc list \<Rightarrow> (ifl_ret \<times> bool) option" where
  "ifl_lock is_null lType rcs = (if is_null then Some (IFL_LOCK_ERROR, False) else lock_loop lType IFL_LOCK_ERROR rcs)"

text \<open>
  Success means that the lock is held, and a lock that is held means success unless its
  last owner died or it had to be set up again; an attempt without waiting ends at once.
\<close>

lemma lock_loop_held:
  "lock_loop t ret rcs = Some (r, h) \<Longrightarrow> ret \<noteq> IFL_SUCCESS \<Longrightarrow>
     (r = IFL_SUCCESS \<longrightarrow> h) \<and> (h \<longrightarrow> r = IFL_SUCCESS \<or> RC_EOWNERDEAD \<in> set rcs \<or> RC_ENOTRECOVERABLE True \<in> set rcs)"
  by (induction t ret rcs rule: lock_loop.induct) (auto split: lock_rc.splits if_splits)

lemma try_lock_ends: "ifl_thread_lock IFL_LOCK_TYPE_SPIN_NO_WAIT (rc # rcs) \<noteq> None"
  by (cases rc) (simp_all add: ifl_thread_lock_def)

end
