(* ===== verification/Event_Spec.thy ===== *)
theory Event_Spec
  imports Event_Layer
begin

text \<open>
  What registering handlers promises (\<open>Event_Layer\<close>): a notification reaches exactly the
  handlers that were registered for its event, in order, each in the queue of its
  context. And where it ends: a table of events that is full finds no event any more.
\<close>

section \<open>Names\<close>

lemma strncmp_short: "length a < n \<Longrightarrow> length b < n \<Longrightarrow> strncmp_eq n a b \<longleftrightarrow> a = b"
  by (simp add: strncmp_eq_def)

lemma first_idx_name:
  "list_all (\<lambda>x. length (f x) < n) xs \<Longrightarrow> length k < n \<Longrightarrow>
     first_idx (\<lambda>x. strncmp_eq n (f x) k) xs = first_idx (\<lambda>x. f x = k) xs"
  by (induction xs) (auto simp: strncmp_short)

lemma first_idx_append:
  "first_idx P (xs @ ys) = (case first_idx P xs of Some i \<Rightarrow> Some i | None \<Rightarrow> map_option (\<lambda>i. length xs + i) (first_idx P ys))"
  by (induction xs) (auto split: option.splits simp: option.map_comp o_def map_option_case)

lemma first_idx_map: "first_idx (\<lambda>x. f x = k) xs = first_idx (\<lambda>y. y = k) (map f xs)"
  by (induction xs) auto

lemma first_idx_None: "first_idx P xs = None \<longleftrightarrow> list_all (\<lambda>x. \<not> P x) xs"
  by (induction xs) auto

section \<open>Registration\<close>

record reg =
  rg_event :: string
  rg_eType :: ifl_event_type
  rg_ctx :: string
  rg_cb :: fptr_t

text \<open>Registering one handler after the other; the registrations that were accepted.\<close>

fun register_all :: "q_data_t list \<Rightarrow> reg list \<Rightarrow> ifl_state \<Rightarrow> world \<Rightarrow> (reg list \<times> ifl_state \<times> world) option" where
  "register_all mem [] s w = Some ([], s, w)"
| "register_all mem (r # rs) s w =
     (case ifl_register_event_handler (Some mem) (Some (rg_event r)) (rg_eType r) (Some (rg_ctx r)) (rg_cb r) s w of
        None \<Rightarrow> None
      | Some (ret, s1, w1) \<Rightarrow>
          map_option (\<lambda>(acc, s2, w2). (if ret = IFL_SUCCESS then r # acc else acc, s2, w2)) (register_all mem rs s1 w1))"

definition reg_ok :: "reg \<Rightarrow> bool" where
  "reg_ok r \<longleftrightarrow> length (rg_event r) < 64 \<and> length (rg_ctx r) < 16"

definition ctx_of :: "ifl_state \<Rightarrow> string \<Rightarrow> nat" where
  "ctx_of s ctx = ctx_index ctx (ctxToIdxMap s)"

definition handlers_of :: "string \<Rightarrow> ifl_state \<Rightarrow> handler_t list" where
  "handlers_of ev s = (case first_idx (\<lambda>m. em_event m = ev) (evtToHdlMap s) of None \<Rightarrow> [] | Some i \<Rightarrow> em_handler (evtToHdlMap s ! i))"

definition handler_for :: "ifl_state \<Rightarrow> reg \<Rightarrow> handler_t" where
  "handler_for s r = \<lparr>hd_cb = rg_cb r, hd_ctxID = ctx_of s (rg_ctx r), hd_eType = rg_eType r\<rparr>"

text \<open>Names are short and distinct, every registered context has its number, every context has a queue.\<close>

definition tables_ok :: "ifl_state \<Rightarrow> bool" where
  "tables_ok s \<longleftrightarrow> list_all (\<lambda>m. length (em_event m) < 64) (evtToHdlMap s) \<and> distinct (map em_event (evtToHdlMap s)) \<and>
     list_all (\<lambda>c. length (qc_qCtx c) < 16) (ctxToIdxMap s) \<and> distinct (map qc_qCtx (ctxToIdxMap s)) \<and>
     length (ctxToIdxMap s) \<le> IFL_MAX_CONTEXT \<and> qInstIdx s = length (ctxToIdxMap s) \<and>
     list_all (\<lambda>c. \<exists>q. qc_qObj c = Some q \<and> ring_ok q \<and> ring_list q = []) (ctxToIdxMap s)"

definition logs :: "reg list \<Rightarrow> ifl_state \<Rightarrow> bool" where
  "logs acc s \<longleftrightarrow> (\<forall>ev. length ev < 64 \<longrightarrow> handlers_of ev s = map (handler_for s) (filter (\<lambda>r. rg_event r = ev) acc)) \<and>
     (\<forall>r \<in> set acc. ctx_of s (rg_ctx r) < length (ctxToIdxMap s))"

lemma ctx_of_name: "tables_ok s \<Longrightarrow> length ctx < 16 \<Longrightarrow>
    ctx_of s ctx = (case first_idx (\<lambda>c. qc_qCtx c = ctx) (ctxToIdxMap s) of Some i \<Rightarrow> i | None \<Rightarrow> length (ctxToIdxMap s))"
  by (simp add: ctx_of_def ctx_index_def tables_ok_def first_idx_name)

lemma notified_handlers:
  assumes "tables_ok s" "length ev < 64" "length v < 64" "length (evtToHdlMap s) < IFL_MAX_EVENT_HANDLER_MAP"
  shows "notified ev v s = map (\<lambda>h. (hd_ctxID h, \<lparr>qd_cb = hd_cb h, qd_eValue = v\<rparr>)) (handlers_of ev s)"
proof -
  have "first_idx (\<lambda>m. strncmp_eq 64 (em_event m) ev) (evtToHdlMap s) = first_idx (\<lambda>m. em_event m = ev) (evtToHdlMap s)"
    using assms(1,2) by (intro first_idx_name) (simp_all add: tables_ok_def)
  then show ?thesis
    using assms(3,4) first_idx_SomeD [of "\<lambda>m. em_event m = ev" "evtToHdlMap s"]
    by (auto simp: notified_def get_evt_id_def evt_index_def handlers_of_def strcpy_s_def Let_def split: option.splits)
qed

lemma get_ctx_id_ok:
  assumes "tables_ok s" "length ctx < 16" "length mem = IFL_MAX_QLEN" "get_ctx_id (Some mem) ctx s = Some (i, s1)"
  shows "tables_ok s1 \<and> evtToHdlMap s1 = evtToHdlMap s \<and> (i \<noteq> IFL_MAX_CONTEXT \<longrightarrow> i = ctx_of s1 ctx \<and> i < length (ctxToIdxMap s1)) \<and>
    (\<forall>c. ctx_of s c < length (ctxToIdxMap s) \<longrightarrow> ctx_of s1 c = ctx_of s c \<and> ctx_of s c < length (ctxToIdxMap s1))"
proof (cases "ctx_index ctx (ctxToIdxMap s) = length (ctxToIdxMap s) \<and> length (ctxToIdxMap s) < IFL_MAX_CONTEXT")
  case True
  let ?q = "\<lparr>q_data = mem, q_head = 0, q_tail = 0, q_full = False\<rparr>"
  have "qInstIdx s < IFL_MAX_QUEUE" using assms(1) True by (simp add: tables_ok_def IFL_MAX_QUEUE_def IFL_MAX_CONTEXT_def)
  then have s1: "i = length (ctxToIdxMap s)"
    "s1 = s\<lparr>ctxToIdxMap := ctxToIdxMap s @ [\<lparr>qc_qCtx = ctx, qc_qObj = Some ?q\<rparr>], qInstIdx := Suc (qInstIdx s)\<rparr>"
    using assms(2,4) True by (auto simp: get_ctx_id_def createQ_def strcpy_s_def Let_def)
  have new: "first_idx (\<lambda>c. strncmp_eq 16 (qc_qCtx c) ctx) (ctxToIdxMap s) = None"
    using True first_idx_SomeD [of "\<lambda>c. strncmp_eq 16 (qc_qCtx c) ctx" "ctxToIdxMap s"] by (auto simp: ctx_index_def split: option.splits)
  then have "ctx \<notin> set (map qc_qCtx (ctxToIdxMap s))" by (auto simp: first_idx_None list_all_iff strncmp_eq_def)
  moreover have "ring_ok ?q" "ring_list ?q = []" using assms(3) by (simp_all add: ring_defs)
  ultimately have "tables_ok s1" using assms(1,2) True by (auto simp: tables_ok_def s1)
  moreover have "ctx_of s1 ctx = i" using new by (simp add: ctx_of_def ctx_index_def s1 first_idx_append)
  moreover have "ctx_of s1 c = ctx_of s c" if "ctx_of s c < length (ctxToIdxMap s)" for c
    using that by (auto simp: ctx_of_def ctx_index_def s1 first_idx_append split: option.splits)
  ultimately show ?thesis by (simp add: s1)
next
  case False
  then have "s1 = s" "i \<noteq> IFL_MAX_CONTEXT \<Longrightarrow> i = ctx_index ctx (ctxToIdxMap s) \<and> ctx_index ctx (ctxToIdxMap s) \<noteq> length (ctxToIdxMap s)"
    using assms(4) by (auto simp: get_ctx_id_def Let_def split: if_splits)
  then show ?thesis
    using assms(1) first_idx_SomeD [of "\<lambda>c. strncmp_eq 16 (qc_qCtx c) ctx" "ctxToIdxMap s"]
    by (auto simp: ctx_of_def ctx_index_def split: option.splits)
qed

lemma get_evt_id_ok:
  assumes "tables_ok s" "length ev < 64" "get_evt_id ev True s = (i, s1)" "i \<noteq> IFL_MAX_EVENT_HANDLER_MAP"
    and "length (evtToHdlMap s) \<le> IFL_MAX_EVENT_HANDLER_MAP"
  shows "tables_ok s1 \<and> ctxToIdxMap s1 = ctxToIdxMap s \<and> i < length (evtToHdlMap s1) \<and> em_event (evtToHdlMap s1 ! i) = ev \<and>
    first_idx (\<lambda>m. em_event m = ev) (evtToHdlMap s1) = Some i \<and> (\<forall>k. handlers_of k s1 = handlers_of k s)"
proof -
  have n: "first_idx (\<lambda>m. strncmp_eq 64 (em_event m) ev) (evtToHdlMap s) = first_idx (\<lambda>m. em_event m = ev) (evtToHdlMap s)"
    using assms(1,2) by (intro first_idx_name) (simp_all add: tables_ok_def)
  have l: "length (evtToHdlMap s) < IFL_MAX_EVENT_HANDLER_MAP" using assms(3-5) by (auto simp: get_evt_id_def Let_def split: if_splits)
  show ?thesis
  proof (cases "first_idx (\<lambda>m. em_event m = ev) (evtToHdlMap s)")
    case None
    then have s1: "i = length (evtToHdlMap s)" "s1 = s\<lparr>evtToHdlMap := evtToHdlMap s @ [\<lparr>em_event = ev, em_handler = []\<rparr>]\<rparr>"
      using assms(2,3) l n by (auto simp: get_evt_id_def evt_index_def strcpy_s_def Let_def)
    have "ev \<notin> set (map em_event (evtToHdlMap s))" using None by (auto simp: first_idx_None list_all_iff)
    then have "tables_ok s1" using assms(1,2) by (auto simp: tables_ok_def s1)
    moreover have "handlers_of k s1 = handlers_of k s" for k
      using first_idx_SomeD [of "\<lambda>m. em_event m = k" "evtToHdlMap s"]
      by (auto simp: handlers_of_def s1 first_idx_append nth_append split: option.splits)
    ultimately show ?thesis using None by (simp add: s1 first_idx_append)
  next
    case (Some j)
    then have "i = j" "s1 = s" "j < length (evtToHdlMap s)" "em_event (evtToHdlMap s ! j) = ev"
      using assms(3) l n first_idx_SomeD [OF Some] by (auto simp: get_evt_id_def evt_index_def Let_def)
    with Some assms(1) show ?thesis by simp
  qed
qed

lemma add_handler:
  assumes "tables_ok s" "i < length (evtToHdlMap s)" "first_idx (\<lambda>m. em_event m = ev) (evtToHdlMap s) = Some i"
    and "s' = s\<lparr>evtToHdlMap := (evtToHdlMap s)[i := (evtToHdlMap s ! i)\<lparr>em_handler := em_handler (evtToHdlMap s ! i) @ [h]\<rparr>]\<rparr>"
  shows "tables_ok s' \<and> handlers_of ev s' = handlers_of ev s @ [h] \<and> (\<forall>k. k \<noteq> ev \<longrightarrow> handlers_of k s' = handlers_of k s)"
proof -
  have e: "em_event (evtToHdlMap s ! i) = ev" using first_idx_SomeD [OF assms(3)] by simp
  have m: "map em_event (evtToHdlMap s') = map em_event (evtToHdlMap s)" by (simp add: assms(4) map_update list_update_same_conv assms(2))
  then have f: "first_idx (\<lambda>m. em_event m = k) (evtToHdlMap s') = first_idx (\<lambda>m. em_event m = k) (evtToHdlMap s)" for k
    by (simp add: first_idx_map [of em_event])
  have "list_all (\<lambda>m. length (em_event m) < 64) (evtToHdlMap s')"
    using assms(1,2) by (auto simp: assms(4) tables_ok_def list_all_length nth_list_update)
  then have "tables_ok s'" using assms(1) m by (simp add: tables_ok_def assms(4))
  moreover have "handlers_of ev s' = handlers_of ev s @ [h]" using f [of ev] assms(2,3) by (simp add: handlers_of_def) (simp add: assms(4))
  moreover have "handlers_of k s' = handlers_of k s" if "k \<noteq> ev" for k
  proof (cases "first_idx (\<lambda>m. em_event m = k) (evtToHdlMap s)")
    case (Some j)
    then have "j \<noteq> i" using first_idx_SomeD [OF Some] that e by auto
    then show ?thesis using Some by (simp add: handlers_of_def f) (simp add: assms(4))
  qed (simp add: handlers_of_def f)
  ultimately show ?thesis by simp
qed

lemma logs_same:
  assumes "logs acc s" "\<forall>k. handlers_of k s' = handlers_of k s"
    and "\<forall>c. ctx_of s c < length (ctxToIdxMap s) \<longrightarrow> ctx_of s' c = ctx_of s c \<and> ctx_of s c < length (ctxToIdxMap s')"
  shows "logs acc s'"
  using assms by (auto simp: logs_def handler_for_def)

lemma register_step:
  assumes "ifl_register_event_handler (Some mem) (Some (rg_event r)) (rg_eType r) (Some (rg_ctx r)) (rg_cb r) s w = Some (ret, s', w')"
    and "tables_ok s" "logs acc s" "reg_ok r" "length mem = IFL_MAX_QLEN" "length (evtToHdlMap s) \<le> IFL_MAX_EVENT_HANDLER_MAP"
  shows "tables_ok s' \<and> logs (if ret = IFL_SUCCESS then acc @ [r] else acc) s' \<and> length (evtToHdlMap s') \<le> IFL_MAX_EVENT_HANDLER_MAP"
proof (cases "rg_cb r = 0")
  case True
  then show ?thesis using assms by simp (simp add: ifl_register_event_handler_def)
next
  case False
  then obtain i s1 where c: "get_ctx_id (Some mem) (rg_ctx r) s = Some (i, s1)"
    using assms(1) by (auto simp: ifl_register_event_handler_def split: option.splits)
  note c' = get_ctx_id_ok [OF assms(2) _ assms(5) c]
  have t1: "tables_ok s1" "evtToHdlMap s1 = evtToHdlMap s" using c' assms(4) by (simp_all add: reg_ok_def)
  then have "\<forall>k. handlers_of k s1 = handlers_of k s" by (simp add: handlers_of_def cong: option.case_cong)
  then have l1: "logs acc s1" using c' assms(4) logs_same [OF assms(3), of s1] by (simp add: reg_ok_def)
  obtain j s2 where v: "get_evt_id (rg_event r) True s1 = (j, s2)" by (metis surj_pair)
  have len: "length (evtToHdlMap s2) \<le> IFL_MAX_EVENT_HANDLER_MAP"
    using v assms(6) t1(2) by (auto simp: get_evt_id_def Let_def split: if_splits)
  consider "i = IFL_MAX_CONTEXT" | "i \<noteq> IFL_MAX_CONTEXT" "j = IFL_MAX_EVENT_HANDLER_MAP" | "i \<noteq> IFL_MAX_CONTEXT" "j \<noteq> IFL_MAX_EVENT_HANDLER_MAP" by blast
  then show ?thesis
  proof cases
    case 1
    then show ?thesis using assms(1,6) False c t1 l1 by (auto simp: ifl_register_event_handler_def)
  next
    case 2
    then have "s2 = s1" using v assms(6) t1(2) first_idx_SomeD [of "\<lambda>m. strncmp_eq 64 (em_event m) (rg_event r)" "evtToHdlMap s1"]
      by (auto simp: get_evt_id_def evt_index_def Let_def split: if_splits option.splits)
    then show ?thesis using assms(1,6) False c v 2 t1 l1 by (auto simp: ifl_register_event_handler_def)
  next
    case 3
    note v' = get_evt_id_ok [OF t1(1) _ v 3(2)]
    have t2: "tables_ok s2" "logs acc s2" "ctx_of s2 (rg_ctx r) = i" "i < length (ctxToIdxMap s2)"
      using v' assms(4,6) t1(2) c' 3(1) logs_same [OF l1, of s2] by (auto simp: reg_ok_def ctx_of_def)
    let ?h = "\<lparr>hd_cb = rg_cb r, hd_ctxID = i, hd_eType = rg_eType r\<rparr>" and ?m = "evtToHdlMap s2 ! j"
    let ?s = "s2\<lparr>evtToHdlMap := (evtToHdlMap s2)[j := ?m\<lparr>em_handler := em_handler ?m @ [?h]\<rparr>]\<rparr>"
    have a: "tables_ok ?s \<and> handlers_of (rg_event r) ?s = handlers_of (rg_event r) s2 @ [?h] \<and> (\<forall>k. k \<noteq> rg_event r \<longrightarrow> handlers_of k ?s = handlers_of k s2)"
      using add_handler [OF t2(1) _ _ refl, of j "rg_event r" ?h] v' assms(4,6) t1(2) by (simp add: reg_ok_def)
    have x: "ctx_of ?s c = ctx_of s2 c" for c by (simp add: ctx_of_def)
    have "logs (acc @ [r]) ?s" using a t2 by (auto simp: logs_def handler_for_def x)
    moreover have "ret = IFL_SUCCESS \<and> s' = ?s \<or> ret \<noteq> IFL_SUCCESS \<and> s' = s2"
      using assms(1) False c v 3 by (auto simp: ifl_register_event_handler_def Let_def split: if_splits)
    ultimately show ?thesis using a t2 len by auto
  qed
qed

section \<open>The registry\<close>

text \<open>
  What the tables stand for: the names of the contexts and of the events, and the
  registrations that were accepted. A context takes its place also where its
  registration is refused, and nothing is accepted once the table of events is full,
  not even for an event that is in it.
\<close>

record registry =
  rb_ctxs :: "string list"
  rb_events :: "string list"
  rb_acc :: "reg list"

definition book :: "reg \<Rightarrow> registry \<Rightarrow> registry" where
  "book r b =
     (if rg_cb r = 0 then b
      else let b1 = (if rg_ctx r \<in> set (rb_ctxs b) \<or> IFL_MAX_CONTEXT \<le> length (rb_ctxs b) then b
                     else b\<lparr>rb_ctxs := rb_ctxs b @ [rg_ctx r]\<rparr>)
           in if rg_ctx r \<notin> set (rb_ctxs b1) \<or> IFL_MAX_EVENT_HANDLER_MAP \<le> length (rb_events b1) then b1
              else let b2 = (if rg_event r \<in> set (rb_events b1) then b1 else b1\<lparr>rb_events := rb_events b1 @ [rg_event r]\<rparr>)
                   in if length (filter (\<lambda>x. rg_event x = rg_event r) (rb_acc b2)) < IFL_MAX_CONTEXT
                      then b2\<lparr>rb_acc := rb_acc b2 @ [r]\<rparr> else b2)"

definition registry_rel :: "registry \<Rightarrow> ifl_state \<Rightarrow> bool" where
  "registry_rel b s \<longleftrightarrow> tables_ok s \<and> logs (rb_acc b) s \<and> rb_ctxs b = map qc_qCtx (ctxToIdxMap s) \<and>
     rb_events b = map em_event (evtToHdlMap s) \<and> length (evtToHdlMap s) \<le> IFL_MAX_EVENT_HANDLER_MAP"

lemma ctx_index_len:
  assumes "tables_ok s" "length ctx < 16"
  shows "ctx_index ctx (ctxToIdxMap s) = length (ctxToIdxMap s) \<longleftrightarrow> ctx \<notin> set (map qc_qCtx (ctxToIdxMap s))"
proof (cases "first_idx (\<lambda>c. qc_qCtx c = ctx) (ctxToIdxMap s)")
  case None
  then have "ctx \<notin> set (map qc_qCtx (ctxToIdxMap s))" by (auto simp: first_idx_None list_all_iff)
  then show ?thesis using None ctx_of_name [OF assms] by (simp add: ctx_of_def)
next
  case (Some i)
  with first_idx_SomeD [OF Some] have "i < length (ctxToIdxMap s)" "ctx \<in> set (map qc_qCtx (ctxToIdxMap s))"
    using nth_mem [of i "map qc_qCtx (ctxToIdxMap s)"] by auto
  then show ?thesis using Some ctx_of_name [OF assms] by (simp add: ctx_of_def)
qed

lemma get_ctx_id_names:
  assumes "tables_ok s" "length ctx < 16"
  shows "\<exists>i s1. get_ctx_id (Some mem) ctx s = Some (i, s1) \<and>
    map qc_qCtx (ctxToIdxMap s1) =
      (let cs = map qc_qCtx (ctxToIdxMap s) in if ctx \<in> set cs \<or> IFL_MAX_CONTEXT \<le> length cs then cs else cs @ [ctx]) \<and>
    (i = IFL_MAX_CONTEXT \<longleftrightarrow> ctx \<notin> set (map qc_qCtx (ctxToIdxMap s1)))"
proof -
  have "qInstIdx s = length (ctxToIdxMap s)" "length (ctxToIdxMap s) \<le> IFL_MAX_CONTEXT" using assms(1) by (simp_all add: tables_ok_def)
  moreover have "ctx_index ctx (ctxToIdxMap s) \<le> length (ctxToIdxMap s)"
    using first_idx_SomeD [of "\<lambda>c. strncmp_eq 16 (qc_qCtx c) ctx" "ctxToIdxMap s"] by (auto simp: ctx_index_def split: option.splits)
  ultimately show ?thesis using ctx_index_len [OF assms] assms(2)
    by (auto simp: get_ctx_id_def createQ_def IFL_MAX_QUEUE_def IFL_MAX_CONTEXT_def Let_def strcpy_s_def)
qed

lemma get_evt_id_names:
  assumes "tables_ok s" "length ev < 64" "get_evt_id ev True s = (i, s1)" "length (evtToHdlMap s) \<le> IFL_MAX_EVENT_HANDLER_MAP"
  shows "map em_event (evtToHdlMap s1) =
      (let es = map em_event (evtToHdlMap s) in if ev \<in> set es \<or> IFL_MAX_EVENT_HANDLER_MAP \<le> length es then es else es @ [ev]) \<and>
    (i = IFL_MAX_EVENT_HANDLER_MAP \<longleftrightarrow> IFL_MAX_EVENT_HANDLER_MAP \<le> length (evtToHdlMap s))"
proof -
  have n: "first_idx (\<lambda>m. strncmp_eq 64 (em_event m) ev) (evtToHdlMap s) = first_idx (\<lambda>m. em_event m = ev) (evtToHdlMap s)"
    using assms(1,2) by (intro first_idx_name) (simp_all add: tables_ok_def)
  show ?thesis
  proof (cases "first_idx (\<lambda>m. em_event m = ev) (evtToHdlMap s)")
    case None
    then have "ev \<notin> set (map em_event (evtToHdlMap s))" by (auto simp: first_idx_None list_all_iff)
    then show ?thesis using None n assms(2-4) by (auto simp: get_evt_id_def evt_index_def Let_def strcpy_s_def split: if_splits)
  next
    case (Some j)
    with first_idx_SomeD [OF Some] have "ev \<in> set (map em_event (evtToHdlMap s))" "j < length (evtToHdlMap s)" by auto
    then show ?thesis using Some n assms(3,4) by (auto simp: get_evt_id_def evt_index_def Let_def split: if_splits)
  qed
qed

lemma register_names:
  assumes "registry_rel b s" "reg_ok r" "length mem = IFL_MAX_QLEN" "rg_cb r \<noteq> 0"
  shows "\<exists>ret s' w'. ifl_register_event_handler (Some mem) (Some (rg_event r)) (rg_eType r) (Some (rg_ctx r)) (rg_cb r) s w = Some (ret, s', w') \<and>
    rb_acc (book r b) = rb_acc b @ (if ret = IFL_SUCCESS then [r] else []) \<and>
    rb_ctxs (book r b) = map qc_qCtx (ctxToIdxMap s') \<and> rb_events (book r b) = map em_event (evtToHdlMap s')"
proof -
  have s: "tables_ok s" "logs (rb_acc b) s" "length (evtToHdlMap s) \<le> IFL_MAX_EVENT_HANDLER_MAP"
    and b: "rb_ctxs b = map qc_qCtx (ctxToIdxMap s)" "rb_events b = map em_event (evtToHdlMap s)"
    and r: "length (rg_ctx r) < 16" "length (rg_event r) < 64"
    using assms(1,2) by (simp_all add: registry_rel_def reg_ok_def)
  obtain i s1 where c: "get_ctx_id (Some mem) (rg_ctx r) s = Some (i, s1)"
    "map qc_qCtx (ctxToIdxMap s1) = (if rg_ctx r \<in> set (rb_ctxs b) \<or> IFL_MAX_CONTEXT \<le> length (rb_ctxs b) then rb_ctxs b else rb_ctxs b @ [rg_ctx r])"
    "i = IFL_MAX_CONTEXT \<longleftrightarrow> rg_ctx r \<notin> set (map qc_qCtx (ctxToIdxMap s1))"
    using get_ctx_id_names [OF s(1) r(1), of mem] unfolding b Let_def by blast
  have t1: "tables_ok s1" "evtToHdlMap s1 = evtToHdlMap s" using get_ctx_id_ok [OF s(1) r(1) assms(3) c(1)] by simp_all
  obtain j s2 where v: "get_evt_id (rg_event r) True s1 = (j, s2)" by (metis surj_pair)
  have n2: "map em_event (evtToHdlMap s2) =
      (if rg_event r \<in> set (rb_events b) \<or> IFL_MAX_EVENT_HANDLER_MAP \<le> length (rb_events b) then rb_events b else rb_events b @ [rg_event r])"
    "j = IFL_MAX_EVENT_HANDLER_MAP \<longleftrightarrow> IFL_MAX_EVENT_HANDLER_MAP \<le> length (rb_events b)"
    using get_evt_id_names [OF t1(1) r(2) v] s(3) by (simp_all add: t1(2) b Let_def)
  have c2: "ctxToIdxMap s2 = ctxToIdxMap s1" using v by (auto simp: get_evt_id_def Let_def split: if_splits)
  have h: "j < length (evtToHdlMap s2) \<and> em_event (evtToHdlMap s2 ! j) = rg_event r \<and>
      length (em_handler (evtToHdlMap s2 ! j)) = length (filter (\<lambda>x. rg_event x = rg_event r) (rb_acc b))" if "j \<noteq> IFL_MAX_EVENT_HANDLER_MAP"
  proof -
    note v2 = get_evt_id_ok [OF t1(1) r(2) v that]
    have "handlers_of (rg_event r) s1 = handlers_of (rg_event r) s" by (simp add: handlers_of_def t1(2) cong: option.case_cong)
    then have "handlers_of (rg_event r) s2 = handlers_of (rg_event r) s" using v2 s(3) t1(2) by simp
    then have "length (handlers_of (rg_event r) s2) = length (filter (\<lambda>x. rg_event x = rg_event r) (rb_acc b))"
      using s(2) r(2) by (simp add: logs_def)
    then show ?thesis using v2 s(3) t1(2) by (simp add: handlers_of_def)
  qed
  consider "i = IFL_MAX_CONTEXT" | "i \<noteq> IFL_MAX_CONTEXT" "j = IFL_MAX_EVENT_HANDLER_MAP" | "i \<noteq> IFL_MAX_CONTEXT" "j \<noteq> IFL_MAX_EVENT_HANDLER_MAP" by blast
  then show ?thesis
  proof cases
    case 1
    then show ?thesis using assms(4) c t1(2) by (auto simp: ifl_register_event_handler_def book_def Let_def b(2) split: if_splits)
  next
    case 2
    then show ?thesis using assms(4) c v c2 n2 by (auto simp: ifl_register_event_handler_def book_def Let_def split: if_splits)
  next
    case 3
    then have u: "map em_event ((evtToHdlMap s2)[j := (evtToHdlMap s2 ! j)\<lparr>em_handler := hs\<rparr>]) = map em_event (evtToHdlMap s2)" for hs
      using h by (simp add: map_update list_update_same_conv)
    then show ?thesis using assms(4) c v c2 n2 h 3
      by (auto simp: ifl_register_event_handler_def book_def Let_def u simp del: map_update split: if_splits)
  qed
qed

lemma register_refines:
  assumes "registry_rel b s" "reg_ok r" "length mem = IFL_MAX_QLEN"
  shows "\<exists>ret s' w'. ifl_register_event_handler (Some mem) (Some (rg_event r)) (rg_eType r) (Some (rg_ctx r)) (rg_cb r) s w = Some (ret, s', w') \<and>
    registry_rel (book r b) s' \<and> rb_acc (book r b) = rb_acc b @ (if ret = IFL_SUCCESS then [r] else [])"
proof (cases "rg_cb r = 0")
  case True
  then show ?thesis using assms(1) by (simp add: ifl_register_event_handler_def book_def)
next
  case False
  obtain ret s' w' where x: "ifl_register_event_handler (Some mem) (Some (rg_event r)) (rg_eType r) (Some (rg_ctx r)) (rg_cb r) s w = Some (ret, s', w')"
    "rb_acc (book r b) = rb_acc b @ (if ret = IFL_SUCCESS then [r] else [])"
    "rb_ctxs (book r b) = map qc_qCtx (ctxToIdxMap s')" "rb_events (book r b) = map em_event (evtToHdlMap s')"
    using register_names [OF assms False] by blast
  have "registry_rel (book r b) s'"
    using register_step [OF x(1) _ _ assms(2,3), of "rb_acc b"] assms(1) by (auto simp: registry_rel_def x(2-4) split: if_splits)
  with x show ?thesis by blast
qed

section \<open>From registration to notification\<close>

definition ifl_fresh :: ifl_state where
  "ifl_fresh = \<lparr>evtToHdlMap = [], ctxToIdxMap = [], qInstIdx = 0, tskResrcTbl = replicate IFL_MAX_TASK_RESOURCE row_zero,
     tskResrcTblCnt = 0, ifl_default_ctx_enabled = False\<rparr>"

definition registry_empty :: registry where
  "registry_empty = \<lparr>rb_ctxs = [], rb_events = [], rb_acc = []\<rparr>"

definition ctx_number :: "registry \<Rightarrow> string \<Rightarrow> nat" where
  "ctx_number b ctx = (case first_idx (\<lambda>c. c = ctx) (rb_ctxs b) of Some i \<Rightarrow> i | None \<Rightarrow> length (rb_ctxs b))"

definition due :: "registry \<Rightarrow> string \<Rightarrow> string \<Rightarrow> (nat \<times> q_data_t) list" where
  "due b ev v =
     (if length (rb_events b) < IFL_MAX_EVENT_HANDLER_MAP
      then map (\<lambda>r. (ctx_number b (rg_ctx r), \<lparr>qd_cb = rg_cb r, qd_eValue = v\<rparr>)) (filter (\<lambda>r. rg_event r = ev) (rb_acc b))
      else [])"

lemma registry_rel_fresh: "registry_rel registry_empty ifl_fresh"
  by (simp add: registry_rel_def registry_empty_def ifl_fresh_def tables_ok_def logs_def handlers_of_def)

lemma register_all_refines:
  "registry_rel b s \<Longrightarrow> list_all reg_ok rs \<Longrightarrow> length mem = IFL_MAX_QLEN \<Longrightarrow>
     \<exists>acc s' w'. register_all mem rs s w = Some (acc, s', w') \<and> registry_rel (fold book rs b) s' \<and> rb_acc (fold book rs b) = rb_acc b @ acc"
proof (induction rs arbitrary: b s w)
  case (Cons r rs)
  then obtain ret s1 w1 where 1: "ifl_register_event_handler (Some mem) (Some (rg_event r)) (rg_eType r) (Some (rg_ctx r)) (rg_cb r) s w = Some (ret, s1, w1)"
    "registry_rel (book r b) s1" "rb_acc (book r b) = rb_acc b @ (if ret = IFL_SUCCESS then [r] else [])"
    using register_refines [of b s r mem w] by auto
  obtain acc s2 w2 where "register_all mem rs s1 w1 = Some (acc, s2, w2)"
    "registry_rel (fold book rs (book r b)) s2" "rb_acc (fold book rs (book r b)) = rb_acc (book r b) @ acc"
    using Cons.IH [OF 1(2), of w1] Cons.prems(2,3) by auto
  with 1 show ?case by auto
qed simp

lemma registry_due:
  assumes "registry_rel b s" "list_all reg_ok (rb_acc b)" "length ev < 64" "length v < 64"
  shows "notified ev v s = due b ev v"
proof (cases "length (evtToHdlMap s) < IFL_MAX_EVENT_HANDLER_MAP")
  case True
  have "ctx_of s (rg_ctx r) = ctx_number b (rg_ctx r)" if "r \<in> set (rb_acc b)" for r
    using that assms(1,2) ctx_of_name [of s "rg_ctx r"]
    by (auto simp: registry_rel_def list_all_iff reg_ok_def ctx_number_def first_idx_map [of qc_qCtx] cong: option.case_cong)
  then show ?thesis using True assms notified_handlers [of s ev v]
    by (auto simp: registry_rel_def due_def logs_def handler_for_def)
next
  case False
  then show ?thesis using assms(1) by (auto simp: notified_def get_evt_id_def Let_def due_def registry_rel_def)
qed

lemma book_acc_ok: "list_all reg_ok (rb_acc b) \<Longrightarrow> list_all reg_ok rs \<Longrightarrow> list_all reg_ok (rb_acc (fold book rs b))"
proof (induction rs arbitrary: b)
  case (Cons r rs)
  have "list_all reg_ok (rb_acc (book r b))" using Cons.prems by (auto simp: book_def Let_def)
  then show ?case using Cons.IH Cons.prems(2) by simp
qed simp

text \<open>
  Claim C16. However handlers are registered, the tables stand for the registry: the
  same registrations are accepted, and a notification puts into the queues exactly what
  the registry owes, each accepted handler of the event once, in order, in the queue of
  its context; with a full table of events that is nothing at all, also for the events
  that are in the table.
\<close>

theorem event_registry_refines:
  assumes "list_all reg_ok rs" "length mem = IFL_MAX_QLEN" "length ev < 64" "length v < 64"
  shows "\<exists>s w'. register_all mem rs ifl_fresh w = Some (rb_acc (fold book rs registry_empty), s, w') \<and>
    registry_rel (fold book rs registry_empty) s \<and> notified ev v s = due (fold book rs registry_empty) ev v"
proof -
  obtain acc s w' where r: "register_all mem rs ifl_fresh w = Some (acc, s, w')" "registry_rel (fold book rs registry_empty) s"
    "rb_acc (fold book rs registry_empty) = acc"
    using register_all_refines [OF registry_rel_fresh assms(1,2), of w] by (auto simp: registry_empty_def)
  moreover have "list_all reg_ok (rb_acc (fold book rs registry_empty))" using book_acc_ok [OF _ assms(1), of registry_empty] by (simp add: registry_empty_def)
  ultimately show ?thesis using registry_due [OF r(2) _ assms(3,4)] by blast
qed

definition sample_regs :: "reg list" where
  "sample_regs = [\<lparr>rg_event = ''wan-status'', rg_eType = IFL_EVENT_VALUE, rg_ctx = ''dhcp4'', rg_cb = 7\<rparr>,
     \<lparr>rg_event = ''lan-status'', rg_eType = IFL_EVENT_NOTIFY, rg_ctx = ''dhcp6'', rg_cb = 8\<rparr>,
     \<lparr>rg_event = ''wan-status'', rg_eType = IFL_EVENT_NOTIFY, rg_ctx = ''dhcp6'', rg_cb = 9\<rparr>]"

theorem event_registry_refines_witness:
  "\<exists>s w'. register_all (replicate 12 \<lparr>qd_cb = 0, qd_eValue = []\<rparr>) sample_regs ifl_fresh world_init =
       Some (rb_acc (fold book sample_regs registry_empty), s, w') \<and>
     registry_rel (fold book sample_regs registry_empty) s \<and>
     notified ''wan-status'' ''up'' s = due (fold book sample_regs registry_empty) ''wan-status'' ''up'' \<and>
     due (fold book sample_regs registry_empty) ''wan-status'' ''up'' =
       [(0, \<lparr>qd_cb = 7, qd_eValue = ''up''\<rparr>), (1, \<lparr>qd_cb = 9, qd_eValue = ''up''\<rparr>)]"
proof -
  have "due (fold book sample_regs registry_empty) ''wan-status'' ''up'' =
       [(0, \<lparr>qd_cb = 7, qd_eValue = ''up''\<rparr>), (1, \<lparr>qd_cb = 9, qd_eValue = ''up''\<rparr>)]"
    by (simp add: due_def sample_regs_def registry_empty_def book_def ctx_number_def Let_def IFL_MAX_EVENT_HANDLER_MAP_def IFL_MAX_CONTEXT_def)
  then show ?thesis
    using event_registry_refines [of sample_regs "replicate 12 \<lparr>qd_cb = 0, qd_eValue = []\<rparr>" "''wan-status''" "''up''" world_init]
    by (simp add: sample_regs_def reg_ok_def IFL_MAX_QLEN_def)
qed

section \<open>Task resources\<close>

text \<open>
  A static context whose connection cannot be opened takes a row from the table: it is
  the last row that is no longer in use, also where the context had an earlier one.
\<close>

lemma init_ctx_takes_last_row:
  assumes "row_of c s = Some i" "tr_tID (tskResrcTbl s ! i) = 0" "tr_tResrc (tskResrcTbl s ! i) = Some fd"
    and "call e (A_custom ''sysevent_open'' (tr_tCtx (tskResrcTbl s ! i))) w = (0, w')"
  shows "\<exists>s'. ifl_init_ctx e tid (Some c) IFL_CTX_STATIC s w = (IFL_ERROR, s', w') \<and> tskResrcTblCnt s' = tskResrcTblCnt s - 1 \<and>
    (\<forall>j. j \<noteq> i \<longrightarrow> tskResrcTbl s' ! j = tskResrcTbl s ! j)"
  using assms by (simp add: ifl_init_ctx_def add_entry_to_task_resource_table_def alloc_task_resource_def drop_row_def upd_row_def)

text \<open>Within its connections a thread that registered reads and writes through its own, any other through the first row.\<close>

lemma lookup_own_row:
  "tid \<noteq> 0 \<Longrightarrow> find (\<lambda>t. tr_tID t = tid) (take (tskResrcTblCnt s) (tskResrcTbl s)) = Some t \<Longrightarrow> tr_tResrc t = Some fd \<Longrightarrow>
     lookup_task_resource_table tid s = Some fd"
  by (simp add: lookup_task_resource_table_def)

end
