(* ===== verification/Event_Race.thy ===== *)
theory Event_Race
  imports Event_Spec "HOL-Library.Sublist"
begin

text \<open>
  The threads around one context of the event layer: the manager
  (\<open>_task_manager_thrd\<close>, \<open>ifl.c\<close>) hands the data of a notification to the queue of the
  context and starts a task thread where it finds none, a task thread (\<open>_task_thrd\<close>)
  empties the queue and ends. They share the queue, the flag \<open>thdToIdxMap[ctxID]\<close>, the
  mutex and the spin lock of the context, and are interleaved between any two
  operations on these.

  As long as the manager never finds the spin lock taken, there is one task thread at
  most, and handlers run in the order of the notifications. But a task thread that has
  found its queue empty gives up without looking again, and the manager that finds
  the spin lock taken neither takes the mutex nor reads the flag: both go wrong.
\<close>

section \<open>Threads\<close>

text \<open>
  The manager with the data of one handler: before trying the spin lock, with the spin
  lock before reading the flag, waiting for the mutex, before releasing the spin lock,
  before \<open>pushToQ\<close> (the boolean is \<open>skipLock\<close>: the mutex is held), before releasing the
  mutex, before setting the flag, and before creating a thread.
\<close>

datatype mgr_pc = Mg_idle | Mg_try q_data_t | Mg_flag q_data_t | Mg_mutex q_data_t | Mg_unspin q_data_t bool
  | Mg_push q_data_t bool | Mg_unlock | Mg_create | Mg_spawn

text \<open>
  A task thread: waiting for the mutex, before \<open>popFromQ\<close>, before releasing the mutex
  with data and without, before the handler, before trying the spin lock, before
  clearing the flag, before releasing the spin lock. A thread that ended is gone.
\<close>

datatype task_pc = Tk_lock | Tk_pop | Tk_unlock q_data_t | Tk_run q_data_t | Tk_empty | Tk_spin | Tk_clear | Tk_unspin

record ev_race =
  er_queue :: "q_data_t ifl_qInstance"
  er_flag :: bool
  er_spin :: bool
  er_mutex :: bool
  er_mgr :: mgr_pc
  er_tasks :: "task_pc list"
  er_inbox :: "q_data_t list"
  er_pushed :: "q_data_t list"
  er_handled :: "q_data_t list"

text \<open>What the manager takes next is in the inbox (\<open>notified\<close>); \<open>ok\<close> is whether a thread can be created.\<close>

definition mgr_step :: "bool \<Rightarrow> ev_race \<Rightarrow> ev_race option" where
  "mgr_step ok s =
     (case er_mgr s of
        Mg_idle \<Rightarrow> (case er_inbox s of [] \<Rightarrow> None | d # ds \<Rightarrow> Some (s\<lparr>er_mgr := Mg_try d, er_inbox := ds\<rparr>))
      | Mg_try d \<Rightarrow> if er_spin s then Some (s\<lparr>er_mgr := Mg_push d False\<rparr>) else Some (s\<lparr>er_mgr := Mg_flag d, er_spin := True\<rparr>)
      | Mg_flag d \<Rightarrow> Some (s\<lparr>er_mgr := if er_flag s then Mg_mutex d else Mg_unspin d False\<rparr>)
      | Mg_mutex d \<Rightarrow> if er_mutex s then None else Some (s\<lparr>er_mgr := Mg_unspin d True, er_mutex := True\<rparr>)
      | Mg_unspin d skipLock \<Rightarrow> Some (s\<lparr>er_mgr := Mg_push d skipLock, er_spin := False\<rparr>)
      | Mg_push d skipLock \<Rightarrow>
          (case pushToQ (Some (er_queue s)) d of (ret, q) \<Rightarrow>
             Some (s\<lparr>er_queue := (case q of None \<Rightarrow> er_queue s | Some q' \<Rightarrow> q'),
                     er_pushed := (if ret = IFL_SUCCESS then er_pushed s @ [d] else er_pushed s),
                     er_mgr := (if skipLock then Mg_unlock else if ret = IFL_SUCCESS then Mg_create else Mg_idle)\<rparr>))
      | Mg_unlock \<Rightarrow> Some (s\<lparr>er_mgr := Mg_idle, er_mutex := False\<rparr>)
      | Mg_create \<Rightarrow> Some (s\<lparr>er_mgr := Mg_spawn, er_flag := True\<rparr>)
      | Mg_spawn \<Rightarrow>
          if ok then Some (s\<lparr>er_mgr := Mg_idle, er_tasks := er_tasks s @ [Tk_lock]\<rparr>)
          else Some (s\<lparr>er_mgr := Mg_idle, er_flag := False\<rparr>))"

definition task_pc_upd :: "nat \<Rightarrow> task_pc \<Rightarrow> ev_race \<Rightarrow> ev_race" where
  "task_pc_upd k p s = s\<lparr>er_tasks := (er_tasks s)[k := p]\<rparr>"

definition task_step :: "nat \<Rightarrow> ev_race \<Rightarrow> ev_race option" where
  "task_step k s =
     (if k \<ge> length (er_tasks s) then None
      else (case er_tasks s ! k of
        Tk_lock \<Rightarrow> if er_mutex s then None else Some (task_pc_upd k Tk_pop (s\<lparr>er_mutex := True\<rparr>))
      | Tk_pop \<Rightarrow>
          (case popFromQ (Some (er_queue s)) of
             (ret, Some d, Some q) \<Rightarrow> Some (task_pc_upd k (Tk_unlock d) (s\<lparr>er_queue := q\<rparr>))
           | _ \<Rightarrow> Some (task_pc_upd k Tk_empty s))
      | Tk_unlock d \<Rightarrow> Some (task_pc_upd k (Tk_run d) (s\<lparr>er_mutex := False\<rparr>))
      | Tk_run d \<Rightarrow> Some (task_pc_upd k Tk_lock (s\<lparr>er_handled := (if qd_cb d \<noteq> 0 then er_handled s @ [d] else er_handled s)\<rparr>))
      | Tk_empty \<Rightarrow> Some (task_pc_upd k Tk_spin (s\<lparr>er_mutex := False\<rparr>))
      | Tk_spin \<Rightarrow> if er_spin s then Some (task_pc_upd k Tk_lock s) else Some (task_pc_upd k Tk_clear (s\<lparr>er_spin := True\<rparr>))
      | Tk_clear \<Rightarrow> Some (task_pc_upd k Tk_unspin (s\<lparr>er_flag := False\<rparr>))
      | Tk_unspin \<Rightarrow> Some (s\<lparr>er_spin := False, er_tasks := take k (er_tasks s) @ drop (Suc k) (er_tasks s)\<rparr>)))"

datatype ev_act = Manager bool | Task nat

definition ev_step :: "ev_act \<Rightarrow> ev_race \<Rightarrow> ev_race option" where
  "ev_step a s = (case a of Manager ok \<Rightarrow> mgr_step ok s | Task k \<Rightarrow> task_step k s)"

definition ev_start :: "q_data_t list \<Rightarrow> ev_race" where
  "ev_start ds = \<lparr>er_queue = \<lparr>q_data = replicate IFL_MAX_QLEN \<lparr>qd_cb = 0, qd_eValue = []\<rparr>, q_head = 0, q_tail = 0, q_full = False\<rparr>,
     er_flag = False, er_spin = False, er_mutex = False, er_mgr = Mg_idle, er_tasks = [], er_inbox = ds, er_pushed = [], er_handled = []\<rparr>"

fun ev_run :: "ev_act list \<Rightarrow> ev_race \<Rightarrow> ev_race option" where
  "ev_run [] s = Some s"
| "ev_run (a # as) s = (case ev_step a s of None \<Rightarrow> None | Some t \<Rightarrow> ev_run as t)"

text \<open>The manager is at its attempt while the spin lock is taken. \<open>ev_calm\<close> is reachability by steps that are not such an attempt.\<close>

definition mgr_busy :: "ev_act \<Rightarrow> ev_race \<Rightarrow> bool" where
  "mgr_busy a s \<longleftrightarrow> (case a of Manager _ \<Rightarrow> (case er_mgr s of Mg_try _ \<Rightarrow> er_spin s | _ \<Rightarrow> False) | Task _ \<Rightarrow> False)"

inductive ev_calm :: "ev_race \<Rightarrow> ev_race \<Rightarrow> bool" where
  calm_refl: "ev_calm s s"
| calm_step: "ev_calm s t \<Longrightarrow> \<not> mgr_busy a t \<Longrightarrow> ev_step a t = Some u \<Longrightarrow> ev_calm s u"

section \<open>One thread, in order\<close>

fun mgr_spins :: "mgr_pc \<Rightarrow> bool" where
  "mgr_spins (Mg_flag d) = True" | "mgr_spins (Mg_mutex d) = True" | "mgr_spins (Mg_unspin d b) = True" | "mgr_spins _ = False"

fun mgr_locks :: "mgr_pc \<Rightarrow> bool" where
  "mgr_locks (Mg_unspin d b) = b" | "mgr_locks (Mg_push d b) = b" | "mgr_locks Mg_unlock = True" | "mgr_locks _ = False"

text \<open>The manager acts without the mutex: it pushes, or sets up a thread.\<close>

fun mgr_alone :: "mgr_pc \<Rightarrow> bool" where
  "mgr_alone (Mg_unspin d b) = (\<not> b)" | "mgr_alone (Mg_push d b) = (\<not> b)" | "mgr_alone Mg_create = True" | "mgr_alone Mg_spawn = True" | "mgr_alone _ = False"

fun mgr_has :: "mgr_pc \<Rightarrow> q_data_t list" where
  "mgr_has (Mg_try d) = [d]" | "mgr_has (Mg_flag d) = [d]" | "mgr_has (Mg_mutex d) = [d]" | "mgr_has (Mg_unspin d b) = [d]"
| "mgr_has (Mg_push d b) = [d]" | "mgr_has _ = []"

fun task_spins :: "task_pc \<Rightarrow> bool" where
  "task_spins Tk_clear = True" | "task_spins Tk_unspin = True" | "task_spins _ = False"

fun task_locks :: "task_pc \<Rightarrow> bool" where
  "task_locks Tk_pop = True" | "task_locks (Tk_unlock d) = True" | "task_locks Tk_empty = True" | "task_locks _ = False"

fun task_has :: "task_pc \<Rightarrow> q_data_t list" where
  "task_has (Tk_unlock d) = [d]" | "task_has (Tk_run d) = [d]" | "task_has _ = []"

definition callable :: "q_data_t list \<Rightarrow> q_data_t list" where
  "callable ds = filter (\<lambda>d. qd_cb d \<noteq> 0) ds"

text \<open>Who holds the locks, with the thread where there is one, and what the flag says.\<close>

definition locks_ok :: "mgr_pc \<Rightarrow> task_pc list \<Rightarrow> bool \<Rightarrow> bool \<Rightarrow> bool \<Rightarrow> bool" where
  "locks_ok m ts flag spin mutex \<longleftrightarrow> length ts \<le> 1 \<and>
     spin = (mgr_spins m \<or> list_ex task_spins ts) \<and> \<not> (mgr_spins m \<and> list_ex task_spins ts) \<and>
     mutex = (mgr_locks m \<or> list_ex task_locks ts) \<and> \<not> (mgr_locks m \<and> list_ex task_locks ts) \<and>
     flag = (m = Mg_spawn \<or> list_ex (\<lambda>t. t \<noteq> Tk_unspin) ts) \<and> (mgr_alone m \<longrightarrow> ts = [])"

definition data_ok :: "q_data_t list \<Rightarrow> ev_race \<Rightarrow> bool" where
  "data_ok ds s \<longleftrightarrow> ring_ok (er_queue s) \<and> subseq (er_pushed s @ mgr_has (er_mgr s) @ er_inbox s) ds \<and>
     er_handled s @ callable (concat (map task_has (er_tasks s)) @ ring_list (er_queue s)) = callable (er_pushed s)"

definition ev_inv :: "q_data_t list \<Rightarrow> ev_race \<Rightarrow> bool" where
  "ev_inv ds s \<longleftrightarrow> locks_ok (er_mgr s) (er_tasks s) (er_flag s) (er_spin s) (er_mutex s) \<and> data_ok ds s"

lemma callable_simps [simp]: "callable [] = []" "callable (d # ds) = (if qd_cb d \<noteq> 0 then d # callable ds else callable ds)"
  "callable (ds @ es) = callable ds @ callable es"
  by (simp_all add: callable_def)

lemma ev_start_inv: "ev_inv ds (ev_start ds)"
  by (simp add: ev_inv_def locks_ok_def data_ok_def ev_start_def ring_defs)

lemma mgr_locks_ok:
  assumes "locks_ok (er_mgr s) (er_tasks s) (er_flag s) (er_spin s) (er_mutex s)" "mgr_step ok s = Some t" "\<not> mgr_busy (Manager ok) s"
  shows "locks_ok (er_mgr t) (er_tasks t) (er_flag t) (er_spin t) (er_mutex t)"
proof (cases "er_tasks s")
  case Nil
  then show ?thesis using assms
    by (cases "er_mgr s") (auto simp: locks_ok_def mgr_step_def mgr_busy_def split: if_splits list.splits prod.splits)
next
  case (Cons p ps)
  then have "ps = []" using assms(1) by (simp add: locks_ok_def)
  then show ?thesis using assms Cons
    by (cases "er_mgr s"; cases p) (auto simp: locks_ok_def mgr_step_def mgr_busy_def split: if_splits list.splits prod.splits)
qed

lemma task_locks_ok:
  assumes "locks_ok (er_mgr s) (er_tasks s) (er_flag s) (er_spin s) (er_mutex s)" "task_step k s = Some t"
  shows "locks_ok (er_mgr t) (er_tasks t) (er_flag t) (er_spin t) (er_mutex t)"
proof -
  obtain p where p: "er_tasks s = [p]" "k = 0" using assms
    by (cases "er_tasks s") (auto simp: locks_ok_def task_step_def split: if_splits)
  then show ?thesis using assms
    by (cases p) (auto simp: locks_ok_def task_step_def task_pc_upd_def split: if_splits option.splits prod.splits)
qed

lemma mgr_data_ok:
  assumes "data_ok ds s" "mgr_step ok s = Some t"
  shows "data_ok ds t"
proof (cases "er_mgr s")
  case (Mg_push d b)
  then have sub: "subseq (er_pushed s @ d # er_inbox s) ds" using assms(1) by (simp add: data_ok_def)
  have "subseq (er_pushed s @ er_inbox s) (er_pushed s @ d # er_inbox s)" by (intro list_emb_append_mono) auto
  then have sub': "subseq (er_pushed s @ er_inbox s) ds" using sub by (rule subseq_order.trans)
  show ?thesis
  proof (cases "q_full (er_queue s)")
    case True
    then show ?thesis using Mg_push assms sub' by (auto simp: mgr_step_def data_ok_def pushToQ_def)
  next
    case False
    then obtain q where "pushToQ (Some (er_queue s)) d = (IFL_SUCCESS, Some q)" "ring_ok q" "ring_list q = ring_list (er_queue s) @ [d]"
      using pushToQ_step [of "er_queue s" d] assms(1) by (auto simp: data_ok_def)
    then show ?thesis using Mg_push assms sub by (auto simp: mgr_step_def data_ok_def)
  qed
qed (use assms in \<open>auto simp: mgr_step_def data_ok_def split: if_splits list.splits\<close>)

lemma task_data_ok:
  assumes "data_ok ds s" "task_step k s = Some t" "length (er_tasks s) \<le> 1"
  shows "data_ok ds t"
proof -
  obtain p where p: "er_tasks s = [p]" "k = 0" using assms(2,3)
    by (cases "er_tasks s") (auto simp: task_step_def split: if_splits)
  show ?thesis
  proof (cases "p = Tk_pop \<and> ring_count (er_queue s) \<noteq> 0")
    case True
    then obtain d q where "popFromQ (Some (er_queue s)) = (IFL_SUCCESS, Some d, Some q)" "ring_ok q" "ring_list (er_queue s) = d # ring_list q"
      using popFromQ_step [of "er_queue s"] assms(1) by (auto simp: data_ok_def)
    then show ?thesis using True p assms(1,2) by (auto simp: task_step_def task_pc_upd_def data_ok_def)
  next
    case False
    have "popFromQ (Some (er_queue s)) = (IFL_ERROR, None, Some (er_queue s))" if "p = Tk_pop"
      using that False assms(1) ring_empty_count [of "er_queue s"] by (simp add: popFromQ_def data_ok_def)
    then show ?thesis using p assms(1,2)
      by (cases p) (auto simp: task_step_def task_pc_upd_def data_ok_def split: if_splits)
  qed
qed

lemma ev_calm_inv: "ev_calm s t \<Longrightarrow> ev_inv ds s \<Longrightarrow> ev_inv ds t"
proof (induction rule: ev_calm.induct)
  case (calm_step s t a u)
  then have t: "ev_inv ds t" by simp
  show ?case
  proof (cases a)
    case (Manager ok)
    then show ?thesis using calm_step(2,3) t mgr_locks_ok [of t ok u] mgr_data_ok [of ds t ok u] by (simp add: ev_step_def ev_inv_def)
  next
    case (Task k)
    then show ?thesis using calm_step(3) t task_locks_ok [of t k u] task_data_ok [of ds t k u] by (simp add: ev_step_def ev_inv_def locks_ok_def)
  qed
qed

fun calm_along :: "ev_act list \<Rightarrow> ev_race \<Rightarrow> bool" where
  "calm_along [] s = True"
| "calm_along (a # as) s = (\<not> mgr_busy a s \<and> (case ev_step a s of None \<Rightarrow> True | Some t \<Rightarrow> calm_along as t))"

lemma ev_run_calm: "ev_run as t = Some u \<Longrightarrow> calm_along as t \<Longrightarrow> ev_calm s t \<Longrightarrow> ev_calm s u"
  by (induction as arbitrary: t) (auto split: option.splits intro: calm_step)

text \<open>
  Claim C17. While the manager never finds the spin lock taken, a context has one task
  thread at most; the manager pushes without the mutex only while there is none, so no
  push overlaps a pop; and the handlers run in the order of the notifications, each at
  most once: what ran, what the thread has in hand and what is queued make up what was
  pushed.
\<close>

theorem event_handlers_in_order:
  assumes "ev_calm (ev_start ds) s"
  shows "length (er_tasks s) \<le> 1 \<and> (\<forall>d. er_mgr s = Mg_push d False \<longrightarrow> er_tasks s = []) \<and> subseq (er_pushed s) ds \<and>
    er_handled s @ callable (concat (map task_has (er_tasks s)) @ ring_list (er_queue s)) = callable (er_pushed s)"
proof -
  have i: "ev_inv ds s" using ev_calm_inv [OF assms ev_start_inv] .
  then have "subseq (er_pushed s @ mgr_has (er_mgr s) @ er_inbox s) ds" by (simp add: ev_inv_def data_ok_def)
  then have "subseq (er_pushed s) ds" by (metis append_Nil2 list_emb_append2 subseq_append subseq_order.trans list_emb_Nil subseq_order.refl list_emb_append_mono)
  then show ?thesis using i by (auto simp: ev_inv_def data_ok_def locks_ok_def)
qed

definition sample_run :: "ev_act list" where
  "sample_run = replicate 7 (Manager True) @ replicate 5 (Task 0) @ replicate 2 (Manager True)"

theorem event_handlers_in_order_witness:
  "\<exists>s. ev_calm (ev_start [\<lparr>qd_cb = 7, qd_eValue = ''up''\<rparr>, \<lparr>qd_cb = 9, qd_eValue = ''down''\<rparr>]) s \<and>
     er_handled s = [\<lparr>qd_cb = 7, qd_eValue = ''up''\<rparr>] \<and> er_mgr s = Mg_flag \<lparr>qd_cb = 9, qd_eValue = ''down''\<rparr> \<and>
     length (er_tasks s) \<le> 1 \<and> subseq (er_pushed s) [\<lparr>qd_cb = 7, qd_eValue = ''up''\<rparr>, \<lparr>qd_cb = 9, qd_eValue = ''down''\<rparr>]"
proof -
  let ?ds = "[\<lparr>qd_cb = 7, qd_eValue = ''up''\<rparr>, \<lparr>qd_cb = 9, qd_eValue = ''down''\<rparr>]"
  have "map_option (\<lambda>s. (er_handled s, er_mgr s)) (ev_run sample_run (ev_start ?ds)) =
      Some ([\<lparr>qd_cb = 7, qd_eValue = ''up''\<rparr>], Mg_flag \<lparr>qd_cb = 9, qd_eValue = ''down''\<rparr>)"
    by code_simp
  then obtain s where s: "ev_run sample_run (ev_start ?ds) = Some s" "er_handled s = [\<lparr>qd_cb = 7, qd_eValue = ''up''\<rparr>]"
    "er_mgr s = Mg_flag \<lparr>qd_cb = 9, qd_eValue = ''down''\<rparr>"
    by auto
  have "calm_along sample_run (ev_start ?ds)" by code_simp
  then have c: "ev_calm (ev_start ?ds) s" using ev_run_calm [OF s(1) _ calm_refl] by blast
  then show ?thesis using event_handlers_in_order [OF c] s by blast
qed

section \<open>What goes wrong\<close>





definition two_run :: "ev_act list" where
  "two_run = replicate 7 (Manager True) @ replicate 8 (Task 0) @ replicate 4 (Manager True) @ [Task 0, Manager True, Task 0, Task 0]
     @ replicate 4 (Manager True)"

definition two_rest :: "ev_act list" where
  "two_rest = [Task 0, Task 0, Manager True, Manager True, Manager True, Task 1, Task 1, Task 1]"

lemma ev_run_append: "ev_run (as @ bs) s = (case ev_run as s of None \<Rightarrow> None | Some t \<Rightarrow> ev_run bs t)"
  by (induction as arbitrary: s) (auto split: option.splits)

lemma two_run_ends:
  "map_option (\<lambda>s. (er_mgr s, er_tasks s)) (ev_run two_run (ev_start [d1, d2, d3])) = Some (Mg_push d3 False, [Tk_pop])"
  "map_option er_tasks (ev_run (two_run @ two_rest) (ev_start [d1, d2, d3])) = Some [Tk_run d2, Tk_run d3]"
  by code_simp+

text \<open>
  The manager that finds the spin lock taken pushes without the mutex and sets
  the flag, which the thread that ends clears: there is a run to a push without the
  mutex while a thread with the mutex pops, and on to two threads that run handlers of
  the same context at once.
\<close>

lemma event_push_unlocked:
  "\<exists>s t. ev_run two_run (ev_start [d1, d2, d3]) = Some s \<and> er_mgr s = Mg_push d3 False \<and> er_tasks s = [Tk_pop] \<and>
     ev_run two_rest s = Some t \<and> er_tasks t = [Tk_run d2, Tk_run d3]"
  using two_run_ends [of d1 d2 d3] by (auto simp: ev_run_append)

end
