(* ===== verification/Spec2Isabelle.thy ===== *)
theory Spec2Isabelle
  imports Map_Safety Ring_Queue Lease_V4_Spec Lease_V6_Spec Custom_Options_Spec Udhcpc_Spec Dibbler_Spec
    Controller_Race Recovery_Spec Plugin_Spec Dml_Spec Lease_Time Event_Race
begin

text \<open>
  A verification development of the RDK DHCP manager, the WAN side of the program:
  everything between a parameter of the data model, a control message or a lease and
  the events that go out on the bus, and the layer that hands system events
  to handlers. All file names are below \<open>src/source\<close>.

  \<^bold>\<open>The program.\<close> For every WAN interface the manager runs a DHCPv4 client
  (udhcpc) and a DHCPv6 client (dibbler). The clients are entries of two TR-181
  tables. A sender (the data model, a bus method, the lease monitor, the handler of
  dead processes) puts a control message into the POSIX message queue of the
  interface and makes sure that a controller thread runs for it; the controller
  takes the messages one by one and starts, stops, renews, restarts or releases the
  client of the interface, or works off the leases that wait for it. The plugins of
  the clients send leases to a socket; the lease monitor appends them to the list of
  their client. Every change goes out as an event on the bus. Leases are kept in
  files so that a manager that restarts finds its clients again.

  \<^bold>\<open>Base.\<close>
  \<^item> \<open>Dhcp_Prelude\<close>: C strings, numbers and \<open>strtok\<close>, searching and updating lists.
  \<^item> \<open>Dhcp_Types\<close>: the structures of \<open>cosa_dhcpv4_apis.h\<close>, \<open>cosa_dhcpv6_apis.h\<close>,
    \<open>cosa_apis_util.h\<close> and of the lease messages, as records and datatypes.
  \<^item> \<open>Dhcp_World\<close>: the system. Every call that leaves the program is an action; the
    world keeps the actions in order, the lease files, the message queues and the
    registry of controllers. What the system answers is a function of the whole
    history, the environment, so that no theorem assumes anything of it that it does
    not say. Functions of the model take the environment and the world and return
    the world; a result \<open>None\<close> is a read or a write outside an object, so that a
    theorem with a result \<open>Some\<close> also says that there is none.
  \<^item> \<open>Dhcp_Samples\<close>: the values on which the witnesses evaluate the model.

  \<^bold>\<open>Components.\<close>
  \<^item> \<open>Ring_Queue\<close>, \<open>Fifo_Spec\<close>: the ring queues of the event layer
    (\<open>DHCPMgrInterface/ifl_queue_impl.c\<close>) refine bounded lists. \<open>Event_Layer\<close>, \<open>Event_Spec\<close>:
    the event layer itself (\<open>ifl.c\<close>, \<open>ifl_thread.c\<close>), through which the LAN side hears of
    system events; its tables refine a registry of handlers, and a notification reaches
    those that were accepted. \<open>Event_Race\<close>: the manager and the task threads of a context,
    interleaved; handlers run in order on one thread as long as a lock is not found
    taken, and two runs go wrong.
  \<^item> \<open>Map_Option\<close>, \<open>Map_Codec\<close>, \<open>Map_Safety\<close>: the parser of MAP-T and MAP-E options
    (\<open>DHCPMgrUtils/dhcpmgr_map_apis.c\<close>): round trip with an encoder of S46 options,
    truncated input, memory safety and its limits, ranges of the accepted values. The
    count of converted bytes has the 16 bits of the source.
  \<^item> \<open>Rbus_Events\<close>: lease messages and events, and reading the event property
    (\<open>dhcpmgr_rbus_apis.c\<close>); \<open>Lease_V4_Spec\<close> relates the read to the events.
  \<^item> \<open>Lease_V4\<close>, \<open>Lease_V4_Spec\<close>, \<open>Lease_V6\<close>, \<open>Lease_V6_Spec\<close>: the lease handlers
    (\<open>dhcpmgr_v4_lease_handler.c\<close>, \<open>dhcpmgr_v6_lease_handler.c\<close>) refine functions from
    the list of leases to the list of events. The specification of the DHCPv6 handler has its
    own notions of the identity of a lease and of what a lease keeps of the one before. \<open>Custom_Options\<close>, \<open>Custom_Options_Spec\<close>:
    the parsers of options 17, 122 and 125.
  \<^item> \<open>Client_Common\<close>, \<open>Udhcpc\<close>, \<open>Dibbler\<close> and their specifications: processes,
    \<open>/proc\<close>, argument vectors and configuration files of the two clients
    (\<open>DHCPClientUtils\<close>).
  \<^item> \<open>Iface_Queue\<close>, \<open>Iface_Queue_Spec\<close>, \<open>Sysevent_Enable\<close>: message queues, registry
    and enable state (\<open>cosa_apis_util.c\<close>). The locale \<open>control_channel\<close> is the contract
    of the queues, interpreted on the functions of the source.
  \<^item> \<open>Opt_Lists\<close>, \<open>Link_Check\<close>, \<open>Controller\<close>: the controller
    (\<open>dhcpmgr_controller.c\<close>). \<open>Client_Machine\<close> has the client as an abstract machine,
    with a step relation and the locale \<open>client_control\<close>; \<open>Controller_Frame\<close> and
    \<open>Controller_Spec\<close> show that both handlers implement it, \<open>Controller_Props\<close> and
    \<open>Controller_Death\<close> draw the conclusions, among them that the loop works a queue of
    DHCPv4 messages off, each once and in order, and ends. The handlers, the lease monitor and the handler
    of dead processes look at the first clients of the tables only, as many as were in
    the persistent store at the first read (\<open>g_Dhcp4ClientNum\<close>, \<open>g_Dhcp6ClientNum\<close> of the
    record \<open>manager\<close>); \<open>added_client_unreached\<close> of \<open>Dml_Spec\<close> shows the effect on clients
    added at run time.
  \<^item> \<open>Controller_Race\<close>: any number of senders and the controllers they start as
    threads that interleave at the grain of the mutexes: one receiver at most, and
    two runs that go wrong.
  \<^item> \<open>Lease_Store\<close>, \<open>Recovery\<close>, \<open>Recovery_Spec\<close>: the lease files and the recovery
    after a restart (\<open>dhcpmgr_recovery_handler.c\<close>).
  \<^item> \<open>Lease_Monitor\<close>, \<open>Lease_Delivery\<close>: the lease monitor
    (\<open>dhcp_lease_monitor_thrd.c\<close>) and the way of a lease from the socket to the bus.
  \<^item> \<open>Plugins\<close>, \<open>Plugin_Spec\<close>: the programs that udhcpc and dibbler run on an event
    (\<open>dhcpmgr_udhcpc.c\<close>, \<open>dhcpmgr_dibbler_plugin.c\<close>). A lease is sent once at most, and a DHCPv6 lease
    is well formed when it waits at a client; the way from the environment of udhcpc to the bus;
    where an array is read past its end.
  \<^item> \<open>Dml_Lib\<close>, \<open>Client_Dml\<close>, \<open>Option_Dml\<close>, \<open>Client3_Dml\<close>: the objects
    \<open>Device.DHCPv4.Client\<close> with its options and \<open>Device.DHCPv6.Client\<close> of the data model
    (\<open>cosa_dhcpv4_dml.c\<close>, \<open>cosa_dhcpv6_dml.c\<close>) and what they call of the platform layer
    (\<open>cosa_dhcpv4_apis.c\<close>, \<open>cosa_dhcpv6_apis.c\<close>). The functions of the framework that they call,
    the copy of a string and the two insertions into a linked list, are the parameter \<open>dm_lib\<close>,
    with the hypothesis \<open>dm_lib_ok\<close>; the ordered insertion \<open>CosaSListPushEntryByInsNum\<close>
    and the search by number (\<open>cosa_apis_util.c\<close>) are definitions over it.
  \<^item> \<open>Dml_Tables\<close>: the locale \<open>dm_table\<close> is the contract of the tables about instance
    numbers, interpreted on the four tables; \<open>dm4_step\<close> has all operations of the DHCPv4
    object and the controller as steps, and the tables stay well formed. \<open>Dml_Spec\<close>,
    \<open>Lease_Time\<close>: how parameters, the controller and the lease handler work together, and
    where reading a parameter or a transaction breaks a client.

  \<^bold>\<open>Bounds and fuel.\<close> Loops over data are structural recursion. The loop of a
  controller has fuel, one unit per receive, because a handler may send to its own
  queue; \<open>Controller_Death\<close> shows that for DHCPv4 messages the number of messages
  plus 22 is enough. Loops that wait (for a child, for dibbler, for a link-local
  address, for the socket) count down as in the source. Threads that never end by
  themselves (the lease monitor, the watch over processes) are run on a finite list
  of what they receive. Machine words have their width where they are computed with;
  \<open>int\<close> stands for C integers that are only compared or passed on.

  \<^bold>\<open>Left out.\<close> Logging, telemetry and sleeping; failing memory allocation, except where
  entries are added to a table; the mutex of a table entry, under which each operation
  runs. Not modelled: the options below a DHCPv6 client, the server and pool objects of
  the data model, loading the tables at start-up and the rest of the platform layer
  (\<open>TR-181\<close>), which are tables of parameters that are stored for the LAN side; the servers
  of the LAN side (\<open>DHCPServerUtils\<close>), the router monitor and start-up code, which write
  configuration text and run commands; of the event layer, thread attributes and priorities
  and the setting up of locks.

  The invariant of a DHCPv4 client in the theorems on the controller, that its status is
  \<open>Disabled\<close> or \<open>Enabled\<close>, is kept by the controller but not by the data model:
  \<open>status_read_loses_restart\<close> of \<open>Dml_Spec\<close> shows what happens then.
\<close>

end
